(* ===== verification/Prelude.thy ===== *)
theory Prelude
  imports Main "HOL-Library.Word"
begin

text \<open>
  Shared vocabulary of the development: Python exceptions as values, computations over an
  explicit state that keep the state reached when an exception is raised (as a Python
  function that mutated an object and then raised leaves it mutated), the string methods
  the portal applies to operation phases, SQL \<open>LIKE\<close>, and tables as lists of rows.
\<close>

named_theorems py_simps \<open>unfolding of computations over an explicit state\<close>
named_theorems vc \<open>postconditions of programs\<close>
named_theorems str_eval \<open>evaluation of string methods on literals\<close>
named_theorems table_simps \<open>lookups and updates of rows\<close>

section \<open>Exceptions and stateful computations\<close>

text \<open>
  One constructor per exception class that the portal raises or tells apart in an
  \<open>except\<close> clause. \<open>LibraryError\<close> is any other exception that comes out of a library call
  (a transport error of the HTTP client, a database driver error).
\<close>

datatype exc =
    RuntimeError string
  | ValueError string
  | PermissionError string
  | LookupError string
  | AttributeError string
  | KeyError string
  | TypeError string
  | SystemExit string
  | IntegrityError string
  | ProviderResourceConflictError string
  | InvalidSshPublicKeyError string
  | SshPublicKeyConflictError string
  | HTTPException int string
  | LibraryError string

type_synonym ('s, 'a) py = "'s \<Rightarrow> (exc + 'a) \<times> 's"

definition py_ret :: "'a \<Rightarrow> ('s, 'a) py" where
  "py_ret x s = (Inr x, s)"

definition py_raise :: "exc \<Rightarrow> ('s, 'a) py" where
  "py_raise e s = (Inl e, s)"

definition py_bind :: "('s, 'a) py \<Rightarrow> ('a \<Rightarrow> ('s, 'b) py) \<Rightarrow> ('s, 'b) py" where
  "py_bind m f s = (case m s of (r, s') \<Rightarrow> (case r of Inl e \<Rightarrow> (Inl e, s') | Inr x \<Rightarrow> f x s'))"

definition py_catch :: "('s, 'a) py \<Rightarrow> (exc \<Rightarrow> ('s, 'a) py) \<Rightarrow> ('s, 'a) py" where
  "py_catch m h s = (case m s of (r, s') \<Rightarrow> (case r of Inl e \<Rightarrow> h e s' | Inr x \<Rightarrow> (Inr x, s')))"

lemma py_ret_apply [simp, py_simps]: "py_ret x s = (Inr x, s)"
  by (simp add: py_ret_def)

lemma py_raise_apply [simp, py_simps]: "py_raise e s = (Inl e, s)"
  by (simp add: py_raise_def)

lemma py_bind_ret [simp]: "py_bind (py_ret x) f = f x"
  by (simp add: py_bind_def fun_eq_iff)

lemma py_bind_raise [simp]: "py_bind (py_raise e) f = py_raise e"
  by (simp add: py_bind_def fun_eq_iff)

lemma py_bind_assoc: "py_bind (py_bind m f) g = py_bind m (\<lambda>x. py_bind (f x) g)"
  by (auto simp: py_bind_def fun_eq_iff split: prod.splits sum.splits)

lemma py_bind_Inr: "m s = (Inr x, s') \<Longrightarrow> py_bind m f s = f x s'"
  by (simp add: py_bind_def)

lemma py_bind_Inl: "m s = (Inl e, s') \<Longrightarrow> py_bind m f s = (Inl e, s')"
  by (simp add: py_bind_def)

lemma py_bind_Inr_iff:
  "py_bind m f s = (Inr y, t) \<longleftrightarrow> (\<exists>x s'. m s = (Inr x, s') \<and> f x s' = (Inr y, t))"
  by (auto simp: py_bind_def split: prod.splits sum.splits)

lemma py_bind_Inl_iff:
  "py_bind m f s = (Inl e, t) \<longleftrightarrow>
     m s = (Inl e, t) \<or> (\<exists>x s'. m s = (Inr x, s') \<and> f x s' = (Inl e, t))"
  by (auto simp: py_bind_def split: prod.splits sum.splits)

text \<open>
  A postcondition of what a computation returned: \<open>Q\<close> of the value and the state it returns
  with, \<open>E\<close> of the exception and the state it is raised in. The rules in \<open>vc\<close> push it
  through a program, so that the goal becomes a condition on the last states only.
\<close>

definition outcome :: "(exc + 'a) \<times> 's \<Rightarrow> ('a \<Rightarrow> 's \<Rightarrow> bool) \<Rightarrow> (exc \<Rightarrow> 's \<Rightarrow> bool) \<Rightarrow> bool" where
  "outcome r Q E = (case r of (x, s) \<Rightarrow> (case x of Inl e \<Rightarrow> E e s | Inr y \<Rightarrow> Q y s))"

lemma outcome_pair [vc]: "outcome (Inr y, s) Q E = Q y s" "outcome (Inl e, s) Q E = E e s"
  by (simp_all add: outcome_def)

lemma outcome_ret [vc]: "outcome (py_ret x s) Q E = Q x s"
  by (simp add: outcome_def)

lemma outcome_raise [vc]: "outcome (py_raise e s) Q E = E e s"
  by (simp add: outcome_def)

lemma outcome_bind [vc]:
  "outcome (py_bind m f s) Q E = outcome (m s) (\<lambda>x t. outcome (f x t) Q E) E"
  by (auto simp: outcome_def py_bind_def split: prod.splits sum.splits)

lemma outcome_catch [vc]:
  "outcome (py_catch m h s) Q E = outcome (m s) Q (\<lambda>e t. outcome (h e t) Q E)"
  by (auto simp: outcome_def py_catch_def split: prod.splits sum.splits)

lemma outcome_if [vc]:
  "outcome (if c then a else b) Q E = (if c then outcome a Q E else outcome b Q E)"
  by simp

lemma outcome_option [vc]:
  "outcome (case v of None \<Rightarrow> a | Some x \<Rightarrow> b x) Q E =
     (case v of None \<Rightarrow> outcome a Q E | Some x \<Rightarrow> outcome (b x) Q E)"
  by (simp split: option.split)

lemma apply_cases [vc]:
  "(if c then f else g) x = (if c then f x else g x)"
  "(case v of None \<Rightarrow> h | Some y \<Rightarrow> k y) x = (case v of None \<Rightarrow> h x | Some y \<Rightarrow> k y x)"
  "(case w of (y, z) \<Rightarrow> l y z) x = (case w of (y, z) \<Rightarrow> l y z x)"
  by (simp_all split: option.split prod.split)

lemma outcome_mono:
  assumes "outcome r Q E" "\<And>x t. Q x t \<Longrightarrow> Q' x t" "\<And>e t. E e t \<Longrightarrow> E' e t"
  shows "outcome r Q' E'"
  using assms by (auto simp: outcome_def split: prod.splits sum.splits)

lemma outcome_InrD: "outcome r Q E \<Longrightarrow> r = (Inr x, t) \<Longrightarrow> Q x t"
  by (simp add: outcome_def)

lemma outcome_InlD: "outcome r Q E \<Longrightarrow> r = (Inl e, t) \<Longrightarrow> E e t"
  by (simp add: outcome_def)

lemma outcomeI:
  assumes "\<And>x t. r = (Inr x, t) \<Longrightarrow> Q x t" "\<And>e t. r = (Inl e, t) \<Longrightarrow> E e t"
  shows "outcome r Q E"
  using assms by (cases r; cases "fst r") (auto simp: outcome_def)

section \<open>Python and SQL string operations\<close>

fun starts_with :: "string \<Rightarrow> string \<Rightarrow> bool" where
  "starts_with [] s = True"
| "starts_with (c # p) [] = False"
| "starts_with (c # p) (d # s) = (c = d \<and> starts_with p s)"

definition ends_with :: "string \<Rightarrow> string \<Rightarrow> bool" where
  "ends_with p s = starts_with (rev p) (rev s)"

definition removeprefix :: "string \<Rightarrow> string \<Rightarrow> string" where
  "removeprefix p s = (if starts_with p s then drop (length p) s else s)"

text \<open>\<open>s.replace(old, new, 1)\<close>: the leftmost occurrence, if there is one.\<close>

fun replace1 :: "string \<Rightarrow> string \<Rightarrow> string \<Rightarrow> string" where
  "replace1 old new [] = (if old = [] then new else [])"
| "replace1 old new (c # cs) =
     (if starts_with old (c # cs) then new @ drop (length old) (c # cs)
      else c # replace1 old new cs)"

text \<open>
  SQL \<open>LIKE\<close>: the percent sign stands for any string, the underscore for any one
  character. A null value matches nothing, and neither does its negation.
\<close>

function sql_like :: "string \<Rightarrow> string \<Rightarrow> bool" where
  "sql_like [] s = (s = [])"
| "sql_like (c # p) s =
     (if c = CHR ''%''
      then sql_like p s \<or> (case s of [] \<Rightarrow> False | _ # t \<Rightarrow> sql_like (c # p) t)
      else (case s of [] \<Rightarrow> False | d # t \<Rightarrow> (c = CHR ''_'' \<or> c = d) \<and> sql_like p t))"
  by pat_completeness auto
termination
  by (relation "measure (\<lambda>(p, s). length p + length s)") auto

declare sql_like.simps(2) [simp del]

lemma sql_like_percent [simp]: "sql_like ''%'' s"
  by (induction s) (simp_all add: sql_like.simps(2))

lemma sql_like_Cons [simp]:
  "c \<noteq> CHR ''%'' \<Longrightarrow> sql_like (c # p) [] = False"
  "c \<noteq> CHR ''%'' \<Longrightarrow> sql_like (c # p) (d # t) = ((c = CHR ''_'' \<or> c = d) \<and> sql_like p t)"
  by (simp_all add: sql_like.simps(2))

definition column_like :: "string option \<Rightarrow> string \<Rightarrow> bool" where
  "column_like v p = (case v of None \<Rightarrow> False | Some s \<Rightarrow> sql_like p s)"

definition column_not_like :: "string option \<Rightarrow> string \<Rightarrow> bool" where
  "column_not_like v p = (case v of None \<Rightarrow> False | Some s \<Rightarrow> \<not> sql_like p s)"

lemma column_like_simps [simp]:
  "column_like None p = False" "column_like (Some s) p = sql_like p s"
  "column_not_like None p = False" "column_not_like (Some s) p = (\<not> sql_like p s)"
  by (simp_all add: column_like_def column_not_like_def)

text \<open>\<open>value or ""\<close> and an optional value inside an f-string.\<close>

definition or_empty :: "string option \<Rightarrow> string" where
  "or_empty v = (case v of None \<Rightarrow> [] | Some s \<Rightarrow> s)"

definition fstr :: "string option \<Rightarrow> string" where
  "fstr v = (case v of None \<Rightarrow> ''None'' | Some s \<Rightarrow> s)"

lemma or_empty_simps [simp]: "or_empty None = []" "or_empty (Some s) = s"
  by (simp_all add: or_empty_def)

lemma fstr_simps [simp]: "fstr None = ''None''" "fstr (Some s) = s"
  by (simp_all add: fstr_def)

lemma starts_with_append [simp]: "starts_with p (p @ s)"
  by (induction p) auto

lemma starts_with_iff: "starts_with p s \<longleftrightarrow> (\<exists>t. s = p @ t)"
proof
  show "starts_with p s \<Longrightarrow> \<exists>t. s = p @ t"
    by (induction p s rule: starts_with.induct) auto
qed auto

lemma removeprefix_append [simp]: "removeprefix p (p @ s) = s"
  by (simp add: removeprefix_def)

lemma replace1_prefix: "old \<noteq> [] \<Longrightarrow> replace1 old new (old @ s) = new @ s"
  by (cases old) auto

section \<open>Decimal numerals\<close>

definition digit_char :: "nat \<Rightarrow> char" where
  "digit_char d = char_of (48 + d)"

fun nat_str :: "nat \<Rightarrow> string" where
  "nat_str n = (if n < 10 then [digit_char n] else nat_str (n div 10) @ [digit_char (n mod 10)])"

declare nat_str.simps [simp del]

definition int_str :: "int \<Rightarrow> string" where
  "int_str i = (if i < 0 then CHR ''-'' # nat_str (nat (- i)) else nat_str (nat i))"

section \<open>Tables as lists of rows\<close>

text \<open>
  A table is the list of its rows; the order of the list is the order in which a query
  without an \<open>ORDER BY\<close> meets them. \<open>db.get\<close> and \<open>db.scalar\<close> return the first row that
  satisfies the condition.
\<close>

definition row_get :: "('r \<Rightarrow> 'k) \<Rightarrow> 'k \<Rightarrow> 'r list \<Rightarrow> 'r option" where
  "row_get key k rows = find (\<lambda>r. key r = k) rows"

definition row_set :: "('r \<Rightarrow> 'k) \<Rightarrow> 'r \<Rightarrow> 'r list \<Rightarrow> 'r list" where
  "row_set key row rows = map (\<lambda>r. if key r = key row then row else r) rows"

lemma row_get_Nil [simp, table_simps]: "row_get key k [] = None"
  by (simp add: row_get_def)

lemma row_get_Cons [table_simps]:
  "row_get key k (r # rs) = (if key r = k then Some r else row_get key k rs)"
  by (simp add: row_get_def)

lemma find_SomeD: "find P xs = Some x \<Longrightarrow> x \<in> set xs \<and> P x"
  by (auto simp: find_Some_iff)

lemma row_get_SomeD: "row_get key k rows = Some r \<Longrightarrow> r \<in> set rows \<and> key r = k"
  by (auto simp: row_get_def find_Some_iff)

lemma row_get_unique:
  "distinct (map key rows) \<Longrightarrow> r \<in> set rows \<Longrightarrow> row_get key (key r) rows = Some r"
  by (induction rows) (auto simp: row_get_def)

lemma row_get_None_iff: "row_get key k rows = None \<longleftrightarrow> k \<notin> key ` set rows"
  by (auto simp: row_get_def find_None_iff)

lemma row_get_append:
  "row_get key k (xs @ ys) = (case row_get key k xs of None \<Rightarrow> row_get key k ys | Some r \<Rightarrow> Some r)"
  by (induction xs) (auto simp: row_get_def)

lemma map_key_row_set [simp, table_simps]: "map key (row_set key row rows) = map key rows"
  by (auto simp: row_set_def)

lemma map_row_set_cong:
  assumes "\<And>r. r \<in> set rows \<Longrightarrow> key r = key row \<Longrightarrow> f r = f row"
  shows "map f (row_set key row rows) = map f rows"
  using assms by (induction rows) (auto simp: row_set_def)

lemma in_row_set:
  "r \<in> set (row_set key row rows) \<Longrightarrow> r = row \<or> (r \<in> set rows \<and> key r \<noteq> key row)"
  by (auto simp: row_set_def)

lemma row_get_row_set_same:
  "row_get key (key row) rows \<noteq> None \<Longrightarrow> row_get key (key row) (row_set key row rows) = Some row"
  by (induction rows) (auto simp: row_get_def row_set_def)

lemma row_get_row_set_other:
  "k \<noteq> key row \<Longrightarrow> row_get key k (row_set key row rows) = row_get key k rows"
  by (induction rows) (auto simp: row_get_def row_set_def)

lemmas row_get_row_set = row_get_row_set_same row_get_row_set_other

text \<open>\<open>ORDER BY f LIMIT 1\<close>: a row with the least value of \<open>f\<close>, the first of them.\<close>

fun first_min :: "('r \<Rightarrow> int) \<Rightarrow> 'r list \<Rightarrow> 'r option" where
  "first_min f [] = None"
| "first_min f (r # rs) =
     (case first_min f rs of None \<Rightarrow> Some r | Some m \<Rightarrow> if f r \<le> f m then Some r else Some m)"

lemma first_min_None [simp]: "first_min f rs = None \<longleftrightarrow> rs = []"
  by (cases rs) (auto split: option.splits if_splits)

lemma first_min_in: "first_min f rs = Some r \<Longrightarrow> r \<in> set rs"
  by (induction rs arbitrary: r) (auto split: option.splits if_splits)

lemma first_min_least: "first_min f rs = Some r \<Longrightarrow> q \<in> set rs \<Longrightarrow> f r \<le> f q"
proof (induction rs arbitrary: r)
  case (Cons a rs)
  then show ?case
    by (fastforce split: option.splits if_splits)
qed simp

end
