(* ===== verification/PyStd.thy ===== *)
theory PyStd
  imports Prelude
begin

text \<open>
  The parts of Python's standard library that the portal computes with: \<open>int(text, base)\<close>,
  \<open>uuid.UUID\<close> with its text form, \<open>str.split\<close>, \<open>urllib.parse.quote\<close>, and the values that
  \<open>response.json()\<close> returns. A \<open>string\<close> is the list of the bytes of the text.
\<close>

section \<open>Reading integers\<close>

definition is_space :: "char \<Rightarrow> bool" where
  "is_space c = (let n = of_char c :: nat in n = 32 \<or> (9 \<le> n \<and> n \<le> 13) \<or> (28 \<le> n \<and> n \<le> 31))"

definition strip_by :: "(char \<Rightarrow> bool) \<Rightarrow> string \<Rightarrow> string" where
  "strip_by p s = rev (dropWhile p (rev (dropWhile p s)))"

abbreviation strip :: "string \<Rightarrow> string" where
  "strip \<equiv> strip_by is_space"

definition digit_value :: "char \<Rightarrow> nat option" where
  "digit_value c = (let n = of_char c :: nat in
     if 48 \<le> n \<and> n \<le> 57 then Some (n - 48)
     else if 97 \<le> n \<and> n \<le> 122 then Some (n - 87)
     else if 65 \<le> n \<and> n \<le> 90 then Some (n - 55)
     else None)"

text \<open>
  Digits with single underscores between them. The flag says that the character before was
  a digit.
\<close>

fun digits_val :: "nat \<Rightarrow> bool \<Rightarrow> nat \<Rightarrow> string \<Rightarrow> nat option" where
  "digits_val b prev acc [] = (if prev then Some acc else None)"
| "digits_val b prev acc (c # cs) =
     (if c = CHR ''_'' then (if prev then digits_val b False acc cs else None)
      else case digit_value c of
             None \<Rightarrow> None
           | Some d \<Rightarrow> if d < b then digits_val b True (acc * b + d) cs else None)"

definition split_sign :: "string \<Rightarrow> int \<times> string" where
  "split_sign s = (case s of
      [] \<Rightarrow> (1, [])
    | c # cs \<Rightarrow> if c = CHR ''-'' then (-1, cs) else if c = CHR ''+'' then (1, cs) else (1, s))"

definition drop_radix :: "nat \<Rightarrow> string \<Rightarrow> string" where
  "drop_radix b s =
     (if b = 16 \<and> (starts_with ''0x'' s \<or> starts_with ''0X'' s) then removeprefix ''_'' (drop 2 s)
      else s)"

definition py_int :: "nat \<Rightarrow> string \<Rightarrow> int option" where
  "py_int b s =
     (let (sign, ds) = split_sign (strip s)
      in map_option (\<lambda>n. sign * int n) (digits_val b False 0 (drop_radix b ds)))"

section \<open>UUIDs\<close>

type_synonym uuid = "128 word"

definition hexdigit :: "nat \<Rightarrow> char" where
  "hexdigit d = char_of (if d < 10 then 48 + d else 87 + d)"

text \<open>The \<open>k\<close> lowest hexadecimal digits, most significant first.\<close>

fun hex_digits :: "nat \<Rightarrow> nat \<Rightarrow> string" where
  "hex_digits 0 v = []"
| "hex_digits (Suc k) v = hexdigit (v div 16 ^ k mod 16) # hex_digits k v"

definition uuid_hex :: "uuid \<Rightarrow> string" where
  "uuid_hex u = hex_digits 32 (unat u)"

definition uuid_str :: "uuid \<Rightarrow> string" where
  "uuid_str u = (let h = uuid_hex u in
     take 8 h @ ''-'' @ take 4 (drop 8 h) @ ''-'' @ take 4 (drop 12 h) @ ''-''
     @ take 4 (drop 16 h) @ ''-'' @ drop 20 h)"

text \<open>\<open>s.replace(old, "")\<close> for a non-empty \<open>old\<close>.\<close>

function remove_all :: "string \<Rightarrow> string \<Rightarrow> string" where
  "remove_all old [] = []"
| "remove_all old (c # cs) =
     (if old \<noteq> [] \<and> starts_with old (c # cs) then remove_all old (drop (length old) (c # cs))
      else c # remove_all old cs)"
  by pat_completeness auto
termination
  by (relation "measure (\<lambda>(old, s). length s)") auto

definition is_brace :: "char \<Rightarrow> bool" where
  "is_brace c = (c = CHR ''{'' \<or> c = CHR ''}'')"

definition uuid_parse :: "string \<Rightarrow> uuid option" where
  "uuid_parse s =
     (let h = filter (\<lambda>c. c \<noteq> CHR ''-'')
                (strip_by is_brace (remove_all ''uuid:'' (remove_all ''urn:'' s)))
      in if length h \<noteq> 32 then None
         else case py_int 16 h of
                None \<Rightarrow> None
              | Some i \<Rightarrow> if 0 \<le> i \<and> i < 2 ^ 128 then Some (word_of_int i) else None)"

subsection \<open>Reading back the text of a UUID\<close>

definition hex_char :: "char \<Rightarrow> bool" where
  "hex_char c = (case digit_value c of None \<Rightarrow> False | Some d \<Rightarrow> d < 16)"

lemma of_char_small: "n < 256 \<Longrightarrow> (of_char (char_of n) :: nat) = n"
  by simp

lemma digit_value_hexdigit [simp]: "d < 16 \<Longrightarrow> digit_value (hexdigit d) = Some d"
  by (simp add: digit_value_def hexdigit_def)

lemma hexdigit_not_underscore: "d < 16 \<Longrightarrow> hexdigit d \<noteq> CHR ''_''"
proof
  assume "d < 16" "hexdigit d = CHR ''_''"
  then have "digit_value (CHR ''_'') = Some d" by (metis digit_value_hexdigit)
  then show False by (simp add: digit_value_def)
qed

lemma length_hex_digits [simp]: "length (hex_digits k v) = k"
  by (induction k) auto

lemma hex_digits_chars: "c \<in> set (hex_digits k v) \<Longrightarrow> \<exists>d<16. c = hexdigit d"
proof -
  have "set (hex_digits k v) \<subseteq> hexdigit ` {..<16}"
    by (induction k) auto
  then show "c \<in> set (hex_digits k v) \<Longrightarrow> \<exists>d<16. c = hexdigit d"
    by (auto dest: subsetD)
qed

lemma digits_val_hex_digits:
  "k \<noteq> 0 \<or> p \<Longrightarrow> digits_val 16 p a (hex_digits k v) = Some (a * 16 ^ k + v mod 16 ^ k)"
proof (induction k arbitrary: p a)
  case 0
  then show ?case by simp
next
  case (Suc k)
  let ?d = "v div 16 ^ k mod 16"
  have d: "?d < 16" by simp
  have "v mod (16 ^ k * 16) = 16 ^ k * ?d + v mod 16 ^ k"
    by (rule mod_mult2_eq)
  then have m: "v mod 16 ^ Suc k = ?d * 16 ^ k + v mod 16 ^ k"
    by (simp add: mult.commute [of _ 16] mult.commute [of ?d])
  have "digits_val 16 p a (hex_digits (Suc k) v) = digits_val 16 True (a * 16 + ?d) (hex_digits k v)"
    using d by (simp add: hexdigit_not_underscore)
  also have "\<dots> = Some ((a * 16 + ?d) * 16 ^ k + v mod 16 ^ k)"
    by (rule Suc.IH) simp
  also have "(a * 16 + ?d) * 16 ^ k + v mod 16 ^ k = a * 16 ^ Suc k + v mod 16 ^ Suc k"
    unfolding m by (simp add: algebra_simps)
  finally show ?case .
qed

lemma hexdigit_facts:
  assumes "d < 16"
  shows "hexdigit d \<noteq> CHR ''-''" "hexdigit d \<noteq> CHR ''+''" "hexdigit d \<noteq> CHR '':''"
    "hexdigit d \<noteq> CHR ''u''" "hexdigit d \<noteq> CHR ''x''" "hexdigit d \<noteq> CHR ''X''"
    "\<not> is_space (hexdigit d)" "\<not> is_brace (hexdigit d)"
proof -
  have v: "digit_value (hexdigit d) = Some d" using assms by simp
  have "digit_value c \<noteq> Some d" if "c \<in> {CHR ''-'', CHR ''+'', CHR '':'', CHR ''u'', CHR ''x'', CHR ''X''}"
    for c using that assms by (auto simp: digit_value_def)
  then show "hexdigit d \<noteq> CHR ''-''" "hexdigit d \<noteq> CHR ''+''" "hexdigit d \<noteq> CHR '':''"
    "hexdigit d \<noteq> CHR ''u''" "hexdigit d \<noteq> CHR ''x''" "hexdigit d \<noteq> CHR ''X''"
    using v by (metis insertCI)+
  have "take_bit 8 (48 + d) = 48 + d" "take_bit 8 (87 + d) = 87 + d"
    using assms by (auto intro: take_bit_nat_eq_self)
  then show "\<not> is_space (hexdigit d)" "\<not> is_brace (hexdigit d)"
    using assms by (auto simp: is_space_def is_brace_def hexdigit_def Let_def char_of_eq_iff)
qed

lemma strip_by_id: "(\<And>c. c \<in> set s \<Longrightarrow> \<not> p c) \<Longrightarrow> strip_by p s = s"
proof -
  assume no: "\<And>c. c \<in> set s \<Longrightarrow> \<not> p c"
  then have "dropWhile p s = s" by (cases s) auto
  moreover from no have "dropWhile p (rev s) = rev s" by (cases "rev s") (auto dest: arg_cong [where f = set])
  ultimately show ?thesis by (simp add: strip_by_def)
qed

lemma remove_all_id: "old = c # cs \<Longrightarrow> c \<notin> set s \<Longrightarrow> remove_all old s = s"
  by (induction s) auto

lemma py_int_hex_digits:
  assumes "k \<noteq> 0"
  shows "py_int 16 (hex_digits k v) = Some (int (v mod 16 ^ k))"
proof -
  let ?h = "hex_digits k v"
  from assms obtain j where k: "k = Suc j" by (cases k) auto
  have s: "strip ?h = ?h"
    by (rule strip_by_id) (auto dest: hex_digits_chars simp: hexdigit_facts)
  have sign: "split_sign ?h = (1, ?h)"
    unfolding k by (simp add: split_sign_def hexdigit_facts)
  have x: "\<not> starts_with (CHR ''0'' # c # []) ?h" if "c = CHR ''x'' \<or> c = CHR ''X''" for c
    using that hexdigit_facts(5,6) unfolding k by (cases j) (auto simp: hexdigit_facts)
  then have "drop_radix 16 ?h = ?h"
    by (simp add: drop_radix_def)
  then show ?thesis
    using s sign assms digits_val_hex_digits [of k False 0 v] by (simp add: py_int_def)
qed

lemma uuid_str_chars:
  "c \<in> set (uuid_str u) \<Longrightarrow> c = CHR ''-'' \<or> (\<exists>d<16. c = hexdigit d)"
  by (auto simp: uuid_str_def uuid_hex_def Let_def
      dest!: in_set_takeD in_set_dropD hex_digits_chars)

lemma filter_uuid_str: "filter (\<lambda>c. c \<noteq> CHR ''-'') (uuid_str u) = uuid_hex u"
proof -
  have f: "filter (\<lambda>c. c \<noteq> CHR ''-'') xs = xs" if "set xs \<subseteq> set (uuid_hex u)" for xs
    using that hexdigit_facts(1)
    by (fastforce simp: filter_id_conv uuid_hex_def dest!: hex_digits_chars subsetD)
  let ?h = "uuid_hex u"
  have sub: "set (take a (drop b ?h)) \<subseteq> set ?h" for a b
    by (meson set_take_subset set_drop_subset order_trans)
  have "filter (\<lambda>c. c \<noteq> CHR ''-'') (uuid_str u)
      = take 8 ?h @ take 4 (drop 8 ?h) @ take 4 (drop 12 ?h) @ take 4 (drop 16 ?h) @ drop 20 ?h"
    by (simp add: uuid_str_def Let_def f sub set_take_subset set_drop_subset)
  also have "\<dots> = ?h"
    using append_take_drop_id [of 8 ?h] append_take_drop_id [of 4 "drop 8 ?h"]
      append_take_drop_id [of 4 "drop 12 ?h"] append_take_drop_id [of 4 "drop 16 ?h"]
    by (simp del: append_take_drop_id)
  finally show ?thesis .
qed

lemma uuid_parse_str [simp]: "uuid_parse (uuid_str u) = Some u"
proof -
  have c: "CHR ''u'' \<notin> set (uuid_str u)"
    using uuid_str_chars hexdigit_facts(4) by fastforce
  have b: "strip_by is_brace (uuid_str u) = uuid_str u"
    by (rule strip_by_id) (auto dest!: uuid_str_chars simp: hexdigit_facts, simp add: is_brace_def)
  have "unat u < 16 ^ 32"
    using unsigned_less [of u, where 'a = nat] by simp
  then have i: "py_int 16 (uuid_hex u) = Some (int (unat u))"
    by (simp add: uuid_hex_def py_int_hex_digits)
  have "int (unat u) < 2 ^ 128"
    using uint_bounded [of u] by simp
  then show ?thesis
    using c b i by (simp add: uuid_parse_def remove_all_id filter_uuid_str Let_def uuid_hex_def)
qed

lemma length_uuid_str [simp]: "length (uuid_str u) = 36"
  by (simp add: uuid_str_def uuid_hex_def Let_def)

lemma uuid_str_inject [simp]: "uuid_str u = uuid_str v \<longleftrightarrow> u = v"
  by (metis uuid_parse_str option.inject)

lemma uuid_str_no_colon: "CHR '':'' \<notin> set (uuid_str u)"
  using uuid_str_chars hexdigit_facts(3) by fastforce

section \<open>Splitting\<close>

text \<open>\<open>s.split(c)\<close> for a single character.\<close>

fun split_on :: "char \<Rightarrow> string \<Rightarrow> string list" where
  "split_on c [] = [[]]"
| "split_on c (x # xs) =
     (if x = c then [] # split_on c xs
      else (case split_on c xs of [] \<Rightarrow> [[x]] | p # ps \<Rightarrow> (x # p) # ps))"

lemma split_on_not_Nil [simp]: "split_on c s \<noteq> []"
  by (induction s) (auto split: list.split)

lemma split_on_no: "c \<notin> set s \<Longrightarrow> split_on c s = [s]"
  by (induction s) auto

lemma split_on_append: "c \<notin> set p \<Longrightarrow> split_on c (p @ c # s) = p # split_on c s"
  by (induction p) (auto split: list.split)

end
