(* ===== verification/Base64.thy ===== *)
theory Base64
  imports PyStd
begin

text \<open>
  Python's \<open>base64.b64encode\<close>, and \<open>base64.b64decode(s, validate=True)\<close>, which accepts the
  alphabet only, whole groups of four, and padding only at the end.
\<close>

definition b64_char :: "nat \<Rightarrow> char" where
  "b64_char n = char_of
     (if n < 26 then 65 + n else if n < 52 then 71 + n else if n < 62 then n - 4 else if n = 62 then 43 else 47)"

definition b64_value :: "char \<Rightarrow> nat option" where
  "b64_value c = (let n = of_char c :: nat in
     if 65 \<le> n \<and> n \<le> 90 then Some (n - 65)
     else if 97 \<le> n \<and> n \<le> 122 then Some (n - 71)
     else if 48 \<le> n \<and> n \<le> 57 then Some (n + 4)
     else if n = 43 then Some 62
     else if n = 47 then Some 63
     else None)"

fun b64encode :: "string \<Rightarrow> string" where
  "b64encode [] = []"
| "b64encode [a] =
     (let x = of_char a :: nat in [b64_char (x div 4), b64_char (x mod 4 * 16), CHR ''='', CHR ''=''])"
| "b64encode [a, b] =
     (let x = of_char a; y = of_char b :: nat in
      [b64_char (x div 4), b64_char (x mod 4 * 16 + y div 16), b64_char (y mod 16 * 4), CHR ''=''])"
| "b64encode (a # b # c # s) =
     (let x = of_char a; y = of_char b; z = of_char c :: nat in
      b64_char (x div 4) # b64_char (x mod 4 * 16 + y div 16) # b64_char (y mod 16 * 4 + z div 64)
      # b64_char (z mod 64) # b64encode s)"

definition two_chars :: "char \<Rightarrow> char \<Rightarrow> (nat \<times> nat) option" where
  "two_chars a b = (case b64_value a of None \<Rightarrow> None
     | Some x \<Rightarrow> (case b64_value b of None \<Rightarrow> None | Some y \<Rightarrow> Some (x, y)))"

fun b64decode :: "string \<Rightarrow> string option" where
  "b64decode [] = Some []"
| "b64decode (a # b # c # d # s) =
     (case two_chars a b of
        None \<Rightarrow> None
      | Some (p, q) \<Rightarrow>
          if c = CHR ''='' \<and> d = CHR ''='' then
            (if s = [] then Some [char_of (p * 4 + q div 16)] else None)
          else (case b64_value c of
             None \<Rightarrow> None
           | Some r \<Rightarrow>
               if d = CHR ''='' then
                 (if s = [] then Some [char_of (p * 4 + q div 16), char_of (q mod 16 * 16 + r div 4)] else None)
               else (case b64_value d of
                  None \<Rightarrow> None
                | Some t \<Rightarrow>
                    map_option (\<lambda>bs. char_of (p * 4 + q div 16) # char_of (q mod 16 * 16 + r div 4)
                                       # char_of (r mod 4 * 64 + t) # bs) (b64decode s))))"
| "b64decode _ = None"

lemma b64_value_char [simp]: "n < 64 \<Longrightarrow> b64_value (b64_char n) = Some n"
  by (auto simp: b64_value_def b64_char_def Let_def)

lemma b64_char_not_pad [simp]: "n < 64 \<Longrightarrow> b64_char n \<noteq> CHR ''=''"
proof
  assume "n < 64" "b64_char n = CHR ''=''"
  then have "b64_value (CHR ''='') = Some n"
    by (metis b64_value_char)
  then show False by (simp add: b64_value_def)
qed

lemma two_chars_simps [simp]: "x < 64 \<Longrightarrow> y < 64 \<Longrightarrow> two_chars (b64_char x) (b64_char y) = Some (x, y)"
  by (simp add: two_chars_def)

lemma byte_groups:
  fixes x :: nat
  assumes "x < 256"
  shows "x div 4 < 64" "x mod 64 < 64"
    and "x div 16 < 16" "x div 64 < 4" "x div 16 div 16 = 0" "x div 16 mod 16 = x div 16"
    and "x div 64 div 4 = 0" "x div 64 mod 4 = x div 64" "x div 16 * 16 + x mod 16 = x" "x div 64 * 64 + x mod 64 = x"
  using assms by simp_all

lemma char_groups:
  fixes a b :: char
  shows "(of_char a :: nat) mod 4 * 16 + of_char b div 16 < 64" "(of_char a :: nat) mod 16 * 4 + of_char b div 64 < 64"
    "(of_char a :: nat) mod 4 * 16 < 64" "(of_char a :: nat) mod 16 * 4 < 64"
  using byte_groups(4,5) [OF nat_of_char_less_256 [of b]] mod_less_divisor [of 4 "of_char a :: nat"]
    mod_less_divisor [of 16 "of_char a :: nat"] by linarith+

lemma b64_roundtrip_raw: "b64decode (b64encode s) = Some s"
proof (induction s rule: b64encode.induct)
  case (4 a b c s)
  then show ?case
    by (simp add: Let_def byte_groups char_groups)
qed (simp_all add: Let_def byte_groups char_groups)

end
