(* ===== verification/Contracts.thy ===== *)
theory Contracts
  imports PyStd
begin

text \<open>
  The provider boundary (portal/app/proxmox/contracts.py): the frozen dataclasses that cross
  it, and the protocol \<open>ProxmoxAdapter\<close> as a record of methods. A method takes the
  provider's state and returns a value or an exception together with the provider's state
  after the call, so that a call that raises may still have had its effect.
\<close>

record CreateVmRequest =
  req_vm_id :: uuid
  req_image_id :: string
  req_vcpus :: int
  req_memory_mb :: int
  req_storage_gb :: int
  req_ssh_public_key :: string

record ProviderTask =
  task_id :: string
  task_vmid :: int
  task_node :: string

record ProviderCloneResult =
  clone_state :: string
  clone_task :: "ProviderTask option"

record ProviderDeleteResult =
  delete_state :: string
  delete_task :: "ProviderTask option"

record ProviderTaskStatus =
  ts_status :: string
  ts_error_code :: "string option"

record ProviderVmState =
  power_status :: string
  power_locked :: bool

record ProviderPlacement =
  place_node :: string
  place_vmid :: int

text \<open>What a dispatched command can return; \<open>isinstance\<close> tells the three apart.\<close>

datatype reply =
    CloneReply ProviderCloneResult
  | DeleteReply ProviderDeleteResult
  | TaskReply "ProviderTask option"

record 'p ProxmoxAdapter =
  get_vm_power_state :: "uuid \<Rightarrow> string \<Rightarrow> int \<Rightarrow> ('p, ProviderVmState) py"
  choose_clone_target :: "CreateVmRequest \<Rightarrow> ('p, ProviderPlacement) py"
  get_task_status :: "ProviderTask \<Rightarrow> ('p, ProviderTaskStatus) py"
  clone_vm :: "CreateVmRequest \<Rightarrow> string \<Rightarrow> int \<Rightarrow> ('p, ProviderCloneResult) py"
  configure_vm :: "CreateVmRequest \<Rightarrow> string \<Rightarrow> int \<Rightarrow> ('p, ProviderTask option) py"
  resize_vm_disk :: "CreateVmRequest \<Rightarrow> string \<Rightarrow> int \<Rightarrow> ('p, ProviderTask option) py"
  start_vm :: "uuid \<Rightarrow> string \<Rightarrow> int \<Rightarrow> ('p, ProviderTask option) py"
  shutdown_vm :: "uuid \<Rightarrow> string \<Rightarrow> int \<Rightarrow> ('p, ProviderTask option) py"
  stop_vm :: "uuid \<Rightarrow> string \<Rightarrow> int \<Rightarrow> ('p, ProviderTask option) py"
  delete_vm :: "uuid \<Rightarrow> string \<Rightarrow> int \<Rightarrow> ('p, ProviderDeleteResult) py"

section \<open>What the worker relies on\<close>

text \<open>
  A task returned for a command names the node and the VMID the command was sent to. The
  worker checks this before it stores a task id; an adapter that keeps this law never
  fails that check.
\<close>

definition targets :: "string \<Rightarrow> int \<Rightarrow> ProviderTask option \<Rightarrow> bool" where
  "targets node vmid t = (case t of None \<Rightarrow> True | Some k \<Rightarrow> task_node k = node \<and> task_vmid k = vmid)"

lemma targets_simps [simp]:
  "targets node vmid None"
  "targets node vmid (Some k) = (task_node k = node \<and> task_vmid k = vmid)"
  by (simp_all add: targets_def)

definition clone_wf :: "string \<Rightarrow> int \<Rightarrow> ProviderCloneResult \<Rightarrow> bool" where
  "clone_wf node vmid r \<longleftrightarrow>
     (clone_state r = ''submitted'' \<and> clone_task r \<noteq> None \<and> targets node vmid (clone_task r))
     \<or> (clone_state r \<in> {''in_progress'', ''succeeded''} \<and> clone_task r = None)"

definition delete_wf :: "string \<Rightarrow> int \<Rightarrow> ProviderDeleteResult \<Rightarrow> bool" where
  "delete_wf node vmid r \<longleftrightarrow>
     (delete_state r = ''submitted'' \<and> delete_task r \<noteq> None \<and> targets node vmid (delete_task r))
     \<or> (delete_state r \<in> {''in_progress'', ''succeeded''} \<and> delete_task r = None)"

locale provider_commands =
  fixes A :: "'p ProxmoxAdapter"
  assumes clone_result: "clone_vm A req node vmid p = (Inr r, p') \<Longrightarrow> clone_wf node vmid r"
    and configure_target: "configure_vm A req node vmid p = (Inr t, p') \<Longrightarrow> targets node vmid t"
    and resize_target: "resize_vm_disk A req node vmid p = (Inr t, p') \<Longrightarrow> targets node vmid t"
    and start_target: "start_vm A u node vmid p = (Inr t, p') \<Longrightarrow> targets node vmid t"
    and shutdown_target: "shutdown_vm A u node vmid p = (Inr t, p') \<Longrightarrow> targets node vmid t"
    and stop_target: "stop_vm A u node vmid p = (Inr t, p') \<Longrightarrow> targets node vmid t"
    and delete_result: "delete_vm A u node vmid p = (Inr dr, p') \<Longrightarrow> delete_wf node vmid dr"

text \<open>
  The status vocabulary of the protocol's return types, in the states of the provider that its
  own methods lead to (\<open>inv\<close>).
\<close>

locale provider_contract = provider_commands A
  for A :: "'p ProxmoxAdapter" +
  fixes inv :: "'p \<Rightarrow> bool"
  assumes task_status_values:
      "inv p \<Longrightarrow> get_task_status A t p = (Inr st, p') \<Longrightarrow> ts_status st \<in> {''running'', ''succeeded'', ''failed''}"
    and power_values:
      "inv p \<Longrightarrow> get_vm_power_state A u node vmid p = (Inr pw, p') \<Longrightarrow>
         power_status pw \<in> {''running'', ''stopped'', ''missing''}"
    and inv_kept:
      "inv p \<Longrightarrow> inv (snd (get_vm_power_state A u node vmid p))"
      "inv p \<Longrightarrow> inv (snd (choose_clone_target A req p))"
      "inv p \<Longrightarrow> inv (snd (get_task_status A t p))"
      "inv p \<Longrightarrow> inv (snd (clone_vm A req node vmid p))"
      "inv p \<Longrightarrow> inv (snd (configure_vm A req node vmid p))"
      "inv p \<Longrightarrow> inv (snd (resize_vm_disk A req node vmid p))"
      "inv p \<Longrightarrow> inv (snd (start_vm A u node vmid p))"
      "inv p \<Longrightarrow> inv (snd (shutdown_vm A u node vmid p))"
      "inv p \<Longrightarrow> inv (snd (stop_vm A u node vmid p))"
      "inv p \<Longrightarrow> inv (snd (delete_vm A u node vmid p))"

end
