(* ===== verification/Models.thy ===== *)
theory Models
  imports Contracts
begin

text \<open>
  The database: one record per mapped class, a table as the list of its rows, the check,
  uniqueness and column-width constraints as predicates, and the commit of a transaction
  that changed one operation and its virtual machine. Columns that hold an enumeration
  under a check constraint stay strings, as they are in the code. A timestamp is an integer
  number of microseconds.
\<close>

section \<open>Rows\<close>

record User =
  usr_id :: uuid
  usr_is_active :: bool
  usr_created :: int

record ExternalIdentity =
  ident_id :: uuid
  ident_user :: uuid
  ident_issuer :: string
  ident_subject :: string
  ident_email :: string
  ident_email_verified :: bool
  ident_created :: int

record ApplicationSession =
  sess_id :: uuid
  sess_user :: uuid
  sess_token_hash :: string
  sess_created :: int
  sess_expires :: int
  sess_last_seen :: int
  sess_revoked :: "int option"

record ComputePlan =
  plan_id :: uuid
  plan_code :: string
  max_vms :: int
  max_total_vcpus :: int
  max_total_memory_mb :: int
  max_total_storage_gb :: int
  max_shared_storage_gb :: int
  plan_is_active :: bool

record UserQuota =
  quota_user :: uuid
  quota_plan :: uuid
  quota_status :: string

record SshPublicKey =
  key_id :: uuid
  key_owner :: uuid
  key_name :: string
  key_type :: string
  key_public :: string
  key_fingerprint :: string
  key_created :: int

record VirtualMachine =
  vm_id :: uuid
  vm_owner :: uuid
  vm_status :: string
  vm_vcpus :: int
  vm_memory_mb :: int
  vm_storage_gb :: int
  vm_image :: string
  vm_provider_vmid :: "int option"
  vm_provider_node :: "string option"
  vm_ssh_key :: "uuid option"
  vm_created :: int
  vm_updated :: int

record Operation =
  op_id :: uuid
  op_vm :: uuid
  op_type :: string
  op_status :: string
  op_phase :: "string option"
  op_key :: string
  op_attempts :: int
  op_error :: "string option"
  op_task :: "string option"
  op_created :: int
  op_updated :: int

record db =
  users :: "User list"
  identities :: "ExternalIdentity list"
  app_sessions :: "ApplicationSession list"
  plans :: "ComputePlan list"
  quotas :: "UserQuota list"
  ssh_keys :: "SshPublicKey list"
  vms :: "VirtualMachine list"
  operations :: "Operation list"

abbreviation get_vm :: "uuid \<Rightarrow> db \<Rightarrow> VirtualMachine option" where
  "get_vm u d \<equiv> row_get vm_id u (vms d)"

abbreviation get_op :: "uuid \<Rightarrow> db \<Rightarrow> Operation option" where
  "get_op u d \<equiv> row_get op_id u (operations d)"

abbreviation get_key :: "uuid \<Rightarrow> db \<Rightarrow> SshPublicKey option" where
  "get_key u d \<equiv> row_get key_id u (ssh_keys d)"

section \<open>Constraints\<close>

definition width_ok :: "nat \<Rightarrow> string option \<Rightarrow> bool" where
  "width_ok n v = (case v of None \<Rightarrow> True | Some s \<Rightarrow> length s \<le> n)"

definition operation_types :: "string list" where
  "operation_types = [''vm.create'', ''vm.start'', ''vm.shutdown'', ''vm.stop'', ''vm.reboot'', ''vm.delete'']"

definition operation_constraints :: "Operation \<Rightarrow> bool" where
  "operation_constraints op \<longleftrightarrow>
     op_type op \<in> set operation_types
     \<and> op_status op \<in> {''pending'', ''processing'', ''succeeded'', ''failed''}
     \<and> 0 \<le> op_attempts op
     \<and> width_ok 50 (Some (op_type op)) \<and> width_ok 32 (Some (op_status op))
     \<and> width_ok 32 (op_phase op) \<and> width_ok 128 (Some (op_key op))
     \<and> width_ok 100 (op_error op) \<and> width_ok 255 (op_task op)"

definition vm_statuses :: "string list" where
  "vm_statuses = [''pending'', ''pending_capacity'', ''provisioning'', ''running'', ''stopped'',
     ''failed'', ''deleting'', ''deleted'']"

definition vm_constraints :: "VirtualMachine \<Rightarrow> bool" where
  "vm_constraints v \<longleftrightarrow>
     vm_status v \<in> set vm_statuses \<and> 0 < vm_vcpus v \<and> 0 < vm_memory_mb v \<and> 0 < vm_storage_gb v"

definition vmid_unique :: "VirtualMachine list \<Rightarrow> bool" where
  "vmid_unique rows = distinct (List.map_filter vm_provider_vmid rows)"

definition plan_constraints :: "ComputePlan \<Rightarrow> bool" where
  "plan_constraints p \<longleftrightarrow>
     0 \<le> max_vms p \<and> 0 \<le> max_total_vcpus p \<and> 0 \<le> max_total_memory_mb p
     \<and> 0 \<le> max_total_storage_gb p \<and> 0 \<le> max_shared_storage_gb p"

definition quota_constraints :: "UserQuota \<Rightarrow> bool" where
  "quota_constraints q \<longleftrightarrow> quota_status q \<in> {''active'', ''suspended''}"

section \<open>Flush and commit\<close>

text \<open>
  \<open>onupdate=func.now()\<close>: an UPDATE of a row whose \<open>updated_at\<close> was not assigned sets it to
  the transaction's time. A row with no net change is not updated.
\<close>

definition touch_op :: "int \<Rightarrow> Operation \<Rightarrow> Operation \<Rightarrow> Operation" where
  "touch_op now old new =
     (if new = old \<or> op_updated new \<noteq> op_updated old then new else new\<lparr>op_updated := now\<rparr>)"

definition touch_vm :: "int \<Rightarrow> VirtualMachine \<Rightarrow> VirtualMachine \<Rightarrow> VirtualMachine" where
  "touch_vm now old new =
     (if new = old \<or> vm_updated new \<noteq> vm_updated old then new else new\<lparr>vm_updated := now\<rparr>)"

definition store_op :: "int \<Rightarrow> Operation \<Rightarrow> db \<Rightarrow> db" where
  "store_op now op d =
     (case get_op (op_id op) d of
        None \<Rightarrow> d
      | Some old \<Rightarrow> d\<lparr>operations := row_set op_id (touch_op now old op) (operations d)\<rparr>)"

definition store_vm :: "int \<Rightarrow> VirtualMachine option \<Rightarrow> db \<Rightarrow> db" where
  "store_vm now v d =
     (case v of
        None \<Rightarrow> d
      | Some new \<Rightarrow>
         (case get_vm (vm_id new) d of
            None \<Rightarrow> d
          | Some old \<Rightarrow> d\<lparr>vms := row_set vm_id (touch_vm now old new) (vms d)\<rparr>))"

text \<open>
  The commit of the changes to one operation and its virtual machine: refused with
  \<open>IntegrityError\<close> when a constraint on the written rows fails.
\<close>

definition commit_rows :: "int \<Rightarrow> Operation \<Rightarrow> VirtualMachine option \<Rightarrow> db \<Rightarrow> exc + db" where
  "commit_rows now op v d =
     (let d' = store_vm now v (store_op now op d) in
      if operation_constraints op \<and> (case v of None \<Rightarrow> True | Some w \<Rightarrow> vm_constraints w)
         \<and> vmid_unique (vms d')
      then Inr d' else Inl (IntegrityError ''constraint violated''))"

lemma touch_op_fields [simp]:
  "op_id (touch_op now old new) = op_id new" "op_vm (touch_op now old new) = op_vm new"
  "op_type (touch_op now old new) = op_type new" "op_status (touch_op now old new) = op_status new"
  "op_phase (touch_op now old new) = op_phase new" "op_key (touch_op now old new) = op_key new"
  "op_attempts (touch_op now old new) = op_attempts new"
  "op_error (touch_op now old new) = op_error new" "op_task (touch_op now old new) = op_task new"
  by (simp_all add: touch_op_def)

lemma touch_vm_fields [simp]:
  "vm_id (touch_vm now old new) = vm_id new" "vm_owner (touch_vm now old new) = vm_owner new"
  "vm_status (touch_vm now old new) = vm_status new" "vm_vcpus (touch_vm now old new) = vm_vcpus new"
  "vm_memory_mb (touch_vm now old new) = vm_memory_mb new"
  "vm_storage_gb (touch_vm now old new) = vm_storage_gb new"
  "vm_image (touch_vm now old new) = vm_image new"
  "vm_provider_vmid (touch_vm now old new) = vm_provider_vmid new"
  "vm_provider_node (touch_vm now old new) = vm_provider_node new"
  "vm_ssh_key (touch_vm now old new) = vm_ssh_key new"
  by (simp_all add: touch_vm_def)

lemma store_op_tables [simp]:
  "users (store_op now op d) = users d" "identities (store_op now op d) = identities d"
  "app_sessions (store_op now op d) = app_sessions d" "plans (store_op now op d) = plans d"
  "quotas (store_op now op d) = quotas d" "ssh_keys (store_op now op d) = ssh_keys d"
  "vms (store_op now op d) = vms d"
  by (simp_all add: store_op_def split: option.splits)

lemma store_vm_tables [simp]:
  "users (store_vm now v d) = users d" "identities (store_vm now v d) = identities d"
  "app_sessions (store_vm now v d) = app_sessions d" "plans (store_vm now v d) = plans d"
  "quotas (store_vm now v d) = quotas d" "ssh_keys (store_vm now v d) = ssh_keys d"
  "operations (store_vm now v d) = operations d"
  by (simp_all add: store_vm_def split: option.splits)

lemma width_ok_simps [simp]: "width_ok n None" "width_ok n (Some s) = (length s \<le> n)"
  by (simp_all add: width_ok_def)

end
