(* ===== verification/SshKeys.thy ===== *)
theory SshKeys
  imports Base64 Models
begin

text \<open>
  SSH public keys: portal/app/ssh_keys/parsing.py, services.py, router.py and schemas.py. The
  key parser, the serializer and the fingerprint digest come from the cryptography package and
  are a parameter, as are the texts of a freshly generated key pair. The services take the parser
  \<open>parse\<close>, which is \<open>parse_ssh_public_key C\<close> for the package \<open>C\<close>. As with orders, a
  service queries one state of the tables and its flush can meet a later one.
\<close>

section \<open>Parsing\<close>

datatype key_kind = Ed25519Key | RsaKey int | OtherKey

record 'k crypto =
  load_ssh_public_key :: "string \<Rightarrow> 'k option"
  kind_of :: "'k \<Rightarrow> key_kind"
  public_bytes :: "'k \<Rightarrow> string"
  sha256_fingerprint :: "'k \<Rightarrow> string"

record ParsedSshPublicKey =
  parsed_type :: string
  parsed_public :: string
  parsed_fingerprint :: string

definition rstrip_pad :: "string \<Rightarrow> string" where
  "rstrip_pad s = rev (dropWhile (\<lambda>c. c = CHR ''='') (rev s))"

definition acceptable :: "key_kind \<Rightarrow> exc + unit" where
  "acceptable k =
     (case k of
        Ed25519Key \<Rightarrow> Inr ()
      | RsaKey bits \<Rightarrow> if bits < 2048 then Inl (ValueError ''RSA key must be at least 2048 bits'') else Inr ()
      | OtherKey \<Rightarrow> Inl (ValueError ''unsupported SSH public key type''))"

definition parse_ssh_public_key :: "'k crypto \<Rightarrow> string \<Rightarrow> exc + ParsedSshPublicKey" where
  "parse_ssh_public_key C value =
     (case load_ssh_public_key C (strip value) of
        None \<Rightarrow> Inl (ValueError ''invalid SSH public key'')
      | Some key \<Rightarrow>
         (case acceptable (kind_of C key) of
            Inl e \<Rightarrow> Inl e
          | Inr _ \<Rightarrow>
             (let public_key = public_bytes C key in
              Inr \<lparr>parsed_type = takeWhile (\<lambda>c. c \<noteq> CHR '' '') public_key, parsed_public = public_key,
                   parsed_fingerprint = ''SHA256:'' @ rstrip_pad (b64encode (sha256_fingerprint C key))\<rparr>)))"

section \<open>Services\<close>

text \<open>
  The flush: a broken uniqueness or reference is an \<open>IntegrityError\<close>, a value too long for its
  column another database error.
\<close>

definition name_taken :: "uuid \<Rightarrow> string \<Rightarrow> db \<Rightarrow> bool" where
  "name_taken user name d = list_ex (\<lambda>k. key_owner k = user \<and> key_name k = name) (ssh_keys d)"

definition fingerprint_taken :: "string \<Rightarrow> db \<Rightarrow> bool" where
  "fingerprint_taken f d = list_ex (\<lambda>k. key_fingerprint k = f) (ssh_keys d)"

definition flush_key :: "SshPublicKey \<Rightarrow> db \<Rightarrow> exc + db" where
  "flush_key k d =
     (if \<not> (length (key_name k) \<le> 100 \<and> length (key_type k) \<le> 50 \<and> length (key_fingerprint k) \<le> 100)
        then Inl (LibraryError ''value too long'')
      else if name_taken (key_owner k) (key_name k) d \<or> fingerprint_taken (key_fingerprint k) d
              \<or> get_key (key_id k) d \<noteq> None \<or> row_get usr_id (key_owner k) (users d) = None
        then Inl (IntegrityError ''ssh_public_keys'')
      else Inr (d\<lparr>ssh_keys := ssh_keys d @ [k]\<rparr>))"

definition new_key :: "uuid \<Rightarrow> int \<Rightarrow> uuid \<Rightarrow> string \<Rightarrow> ParsedSshPublicKey \<Rightarrow> SshPublicKey" where
  "new_key kid now user name p =
     \<lparr>key_id = kid, key_owner = user, key_name = name, key_type = parsed_type p, key_public = parsed_public p,
      key_fingerprint = parsed_fingerprint p, key_created = now\<rparr>"

definition import_ssh_public_key ::
  "(string \<Rightarrow> exc + ParsedSshPublicKey) \<Rightarrow> uuid \<Rightarrow> int \<Rightarrow> uuid \<Rightarrow> string \<Rightarrow> string \<Rightarrow> db \<Rightarrow> (db, SshPublicKey) py" where
  "import_ssh_public_key parse kid now user name public_key seen d =
     (case parse public_key of
        Inl e \<Rightarrow> (case e of ValueError m \<Rightarrow> (Inl (InvalidSshPublicKeyError m), d) | _ \<Rightarrow> (Inl e, d))
      | Inr parsed_key \<Rightarrow>
          if name_taken user name seen then (Inl (SshPublicKeyConflictError ''SSH key name already exists''), d)
          else if fingerprint_taken (parsed_fingerprint parsed_key) seen
          then (Inl (SshPublicKeyConflictError ''SSH public key already exists''), d)
          else
            (let pubkey = new_key kid now user name parsed_key in
             case flush_key pubkey d of
               Inr d' \<Rightarrow> (Inr pubkey, d')
             | Inl e \<Rightarrow>
                (case e of
                   IntegrityError m \<Rightarrow>
                     if name_taken user name d
                     then (Inl (SshPublicKeyConflictError ''SSH key name already exists''), d)
                     else (Inl (SshPublicKeyConflictError ''SSH public key already exists''), d)
                 | _ \<Rightarrow> (Inl e, d))))"

record GeneratedSshKeyPair =
  gen_ssh_key :: SshPublicKey
  gen_private_key :: string

text \<open>\<open>public_text\<close> and \<open>private_text\<close>: the serialized halves of the key pair that was drawn.\<close>

definition generate_ssh_key_pair ::
  "(string \<Rightarrow> exc + ParsedSshPublicKey) \<Rightarrow> string \<Rightarrow> string \<Rightarrow> uuid \<Rightarrow> int \<Rightarrow> uuid \<Rightarrow> string \<Rightarrow> db \<Rightarrow> (db, GeneratedSshKeyPair) py" where
  "generate_ssh_key_pair parse public_text private_text kid now user name seen d =
     (if name_taken user name seen then (Inl (SshPublicKeyConflictError ''SSH key name already exists''), d)
      else
        (case parse public_text of
           Inl e \<Rightarrow> (Inl e, d)
         | Inr parsed_key \<Rightarrow>
            (let pubkey = new_key kid now user name parsed_key in
             case flush_key pubkey d of
               Inl e \<Rightarrow> (Inl e, d)
             | Inr d' \<Rightarrow> (Inr \<lparr>gen_ssh_key = pubkey, gen_private_key = private_text\<rparr>, d'))))"

section \<open>Endpoints\<close>

text \<open>The request models of schemas.py.\<close>

definition validate_key_name :: "string \<Rightarrow> string option" where
  "validate_key_name name =
     (let s = strip name in if 1 \<le> length s \<and> length s \<le> 100 then Some s else None)"

definition validate_key_text :: "string \<Rightarrow> string option" where
  "validate_key_text text =
     (let s = strip text in if 1 \<le> length s \<and> length s \<le> 8192 then Some s else None)"

record SshPublicKeyRead =
  read_key_id :: uuid
  read_key_name :: string
  read_key_type :: string
  read_key_fingerprint :: string
  read_key_created :: int

definition key_read :: "SshPublicKey \<Rightarrow> SshPublicKeyRead" where
  "key_read k = \<lparr>read_key_id = key_id k, read_key_name = key_name k, read_key_type = key_type k,
     read_key_fingerprint = key_fingerprint k, read_key_created = key_created k\<rparr>"

definition import_ssh_key ::
  "(string \<Rightarrow> exc + ParsedSshPublicKey) \<Rightarrow> uuid \<Rightarrow> int \<Rightarrow> uuid \<Rightarrow> string \<Rightarrow> string \<Rightarrow> db \<Rightarrow> (db, SshPublicKeyRead) py" where
  "import_ssh_key parse kid now user name public_key seen d =
     (case import_ssh_public_key parse kid now user name public_key seen d of
        (Inr k, d') \<Rightarrow> (Inr (key_read k), d')
      | (Inl e, _) \<Rightarrow>
         (case e of
            InvalidSshPublicKeyError m \<Rightarrow> (Inl (HTTPException 400 m), d)
          | SshPublicKeyConflictError m \<Rightarrow> (Inl (HTTPException 409 m), d)
          | _ \<Rightarrow> (Inl e, d)))"

definition get_list_keys :: "uuid \<Rightarrow> db \<Rightarrow> SshPublicKeyRead list" where
  "get_list_keys user d =
     map key_read (sort_key (\<lambda>k. - key_created k) (filter (\<lambda>k. key_owner k = user) (ssh_keys d)))"

record generated_response =
  resp_key :: SshPublicKeyRead
  resp_private_key :: string
  resp_headers :: "(string \<times> string) list"

definition generate_ssh_key_pair_endpoint ::
  "(string \<Rightarrow> exc + ParsedSshPublicKey) \<Rightarrow> string \<Rightarrow> string \<Rightarrow> uuid \<Rightarrow> int \<Rightarrow> uuid \<Rightarrow> string \<Rightarrow> db \<Rightarrow> (db, generated_response) py" where
  "generate_ssh_key_pair_endpoint parse public_text private_text kid now user name seen d =
     (case generate_ssh_key_pair parse public_text private_text kid now user name seen d of
        (Inr g, d') \<Rightarrow>
          (Inr \<lparr>resp_key = key_read (gen_ssh_key g), resp_private_key = gen_private_key g,
                resp_headers = [(''Cache-Control'', ''no-store''), (''Pragma'', ''no-cache'')]\<rparr>, d')
      | (Inl e, _) \<Rightarrow>
         (case e of
            SshPublicKeyConflictError m \<Rightarrow> (Inl (HTTPException 409 m), d)
          | _ \<Rightarrow> (Inl e, d)))"

end
