(* ===== verification/Transport.thy ===== *)
theory Transport
  imports Complex_Main PyStd
begin

text \<open>
  What the Proxmox client stands on: JSON values as \<open>response.json()\<close> returns them,
  \<open>urllib.parse.quote\<close>, and the HTTP library as a parameter: a function from a request to a
  response or an exception, over the state of the other side. What a response says when
  \<open>raise_for_status()\<close> and \<open>json()\<close> are called on it is part of the response.
\<close>

section \<open>JSON\<close>

text \<open>
  An object is the dictionary, with its keys in insertion order. A number that is not an integer
  is a rational, or \<open>None\<close> for NaN and the infinities.
\<close>

datatype json =
    JNull
  | JBool bool
  | JInt int
  | JFloat "rat option"
  | JStr string
  | JList "json list"
  | JObj "(string \<times> json) list"

type_synonym fields = "(string \<times> json) list"

text \<open>\<open>d.get(k)\<close>; \<open>None\<close> and a \<open>null\<close> are the same value.\<close>

definition dict_get :: "string \<Rightarrow> fields \<Rightarrow> json" where
  "dict_get k d = (case map_of d k of None \<Rightarrow> JNull | Some v \<Rightarrow> v)"

text \<open>\<open>isinstance(v, int)\<close>, true of booleans, and \<open>v == n\<close> for an integer \<open>n\<close>.\<close>

fun is_int :: "json \<Rightarrow> bool" where
  "is_int (JInt i) = True"
| "is_int (JBool b) = True"
| "is_int _ = False"

fun eq_int :: "json \<Rightarrow> int \<Rightarrow> bool" where
  "eq_int (JInt i) n = (i = n)"
| "eq_int (JBool b) n = ((if b then 1 else 0) = n)"
| "eq_int (JFloat (Some r)) n = (r = of_int n)"
| "eq_int _ n = False"

text \<open>\<open>v in {s1, ...}\<close>: a list or a dictionary cannot be hashed.\<close>

fun in_str_set :: "json \<Rightarrow> string list \<Rightarrow> exc + bool" where
  "in_str_set (JStr s) ss = Inr (s \<in> set ss)"
| "in_str_set (JList _) ss = Inl (TypeError ''unhashable type'')"
| "in_str_set (JObj _) ss = Inl (TypeError ''unhashable type'')"
| "in_str_set _ ss = Inr False"

definition py_lift :: "exc + 'a \<Rightarrow> ('s, 'a) py" where
  "py_lift r s = (r, s)"

lemma py_lift_simps [simp]: "py_lift (Inr x) = py_ret x" "py_lift (Inl e) = py_raise e"
  by (simp_all add: py_lift_def fun_eq_iff)

text \<open>\<open>returns m P\<close>: \<open>P\<close> holds of what the computation returns, if it returns.\<close>

definition returns :: "('s, 'a) py \<Rightarrow> ('a \<Rightarrow> bool) \<Rightarrow> bool" where
  "returns m P \<longleftrightarrow> (\<forall>s x t. m s = (Inr x, t) \<longrightarrow> P x)"

lemma returnsD: "returns m P \<Longrightarrow> m s = (Inr x, t) \<Longrightarrow> P x"
  unfolding returns_def by blast

lemma returns_ret: "P x \<Longrightarrow> returns (py_ret x) P"
  by (simp add: returns_def)

lemma returns_raise: "returns (py_raise e) P"
  by (simp add: returns_def)

lemma returns_bind: "(\<And>x. returns (f x) P) \<Longrightarrow> returns (py_bind m f) P"
  by (auto simp: returns_def py_bind_Inr_iff)

lemma returns_bind_value: "returns m Q \<Longrightarrow> (\<And>x. Q x \<Longrightarrow> returns (f x) P) \<Longrightarrow> returns (py_bind m f) P"
  by (fastforce simp: returns_def py_bind_Inr_iff)

lemma returns_lift: "(\<And>x. r = Inr x \<Longrightarrow> P x) \<Longrightarrow> returns (py_lift r) P"
  by (simp add: returns_def py_lift_def)

lemma returns_if: "(b \<Longrightarrow> returns m P) \<Longrightarrow> (\<not> b \<Longrightarrow> returns m' P) \<Longrightarrow> returns (if b then m else m') P"
  by simp

lemma returns_option:
  "(v = None \<Longrightarrow> returns m P) \<Longrightarrow> (\<And>x. v = Some x \<Longrightarrow> returns (f x) P) \<Longrightarrow>
     returns (case v of None \<Rightarrow> m | Some x \<Rightarrow> f x) P"
  by (simp split: option.split)

lemmas returns_rules = returns_ret returns_raise returns_bind returns_if returns_option

section \<open>Percent-encoding\<close>

definition unreserved :: "char \<Rightarrow> bool" where
  "unreserved c = (let n = of_char c :: nat in
     (48 \<le> n \<and> n \<le> 57) \<or> (65 \<le> n \<and> n \<le> 90) \<or> (97 \<le> n \<and> n \<le> 122) \<or> n \<in> {45, 46, 95, 126})"

definition upper_hex :: "nat \<Rightarrow> char" where
  "upper_hex d = char_of (if d < 10 then 48 + d else 55 + d)"

text \<open>\<open>quote(s, safe="")\<close>.\<close>

fun quote :: "string \<Rightarrow> string" where
  "quote [] = []"
| "quote (c # cs) =
     (if unreserved c then c # quote cs
      else (let n = of_char c :: nat in
              CHR ''%'' # upper_hex (n div 16) # upper_hex (n mod 16) # quote cs))"

text \<open>The reading of an encoded path segment.\<close>

fun unquote :: "string \<Rightarrow> string" where
  "unquote (c # a # b # cs) =
     (if c = CHR ''%''
      then char_of (the (digit_value a) * 16 + the (digit_value b)) # unquote cs
      else c # unquote (a # b # cs))"
| "unquote s = s"

lemma digit_value_upper_hex [simp]: "d < 16 \<Longrightarrow> digit_value (upper_hex d) = Some d"
  by (simp add: digit_value_def upper_hex_def)

lemma percent_reserved: "\<not> unreserved (CHR ''%'')"
  by (simp add: unreserved_def)

lemma unquote_plain: "c \<noteq> CHR ''%'' \<Longrightarrow> unquote (c # cs) = c # unquote cs"
  by (cases cs rule: unquote.cases) auto

lemma unquote_quote_raw: "unquote (quote s) = s"
proof (induction s)
  case (Cons c cs)
  show ?case
  proof (cases "unreserved c")
    case True
    then have "c \<noteq> CHR ''%''"
      using percent_reserved by auto
    with True Cons show ?thesis by (simp add: unquote_plain)
  next
    case False
    let ?n = "of_char c :: nat"
    have "?n div 16 < 16"
      using nat_of_char_less_256 [of c] by linarith
    with False Cons show ?thesis
      by (simp add: Let_def)
  qed
qed simp

lemma upper_hex_unreserved: "d < 16 \<Longrightarrow> unreserved (upper_hex d)"
  by (auto simp: unreserved_def upper_hex_def Let_def)

lemma char_digits: "of_char c div 16 < (16 :: nat)" "of_char c mod 16 < (16 :: nat)"
  using nat_of_char_less_256 [of c] by linarith+

lemma quote_chars: "c \<in> set (quote s) \<Longrightarrow> unreserved c \<or> c = CHR ''%''"
  by (induction s) (auto simp: Let_def upper_hex_unreserved char_digits split: if_splits)

lemma quote_no_slash: "CHR ''/'' \<notin> set (quote s)"
  using quote_chars [of "CHR ''/''" s] by (auto simp: unreserved_def)

section \<open>The HTTP library\<close>

record HttpRequest =
  hr_method :: string
  hr_url :: string
  hr_data :: "fields option"
  hr_params :: "fields option"

record HttpResponse =
  raise_for_status :: "exc + unit"
  response_json :: "exc + json"

type_synonym 'n http = "HttpRequest \<Rightarrow> ('n, HttpResponse) py"

text \<open>
  The same transport with a record of what was exchanged. What a client sends, and what it has
  seen when it sends it, are statements about that record.
\<close>

type_synonym exchange = "HttpRequest \<times> (exc + HttpResponse)"

definition tapped :: "'n http \<Rightarrow> ('n \<times> exchange list) http" where
  "tapped H rq s = (case s of (n, tr) \<Rightarrow> (case H rq n of (r, n') \<Rightarrow> (r, (n', tr @ [(rq, r)]))))"

text \<open>
  \<open>sends m R E\<close>: the computation only appends to the record, and \<open>R\<close> holds of what it returns
  and of what it appended, \<open>E\<close> of what it appended when it raised.
\<close>

definition sends ::
  "('n \<times> exchange list, 'a) py \<Rightarrow> ('a \<Rightarrow> exchange list \<Rightarrow> bool) \<Rightarrow> (exchange list \<Rightarrow> bool) \<Rightarrow> bool" where
  "sends m R E \<longleftrightarrow>
     (\<forall>n tr. outcome (m (n, tr)) (\<lambda>x t. \<exists>es. snd t = tr @ es \<and> R x es)
                                  (\<lambda>_ t. \<exists>es. snd t = tr @ es \<and> E es))"

lemma sends_ret: "R x [] \<Longrightarrow> sends (py_ret x) R E"
  by (simp add: sends_def outcome_pair)

lemma sends_raise: "E [] \<Longrightarrow> sends (py_raise e) R E"
  by (simp add: sends_def outcome_pair)

lemma sends_lift: "(\<And>x. r = Inr x \<Longrightarrow> R x []) \<Longrightarrow> (\<And>e. r = Inl e \<Longrightarrow> E []) \<Longrightarrow> sends (py_lift r) R E"
  by (cases r) (simp_all add: sends_ret sends_raise)

lemma sends_bind:
  fixes m :: "('n \<times> exchange list, 'a) py"
  assumes "sends m R E"
    and "\<And>x es. R x es \<Longrightarrow> sends (f x) (\<lambda>y fs. R' y (es @ fs)) (\<lambda>fs. E' (es @ fs))"
    and "\<And>es. E es \<Longrightarrow> E' es"
  shows "sends (py_bind m f) R' E'"
  unfolding sends_def outcome_bind
proof (intro allI)
  fix n :: 'n and tr
  show "outcome (m (n, tr)) (\<lambda>x t. outcome (f x t) (\<lambda>x t. \<exists>es. snd t = tr @ es \<and> R' x es)
      (\<lambda>_ t. \<exists>es. snd t = tr @ es \<and> E' es)) (\<lambda>_ t. \<exists>es. snd t = tr @ es \<and> E' es)"
  proof (rule outcome_mono [OF assms(1) [unfolded sends_def, rule_format, of n tr]])
    fix x and t :: "'n \<times> exchange list"
    assume "\<exists>es. snd t = tr @ es \<and> R x es"
    then obtain n' :: 'n and es where t: "t = (n', tr @ es)" "R x es"
      by (metis prod.collapse)
    from assms(2) [OF t(2), unfolded sends_def, rule_format, of n' "tr @ es"]
    show "outcome (f x t) (\<lambda>x t. \<exists>es. snd t = tr @ es \<and> R' x es) (\<lambda>_ t. \<exists>es. snd t = tr @ es \<and> E' es)"
      unfolding t(1) by (rule outcome_mono) auto
  qed (use assms(3) in blast)
qed

lemma sends_if:
  "(b \<Longrightarrow> sends m R E) \<Longrightarrow> (\<not> b \<Longrightarrow> sends m' R E) \<Longrightarrow> sends (if b then m else m') R E"
  by simp

lemma sends_mono:
  assumes "sends m R E" "\<And>x es. R x es \<Longrightarrow> R' x es" "\<And>es. E es \<Longrightarrow> E' es"
  shows "sends m R' E'"
  unfolding sends_def
proof (intro allI)
  fix n tr
  show "outcome (m (n, tr)) (\<lambda>x t. \<exists>es. snd t = tr @ es \<and> R' x es) (\<lambda>_ t. \<exists>es. snd t = tr @ es \<and> E' es)"
    by (rule outcome_mono [OF assms(1) [unfolded sends_def, rule_format, of n tr]]) (use assms(2,3) in blast)+
qed

lemma sends_tapped:
  "sends (tapped H rq) (\<lambda>r es. es = [(rq, Inr r)]) (\<lambda>es. \<exists>e. es = [(rq, Inl e)])"
  unfolding sends_def
proof (intro allI)
  fix n tr
  obtain r n' where H: "H rq n = (r, n')" by (cases "H rq n")
  then have "tapped H rq (n, tr) = (r, (n', tr @ [(rq, r)]))"
    by (simp add: tapped_def)
  then show "outcome (tapped H rq (n, tr)) (\<lambda>x t. \<exists>es. snd t = tr @ es \<and> es = [(rq, Inr x)])
      (\<lambda>_ t. \<exists>es. snd t = tr @ es \<and> (\<exists>e. es = [(rq, Inl e)]))"
    by (cases r) (simp_all add: outcome_pair)
qed

lemma sendsD:
  assumes "sends m R E" "m (n, []) = (r, (n', es))"
  shows "case r of Inl e \<Rightarrow> E es | Inr x \<Rightarrow> R x es"
proof -
  from assms(1) have "outcome (m (n, [])) (\<lambda>x t. \<exists>fs. snd t = [] @ fs \<and> R x fs) (\<lambda>_ t. \<exists>fs. snd t = [] @ fs \<and> E fs)"
    unfolding sends_def by (elim allE)
  then show ?thesis
    unfolding assms(2) by (cases r) (simp_all add: outcome_pair)
qed

end
