(* ===== verification/Compute.thy ===== *)
theory Compute
  imports Models
begin

text \<open>
  Plans, quotas and usage: portal/app/compute/services.py and the quota report of
  portal/app/compute/router.py. A query reads the tables of the database value it is given.
\<close>

definition QUOTA_CONSUMING_STATUSES :: "string list" where
  "QUOTA_CONSUMING_STATUSES =
     [''pending'', ''pending_capacity'', ''provisioning'', ''running'', ''stopped'', ''deleting'']"

record usage =
  used_vms :: int
  used_vcpus :: int
  used_memory_mb :: int
  used_storage_gb :: int

definition consumes :: "uuid \<Rightarrow> VirtualMachine \<Rightarrow> bool" where
  "consumes u v \<longleftrightarrow> vm_owner v = u \<and> vm_status v \<in> set QUOTA_CONSUMING_STATUSES"

text \<open>\<open>count\<close>, and \<open>coalesce(sum(...), 0)\<close> of three columns.\<close>

definition usage_of :: "uuid \<Rightarrow> VirtualMachine list \<Rightarrow> usage" where
  "usage_of u rows =
     (let mine = filter (consumes u) rows in
      \<lparr>used_vms = int (length mine), used_vcpus = sum_list (map vm_vcpus mine),
       used_memory_mb = sum_list (map vm_memory_mb mine),
       used_storage_gb = sum_list (map vm_storage_gb mine)\<rparr>)"

definition get_user_compute_usage :: "uuid \<Rightarrow> db \<Rightarrow> usage" where
  "get_user_compute_usage u d = usage_of u (vms d)"

text \<open>
  \<open>assign_starter_quota\<close> adds a row to the session; the flush refuses a second row for the
  same user.
\<close>

definition assign_starter_quota :: "uuid \<Rightarrow> (db, UserQuota) py" where
  "assign_starter_quota u d =
     (case row_get plan_code ''starter'' (plans d) of
        None \<Rightarrow> py_raise (RuntimeError ''compute plan is missing'') d
      | Some plan \<Rightarrow>
          if plan_is_active plan = False
          then py_raise (RuntimeError ''compute plan is inactive'') d
          else (let uq = \<lparr>quota_user = u, quota_plan = plan_id plan, quota_status = ''active''\<rparr>
                in py_ret uq (d\<lparr>quotas := quotas d @ [uq]\<rparr>)))"

section \<open>The quota report\<close>

record amounts =
  am_vms :: int
  am_vcpus :: int
  am_memory_mb :: int
  am_storage_gb :: int
  am_shared_storage_gb :: int

record quota_report =
  rep_status :: string
  rep_plan :: string
  rep_limits :: amounts
  rep_usage :: amounts
  rep_remaining :: amounts

definition get_quota :: "uuid \<Rightarrow> db \<Rightarrow> exc + quota_report" where
  "get_quota u d =
     (case row_get quota_user u (quotas d) of
        None \<Rightarrow> Inl (RuntimeError ''user quota missing'')
      | Some uq \<Rightarrow>
         (case row_get plan_id (quota_plan uq) (plans d) of
            None \<Rightarrow> Inl (RuntimeError ''compute plan missing'')
          | Some cp \<Rightarrow>
              (let usage = get_user_compute_usage u d in
               Inr \<lparr>rep_status = quota_status uq, rep_plan = plan_code cp,
                 rep_limits = \<lparr>am_vms = max_vms cp, am_vcpus = max_total_vcpus cp,
                   am_memory_mb = max_total_memory_mb cp, am_storage_gb = max_total_storage_gb cp,
                   am_shared_storage_gb = max_shared_storage_gb cp\<rparr>,
                 rep_usage = \<lparr>am_vms = used_vms usage, am_vcpus = used_vcpus usage,
                   am_memory_mb = used_memory_mb usage, am_storage_gb = used_storage_gb usage,
                   am_shared_storage_gb = 0\<rparr>,
                 rep_remaining = \<lparr>am_vms = max_vms cp - used_vms usage,
                   am_vcpus = max_total_vcpus cp - used_vcpus usage,
                   am_memory_mb = max_total_memory_mb cp - used_memory_mb usage,
                   am_storage_gb = max_total_storage_gb cp - used_storage_gb usage,
                   am_shared_storage_gb = max_shared_storage_gb cp - 0\<rparr>\<rparr>)))"

section \<open>Usage under changes of the table\<close>

text \<open>A usage within the limits of a plan, in all four amounts.\<close>

definition fits_plan :: "usage \<Rightarrow> ComputePlan \<Rightarrow> bool" where
  "fits_plan us p \<longleftrightarrow>
     used_vms us \<le> max_vms p \<and> used_vcpus us \<le> max_total_vcpus p
     \<and> used_memory_mb us \<le> max_total_memory_mb p \<and> used_storage_gb us \<le> max_total_storage_gb p"

definition usage_le :: "usage \<Rightarrow> usage \<Rightarrow> bool" where
  "usage_le a b \<longleftrightarrow>
     used_vms a \<le> used_vms b \<and> used_vcpus a \<le> used_vcpus b
     \<and> used_memory_mb a \<le> used_memory_mb b \<and> used_storage_gb a \<le> used_storage_gb b"

lemma usage_le_within: "usage_le a b \<Longrightarrow> fits_plan b p \<Longrightarrow> fits_plan a p"
  by (auto simp: usage_le_def fits_plan_def)

lemma usage_le_refl [simp]: "usage_le a a"
  by (simp add: usage_le_def)

lemma usage_of_Nil [simp]:
  "usage_of u [] = \<lparr>used_vms = 0, used_vcpus = 0, used_memory_mb = 0, used_storage_gb = 0\<rparr>"
  by (simp add: usage_of_def)

lemma usage_of_Cons:
  "usage_of u (v # rows) =
     (if consumes u v
      then \<lparr>used_vms = used_vms (usage_of u rows) + 1, used_vcpus = used_vcpus (usage_of u rows) + vm_vcpus v,
            used_memory_mb = used_memory_mb (usage_of u rows) + vm_memory_mb v,
            used_storage_gb = used_storage_gb (usage_of u rows) + vm_storage_gb v\<rparr>
      else usage_of u rows)"
  by (simp add: usage_of_def Let_def)

lemma usage_of_append:
  "usage_of u (xs @ ys) =
     \<lparr>used_vms = used_vms (usage_of u xs) + used_vms (usage_of u ys),
      used_vcpus = used_vcpus (usage_of u xs) + used_vcpus (usage_of u ys),
      used_memory_mb = used_memory_mb (usage_of u xs) + used_memory_mb (usage_of u ys),
      used_storage_gb = used_storage_gb (usage_of u xs) + used_storage_gb (usage_of u ys)\<rparr>"
  by (simp add: usage_of_def Let_def)

text \<open>
  A row replaced by one with the same owner and amounts that consumes only if the old one
  did never raises the usage of anybody.
\<close>

definition no_heavier :: "VirtualMachine \<Rightarrow> VirtualMachine \<Rightarrow> bool" where
  "no_heavier old new \<longleftrightarrow>
     vm_owner new = vm_owner old \<and> vm_vcpus new = vm_vcpus old \<and> vm_memory_mb new = vm_memory_mb old
     \<and> vm_storage_gb new = vm_storage_gb old
     \<and> (vm_status new \<in> set QUOTA_CONSUMING_STATUSES \<longrightarrow> vm_status old \<in> set QUOTA_CONSUMING_STATUSES)"

lemma usage_row_set:
  assumes "\<And>v. v \<in> set rows \<Longrightarrow> vm_id v = vm_id new \<Longrightarrow> no_heavier v new"
    and "\<And>v. v \<in> set rows \<Longrightarrow> 0 \<le> vm_vcpus v \<and> 0 \<le> vm_memory_mb v \<and> 0 \<le> vm_storage_gb v"
  shows "usage_le (usage_of u (row_set vm_id new rows)) (usage_of u rows)"
  using assms
proof (induction rows)
  case Nil
  then show ?case by (simp add: row_set_def)
next
  case (Cons v rows)
  have IH: "usage_le (usage_of u (row_set vm_id new rows)) (usage_of u rows)"
    using Cons by simp
  have v: "vm_id v = vm_id new \<Longrightarrow> no_heavier v new" "0 \<le> vm_vcpus v" "0 \<le> vm_memory_mb v" "0 \<le> vm_storage_gb v"
    using Cons.prems by simp_all
  have c: "vm_id v = vm_id new \<Longrightarrow> consumes u new \<Longrightarrow> consumes u v"
    using v(1) by (simp add: consumes_def no_heavier_def)
  show ?case
  proof (cases "vm_id v = vm_id new")
    case True
    then have eq: "row_set vm_id new (v # rows) = new # row_set vm_id new rows"
      by (simp add: row_set_def)
    show ?thesis
      unfolding eq using IH v True c by (auto simp: usage_of_Cons usage_le_def no_heavier_def)
  next
    case False
    then have eq: "row_set vm_id new (v # rows) = v # row_set vm_id new rows"
      by (simp add: row_set_def)
    show ?thesis
      unfolding eq using IH by (simp add: usage_of_Cons usage_le_def)
  qed
qed

end
