(* ===== verification/Identity.thy ===== *)
theory Identity
  imports Transport Compute
begin

text \<open>
  Sign-in, sessions and the CSRF check: portal/app/identity/csrf.py, sessions.py, services.py,
  dependencies.py and router.py. The digests (\<open>sha256(...).hexdigest()\<close> and the keyed
  \<open>hmac.new(...).hexdigest()\<close>) are parameters, as are the random tokens and identifiers.
  Times are microseconds.
\<close>

section \<open>CSRF\<close>

definition make_csrf_token :: "(string \<Rightarrow> string) \<Rightarrow> string \<Rightarrow> string" where
  "make_csrf_token mac session_token = mac (''csrf-v1:'' @ session_token)"

datatype form_field = FieldMissing | FieldFile | FieldText string

definition is_ascii :: "string \<Rightarrow> bool" where
  "is_ascii s = list_all (\<lambda>c. (of_char c :: nat) < 128) s"

text \<open>\<open>hmac.compare_digest\<close> of two \<open>str\<close>: an error unless both are ASCII.\<close>

definition compare_digest :: "string \<Rightarrow> string \<Rightarrow> exc + bool" where
  "compare_digest a b =
     (if is_ascii a \<and> is_ascii b then Inr (a = b)
      else Inl (TypeError ''comparing strings with non-ASCII characters is not supported''))"

text \<open>The token in the header, or else in a urlencoded form.\<close>

definition submitted_csrf :: "string option \<Rightarrow> form_field \<Rightarrow> string option \<Rightarrow> string option" where
  "submitted_csrf content_type form header_token =
     (case header_token of
        Some t \<Rightarrow> Some t
      | None \<Rightarrow>
          if takeWhile (\<lambda>c. c \<noteq> CHR '';'') (or_empty content_type) = ''application/x-www-form-urlencoded''
          then (case form of FieldText t \<Rightarrow> Some t | _ \<Rightarrow> None)
          else None)"

definition verify_csrf ::
  "(string \<Rightarrow> string) \<Rightarrow> string option \<Rightarrow> form_field \<Rightarrow> string option \<Rightarrow> string option \<Rightarrow> exc + unit" where
  "verify_csrf mac content_type form session_token header_token =
     (case session_token of
        None \<Rightarrow> Inl (HTTPException 401 ''Authentication required'')
      | Some token \<Rightarrow>
         (let submitted_token = or_empty (submitted_csrf content_type form header_token) in
          if submitted_token = [] then Inl (HTTPException 403 ''CSRF token missing'')
          else (case compare_digest submitted_token (make_csrf_token mac token) of
             Inl e \<Rightarrow> Inl e
           | Inr same \<Rightarrow> if same then Inr () else Inl (HTTPException 403 ''Invalid CSRF token''))))"

section \<open>Sessions\<close>

definition new_session :: "(string \<Rightarrow> string) \<Rightarrow> int \<Rightarrow> uuid \<Rightarrow> int \<Rightarrow> uuid \<Rightarrow> string \<Rightarrow> ApplicationSession" where
  "new_session sha max_age sid now user token =
     \<lparr>sess_id = sid, sess_user = user, sess_token_hash = sha token, sess_created = now,
      sess_expires = now + max_age * 1000000, sess_last_seen = now, sess_revoked = None\<rparr>"

definition get_user_by_session_token ::
  "(string \<Rightarrow> string) \<Rightarrow> string \<Rightarrow> db \<Rightarrow> exc + (User \<times> ApplicationSession) option" where
  "get_user_by_session_token sha session_token d =
     (case row_get sess_token_hash (sha session_token) (app_sessions d) of
        None \<Rightarrow> Inr None
      | Some session \<Rightarrow>
         (case row_get usr_id (sess_user session) (users d) of
            None \<Rightarrow> Inl (RuntimeError ''session references missing user'')
          | Some user \<Rightarrow> Inr (Some (user, session))))"

definition revoke_user_session :: "(string \<Rightarrow> string) \<Rightarrow> int \<Rightarrow> string option \<Rightarrow> db \<Rightarrow> db" where
  "revoke_user_session sha now session_token d =
     (case session_token of
        None \<Rightarrow> d
      | Some token \<Rightarrow>
         (case row_get sess_token_hash (sha token) (app_sessions d) of
            None \<Rightarrow> d
          | Some session \<Rightarrow>
              if sess_revoked session \<noteq> None then d
              else d\<lparr>app_sessions := row_set sess_id (session\<lparr>sess_revoked := Some now\<rparr>) (app_sessions d)\<rparr>))"

definition LAST_SEEN_UPDATE_INTERVAL :: int where
  "LAST_SEEN_UPDATE_INTERVAL = 5 * 60 * 1000000"

definition get_current_user :: "(string \<Rightarrow> string) \<Rightarrow> int \<Rightarrow> string option \<Rightarrow> (db, User) py" where
  "get_current_user sha now session_token d =
     (case session_token of
        None \<Rightarrow> (Inl (HTTPException 401 ''Authentication required''), d)
      | Some token \<Rightarrow>
         (case get_user_by_session_token sha token d of
            Inl e \<Rightarrow> (Inl e, d)
          | Inr None \<Rightarrow> (Inl (HTTPException 401 ''Invalid session''), d)
          | Inr (Some (user, application_session)) \<Rightarrow>
              if sess_revoked application_session \<noteq> None then (Inl (HTTPException 401 ''Invalid session''), d)
              else if sess_expires application_session \<le> now then (Inl (HTTPException 401 ''Invalid session''), d)
              else if usr_is_active user = False then (Inl (HTTPException 401 ''Invalid session''), d)
              else if now - sess_last_seen application_session \<ge> LAST_SEEN_UPDATE_INTERVAL
              then (Inr user,
                    d\<lparr>app_sessions := row_set sess_id (application_session\<lparr>sess_last_seen := now\<rparr>) (app_sessions d)\<rparr>)
              else (Inr user, d)))"

section \<open>Users\<close>

text \<open>
  One sign-in transaction: \<open>get_or_create_user\<close> and the session of \<open>_login_and_create_session\<close>.
  The identity is looked up in \<open>seen\<close>; the rows are flushed into the tables as they then are.
\<close>

record draws =
  dr_user :: uuid
  dr_identity :: uuid
  dr_session :: uuid
  dr_token :: string

definition find_identity :: "string \<Rightarrow> string \<Rightarrow> db \<Rightarrow> ExternalIdentity option" where
  "find_identity issuer subject d =
     find (\<lambda>i. ident_issuer i = issuer \<and> ident_subject i = subject) (identities d)"

definition get_or_create_user ::
  "draws \<Rightarrow> int \<Rightarrow> string \<Rightarrow> string \<Rightarrow> string \<Rightarrow> db \<Rightarrow> (db, User) py" where
  "get_or_create_user w now issuer subject email seen d =
     (if length issuer > 255 \<or> length subject > 255 \<or> length email > 320 then (Inl (LibraryError ''value too long''), d)
      else (case find_identity issuer subject seen of
         Some identity \<Rightarrow>
           (case row_get usr_id (ident_user identity) (users seen) of
              None \<Rightarrow> (Inl (RuntimeError ''identity references missing user''), d)
            | Some user \<Rightarrow>
                (Inr user, d\<lparr>identities := row_set ident_id
                    (identity\<lparr>ident_email := email, ident_email_verified := True\<rparr>) (identities d)\<rparr>))
       | None \<Rightarrow>
           (let user = \<lparr>usr_id = dr_user w, usr_is_active = True, usr_created = now\<rparr>;
                identity = \<lparr>ident_id = dr_identity w, ident_user = dr_user w, ident_issuer = issuer,
                            ident_subject = subject, ident_email = email, ident_email_verified = True,
                            ident_created = now\<rparr>
            in if row_get usr_id (dr_user w) (users d) \<noteq> None \<or> row_get ident_id (dr_identity w) (identities d) \<noteq> None
                  \<or> find_identity issuer subject d \<noteq> None
               then (Inl (IntegrityError ''external_identities''), d)
               else
                 (case assign_starter_quota (dr_user w)
                         (d\<lparr>users := users d @ [user], identities := identities d @ [identity]\<rparr>) of
                    (Inl e, _) \<Rightarrow> (Inl e, d)
                  | (Inr quota, d1) \<Rightarrow>
                      if row_get quota_user (dr_user w) (quotas d) \<noteq> None
                      then (Inl (IntegrityError ''user_quota''), d) else (Inr user, d1)))))"

definition login_and_create_session ::
  "(string \<Rightarrow> string) \<Rightarrow> int \<Rightarrow> draws \<Rightarrow> int \<Rightarrow> string \<Rightarrow> string \<Rightarrow> string \<Rightarrow> db \<Rightarrow> (db, string) py" where
  "login_and_create_session sha max_age w now issuer subject email seen d =
     (case get_or_create_user w now issuer subject email seen d of
        (Inl e, _) \<Rightarrow> (Inl e, d)
      | (Inr user, d1) \<Rightarrow>
          if usr_is_active user = False then (Inl (HTTPException 403 ''User is inactive''), d)
          else if row_get sess_token_hash (sha (dr_token w)) (app_sessions d) \<noteq> None
                  \<or> row_get sess_id (dr_session w) (app_sessions d) \<noteq> None
               then (Inl (IntegrityError ''application_sessions''), d)
          else (Inr (dr_token w),
                d1\<lparr>app_sessions := app_sessions d1
                    @ [new_session sha max_age (dr_session w) now (usr_id user) (dr_token w)]\<rparr>))"

section \<open>Endpoints\<close>

record userinfo =
  ui_email :: "string option"
  ui_email_verified :: bool
  ui_iss :: string
  ui_sub :: string

record cookie =
  ck_value :: string
  ck_max_age :: int
  ck_httponly :: bool
  ck_secure :: bool
  ck_samesite :: string
  ck_path :: string

text \<open>
  The callback signs in, and once more if the first transaction met a row that another sign-in of
  the same identity had just inserted.
\<close>

definition auth_callback ::
  "(string \<Rightarrow> string) \<Rightarrow> int \<Rightarrow> bool \<Rightarrow> draws \<Rightarrow> draws \<Rightarrow> int \<Rightarrow> userinfo \<Rightarrow> db \<Rightarrow> (db, cookie) py" where
  "auth_callback sha max_age secure w w' now info seen d =
     (if or_empty (ui_email info) = [] \<or> \<not> ui_email_verified info
      then (Inl (HTTPException 403 ''Email not verified''), d)
      else
        (let login = (\<lambda>w seen d. login_and_create_session sha max_age w now (ui_iss info) (ui_sub info)
                         (or_empty (ui_email info)) seen d);
             attempt = (case login w seen d of
                          (Inl e, d1) \<Rightarrow> (case e of IntegrityError _ \<Rightarrow> login w' d d | _ \<Rightarrow> (Inl e, d1))
                        | (Inr token, d1) \<Rightarrow> (Inr token, d1))
         in case attempt of
              (Inl e, d1) \<Rightarrow> (Inl e, d1)
            | (Inr token, d1) \<Rightarrow>
                (Inr \<lparr>ck_value = token, ck_max_age = max_age, ck_httponly = True, ck_secure = secure,
                      ck_samesite = ''lax'', ck_path = ''/''\<rparr>, d1)))"

definition me :: "User \<Rightarrow> (string \<times> string) list" where
  "me user = [(''user_id'', uuid_str (usr_id user))]"

fun quote_plus :: "string \<Rightarrow> string" where
  "quote_plus [] = []"
| "quote_plus (c # cs) =
     (if c = CHR '' '' then CHR ''+'' # quote_plus cs else quote [c] @ quote_plus cs)"

text \<open>The URL that \<open>logout\<close> redirects to, after the session is revoked and the cookie deleted.\<close>

definition logout :: "(string \<Rightarrow> string) \<Rightarrow> int \<Rightarrow> string option \<Rightarrow> string \<Rightarrow> string \<Rightarrow> string \<Rightarrow> (db, string) py" where
  "logout sha now session_token end_session_endpoint client_id redirect_uri d =
     (Inr (end_session_endpoint @ ''?client_id='' @ quote_plus client_id
             @ ''&post_logout_redirect_uri='' @ quote_plus redirect_uri),
      revoke_user_session sha now session_token d)"

definition get_csrf_token :: "(string \<Rightarrow> string) \<Rightarrow> string \<Rightarrow> (string \<times> string) list \<times> (string \<times> string) list" where
  "get_csrf_token mac session_token =
     ([(''csrf_token'', make_csrf_token mac session_token)], [(''Cache-Control'', ''no-store'')])"

end
