(* ===== verification/VmServices.thy ===== *)
theory VmServices
  imports Compute
begin

text \<open>
  Ordering a virtual machine and its operations: portal/app/virtual_machines/services.py and
  router.py, and the request model of schemas.py. A service runs in one transaction. It holds
  a row lock (the user's quota, or the virtual machine) while it reads, but an insert of
  another user can still be committed before its own inserts are flushed; so a service takes
  the database its queries see (\<open>seen\<close>) and the database its flush meets (the state).
  The identifiers that \<open>uuid4\<close> draws are arguments.
\<close>

section \<open>The request\<close>

record VirtualMachineCreate =
  rq_vcpus :: int
  rq_memory_mb :: int
  rq_storage_gb :: int
  rq_image_id :: string
  rq_ssh_key :: uuid

definition is_lower_alnum :: "char \<Rightarrow> bool" where
  "is_lower_alnum c = (let n = of_char c :: nat in (97 \<le> n \<and> n \<le> 122) \<or> (48 \<le> n \<and> n \<le> 57))"

definition image_id_ok :: "string \<Rightarrow> bool" where
  "image_id_ok s \<longleftrightarrow>
     1 \<le> length s \<and> length s \<le> 100 \<and> is_lower_alnum (hd s)
     \<and> list_all (\<lambda>c. is_lower_alnum c \<or> c \<in> {CHR ''.'', CHR ''_'', CHR ''-''}) (tl s)"

text \<open>The validation of the body: the model as the handler receives it, or no handler call.\<close>

definition validate_vm_create :: "VirtualMachineCreate \<Rightarrow> VirtualMachineCreate option" where
  "validate_vm_create r =
     (let r' = r\<lparr>rq_image_id := strip (rq_image_id r)\<rparr> in
      if 0 < rq_vcpus r' \<and> 0 < rq_memory_mb r' \<and> 0 < rq_storage_gb r' \<and> image_id_ok (rq_image_id r')
      then Some r' else None)"

definition IMAGE_MIN_STORAGE_GB :: "string \<rightharpoonup> int" where
  "IMAGE_MIN_STORAGE_GB = [''almalinux-9'' \<mapsto> 10]"

section \<open>Creating a virtual machine\<close>

definition get_existing_vm_for_create_request ::
  "string \<Rightarrow> uuid \<Rightarrow> VirtualMachineCreate \<Rightarrow> db \<Rightarrow> exc + VirtualMachine option" where
  "get_existing_vm_for_create_request key user r d =
     (case row_get op_key key (operations d) of
        None \<Rightarrow> Inr None
      | Some operation \<Rightarrow>
          if op_type operation \<noteq> ''vm.create'' then Inl (ValueError ''idempotency key already used'')
          else (case get_vm (op_vm operation) d of
             None \<Rightarrow> Inl (RuntimeError ''operation references missing VM'')
           | Some vm \<Rightarrow>
               if vm_owner vm \<noteq> user then Inl (ValueError ''idempotency key already used'')
               else if \<not> (vm_vcpus vm = rq_vcpus r \<and> vm_memory_mb vm = rq_memory_mb r
                         \<and> vm_storage_gb vm = rq_storage_gb r \<and> vm_image vm = rq_image_id r
                         \<and> vm_ssh_key vm = Some (rq_ssh_key r))
               then Inl (ValueError ''idempotency key reused with different request'')
               else Inr (Some vm)))"

definition validate_vm_quota :: "ComputePlan \<Rightarrow> usage \<Rightarrow> VirtualMachineCreate \<Rightarrow> exc + unit" where
  "validate_vm_quota plan us r =
     (if used_vms us + 1 > max_vms plan then Inl (ValueError ''VM limit exceeded'')
      else if used_vcpus us + rq_vcpus r > max_total_vcpus plan then Inl (ValueError ''vCPU limit exceeded'')
      else if used_memory_mb us + rq_memory_mb r > max_total_memory_mb plan
        then Inl (ValueError ''memory limit exceeded'')
      else if used_storage_gb us + rq_storage_gb r > max_total_storage_gb plan
        then Inl (ValueError ''storage limit exceeded'')
      else Inr ())"

definition new_vm :: "uuid \<Rightarrow> int \<Rightarrow> uuid \<Rightarrow> VirtualMachineCreate \<Rightarrow> VirtualMachine" where
  "new_vm vid now user r =
     \<lparr>vm_id = vid, vm_owner = user, vm_status = ''pending'', vm_vcpus = rq_vcpus r,
      vm_memory_mb = rq_memory_mb r, vm_storage_gb = rq_storage_gb r, vm_image = rq_image_id r,
      vm_provider_vmid = None, vm_provider_node = None, vm_ssh_key = Some (rq_ssh_key r),
      vm_created = now, vm_updated = now\<rparr>"

definition new_operation :: "uuid \<Rightarrow> int \<Rightarrow> uuid \<Rightarrow> string \<Rightarrow> string option \<Rightarrow> string \<Rightarrow> Operation" where
  "new_operation oid now vid T phase key =
     \<lparr>op_id = oid, op_vm = vid, op_type = T, op_status = ''pending'', op_phase = phase, op_key = key,
      op_attempts = 0, op_error = None, op_task = None, op_created = now, op_updated = now\<rparr>"

text \<open>The two flushes: what the constraints of the tables refuse is an \<open>IntegrityError\<close>.\<close>

definition flush_vm :: "VirtualMachine \<Rightarrow> db \<Rightarrow> exc + db" where
  "flush_vm v d =
     (if vm_constraints v \<and> get_vm (vm_id v) d = None \<and> row_get usr_id (vm_owner v) (users d) \<noteq> None
         \<and> (case vm_ssh_key v of None \<Rightarrow> True | Some k \<Rightarrow> get_key k d \<noteq> None)
         \<and> vmid_unique (vms d @ [v])
      then Inr (d\<lparr>vms := vms d @ [v]\<rparr>) else Inl (IntegrityError ''virtual_machines''))"

definition flush_operation :: "Operation \<Rightarrow> db \<Rightarrow> exc + db" where
  "flush_operation op d =
     (if operation_constraints op \<and> get_op (op_id op) d = None \<and> get_vm (op_vm op) d \<noteq> None
         \<and> row_get op_key (op_key op) (operations d) = None
      then Inr (d\<lparr>operations := operations d @ [op]\<rparr>) else Inl (IntegrityError ''operations''))"

text \<open>The checks of the \<open>try\<close> block, up to the inserts; \<open>Some\<close> is an early return.\<close>

definition create_checks ::
  "uuid \<Rightarrow> VirtualMachineCreate \<Rightarrow> string \<Rightarrow> UserQuota \<Rightarrow> db \<Rightarrow> exc + VirtualMachine option" where
  "create_checks user r key quota seen =
     (case get_existing_vm_for_create_request key user r seen of
        Inl e \<Rightarrow> Inl e
      | Inr (Some vm) \<Rightarrow> Inr (Some vm)
      | Inr None \<Rightarrow>
          if quota_status quota \<noteq> ''active'' then Inl (PermissionError ''user quota is suspended'')
          else (case IMAGE_MIN_STORAGE_GB (rq_image_id r) of
             None \<Rightarrow> Inl (ValueError ''image is not allowed'')
           | Some minimum \<Rightarrow>
               if rq_storage_gb r < minimum
               then Inl (ValueError (''storage must be at least '' @ int_str minimum @ '' GB for this image''))
               else (case row_get plan_id (quota_plan quota) (plans seen) of
                  None \<Rightarrow> Inl (RuntimeError ''compute plan is missing'')
                | Some plan \<Rightarrow>
                    (case validate_vm_quota plan (get_user_compute_usage user seen) r of
                       Inl e \<Rightarrow> Inl e
                     | Inr _ \<Rightarrow> Inr None))))"

definition create_vm ::
  "uuid \<Rightarrow> uuid \<Rightarrow> int \<Rightarrow> uuid \<Rightarrow> VirtualMachineCreate \<Rightarrow> string \<Rightarrow> db \<Rightarrow> (db, VirtualMachine) py" where
  "create_vm vid oid now user r key seen d =
     (case find (\<lambda>k. key_id k = rq_ssh_key r \<and> key_owner k = user) (ssh_keys seen) of
        None \<Rightarrow> (Inl (ValueError ''SSH public key not found or does not belong to user''), d)
      | Some _ \<Rightarrow>
         (case row_get quota_user user (quotas seen) of
            None \<Rightarrow> (Inl (RuntimeError ''user quota is missing''), d)
          | Some quota \<Rightarrow>
             (case create_checks user r key quota seen of
                Inl e \<Rightarrow> (Inl e, d)
              | Inr (Some vm) \<Rightarrow> (Inr vm, d)
              | Inr None \<Rightarrow>
                 (let vm = new_vm vid now user r;
                      flushed = (case flush_vm vm d of
                                   Inl e \<Rightarrow> Inl e
                                 | Inr d1 \<Rightarrow> flush_operation
                                     (new_operation oid now vid ''vm.create'' (Some ''clone'') key) d1)
                  in case flushed of
                       Inr d2 \<Rightarrow> (Inr vm, d2)
                     | Inl _ \<Rightarrow>
                        (case get_existing_vm_for_create_request key user r d of
                           Inl e \<Rightarrow> (Inl e, d)
                         | Inr (Some vm) \<Rightarrow> (Inr vm, d)
                         | Inr None \<Rightarrow> (Inl (ValueError ''idempotency key already used''), d))))))"

section \<open>Ordering an operation\<close>

definition allowed_statuses :: "string \<Rightarrow> string list option" where
  "allowed_statuses T =
     (if T = ''vm.start'' then Some [''stopped'']
      else if T = ''vm.shutdown'' then Some [''running'']
      else if T = ''vm.stop'' then Some [''running'']
      else if T = ''vm.reboot'' then Some [''running'']
      else if T = ''vm.delete'' then Some [''stopped'']
      else None)"

definition enqueue_vm_operation ::
  "uuid \<Rightarrow> int \<Rightarrow> uuid \<Rightarrow> uuid \<Rightarrow> string \<Rightarrow> string \<Rightarrow> db \<Rightarrow> (db, Operation) py" where
  "enqueue_vm_operation oid now user vid T key seen d =
     (case allowed_statuses T of
        None \<Rightarrow> (Inl (ValueError ''unsupported VM operation''), d)
      | Some statuses \<Rightarrow>
         (case find (\<lambda>v. vm_id v = vid \<and> vm_owner v = user) (vms seen) of
            None \<Rightarrow> (Inl (LookupError ''virtual machine not found''), d)
          | Some vm \<Rightarrow>
             (case row_get op_key key (operations seen) of
                Some existing \<Rightarrow>
                  if op_vm existing \<noteq> vm_id vm \<or> op_type existing \<noteq> T
                  then (Inl (ValueError ''idempotency key already used''), d)
                  else (Inr existing, d)
              | None \<Rightarrow>
                  if list_ex (\<lambda>op. op_vm op = vid \<and> op_status op \<in> {''pending'', ''processing''}) (operations seen)
                  then (Inl (ValueError ''virtual machine already has an active operation''), d)
                  else if vm_status vm \<notin> set statuses
                  then (Inl (ValueError (''cannot perform '' @ T @ '' while VM is '' @ vm_status vm)), d)
                  else
                    (let operation = new_operation oid now (vm_id vm) T
                           (if T = ''vm.reboot'' then Some ''shutdown'' else None) key
                     in case flush_operation operation d of
                          Inr d' \<Rightarrow> (Inr operation, d')
                        | Inl _ \<Rightarrow>
                           (case row_get op_key key (operations d) of
                              None \<Rightarrow> (Inl (ValueError ''idempotency key already used''), d)
                            | Some existing \<Rightarrow>
                                if op_vm existing = vid \<and> op_type existing = T
                                then (Inr existing, d)
                                else (Inl (ValueError ''idempotency key already used''), d))))))"

section \<open>The endpoints\<close>

text \<open>
  An endpoint commits what the service left, or rolls back and maps the exception. A rolled
  back transaction leaves the database as the other transactions made it.
\<close>

definition create_my_vm ::
  "uuid \<Rightarrow> uuid \<Rightarrow> int \<Rightarrow> uuid \<Rightarrow> VirtualMachineCreate \<Rightarrow> uuid \<Rightarrow> db \<Rightarrow> (db, VirtualMachine) py" where
  "create_my_vm vid oid now user r key seen d =
     (case create_vm vid oid now user r (uuid_str key) seen d of
        (Inr vm, d') \<Rightarrow> (Inr vm, d')
      | (Inl e, _) \<Rightarrow>
         (case e of
            PermissionError m \<Rightarrow> (Inl (HTTPException 403 m), d)
          | ValueError m \<Rightarrow> (Inl (HTTPException 409 m), d)
          | _ \<Rightarrow> (Inl e, d)))"

definition enqueue_lifecycle_operation ::
  "uuid \<Rightarrow> int \<Rightarrow> uuid \<Rightarrow> uuid \<Rightarrow> string \<Rightarrow> uuid \<Rightarrow> db \<Rightarrow> (db, Operation) py" where
  "enqueue_lifecycle_operation oid now user vid T key seen d =
     (case enqueue_vm_operation oid now user vid T (uuid_str key) seen d of
        (Inr operation, d') \<Rightarrow> (Inr operation, d')
      | (Inl e, _) \<Rightarrow>
         (case e of
            LookupError m \<Rightarrow> (Inl (HTTPException 404 m), d)
          | ValueError m \<Rightarrow> (Inl (HTTPException 409 m), d)
          | _ \<Rightarrow> (Inl e, d)))"

text \<open>The five endpoints, by the last segment of their path.\<close>

definition lifecycle_endpoints :: "(string \<times> string) list" where
  "lifecycle_endpoints =
     [(''start'', ''vm.start''), (''shutdown'', ''vm.shutdown''), (''stop'', ''vm.stop''),
      (''reboot'', ''vm.reboot''), (''delete'', ''vm.delete'')]"

definition post_lifecycle ::
  "string \<Rightarrow> uuid \<Rightarrow> int \<Rightarrow> uuid \<Rightarrow> uuid \<Rightarrow> uuid \<Rightarrow> db \<Rightarrow> (db, Operation) py" where
  "post_lifecycle action oid now user vid key seen d =
     (case map_of lifecycle_endpoints action of
        None \<Rightarrow> (Inl (HTTPException 404 ''Not Found''), d)
      | Some T \<Rightarrow> enqueue_lifecycle_operation oid now user vid T key seen d)"

definition my_vms :: "uuid \<Rightarrow> db \<Rightarrow> VirtualMachine list" where
  "my_vms user d = sort_key (\<lambda>v. - vm_created v) (filter (\<lambda>v. vm_owner v = user) (vms d))"

text \<open>The join of an operation with its virtual machine.\<close>

definition operation_status :: "uuid \<Rightarrow> uuid \<Rightarrow> uuid \<Rightarrow> db \<Rightarrow> exc + Operation" where
  "operation_status user vid oid d =
     (case find (\<lambda>op. op_id op = oid
                 \<and> list_ex (\<lambda>v. vm_id v = vid \<and> op_vm op = vm_id v \<and> vm_owner v = user) (vms d))
             (operations d) of
        None \<Rightarrow> Inl (HTTPException 404 ''Operation not found'')
      | Some operation \<Rightarrow> Inr operation)"

end
