(* ===== verification/OperationCore.thy ===== *)
theory OperationCore
  imports Models
begin

text \<open>
  The database session in which the functions of portal/app/operations/services.py work: the
  operation object they mutate, the virtual machine \<open>db.get\<close> returns for it, the SSH keys they
  read, and the provider's state. An exception keeps the mutations made before it: whether
  they are rolled back is decided by the transaction, not by the function. The two helpers
  shared by all flows are here too.
\<close>

record 'p sess =
  s_op :: Operation
  s_vm :: "VirtualMachine option"
  s_keys :: "SshPublicKey list"
  s_prov :: 'p

definition py_then :: "('s, unit) py \<Rightarrow> ('s, 'a) py \<Rightarrow> ('s, 'a) py" where
  "py_then m n = py_bind m (\<lambda>_. n)"

definition update_op :: "(Operation \<Rightarrow> Operation) \<Rightarrow> ('p sess, unit) py" where
  "update_op f s = (Inr (), s\<lparr>s_op := f (s_op s)\<rparr>)"

definition update_vm :: "(VirtualMachine \<Rightarrow> VirtualMachine) \<Rightarrow> ('p sess, unit) py" where
  "update_vm f s = (Inr (), s\<lparr>s_vm := map_option f (s_vm s)\<rparr>)"

definition set_vm_status :: "string \<Rightarrow> ('p sess, unit) py" where
  "set_vm_status st = update_vm (\<lambda>v. v\<lparr>vm_status := st\<rparr>)"

text \<open>\<open>await adapter.method(...)\<close>: the provider's state changes, the session does not.\<close>

definition provider :: "('p, 'a) py \<Rightarrow> ('p sess, 'a) py" where
  "provider m s = (case m (s_prov s) of (r, p) \<Rightarrow> (r, s\<lparr>s_prov := p\<rparr>))"

lemma update_op_apply [simp, py_simps]: "update_op f s = (Inr (), s\<lparr>s_op := f (s_op s)\<rparr>)"
  by (simp add: update_op_def)

lemma update_vm_apply [simp, py_simps]: "update_vm f s = (Inr (), s\<lparr>s_vm := map_option f (s_vm s)\<rparr>)"
  by (simp add: update_vm_def)

lemma set_vm_status_apply [simp, py_simps]:
  "set_vm_status st s = (Inr (), s\<lparr>s_vm := map_option (\<lambda>v. v\<lparr>vm_status := st\<rparr>) (s_vm s)\<rparr>)"
  by (simp add: set_vm_status_def)

lemma outcome_then [vc]:
  "outcome (py_then m n s) Q E = outcome (m s) (\<lambda>_ t. outcome (n t) Q E) E"
  by (simp add: py_then_def outcome_bind)

lemma outcome_provider [vc]:
  "outcome (provider m s) Q E \<longleftrightarrow>
     (\<forall>x p. m (s_prov s) = (Inr x, p) \<longrightarrow> Q x (s\<lparr>s_prov := p\<rparr>))
     \<and> (\<forall>e p. m (s_prov s) = (Inl e, p) \<longrightarrow> E e (s\<lparr>s_prov := p\<rparr>))"
  by (auto simp: outcome_def provider_def split: prod.splits sum.splits)

lemmas outcome_updates [vc] = update_op_apply update_vm_apply set_vm_status_apply

section \<open>Helpers of operations/services.py\<close>

text \<open>\<open>_get_lifecycle_vm\<close>, with the node and the VMID it guarantees.\<close>

definition get_lifecycle_vm :: "('p sess, VirtualMachine \<times> string \<times> int) py" where
  "get_lifecycle_vm s =
     (case s_vm s of
        None \<Rightarrow> py_raise (RuntimeError ''virtual machine is missing'') s
      | Some vm \<Rightarrow>
         (case (vm_provider_node vm, vm_provider_vmid vm) of
            (Some node, Some vmid) \<Rightarrow> py_ret (vm, node, vmid) s
          | _ \<Rightarrow> py_raise (RuntimeError ''virtual machine has incomplete provider placement'') s))"

definition build_create_vm_request :: "VirtualMachine \<Rightarrow> ('p sess, CreateVmRequest) py" where
  "build_create_vm_request vm s =
     (case vm_ssh_key vm of
        None \<Rightarrow> py_raise (RuntimeError ''virtual machine has no SSH public key'') s
      | Some kid \<Rightarrow>
         (case row_get key_id kid (s_keys s) of
            None \<Rightarrow> py_raise (RuntimeError ''virtual machine references missing SSH public key'') s
          | Some key \<Rightarrow>
              if key_owner key \<noteq> vm_owner vm
              then py_raise (RuntimeError ''SSH public key belongs to another user'') s
              else py_ret \<lparr>req_vm_id = vm_id vm, req_image_id = vm_image vm, req_vcpus = vm_vcpus vm,
                     req_memory_mb = vm_memory_mb vm, req_storage_gb = vm_storage_gb vm,
                     req_ssh_public_key = key_public key\<rparr> s))"

text \<open>\<open>task_status.error_code or "provider_task_failed"\<close>.\<close>

definition task_error :: "ProviderTaskStatus \<Rightarrow> string" where
  "task_error status =
     (if or_empty (ts_error_code status) = [] then ''provider_task_failed''
      else or_empty (ts_error_code status))"

definition placed :: "VirtualMachine \<Rightarrow> bool" where
  "placed vm \<longleftrightarrow> vm_provider_node vm \<noteq> None \<and> vm_provider_vmid vm \<noteq> None"

lemma get_lifecycle_vm_placed [vc]:
  "s_vm s = Some v \<Longrightarrow> vm_provider_node v = Some node \<Longrightarrow> vm_provider_vmid v = Some vmid \<Longrightarrow>
   get_lifecycle_vm s = (Inr (v, node, vmid), s)"
  by (simp add: get_lifecycle_vm_def)

text \<open>The request of a virtual machine whose key exists and belongs to the same owner.\<close>

definition request_for :: "SshPublicKey list \<Rightarrow> VirtualMachine \<Rightarrow> CreateVmRequest option" where
  "request_for keys vm =
     (case vm_ssh_key vm of
        None \<Rightarrow> None
      | Some kid \<Rightarrow>
         (case row_get key_id kid keys of
            None \<Rightarrow> None
          | Some key \<Rightarrow>
              if key_owner key \<noteq> vm_owner vm then None
              else Some \<lparr>req_vm_id = vm_id vm, req_image_id = vm_image vm, req_vcpus = vm_vcpus vm,
                     req_memory_mb = vm_memory_mb vm, req_storage_gb = vm_storage_gb vm,
                     req_ssh_public_key = key_public key\<rparr>))"

lemma build_create_vm_request_Inr_iff [py_simps]:
  "build_create_vm_request vm s = (Inr req, t) \<longleftrightarrow> t = s \<and> request_for (s_keys s) vm = Some req"
  by (auto simp: build_create_vm_request_def request_for_def split: option.splits)

lemma build_create_vm_request_InlD:
  "build_create_vm_request vm s = (Inl e, t) \<Longrightarrow> t = s \<and> request_for (s_keys s) vm = None"
  by (auto simp: build_create_vm_request_def request_for_def split: option.splits if_splits)

lemma build_create_vm_request_eq [vc]:
  "request_for (s_keys s) vm = Some req \<Longrightarrow> build_create_vm_request vm s = (Inr req, s)"
  by (auto simp: build_create_vm_request_def request_for_def split: option.splits if_splits)

lemma request_for_vm_id: "request_for keys vm = Some req \<Longrightarrow> req_vm_id req = vm_id vm"
  by (auto simp: request_for_def split: option.splits if_splits)

end
