(* ===== verification/CreateFlow.thy ===== *)
theory CreateFlow
  imports OperationCore
begin

text \<open>
  The steps of a \<open>vm.create\<close> operation (portal/app/operations/services.py): the direct steps
  \<open>start_create_vm_operation\<close>, \<open>start_configure_vm_operation\<close>, \<open>start_resize_vm_operation\<close>,
  \<open>start_initial_vm_operation\<close> and \<open>refresh_create_vm_operation\<close>, their dispatcher
  \<open>process_create_vm_operation\<close>, and the protocol the worker uses around a command:
  prepare, finish, reconcile. \<open>now\<close> is the value of \<open>datetime.now(UTC)\<close>.
\<close>

section \<open>Direct steps\<close>

definition start_create_vm_operation :: "int \<Rightarrow> 'p ProxmoxAdapter \<Rightarrow> ('p sess, unit) py" where
  "start_create_vm_operation now A s =
     (let operation = s_op s in
      if op_type operation \<noteq> ''vm.create''
        then py_raise (RuntimeError ''invalid operation type'') s
      else if op_status operation \<noteq> ''pending''
        then py_raise (RuntimeError ''operation is not pending'') s
      else if op_task operation \<noteq> None
        then py_raise (RuntimeError ''operation has already been started'') s
      else if op_phase operation \<noteq> Some ''clone''
        then py_raise (RuntimeError ''operation is not in clone phase'') s
      else case s_vm s of
        None \<Rightarrow> py_raise (RuntimeError ''virtual machine is missing'') s
      | Some vm \<Rightarrow>
          py_bind (build_create_vm_request vm) (\<lambda>request.
            case (vm_provider_node vm, vm_provider_vmid vm) of
              (None, None) \<Rightarrow>
                py_bind (provider (choose_clone_target A request)) (\<lambda>target.
                  update_vm (\<lambda>v. v\<lparr>vm_provider_node := Some (place_node target),
                                   vm_provider_vmid := Some (place_vmid target)\<rparr>))
            | (Some node, Some vmid) \<Rightarrow>
                py_bind (provider (clone_vm A request node vmid)) (\<lambda>result.
                  if clone_state result = ''submitted'' then
                    (case clone_task result of
                       None \<Rightarrow> py_raise (RuntimeError ''submitted clone has no provider task'')
                     | Some task \<Rightarrow>
                         if task_node task \<noteq> node \<or> task_vmid task \<noteq> vmid
                         then py_raise (RuntimeError ''provider task targets another virtual machine'')
                         else py_then (update_op (\<lambda>op. op\<lparr>op_task := Some (task_id task),
                                                         op_status := ''processing''\<rparr>))
                                (set_vm_status ''provisioning''))
                  else if clone_state result = ''in_progress'' then
                    (if clone_task result \<noteq> None
                     then py_raise (RuntimeError ''recovered clone unexpectedly has a provider task'')
                     else py_then (update_op (\<lambda>op. op\<lparr>op_updated := now\<rparr>))
                            (set_vm_status ''provisioning''))
                  else if clone_state result = ''succeeded'' then
                    (if clone_task result \<noteq> None
                     then py_raise (RuntimeError ''recovered clone unexpectedly has a provider task'')
                     else py_then (update_op (\<lambda>op. op\<lparr>op_phase := Some ''configure'',
                                     op_status := ''pending'', op_task := None, op_error := None\<rparr>))
                            (set_vm_status ''provisioning''))
                  else py_raise (RuntimeError (''unknown clone result state: '' @ clone_state result)))
            | _ \<Rightarrow> py_raise (RuntimeError ''incomplete provider placement'')) s)"

text \<open>
  The three later steps share their guards: status, phase, a virtual machine with a node and
  a VMID. Each is written out as in the source.
\<close>

definition start_configure_vm_operation :: "'p ProxmoxAdapter \<Rightarrow> ('p sess, unit) py" where
  "start_configure_vm_operation A s =
     (let operation = s_op s in
      if op_status operation \<noteq> ''pending''
        then py_raise (RuntimeError ''operation is not pending'') s
      else if op_phase operation \<noteq> Some ''configure''
        then py_raise (RuntimeError ''operation phase is not configure'') s
      else case s_vm s of
        None \<Rightarrow> py_raise (RuntimeError ''virtual machine is missed'') s
      | Some vm \<Rightarrow>
         (case vm_provider_node vm of
            None \<Rightarrow> py_raise (RuntimeError ''virtual machine provider node is missed'') s
          | Some node \<Rightarrow>
         (case vm_provider_vmid vm of
            None \<Rightarrow> py_raise (RuntimeError ''virtual machine provider vmid is missed'') s
          | Some vmid \<Rightarrow>
              py_bind (build_create_vm_request vm) (\<lambda>request.
              py_bind (provider (configure_vm A request node vmid)) (\<lambda>task.
                case task of
                  None \<Rightarrow> update_op (\<lambda>op. op\<lparr>op_phase := Some ''resize'', op_status := ''pending'',
                                           op_task := None\<rparr>)
                | Some t \<Rightarrow> update_op (\<lambda>op. op\<lparr>op_phase := Some ''configure'',
                                     op_status := ''processing'', op_task := Some (task_id t)\<rparr>))) s)))"

definition start_resize_vm_operation :: "'p ProxmoxAdapter \<Rightarrow> ('p sess, unit) py" where
  "start_resize_vm_operation A s =
     (let operation = s_op s in
      if op_status operation \<noteq> ''pending''
        then py_raise (RuntimeError ''operation is not pending'') s
      else if op_phase operation \<noteq> Some ''resize''
        then py_raise (RuntimeError ''operation phase is not resize'') s
      else case s_vm s of
        None \<Rightarrow> py_raise (RuntimeError ''virtual machine is missed'') s
      | Some vm \<Rightarrow>
         (case vm_provider_node vm of
            None \<Rightarrow> py_raise (RuntimeError ''virtual machine provider node is missed'') s
          | Some node \<Rightarrow>
         (case vm_provider_vmid vm of
            None \<Rightarrow> py_raise (RuntimeError ''virtual machine provider vmid is missed'') s
          | Some vmid \<Rightarrow>
              py_bind (build_create_vm_request vm) (\<lambda>request.
              py_bind (provider (resize_vm_disk A request node vmid)) (\<lambda>task.
                case task of
                  None \<Rightarrow> update_op (\<lambda>op. op\<lparr>op_phase := Some ''start'', op_status := ''pending'',
                                           op_task := None\<rparr>)
                | Some t \<Rightarrow> update_op (\<lambda>op. op\<lparr>op_status := ''processing'',
                                           op_task := Some (task_id t)\<rparr>))) s)))"

definition start_initial_vm_operation :: "'p ProxmoxAdapter \<Rightarrow> ('p sess, unit) py" where
  "start_initial_vm_operation A s =
     (let operation = s_op s in
      if op_status operation \<noteq> ''pending''
        then py_raise (RuntimeError ''operation is not pending'') s
      else if op_phase operation \<noteq> Some ''start''
        then py_raise (RuntimeError ''operation phase is not start'') s
      else case s_vm s of
        None \<Rightarrow> py_raise (RuntimeError ''virtual machine is missed'') s
      | Some vm \<Rightarrow>
         (case vm_provider_node vm of
            None \<Rightarrow> py_raise (RuntimeError ''virtual machine provider node is missed'') s
          | Some node \<Rightarrow>
         (case vm_provider_vmid vm of
            None \<Rightarrow> py_raise (RuntimeError ''virtual machine provider vmid is missed'') s
          | Some vmid \<Rightarrow>
              py_bind (provider (start_vm A (vm_id vm) node vmid)) (\<lambda>task.
                case task of
                  None \<Rightarrow> py_then (update_op (\<lambda>op. op\<lparr>op_phase := Some ''complete'',
                              op_status := ''succeeded'', op_task := None, op_error := None\<rparr>))
                            (set_vm_status ''running'')
                | Some t \<Rightarrow> update_op (\<lambda>op. op\<lparr>op_task := Some (task_id t),
                                           op_status := ''processing''\<rparr>)) s)))"

definition refresh_create_vm_operation :: "int \<Rightarrow> 'p ProxmoxAdapter \<Rightarrow> ('p sess, unit) py" where
  "refresh_create_vm_operation now A s =
     (let operation = s_op s in
      if op_type operation \<noteq> ''vm.create''
        then py_raise (RuntimeError ''invalid operation type'') s
      else if op_status operation \<noteq> ''processing''
        then py_raise (RuntimeError ''operation is not processing'') s
      else case op_task operation of
        None \<Rightarrow> py_raise (RuntimeError ''operation has no provider task id'') s
      | Some upid \<Rightarrow>
      (case s_vm s of
        None \<Rightarrow> py_raise (RuntimeError ''virtual machine is missing'') s
      | Some vm \<Rightarrow>
      (case vm_provider_vmid vm of
        None \<Rightarrow> py_raise (RuntimeError ''virtual machine has no provider VMID'') s
      | Some vmid \<Rightarrow>
      (case vm_provider_node vm of
        None \<Rightarrow> py_raise (RuntimeError ''virtual machine has no provider node'') s
      | Some node \<Rightarrow>
         py_bind (provider (get_task_status A \<lparr>task_id = upid, task_vmid = vmid, task_node = node\<rparr>))
           (\<lambda>status.
             if ts_status status = ''running''
               then update_op (\<lambda>op. op\<lparr>op_error := None, op_updated := now\<rparr>)
             else if ts_status status = ''succeeded'' then
               py_then
                 (if op_phase operation = Some ''clone''
                    then update_op (\<lambda>op. op\<lparr>op_phase := Some ''configure'', op_status := ''pending''\<rparr>)
                  else if op_phase operation = Some ''configure''
                    then update_op (\<lambda>op. op\<lparr>op_phase := Some ''resize'', op_status := ''pending''\<rparr>)
                  else if op_phase operation = Some ''resize''
                    then update_op (\<lambda>op. op\<lparr>op_phase := Some ''start'', op_status := ''pending''\<rparr>)
                  else if op_phase operation = Some ''start''
                    then py_then (update_op (\<lambda>op. op\<lparr>op_phase := Some ''complete'', op_status := ''succeeded''\<rparr>))
                           (set_vm_status ''running'')
                  else py_raise (RuntimeError (''unsupported create phase: '' @ fstr (op_phase operation))))
                 (update_op (\<lambda>op. op\<lparr>op_task := None, op_error := None\<rparr>))
             else if ts_status status = ''failed'' then
               py_then (update_op (\<lambda>op. op\<lparr>op_status := ''failed'',
                          op_error := Some (task_error status)\<rparr>))
                 (set_vm_status ''failed'')
             else py_raise (RuntimeError ''unknown provider task status'')) s))))"

definition process_create_vm_operation :: "int \<Rightarrow> 'p ProxmoxAdapter \<Rightarrow> ('p sess, unit) py" where
  "process_create_vm_operation now A s =
     (let operation = s_op s in
      if op_status operation = ''pending'' then
        (if op_phase operation = Some ''clone'' then start_create_vm_operation now A s
         else if op_phase operation = Some ''configure'' then start_configure_vm_operation A s
         else if op_phase operation = Some ''resize'' then start_resize_vm_operation A s
         else if op_phase operation = Some ''start'' then start_initial_vm_operation A s
         else py_raise (RuntimeError (''unsupported create phase: '' @ fstr (op_phase operation))) s)
      else if op_status operation = ''processing'' then refresh_create_vm_operation now A s
      else py_raise (RuntimeError ''operation cannot be processed'') s)"

section \<open>Prepare, finish, reconcile\<close>

definition prepare_create_vm_dispatch ::
  "int \<Rightarrow> ('p sess, CreateVmRequest option \<times> ProviderPlacement) py" where
  "prepare_create_vm_dispatch now s =
     (let operation = s_op s in
      if op_type operation \<noteq> ''vm.create'' \<or> op_status operation \<noteq> ''pending''
        then py_raise (RuntimeError ''operation is not a pending VM create'') s
      else if op_task operation \<noteq> None
        then py_raise (RuntimeError ''pending create already has a provider task'') s
      else if op_phase operation \<notin> {Some ''clone'', Some ''configure'', Some ''resize'', Some ''start''}
        then py_raise (RuntimeError (''unsupported create phase: '' @ fstr (op_phase operation))) s
      else
        py_bind get_lifecycle_vm (\<lambda>(vm, node, vmid).
        py_bind (if op_phase operation = Some ''start'' then py_ret None
                 else py_bind (build_create_vm_request vm) (\<lambda>r. py_ret (Some r))) (\<lambda>request.
        py_then (update_op (\<lambda>op. op\<lparr>op_status := ''processing'',
                   op_phase := Some (''dispatch_create_'' @ fstr (op_phase op)),
                   op_attempts := op_attempts op + 1, op_updated := now\<rparr>))
          (py_ret (request, \<lparr>place_node = node, place_vmid = vmid\<rparr>)))) s)"

text \<open>The end of \<open>finish_create_vm_dispatch\<close>, reached with a task or without one.\<close>

definition finish_create_task ::
  "string \<Rightarrow> string \<Rightarrow> int \<Rightarrow> ProviderTask option \<Rightarrow> ('p sess, unit) py" where
  "finish_create_task phase node vmid task =
     (case task of
        Some t \<Rightarrow>
          if task_node t \<noteq> node \<or> task_vmid t \<noteq> vmid
          then py_raise (RuntimeError ''provider task targets another virtual machine'')
          else update_op (\<lambda>op. op\<lparr>op_task := Some (task_id t), op_phase := Some phase, op_error := None\<rparr>)
      | None \<Rightarrow>
          py_then
            (if phase = ''configure''
               then update_op (\<lambda>op. op\<lparr>op_status := ''pending'', op_phase := Some ''resize''\<rparr>)
             else if phase = ''resize''
               then update_op (\<lambda>op. op\<lparr>op_status := ''pending'', op_phase := Some ''start''\<rparr>)
             else if phase = ''start''
               then py_then (update_op (\<lambda>op. op\<lparr>op_status := ''succeeded'', op_phase := Some ''complete''\<rparr>))
                      (set_vm_status ''running'')
             else py_raise (RuntimeError (''unsupported create dispatch phase: '' @ phase)))
            (update_op (\<lambda>op. op\<lparr>op_error := None\<rparr>)))"

definition finish_create_vm_dispatch :: "int \<Rightarrow> string \<Rightarrow> reply \<Rightarrow> ('p sess, unit) py" where
  "finish_create_vm_dispatch now phase result s =
     (let operation = s_op s in
      if op_type operation \<noteq> ''vm.create'' \<or> op_status operation \<noteq> ''processing''
        then py_raise (RuntimeError ''operation is not dispatching VM create'') s
      else if op_phase operation \<noteq> Some (''dispatch_create_'' @ phase) \<or> op_task operation \<noteq> None
        then py_raise (RuntimeError ''VM create dispatch state changed'') s
      else
        py_bind get_lifecycle_vm (\<lambda>(vm, node, vmid).
          if phase = ''clone'' then
            (case result of
               CloneReply r \<Rightarrow>
                 if clone_state r = ''in_progress'' then
                   (if clone_task r \<noteq> None
                    then py_raise (RuntimeError ''in-progress clone unexpectedly has a provider task'')
                    else py_then (update_op (\<lambda>op. op\<lparr>op_phase := Some ''reconcile_create_clone'',
                                    op_error := Some ''provider_outcome_unknown'', op_updated := now\<rparr>))
                           (set_vm_status ''provisioning''))
                 else if clone_state r = ''succeeded'' then
                   (if clone_task r \<noteq> None
                    then py_raise (RuntimeError ''completed clone unexpectedly has a provider task'')
                    else py_then (update_op (\<lambda>op. op\<lparr>op_status := ''pending'',
                                    op_phase := Some ''configure'', op_error := None\<rparr>))
                           (set_vm_status ''provisioning''))
                 else if clone_state r \<noteq> ''submitted'' \<or> clone_task r = None
                   then py_raise (RuntimeError ''submitted clone has no provider task'')
                 else py_then (set_vm_status ''provisioning'')
                        (finish_create_task phase node vmid (clone_task r))
             | _ \<Rightarrow> py_raise (RuntimeError ''invalid provider clone result''))
          else
            (case result of
               TaskReply t \<Rightarrow> finish_create_task phase node vmid t
             | _ \<Rightarrow> py_raise (RuntimeError ''invalid provider task result''))) s)"

definition create_reconcile_phases :: "string list" where
  "create_reconcile_phases =
     [''dispatch_create_clone'', ''reconcile_create_clone'',
      ''dispatch_create_configure'', ''reconcile_create_configure'',
      ''dispatch_create_resize'', ''reconcile_create_resize'',
      ''dispatch_create_start'', ''reconcile_create_start'']"

text \<open>The last lines of \<open>reconcile_create_vm_operation\<close>: the outcome stays unknown.\<close>

definition create_outcome_unknown :: "int \<Rightarrow> string \<Rightarrow> ('p sess, unit) py" where
  "create_outcome_unknown now phase =
     update_op (\<lambda>op. op\<lparr>
       op_phase := Some (if ends_with ''_configure'' phase \<or> ends_with ''_resize'' phase
                         then replace1 ''reconcile_'' ''needs_review_''
                                (replace1 ''dispatch_'' ''needs_review_'' phase)
                         else replace1 ''dispatch_'' ''reconcile_'' phase),
       op_error := Some ''provider_outcome_unknown'', op_updated := now\<rparr>)"

definition reconcile_create_vm_operation :: "int \<Rightarrow> 'p ProxmoxAdapter \<Rightarrow> ('p sess, unit) py" where
  "reconcile_create_vm_operation now A s =
     (let operation = s_op s in
      if op_type operation \<noteq> ''vm.create'' \<or> op_status operation \<noteq> ''processing''
        then py_raise (RuntimeError ''invalid create operation'') s
      else if op_task operation \<noteq> None
        then py_raise (RuntimeError ''reconciling create already has a provider task'') s
      else if op_phase operation \<notin> Some ` set create_reconcile_phases
        then py_raise (RuntimeError (''unsupported create reconciliation phase: '' @ fstr (op_phase operation))) s
      else
        (let phase = fstr (op_phase operation) in
         py_bind get_lifecycle_vm (\<lambda>(vm, node, vmid).
           if ends_with ''_clone'' phase \<or> ends_with ''_start'' phase then
             py_bind (provider (get_vm_power_state A (vm_id vm) node vmid)) (\<lambda>state.
               if ends_with ''_clone'' phase \<and> power_status state = ''stopped'' \<and> \<not> power_locked state
                 then py_then (update_op (\<lambda>op. op\<lparr>op_status := ''pending'', op_phase := Some ''configure'',
                                 op_error := None\<rparr>))
                        (set_vm_status ''provisioning'')
               else if ends_with ''_start'' phase \<and> power_status state = ''running'' \<and> \<not> power_locked state
                 then py_then (update_op (\<lambda>op. op\<lparr>op_status := ''succeeded'', op_phase := Some ''complete'',
                                 op_error := None\<rparr>))
                        (set_vm_status ''running'')
               else create_outcome_unknown now phase)
           else create_outcome_unknown now phase) s))"

end
