(* ===== verification/StartFlow.thy ===== *)
theory StartFlow
  imports OperationCore
begin

text \<open>
  The steps of a \<open>vm.start\<close> operation (portal/app/operations/services.py): the poll of a known
  task, and prepare, finish and reconcile around the start command.
\<close>

definition process_start_vm_operation :: "int \<Rightarrow> 'p ProxmoxAdapter \<Rightarrow> ('p sess, unit) py" where
  "process_start_vm_operation now A s =
     (let operation = s_op s in
      if op_type operation \<noteq> ''vm.start''
        then py_raise (RuntimeError ''invalid operation type'') s
      else if op_status operation \<noteq> ''processing''
        then py_raise (RuntimeError ''operation cannot be processed'') s
      else case s_vm s of
        None \<Rightarrow> py_raise (RuntimeError ''virtual machine is missed'') s
      | Some vm \<Rightarrow>
      (case vm_provider_node vm of
        None \<Rightarrow> py_raise (RuntimeError ''virtual machine provider node is missed'') s
      | Some node \<Rightarrow>
      (case vm_provider_vmid vm of
        None \<Rightarrow> py_raise (RuntimeError ''virtual machine provider vmid is missed'') s
      | Some vmid \<Rightarrow>
      (case op_task operation of
        None \<Rightarrow> py_raise (RuntimeError ''processing operation has no provider task'') s
      | Some upid \<Rightarrow>
         py_bind (provider (get_task_status A \<lparr>task_id = upid, task_vmid = vmid, task_node = node\<rparr>))
           (\<lambda>status.
             if ts_status status = ''running''
               then update_op (\<lambda>op. op\<lparr>op_phase := Some ''await_task'', op_error := None, op_updated := now\<rparr>)
             else if ts_status status = ''succeeded'' then
               py_then (update_op (\<lambda>op. op\<lparr>op_status := ''succeeded'', op_phase := Some ''complete'',
                          op_task := None, op_error := None\<rparr>))
                 (set_vm_status ''running'')
             else if ts_status status = ''failed'' then
               update_op (\<lambda>op. op\<lparr>op_status := ''failed'',
                   op_error := Some (task_error status)\<rparr>)
             else py_raise (RuntimeError (''unknown provider task status: '' @ ts_status status))) s))))"

definition prepare_start_vm_dispatch :: "int \<Rightarrow> ('p sess, ProviderPlacement) py" where
  "prepare_start_vm_dispatch now s =
     (let operation = s_op s in
      if op_type operation \<noteq> ''vm.start'' \<or> op_status operation \<noteq> ''pending''
        then py_raise (RuntimeError ''operation is not a pending VM start'') s
      else if op_task operation \<noteq> None
        then py_raise (RuntimeError ''pending operation already has a provider task'') s
      else
        py_bind get_lifecycle_vm (\<lambda>(vm, node, vmid).
        py_then (update_op (\<lambda>op. op\<lparr>op_status := ''processing'', op_phase := Some ''dispatching'',
                   op_attempts := op_attempts op + 1, op_updated := now\<rparr>))
          (py_ret \<lparr>place_node = node, place_vmid = vmid\<rparr>)) s)"

definition finish_start_vm_dispatch :: "ProviderTask option \<Rightarrow> ('p sess, unit) py" where
  "finish_start_vm_dispatch task s =
     (let operation = s_op s in
      if op_type operation \<noteq> ''vm.start'' \<or> op_phase operation \<noteq> Some ''dispatching''
        then py_raise (RuntimeError ''VM start is not dispatching'') s
      else if op_status operation \<noteq> ''processing'' \<or> op_task operation \<noteq> None
        then py_raise (RuntimeError ''invalid VM start dispatch state'') s
      else
        py_bind get_lifecycle_vm (\<lambda>(vm, node, vmid).
          case task of
            None \<Rightarrow>
              py_then (update_op (\<lambda>op. op\<lparr>op_status := ''succeeded'', op_phase := Some ''complete'',
                         op_error := None\<rparr>))
                (set_vm_status ''running'')
          | Some t \<Rightarrow>
              if task_node t \<noteq> node \<or> task_vmid t \<noteq> vmid
              then py_raise (RuntimeError ''provider task targets another virtual machine'')
              else update_op (\<lambda>op. op\<lparr>op_task := Some (task_id t), op_phase := Some ''await_task'',
                     op_error := None\<rparr>)) s)"

definition reconcile_start_vm_operation :: "int \<Rightarrow> 'p ProxmoxAdapter \<Rightarrow> ('p sess, unit) py" where
  "reconcile_start_vm_operation now A s =
     (let operation = s_op s in
      if op_type operation \<noteq> ''vm.start'' \<or> op_status operation \<noteq> ''processing''
        then py_raise (RuntimeError ''invalid VM start operation'') s
      else if op_phase operation \<notin> {Some ''dispatching'', Some ''reconcile''}
        then py_raise (RuntimeError ''VM start does not need reconciliation'') s
      else if op_task operation \<noteq> None
        then py_raise (RuntimeError ''reconciling operation already has a provider task'') s
      else
        py_bind get_lifecycle_vm (\<lambda>(vm, node, vmid).
        py_bind (provider (get_vm_power_state A (vm_id vm) node vmid)) (\<lambda>state.
          if power_status state = ''running'' \<and> \<not> power_locked state
          then py_then (update_op (\<lambda>op. op\<lparr>op_status := ''succeeded'', op_phase := Some ''complete'',
                          op_error := None\<rparr>))
                 (set_vm_status ''running'')
          else update_op (\<lambda>op. op\<lparr>op_phase := Some ''reconcile'',
                 op_error := Some ''provider_outcome_unknown'', op_updated := now\<rparr>))) s)"

end
