(* ===== verification/LifecycleFlow.thy ===== *)
theory LifecycleFlow
  imports OperationCore
begin

text \<open>
  The steps of \<open>vm.shutdown\<close>, \<open>vm.stop\<close>, \<open>vm.reboot\<close> and \<open>vm.delete\<close>
  (portal/app/operations/services.py): prepare, finish and reconcile around a command, and
  the three \<open>process_*\<close> functions, which poll a known task (and, on a pending operation that
  the worker no longer sends their way, submit directly).
\<close>

section \<open>Prepare, finish, reconcile\<close>

definition lifecycle_command :: "Operation \<Rightarrow> string option" where
  "lifecycle_command operation =
     (if op_type operation = ''vm.shutdown'' then Some ''shutdown''
      else if op_type operation = ''vm.stop'' then Some ''stop''
      else if op_type operation = ''vm.delete'' then Some ''delete''
      else if op_type operation = ''vm.reboot'' \<and> op_phase operation \<in> {Some ''shutdown'', Some ''start''}
        then op_phase operation
      else None)"

definition prepare_lifecycle_dispatch :: "int \<Rightarrow> ('p sess, string \<times> ProviderPlacement) py" where
  "prepare_lifecycle_dispatch now s =
     (let operation = s_op s in
      if op_status operation \<noteq> ''pending'' \<or> op_task operation \<noteq> None
        then py_raise (RuntimeError ''lifecycle operation is not ready for dispatch'') s
      else case lifecycle_command operation of
        None \<Rightarrow> py_raise (RuntimeError ''unsupported lifecycle operation'') s
      | Some command \<Rightarrow>
          py_bind get_lifecycle_vm (\<lambda>(vm, node, vmid).
          py_then (update_op (\<lambda>op. op\<lparr>op_status := ''processing'',
                     op_phase := Some (if op_type op = ''vm.reboot'' then ''dispatch_reboot_'' @ command
                                       else ''dispatch_'' @ command),
                     op_attempts := op_attempts op + 1, op_updated := now\<rparr>))
          (py_then (if command = ''delete'' then set_vm_status ''deleting'' else py_ret ())
             (py_ret (command, \<lparr>place_node = node, place_vmid = vmid\<rparr>)))) s)"

text \<open>
  The end of \<open>finish_lifecycle_dispatch\<close>: the task is stored, or its absence confirms the
  command. The task id is assigned before the phase is checked, as in the source.
\<close>

definition finish_lifecycle_task ::
  "Operation \<Rightarrow> string \<Rightarrow> int \<Rightarrow> ProviderTask option \<Rightarrow> ('p sess, unit) py" where
  "finish_lifecycle_task operation node vmid task =
     (case task of
        Some t \<Rightarrow>
          if task_node t \<noteq> node \<or> task_vmid t \<noteq> vmid
          then py_raise (RuntimeError ''provider task targets another virtual machine'')
          else py_then (update_op (\<lambda>op. op\<lparr>op_task := Some (task_id t), op_error := None\<rparr>))
            (if op_type operation = ''vm.reboot'' then
               (if op_phase operation = Some ''dispatch_reboot_shutdown''
                  then update_op (\<lambda>op. op\<lparr>op_phase := Some ''shutdown''\<rparr>)
                else if op_phase operation = Some ''dispatch_reboot_start''
                  then update_op (\<lambda>op. op\<lparr>op_phase := Some ''start''\<rparr>)
                else py_raise (RuntimeError ''unsupported reboot dispatch phase''))
             else update_op (\<lambda>op. op\<lparr>op_phase := Some ''await_task''\<rparr>))
      | None \<Rightarrow>
          if op_phase operation \<in> {Some ''dispatch_shutdown'', Some ''dispatch_stop''} then
            py_then (update_op (\<lambda>op. op\<lparr>op_status := ''succeeded'', op_phase := Some ''complete'',
                       op_error := None\<rparr>))
              (set_vm_status ''stopped'')
          else if op_phase operation = Some ''dispatch_reboot_shutdown'' then
            py_then (update_op (\<lambda>op. op\<lparr>op_status := ''pending'', op_phase := Some ''start'',
                       op_error := None\<rparr>))
              (set_vm_status ''stopped'')
          else if op_phase operation = Some ''dispatch_reboot_start'' then
            py_then (update_op (\<lambda>op. op\<lparr>op_status := ''succeeded'', op_phase := Some ''complete'',
                       op_error := None\<rparr>))
              (set_vm_status ''running'')
          else py_raise (RuntimeError (''unsupported lifecycle dispatch phase: '' @ fstr (op_phase operation))))"

definition finish_lifecycle_dispatch :: "int \<Rightarrow> reply \<Rightarrow> ('p sess, unit) py" where
  "finish_lifecycle_dispatch now result s =
     (let operation = s_op s in
      if op_status operation \<noteq> ''processing'' \<or> op_task operation \<noteq> None
        then py_raise (RuntimeError ''invalid lifecycle dispatch state'') s
      else
        py_bind get_lifecycle_vm (\<lambda>(vm, node, vmid).
          if op_type operation = ''vm.delete'' then
            (case result of
               DeleteReply r \<Rightarrow>
                 if op_phase operation \<noteq> Some ''dispatch_delete''
                   then py_raise (RuntimeError ''invalid delete result'')
                 else if delete_state r = ''succeeded'' then
                   (if delete_task r \<noteq> None
                    then py_raise (RuntimeError ''completed delete unexpectedly has a provider task'')
                    else py_then (update_op (\<lambda>op. op\<lparr>op_status := ''succeeded'',
                                    op_phase := Some ''complete'', op_error := None\<rparr>))
                           (set_vm_status ''deleted''))
                 else if delete_state r = ''in_progress'' then
                   (if delete_task r \<noteq> None
                    then py_raise (RuntimeError ''in-progress delete unexpectedly has a provider task'')
                    else update_op (\<lambda>op. op\<lparr>op_phase := Some ''reconcile_delete'',
                           op_error := Some ''provider_outcome_unknown'', op_updated := now\<rparr>))
                 else if delete_state r \<noteq> ''submitted'' \<or> delete_task r = None
                   then py_raise (RuntimeError ''submitted delete has no provider task'')
                 else finish_lifecycle_task operation node vmid (delete_task r)
             | _ \<Rightarrow> py_raise (RuntimeError ''invalid delete result''))
          else
            (case result of
               TaskReply t \<Rightarrow> finish_lifecycle_task operation node vmid t
             | _ \<Rightarrow> py_raise (RuntimeError ''invalid lifecycle provider task''))) s)"

definition lifecycle_reconcile_phases :: "string list" where
  "lifecycle_reconcile_phases =
     [''dispatch_shutdown'', ''reconcile_shutdown'', ''dispatch_stop'', ''reconcile_stop'',
      ''dispatch_delete'', ''reconcile_delete'',
      ''dispatch_reboot_shutdown'', ''reconcile_reboot_shutdown'',
      ''dispatch_reboot_start'', ''reconcile_reboot_start'']"

definition reconcile_lifecycle_operation :: "int \<Rightarrow> 'p ProxmoxAdapter \<Rightarrow> ('p sess, unit) py" where
  "reconcile_lifecycle_operation now A s =
     (let operation = s_op s in
      if op_status operation \<noteq> ''processing'' \<or> op_task operation \<noteq> None
        then py_raise (RuntimeError ''lifecycle operation does not need reconciliation'') s
      else if op_phase operation \<notin> Some ` set lifecycle_reconcile_phases
        then py_raise (RuntimeError (''unsupported lifecycle reconciliation phase: '' @ fstr (op_phase operation))) s
      else
        (let phase = fstr (op_phase operation);
             unknown = update_op (\<lambda>op. op\<lparr>op_phase := Some (replace1 ''dispatch_'' ''reconcile_'' phase),
                         op_error := Some ''provider_outcome_unknown'', op_updated := now\<rparr>)
         in
         py_bind get_lifecycle_vm (\<lambda>(vm, node, vmid).
         py_bind (provider (get_vm_power_state A (vm_id vm) node vmid)) (\<lambda>state.
           if phase \<in> {''dispatch_delete'', ''reconcile_delete''} \<and> power_status state = ''missing'' then
             py_then (update_op (\<lambda>op. op\<lparr>op_status := ''succeeded'', op_phase := Some ''complete'',
                        op_error := None\<rparr>))
               (set_vm_status ''deleted'')
           else if power_status state = ''stopped'' \<and> \<not> power_locked state
                   \<and> phase \<in> {''dispatch_shutdown'', ''reconcile_shutdown'', ''dispatch_stop'', ''reconcile_stop''} then
             py_then (update_op (\<lambda>op. op\<lparr>op_status := ''succeeded'', op_phase := Some ''complete'',
                        op_error := None\<rparr>))
               (set_vm_status ''stopped'')
           else if power_status state = ''stopped'' \<and> \<not> power_locked state
                   \<and> phase \<in> {''dispatch_reboot_shutdown'', ''reconcile_reboot_shutdown''} then
             py_then (update_op (\<lambda>op. op\<lparr>op_status := ''pending'', op_phase := Some ''start'',
                        op_error := None\<rparr>))
               (set_vm_status ''stopped'')
           else if power_status state = ''running'' \<and> \<not> power_locked state
                   \<and> phase \<in> {''dispatch_reboot_start'', ''reconcile_reboot_start''} then
             py_then (update_op (\<lambda>op. op\<lparr>op_status := ''succeeded'', op_phase := Some ''complete'',
                        op_error := None\<rparr>))
               (set_vm_status ''running'')
           else unknown)) s))"

section \<open>Polling a known task\<close>

text \<open>
  The three functions end in the same way when the task has failed or its status is not one
  of the three values; \<open>on_success\<close> is what each does when it has succeeded.
\<close>

definition poll_task ::
  "int \<Rightarrow> 'p ProxmoxAdapter \<Rightarrow> string \<Rightarrow> int \<Rightarrow> string \<Rightarrow> ('p sess, unit) py \<Rightarrow> ('p sess, unit) py
     \<Rightarrow> ('p sess, unit) py" where
  "poll_task now A upid vmid node on_success after_failure =
     py_bind (provider (get_task_status A \<lparr>task_id = upid, task_vmid = vmid, task_node = node\<rparr>))
       (\<lambda>status.
         if ts_status status = ''running'' then update_op (\<lambda>op. op\<lparr>op_updated := now\<rparr>)
         else if ts_status status = ''succeeded'' then on_success
         else if ts_status status = ''failed'' then
           py_then (update_op (\<lambda>op. op\<lparr>op_status := ''failed'',
               op_error := Some (task_error status)\<rparr>))
             after_failure
         else py_raise (RuntimeError (''unknown provider task status: '' @ ts_status status)))"

definition process_power_off_vm_operation :: "int \<Rightarrow> 'p ProxmoxAdapter \<Rightarrow> ('p sess, unit) py" where
  "process_power_off_vm_operation now A s =
     (let operation = s_op s in
      if op_type operation \<notin> {''vm.shutdown'', ''vm.stop''}
        then py_raise (RuntimeError ''invalid operation type'') s
      else if op_status operation \<notin> {''pending'', ''processing''}
        then py_raise (RuntimeError ''operation cannot be processed'') s
      else
        py_bind get_lifecycle_vm (\<lambda>(vm, node, vmid).
          if op_status operation = ''pending'' then
            (if op_task operation \<noteq> None
             then py_raise (RuntimeError ''pending operation already has a provider task'')
             else
               py_bind (provider (if op_type operation = ''vm.shutdown''
                                  then shutdown_vm A (vm_id vm) node vmid
                                  else stop_vm A (vm_id vm) node vmid)) (\<lambda>task.
                 case task of
                   None \<Rightarrow> py_then (update_op (\<lambda>op. op\<lparr>op_status := ''succeeded'',
                              op_phase := Some ''complete'', op_error := None\<rparr>))
                             (set_vm_status ''stopped'')
                 | Some t \<Rightarrow>
                     if task_node t \<noteq> node \<or> task_vmid t \<noteq> vmid
                     then py_raise (RuntimeError ''provider task targets another virtual machine'')
                     else update_op (\<lambda>op. op\<lparr>op_task := Some (task_id t), op_status := ''processing'',
                            op_attempts := op_attempts op + 1\<rparr>)))
          else case op_task operation of
            None \<Rightarrow> py_raise (RuntimeError ''processing operation has no provider task'')
          | Some upid \<Rightarrow>
              poll_task now A upid vmid node
                (py_then (update_op (\<lambda>op. op\<lparr>op_status := ''succeeded'', op_phase := Some ''complete'',
                            op_task := None, op_error := None\<rparr>))
                   (set_vm_status ''stopped''))
                (py_ret ())) s)"

definition process_reboot_vm_operation :: "int \<Rightarrow> 'p ProxmoxAdapter \<Rightarrow> ('p sess, unit) py" where
  "process_reboot_vm_operation now A s =
     (let operation = s_op s in
      if op_type operation \<noteq> ''vm.reboot''
        then py_raise (RuntimeError ''invalid operation type'') s
      else if op_status operation \<notin> {''pending'', ''processing''}
        then py_raise (RuntimeError ''operation cannot be processed'') s
      else if op_phase operation \<notin> {Some ''shutdown'', Some ''start''}
        then py_raise (RuntimeError (''unsupported reboot phase: '' @ fstr (op_phase operation))) s
      else
        py_bind get_lifecycle_vm (\<lambda>(vm, node, vmid).
          if op_status operation = ''pending'' then
            (if op_task operation \<noteq> None
             then py_raise (RuntimeError ''pending operation already has a provider task'')
             else
               py_bind (provider (if op_phase operation = Some ''shutdown''
                                  then shutdown_vm A (vm_id vm) node vmid
                                  else start_vm A (vm_id vm) node vmid)) (\<lambda>task.
                 case task of
                   None \<Rightarrow>
                     if op_phase operation = Some ''shutdown''
                     then py_then (update_op (\<lambda>op. op\<lparr>op_phase := Some ''start''\<rparr>)) (set_vm_status ''stopped'')
                     else py_then (update_op (\<lambda>op. op\<lparr>op_status := ''succeeded'',
                                     op_phase := Some ''complete'', op_error := None\<rparr>))
                            (set_vm_status ''running'')
                 | Some t \<Rightarrow>
                     if task_node t \<noteq> node \<or> task_vmid t \<noteq> vmid
                     then py_raise (RuntimeError ''provider task targets another virtual machine'')
                     else update_op (\<lambda>op. op\<lparr>op_task := Some (task_id t), op_status := ''processing'',
                            op_attempts := op_attempts op + 1\<rparr>)))
          else case op_task operation of
            None \<Rightarrow> py_raise (RuntimeError ''processing operation has no provider task'')
          | Some upid \<Rightarrow>
              poll_task now A upid vmid node
                (py_then (update_op (\<lambda>op. op\<lparr>op_task := None, op_error := None\<rparr>))
                   (if op_phase operation = Some ''shutdown''
                    then py_then (update_op (\<lambda>op. op\<lparr>op_phase := Some ''start'', op_status := ''pending''\<rparr>))
                           (set_vm_status ''stopped'')
                    else py_then (update_op (\<lambda>op. op\<lparr>op_status := ''succeeded'', op_phase := Some ''complete''\<rparr>))
                           (set_vm_status ''running'')))
                (py_ret ())) s)"

definition process_delete_vm_operation :: "int \<Rightarrow> 'p ProxmoxAdapter \<Rightarrow> ('p sess, unit) py" where
  "process_delete_vm_operation now A s =
     (let operation = s_op s in
      if op_type operation \<noteq> ''vm.delete''
        then py_raise (RuntimeError ''invalid operation type'') s
      else if op_status operation \<notin> {''pending'', ''processing''}
        then py_raise (RuntimeError ''operation cannot be processed'') s
      else
        py_bind get_lifecycle_vm (\<lambda>(vm, node, vmid).
          if op_status operation = ''pending'' then
            (if op_task operation \<noteq> None
             then py_raise (RuntimeError ''pending operation already has a provider task'')
             else
               py_bind (provider (delete_vm A (vm_id vm) node vmid)) (\<lambda>result.
                 if delete_state result = ''submitted'' then
                   (case delete_task result of
                      None \<Rightarrow> py_raise (RuntimeError ''submitted delete has no provider task'')
                    | Some t \<Rightarrow>
                        if task_node t \<noteq> node \<or> task_vmid t \<noteq> vmid
                        then py_raise (RuntimeError ''provider task targets another virtual machine'')
                        else py_then (update_op (\<lambda>op. op\<lparr>op_task := Some (task_id t),
                                        op_status := ''processing'', op_attempts := op_attempts op + 1\<rparr>))
                               (set_vm_status ''deleting''))
                 else if delete_state result = ''in_progress'' then
                   (if delete_task result \<noteq> None
                    then py_raise (RuntimeError ''in-progress delete unexpectedly has a provider task'')
                    else py_then (update_op (\<lambda>op. op\<lparr>op_updated := now\<rparr>)) (set_vm_status ''deleting''))
                 else if delete_state result = ''succeeded'' then
                   (if delete_task result \<noteq> None
                    then py_raise (RuntimeError ''completed delete unexpectedly has a provider task'')
                    else py_then (update_op (\<lambda>op. op\<lparr>op_status := ''succeeded'',
                                    op_phase := Some ''complete'', op_error := None\<rparr>))
                           (set_vm_status ''deleted''))
                 else py_raise (RuntimeError (''unknown delete result state: '' @ delete_state result))))
          else case op_task operation of
            None \<Rightarrow> py_raise (RuntimeError ''processing operation has no provider task'')
          | Some upid \<Rightarrow>
              poll_task now A upid vmid node
                (py_then (update_op (\<lambda>op. op\<lparr>op_status := ''succeeded'', op_phase := Some ''complete'',
                            op_task := None, op_error := None\<rparr>))
                   (set_vm_status ''deleted''))
                (set_vm_status ''deleting'')) s)"

end
