(* ===== verification/Worker.thy ===== *)
theory Worker
  imports CreateFlow StartFlow LifecycleFlow
begin

text \<open>
  The operation worker (portal/app/workers/operation_worker.py). \<open>run_once\<close> is three parts:
  a transaction that selects an operation and either advances it or commits a dispatch
  marker, the provider command outside any transaction, and a second transaction that stores
  the outcome. Each part is a definition of its own, because other workers and requests can
  run between them; \<open>run_once\<close> composes them the way the code does.
\<close>

section \<open>Selection\<close>

definition DISPATCH_GRACE :: int where
  "DISPATCH_GRACE = 5 * 60 * 1000000"

definition RECONCILE_DELAY :: int where
  "RECONCILE_DELAY = 10 * 1000000"

definition eligible :: "int \<Rightarrow> Operation \<Rightarrow> bool" where
  "eligible now op \<longleftrightarrow>
     op_type op \<in> {''vm.create'', ''vm.start'', ''vm.shutdown'', ''vm.stop'', ''vm.reboot'', ''vm.delete''}
     \<and> op_status op \<in> {''pending'', ''processing''}
     \<and> (op_status op = ''pending''
        \<or> (column_like (op_phase op) ''dispatch%'' \<and> op_updated op \<le> now - DISPATCH_GRACE)
        \<or> (column_like (op_phase op) ''reconcile%'' \<and> op_updated op \<le> now - RECONCILE_DELAY)
        \<or> (column_like (op_phase op) ''poll_backoff%'' \<and> op_updated op \<le> now - RECONCILE_DELAY)
        \<or> (op_task op \<noteq> None \<and> (op_phase op = None \<or> column_not_like (op_phase op) ''poll_backoff%'')))"

text \<open>\<open>locked\<close>: the ids of the rows other transactions hold (\<open>FOR UPDATE SKIP LOCKED\<close>).\<close>

definition select_operation :: "int \<Rightarrow> uuid list \<Rightarrow> db \<Rightarrow> Operation option" where
  "select_operation now locked d =
     first_min op_updated
       (filter (\<lambda>op. eligible now op \<and> op_id op \<notin> set locked) (operations d))"

section \<open>The first transaction\<close>

datatype dispatch =
    CreateDispatch uuid uuid string "CreateVmRequest option" ProviderPlacement
  | StartDispatch uuid uuid ProviderPlacement
  | LifecycleDispatch uuid uuid string ProviderPlacement

definition prepare_create :: "int \<Rightarrow> Operation \<Rightarrow> ('p sess, dispatch option) py" where
  "prepare_create now operation =
     py_bind (prepare_create_vm_dispatch now) (\<lambda>(request, target).
       py_ret (Some (CreateDispatch (op_id operation) (op_vm operation) (fstr (op_phase operation))
                       request target)))"

definition process_create_branch :: "int \<Rightarrow> 'p ProxmoxAdapter \<Rightarrow> ('p sess, dispatch option) py" where
  "process_create_branch now A s =
     (let operation = s_op s in
      if op_status operation = ''pending'' then
        (if op_phase operation = Some ''clone'' then
           (case s_vm s of
              None \<Rightarrow> py_raise (RuntimeError ''virtual machine is missing'') s
            | Some vm \<Rightarrow>
                if vm_provider_node vm = None \<and> vm_provider_vmid vm = None
                then py_then (process_create_vm_operation now A) (py_ret None) s
                else prepare_create now operation s)
         else if op_phase operation \<in> {Some ''configure'', Some ''resize'', Some ''start''}
           then prepare_create now operation s
         else py_raise (RuntimeError (''unsupported create phase: '' @ fstr (op_phase operation))) s)
      else if op_task operation \<noteq> None then
        py_then
          (if starts_with ''poll_backoff_create_'' (or_empty (op_phase operation))
           then update_op (\<lambda>op. op\<lparr>op_phase := map_option (removeprefix ''poll_backoff_create_'') (op_phase op)\<rparr>)
           else py_ret ())
          (py_then
            (py_catch (process_create_vm_operation now A)
              (\<lambda>_. update_op (\<lambda>op. op\<lparr>op_phase := Some (''poll_backoff_create_'' @ fstr (op_phase op)),
                      op_error := Some ''provider_status_unavailable'', op_updated := now\<rparr>)))
            (py_ret None)) s
      else if starts_with ''dispatch_create_'' (or_empty (op_phase operation))
              \<or> starts_with ''reconcile_create_'' (or_empty (op_phase operation)) then
        py_then
          (py_catch (reconcile_create_vm_operation now A)
            (\<lambda>_. update_op (\<lambda>op. op\<lparr>op_phase := map_option (replace1 ''dispatch_'' ''reconcile_'') (op_phase op),
                    op_error := Some ''provider_status_unavailable'', op_updated := now\<rparr>)))
          (py_ret None) s
      else py_raise (RuntimeError (''unsupported create phase: '' @ fstr (op_phase operation))) s)"

definition process_start_branch :: "int \<Rightarrow> 'p ProxmoxAdapter \<Rightarrow> ('p sess, dispatch option) py" where
  "process_start_branch now A s =
     (let operation = s_op s in
      if op_status operation = ''pending'' then
        py_bind (prepare_start_vm_dispatch now) (\<lambda>target.
          py_ret (Some (StartDispatch (op_id operation) (op_vm operation) target))) s
      else if op_task operation \<noteq> None then
        py_then
          (py_catch (process_start_vm_operation now A)
            (\<lambda>_. update_op (\<lambda>op. op\<lparr>op_phase := Some ''poll_backoff'',
                    op_error := Some ''provider_status_unavailable'', op_updated := now\<rparr>)))
          (py_ret None) s
      else if op_phase operation \<in> {Some ''dispatching'', Some ''reconcile''} then
        py_then
          (py_catch (reconcile_start_vm_operation now A)
            (\<lambda>_. update_op (\<lambda>op. op\<lparr>op_phase := Some ''reconcile'',
                    op_error := Some ''provider_status_unavailable'', op_updated := now\<rparr>)))
          (py_ret None) s
      else py_raise (RuntimeError (''unsupported VM start phase: '' @ fstr (op_phase operation))) s)"

definition process_lifecycle_branch :: "int \<Rightarrow> 'p ProxmoxAdapter \<Rightarrow> ('p sess, dispatch option) py" where
  "process_lifecycle_branch now A s =
     (let operation = s_op s in
      if op_status operation = ''pending'' then
        py_bind (prepare_lifecycle_dispatch now) (\<lambda>(command, target).
          py_ret (Some (LifecycleDispatch (op_id operation) (op_vm operation) command target))) s
      else if op_task operation \<noteq> None then
        py_then
          (if op_type operation = ''vm.reboot'' \<and> starts_with ''poll_backoff_'' (or_empty (op_phase operation))
           then update_op (\<lambda>op. op\<lparr>op_phase := map_option (removeprefix ''poll_backoff_'') (op_phase op)\<rparr>)
           else py_ret ())
          (py_then
            (py_catch
              (if op_type operation \<in> {''vm.shutdown'', ''vm.stop''} then process_power_off_vm_operation now A
               else if op_type operation = ''vm.reboot'' then process_reboot_vm_operation now A
               else process_delete_vm_operation now A)
              (\<lambda>_. update_op (\<lambda>op. op\<lparr>
                 op_phase := Some (if op_type op = ''vm.reboot'' then ''poll_backoff_'' @ fstr (op_phase op)
                                   else ''poll_backoff''),
                 op_error := Some ''provider_status_unavailable'', op_updated := now\<rparr>)))
            (py_ret None)) s
      else if starts_with ''dispatch_'' (or_empty (op_phase operation))
              \<or> starts_with ''reconcile_'' (or_empty (op_phase operation)) then
        py_then
          (py_catch (reconcile_lifecycle_operation now A)
            (\<lambda>_. update_op (\<lambda>op. op\<lparr>op_phase := map_option (replace1 ''dispatch_'' ''reconcile_'') (op_phase op),
                    op_error := Some ''provider_status_unavailable'', op_updated := now\<rparr>)))
          (py_ret None) s
      else py_raise (RuntimeError (''unsupported lifecycle phase: '' @ fstr (op_phase operation))) s)"

definition process_selected :: "int \<Rightarrow> 'p ProxmoxAdapter \<Rightarrow> ('p sess, dispatch option) py" where
  "process_selected now A s =
     (let operation = s_op s in
      if op_type operation = ''vm.create'' then process_create_branch now A s
      else if op_type operation = ''vm.start'' then process_start_branch now A s
      else if op_type operation \<in> {''vm.shutdown'', ''vm.stop'', ''vm.reboot'', ''vm.delete''}
        then process_lifecycle_branch now A s
      else py_raise (RuntimeError (''unsupported operation type: '' @ op_type operation)) s)"

definition open_session :: "db \<Rightarrow> 'p \<Rightarrow> Operation \<Rightarrow> 'p sess" where
  "open_session d p op = \<lparr>s_op = op, s_vm = get_vm (op_vm op) d, s_keys = ssh_keys d, s_prov = p\<rparr>"

text \<open>
  The result says whether an operation was found, and the command to send if one was
  prepared. An exception, or a commit the database refuses, rolls the rows back; what the
  provider was told stays told.
\<close>

definition first_transaction ::
  "int \<Rightarrow> 'p ProxmoxAdapter \<Rightarrow> uuid list \<Rightarrow> db \<Rightarrow> 'p \<Rightarrow> (exc + bool \<times> dispatch option) \<times> db \<times> 'p" where
  "first_transaction now A locked d p =
     (case select_operation now locked d of
        None \<Rightarrow> (Inr (False, None), d, p)
      | Some op \<Rightarrow>
         (case process_selected now A (open_session d p op) of
            (r, s) \<Rightarrow>
              (case r of
                 Inl e \<Rightarrow> (Inl e, d, s_prov s)
               | Inr disp \<Rightarrow>
                  (case commit_rows now (s_op s) (s_vm s) d of
                     Inl e \<Rightarrow> (Inl e, d, s_prov s)
                   | Inr d' \<Rightarrow> (Inr (True, disp), d', s_prov s)))))"

section \<open>The command\<close>

definition with_request :: "CreateVmRequest option \<Rightarrow> (CreateVmRequest \<Rightarrow> ('p, reply) py) \<Rightarrow> ('p, reply) py" where
  "with_request request f =
     (case request of
        None \<Rightarrow> py_raise (AttributeError ''NoneType object has no attribute'')
      | Some r \<Rightarrow> f r)"

definition submit :: "'p ProxmoxAdapter \<Rightarrow> dispatch \<Rightarrow> ('p, reply) py" where
  "submit A disp =
     (case disp of
        CreateDispatch _ vid phase request target \<Rightarrow>
          if phase = ''clone'' then
            with_request request (\<lambda>r. py_bind (clone_vm A r (place_node target) (place_vmid target))
              (\<lambda>x. py_ret (CloneReply x)))
          else if phase = ''configure'' then
            with_request request (\<lambda>r. py_bind (configure_vm A r (place_node target) (place_vmid target))
              (\<lambda>x. py_ret (TaskReply x)))
          else if phase = ''resize'' then
            with_request request (\<lambda>r. py_bind (resize_vm_disk A r (place_node target) (place_vmid target))
              (\<lambda>x. py_ret (TaskReply x)))
          else if phase = ''start'' then
            py_bind (start_vm A vid (place_node target) (place_vmid target)) (\<lambda>x. py_ret (TaskReply x))
          else py_raise (RuntimeError (''unsupported create dispatch phase: '' @ phase))
      | StartDispatch _ vid target \<Rightarrow>
          py_bind (start_vm A vid (place_node target) (place_vmid target)) (\<lambda>x. py_ret (TaskReply x))
      | LifecycleDispatch _ vid command target \<Rightarrow>
          if command = ''shutdown'' then
            py_bind (shutdown_vm A vid (place_node target) (place_vmid target)) (\<lambda>x. py_ret (TaskReply x))
          else if command = ''stop'' then
            py_bind (stop_vm A vid (place_node target) (place_vmid target)) (\<lambda>x. py_ret (TaskReply x))
          else if command = ''start'' then
            py_bind (start_vm A vid (place_node target) (place_vmid target)) (\<lambda>x. py_ret (TaskReply x))
          else if command = ''delete'' then
            py_bind (delete_vm A vid (place_node target) (place_vmid target)) (\<lambda>x. py_ret (DeleteReply x))
          else py_raise (RuntimeError (''unsupported lifecycle command: '' @ command)))"

section \<open>The second transaction\<close>

primrec dispatch_op :: "dispatch \<Rightarrow> uuid" where
  "dispatch_op (CreateDispatch oid vid phase request target) = oid"
| "dispatch_op (StartDispatch oid vid target) = oid"
| "dispatch_op (LifecycleDispatch oid vid command target) = oid"

text \<open>The \<open>except\<close> branches after a command that raised: the outcome is unknown.\<close>

definition mark_unknown :: "int \<Rightarrow> dispatch \<Rightarrow> ('p sess, unit) py" where
  "mark_unknown now disp s =
     (let operation = s_op s in
      case disp of
        CreateDispatch _ _ phase _ _ \<Rightarrow>
          if op_status operation \<noteq> ''processing'' \<or> op_phase operation \<noteq> Some (''dispatch_create_'' @ phase)
          then py_raise (RuntimeError ''VM create operation changed during dispatch'') s
          else update_op (\<lambda>op. op\<lparr>op_phase := Some (''reconcile_create_'' @ phase),
                 op_error := Some ''provider_submit_unknown'', op_updated := now\<rparr>) s
      | StartDispatch _ _ _ \<Rightarrow>
          if op_status operation \<noteq> ''processing'' \<or> op_phase operation \<noteq> Some ''dispatching''
          then py_raise (RuntimeError ''VM start operation changed during dispatch'') s
          else update_op (\<lambda>op. op\<lparr>op_phase := Some ''reconcile'',
                 op_error := Some ''provider_submit_unknown'', op_updated := now\<rparr>) s
      | LifecycleDispatch _ _ _ _ \<Rightarrow>
          (case op_phase operation of
             None \<Rightarrow> py_raise (AttributeError ''NoneType object has no attribute startswith'') s
           | Some phase \<Rightarrow>
               if \<not> starts_with ''dispatch_'' phase
               then py_raise (RuntimeError ''lifecycle operation changed during dispatch'') s
               else update_op (\<lambda>op. op\<lparr>op_phase := Some (replace1 ''dispatch_'' ''reconcile_'' phase),
                      op_error := Some ''provider_submit_unknown'', op_updated := now\<rparr>) s))"

definition finish_dispatch :: "int \<Rightarrow> dispatch \<Rightarrow> reply \<Rightarrow> ('p sess, unit) py" where
  "finish_dispatch now disp result =
     (case disp of
        CreateDispatch _ _ phase _ _ \<Rightarrow> finish_create_vm_dispatch now phase result
      | StartDispatch _ _ _ \<Rightarrow>
          (case result of
             TaskReply t \<Rightarrow> finish_start_vm_dispatch t
           | _ \<Rightarrow> py_raise (AttributeError ''node''))
      | LifecycleDispatch _ _ _ _ \<Rightarrow> finish_lifecycle_dispatch now result)"

definition store_step :: "int \<Rightarrow> dispatch \<Rightarrow> exc + reply \<Rightarrow> ('p sess, unit) py" where
  "store_step now disp res =
     (case res of Inl _ \<Rightarrow> mark_unknown now disp | Inr result \<Rightarrow> finish_dispatch now disp result)"

text \<open>Whatever is raised while the outcome is stored is logged, and the rows stay as they were.\<close>

definition store_outcome :: "int \<Rightarrow> dispatch \<Rightarrow> exc + reply \<Rightarrow> db \<Rightarrow> db" where
  "store_outcome now disp res d =
     (case get_op (dispatch_op disp) d of
        None \<Rightarrow> d
      | Some op \<Rightarrow>
         (case store_step now disp res (open_session d () op) of
            (r, s) \<Rightarrow>
              (case r of
                 Inl _ \<Rightarrow> d
               | Inr _ \<Rightarrow>
                  (case commit_rows now (s_op s) (s_vm s) d of Inl _ \<Rightarrow> d | Inr d' \<Rightarrow> d'))))"

section \<open>One pass and the loop\<close>

definition run_once ::
  "int \<Rightarrow> 'p ProxmoxAdapter \<Rightarrow> uuid list \<Rightarrow> db \<Rightarrow> 'p \<Rightarrow> (exc + bool) \<times> db \<times> 'p" where
  "run_once now A locked d p =
     (case first_transaction now A locked d p of
        (r, d', p') \<Rightarrow>
          (case r of
             Inl e \<Rightarrow> (Inl e, d', p')
           | Inr (found, disp) \<Rightarrow>
              (case disp of
                 None \<Rightarrow> (Inr found, d', p')
               | Some c \<Rightarrow>
                  (case submit A c p' of
                     (res, p'') \<Rightarrow> (Inr True, store_outcome now c res d', p'')))))"

text \<open>
  \<open>run_worker\<close>: an exception of one pass is logged and the next pass starts from the state
  the pass left. The list holds the clock reading of each pass; the loop itself never ends.
\<close>

fun run_worker :: "'p ProxmoxAdapter \<Rightarrow> int list \<Rightarrow> db \<Rightarrow> 'p \<Rightarrow> db \<times> 'p" where
  "run_worker A [] d p = (d, p)"
| "run_worker A (now # rest) d p =
     (case run_once now A [] d p of (_, d', p') \<Rightarrow> run_worker A rest d' p')"

end
