(* ===== verification/Lifecycle.thy ===== *)
theory Lifecycle
  imports Models
begin

text \<open>
  The contract of an operation, as a small abstract machine: an operation is a list of
  commands; a command is ready, in flight (its marker is committed and its outcome is not
  known), tracked by a provider task, or held for review; the operation ends done or failed.
  \<open>abs_state\<close> reads the abstract state off the strings of a row, and \<open>spec_step\<close> says which
  moves are allowed and what they do to the status of the virtual machine.
\<close>

section \<open>Commands and abstract states\<close>

datatype astate = Ready nat | InFlight nat | Tracked nat | Review nat | Done | Failed

definition commands :: "string \<Rightarrow> string list" where
  "commands T =
     (if T = ''vm.create'' then [''clone'', ''configure'', ''resize'', ''start'']
      else if T = ''vm.start'' then [''start'']
      else if T = ''vm.shutdown'' then [''shutdown'']
      else if T = ''vm.stop'' then [''stop'']
      else if T = ''vm.reboot'' then [''shutdown'', ''start'']
      else if T = ''vm.delete'' then [''delete'']
      else [])"

text \<open>
  The phases a row of the type \<open>T\<close> can hold while its command \<open>k\<close> is in the given state.
\<close>

definition ready_phase :: "string \<Rightarrow> nat \<Rightarrow> string option" where
  "ready_phase T k = (if T \<in> {''vm.create'', ''vm.reboot''} then Some (commands T ! k) else None)"

definition flight_phases :: "string \<Rightarrow> nat \<Rightarrow> string list" where
  "flight_phases T k =
     (if T = ''vm.create'' then [''dispatch_create_'' @ commands T ! k, ''reconcile_create_'' @ commands T ! k]
      else if T = ''vm.start'' then [''dispatching'', ''reconcile'']
      else if T = ''vm.reboot'' then [''dispatch_reboot_'' @ commands T ! k, ''reconcile_reboot_'' @ commands T ! k]
      else [''dispatch_'' @ commands T ! k, ''reconcile_'' @ commands T ! k])"

definition tracked_phases :: "string \<Rightarrow> nat \<Rightarrow> string list" where
  "tracked_phases T k =
     (if T = ''vm.create'' then [commands T ! k, ''poll_backoff_create_'' @ commands T ! k]
      else if T = ''vm.reboot'' then [commands T ! k, ''poll_backoff_'' @ commands T ! k]
      else [''await_task'', ''poll_backoff''])"

definition review_phases :: "string \<Rightarrow> nat \<Rightarrow> string list" where
  "review_phases T k =
     (if T = ''vm.create'' \<and> k \<in> {1, 2} then [''needs_review_create_'' @ commands T ! k] else [])"

fun holds :: "Operation \<Rightarrow> astate \<Rightarrow> bool" where
  "holds op (Ready k) =
     (op_status op = ''pending'' \<and> op_task op = None \<and> op_phase op = ready_phase (op_type op) k)"
| "holds op (InFlight k) =
     (op_status op = ''processing'' \<and> op_task op = None
      \<and> op_phase op \<in> Some ` set (flight_phases (op_type op) k))"
| "holds op (Tracked k) =
     (op_status op = ''processing'' \<and> op_task op \<noteq> None
      \<and> op_phase op \<in> Some ` set (tracked_phases (op_type op) k))"
| "holds op (Review k) =
     (op_status op = ''processing'' \<and> op_task op = None
      \<and> op_phase op \<in> Some ` set (review_phases (op_type op) k))"
| "holds op Done =
     (op_status op = ''succeeded'' \<and> op_task op = None \<and> op_phase op = Some ''complete'')"
| "holds op Failed =
     (op_status op = ''failed'' \<and> op_task op \<noteq> None
      \<and> list_ex (\<lambda>k. op_phase op \<in> Some ` set (tracked_phases (op_type op) k)) [0..<length (commands (op_type op))])"

definition astates :: "string \<Rightarrow> astate list" where
  "astates T = concat (map (\<lambda>k. [Ready k, InFlight k, Tracked k, Review k]) [0..<length (commands T)])
               @ [Done, Failed]"

definition abs_state :: "Operation \<Rightarrow> astate option" where
  "abs_state op = (if op_type op \<in> set operation_types then find (holds op) (astates (op_type op)) else None)"

definition active :: "Operation \<Rightarrow> bool" where
  "active op \<longleftrightarrow> op_status op \<in> {''pending'', ''processing''}"

section \<open>Allowed moves\<close>

definition after :: "string \<Rightarrow> nat \<Rightarrow> astate" where
  "after T k = (if Suc k < length (commands T) then Ready (Suc k) else Done)"

text \<open>The status of the virtual machine once command \<open>k\<close> is confirmed.\<close>

definition confirmed :: "string \<Rightarrow> nat \<Rightarrow> string" where
  "confirmed T k =
     (if T = ''vm.create'' then (if k = 3 then ''running'' else ''provisioning'')
      else if T = ''vm.start'' then ''running''
      else if T = ''vm.reboot'' then (if k = 0 then ''stopped'' else ''running'')
      else if T = ''vm.delete'' then ''deleted''
      else ''stopped'')"

definition failed_status :: "string \<Rightarrow> string \<Rightarrow> string" where
  "failed_status T st =
     (if T = ''vm.create'' then ''failed'' else if T = ''vm.delete'' then ''deleting'' else st)"

text \<open>The virtual machine statuses that go with an operation in progress.\<close>

fun coherent :: "string \<Rightarrow> astate \<Rightarrow> string \<Rightarrow> bool" where
  "coherent T (Ready k) st =
     (if T = ''vm.create'' then st = (if k = 0 then ''pending'' else ''provisioning'')
      else if T \<in> {''vm.start'', ''vm.delete''} then st = ''stopped''
      else if T = ''vm.reboot'' then st = (if k = 0 then ''running'' else ''stopped'')
      else st = ''running'')"
| "coherent T (InFlight k) st =
     (if T = ''vm.create'' then st = ''provisioning'' \<or> (k = 0 \<and> st = ''pending'')
      else if T = ''vm.delete'' then st = ''deleting''
      else if T = ''vm.start'' then st = ''stopped''
      else if T = ''vm.reboot'' then st = (if k = 0 then ''running'' else ''stopped'')
      else st = ''running'')"
| "coherent T (Tracked k) st =
     (if T = ''vm.create'' then st = ''provisioning''
      else if T = ''vm.delete'' then st = ''deleting''
      else if T = ''vm.start'' then st = ''stopped''
      else if T = ''vm.reboot'' then st = (if k = 0 then ''running'' else ''stopped'')
      else st = ''running'')"
| "coherent T (Review k) st = (st = ''provisioning'')"
| "coherent T Done st = True"
| "coherent T Failed st = True"

text \<open>A step with the label \<open>Some k\<close> submits command \<open>k\<close>; the others submit nothing.\<close>

inductive spec_step :: "string \<Rightarrow> astate \<times> string \<Rightarrow> nat option \<Rightarrow> astate \<times> string \<Rightarrow> bool" for T where
  place: "T = ''vm.create'' \<Longrightarrow> spec_step T (Ready 0, st) None (Ready 0, st)"
| submit: "k < length (commands T) \<Longrightarrow>
     spec_step T (Ready k, st) (Some k) (InFlight k, if T = ''vm.delete'' then ''deleting'' else st)"
| hold: "spec_step T (InFlight k, st) None (InFlight k, st)"
| hold_clone: "T = ''vm.create'' \<Longrightarrow> spec_step T (InFlight 0, st) None (InFlight 0, ''provisioning'')"
| track: "spec_step T (InFlight k, st) None (Tracked k, if T = ''vm.create'' then ''provisioning'' else st)"
| confirm: "spec_step T (InFlight k, st) None (after T k, confirmed T k)"
| review: "T = ''vm.create'' \<Longrightarrow> k \<in> {1, 2} \<Longrightarrow> spec_step T (InFlight k, st) None (Review k, st)"
| poll: "spec_step T (Tracked k, st) None (Tracked k, st)"
| complete: "spec_step T (Tracked k, st) None (after T k, confirmed T k)"
| fail: "spec_step T (Tracked k, st) None (Failed, failed_status T st)"

inductive_cases spec_submitE: "spec_step T x (Some k) y"
inductive_cases spec_from_ready: "spec_step T (Ready k, st) l y"
inductive_cases spec_from_review: "spec_step T (Review k, st) l y"
inductive_cases spec_from_done: "spec_step T (Done, st) l y"
inductive_cases spec_from_failed: "spec_step T (Failed, st) l y"

fun progress :: "string \<Rightarrow> astate \<Rightarrow> nat" where
  "progress T (Ready k) = 2 * k"
| "progress T (InFlight k) = 2 * k + 1"
| "progress T (Tracked k) = 2 * k + 1"
| "progress T (Review k) = 2 * k + 1"
| "progress T Done = 2 * length (commands T)"
| "progress T Failed = 2 * length (commands T)"

text \<open>How many commands have been submitted by then (for a failed operation: at most all).\<close>

fun submitted_ok :: "string \<Rightarrow> astate \<Rightarrow> int \<Rightarrow> bool" where
  "submitted_ok T (Ready k) n = (n = int k)"
| "submitted_ok T (InFlight k) n = (n = int k + 1)"
| "submitted_ok T (Tracked k) n = (n = int k + 1)"
| "submitted_ok T (Review k) n = (n = int k + 1)"
| "submitted_ok T Done n = (n = int (length (commands T)))"
| "submitted_ok T Failed n = (1 \<le> n \<and> n \<le> int (length (commands T)))"

section \<open>Facts about the abstract machine\<close>

lemma operation_types_cases:
  assumes "T \<in> set operation_types"
  obtains "T = ''vm.create''" | "T = ''vm.start''" | "T = ''vm.shutdown''" | "T = ''vm.stop''"
    | "T = ''vm.reboot''" | "T = ''vm.delete''"
proof -
  from assms have "T = ''vm.create'' \<or> T = ''vm.start'' \<or> T = ''vm.shutdown'' \<or> T = ''vm.stop''
      \<or> T = ''vm.reboot'' \<or> T = ''vm.delete''"
    by (simp add: operation_types_def)
  then show thesis by (elim disjE) (fact that)+
qed

lemma commands_simps [simp]:
  "commands ''vm.create'' = [''clone'', ''configure'', ''resize'', ''start'']"
  "commands ''vm.start'' = [''start'']"
  "commands ''vm.shutdown'' = [''shutdown'']"
  "commands ''vm.stop'' = [''stop'']"
  "commands ''vm.reboot'' = [''shutdown'', ''start'']"
  "commands ''vm.delete'' = [''delete'']"
  by (simp_all add: commands_def)

lemma abs_state_holds: "abs_state op = Some a \<Longrightarrow> holds op a"
  by (auto simp: abs_state_def find_Some_iff split: if_splits)

lemma abs_state_type: "abs_state op = Some a \<Longrightarrow> op_type op \<in> set operation_types"
  by (simp add: abs_state_def split: if_splits)

lemma abs_state_in: "abs_state op = Some a \<Longrightarrow> a \<in> set (astates (op_type op))"
  by (auto simp: abs_state_def find_Some_iff split: if_splits)

lemma in_astates:
  "a \<in> set (astates T) \<longleftrightarrow>
     (case a of Ready k \<Rightarrow> k < length (commands T) | InFlight k \<Rightarrow> k < length (commands T)
      | Tracked k \<Rightarrow> k < length (commands T) | Review k \<Rightarrow> k < length (commands T)
      | Done \<Rightarrow> True | Failed \<Rightarrow> True)"
  by (cases a) (auto simp: astates_def)

lemma spec_step_progress: "spec_step T x l y \<Longrightarrow> progress T (fst x) \<le> progress T (fst y)
    \<or> fst x \<notin> set (astates T)"
  by (induction rule: spec_step.induct) (auto simp: after_def in_astates)

lemma spec_step_submit_progress:
  "spec_step T x (Some k) y \<Longrightarrow> progress T (fst x) = 2 * k \<and> progress T (fst y) = Suc (2 * k)"
  by (erule spec_submitE) auto

lemma spec_step_astates:
  "spec_step T x l y \<Longrightarrow> fst x \<in> set (astates T) \<Longrightarrow> fst y \<in> set (astates T)"
  by (induction rule: spec_step.induct) (auto simp: after_def in_astates)

lemma spec_step_submitted:
  "spec_step T x l y \<Longrightarrow> fst x \<in> set (astates T) \<Longrightarrow> submitted_ok T (fst x) n \<Longrightarrow>
   submitted_ok T (fst y) (n + (if l = None then 0 else 1))"
  by (induction rule: spec_step.induct) (auto simp: after_def in_astates)

lemma submitted_ok_bound:
  "submitted_ok T a n \<Longrightarrow> a \<in> set (astates T) \<Longrightarrow> 0 \<le> n \<and> n \<le> int (length (commands T))"
  by (cases a) (auto simp: in_astates)

lemma less_4_cases: "(k::nat) < Suc (Suc (Suc (Suc 0))) \<longleftrightarrow> k = 0 \<or> k = 1 \<or> k = 2 \<or> k = 3"
  by auto

lemma spec_step_coherent:
  assumes "spec_step T x l y" "T \<in> set operation_types" "fst x \<in> set (astates T)"
    "coherent T (fst x) (snd x)"
  shows "coherent T (fst y) (snd y)"
  using assms
  by (induction rule: spec_step.induct; elim operation_types_cases)
    (auto simp: after_def confirmed_def in_astates less_4_cases split: if_splits)

end
