(* ===== verification/StepRules.thy ===== *)
theory StepRules
  imports Worker Lifecycle
begin

text \<open>
  What it means that a function of the worker makes a step of the abstract machine of
  \<open>Lifecycle\<close>: the abstract state of a row is unique (\<open>abs_state_iff\<close>), \<open>moves\<close> relates the rows
  before and after a step, \<open>reaches\<close> does so for sessions, and there is one rule per kind of
  step. The step theories use these rules for every function.
\<close>

section \<open>Uniqueness of the abstract state\<close>

lemmas phase_defs = ready_phase_def flight_phases_def tracked_phases_def review_phases_def

lemma index_unique:
  "distinct (concat (map f [0..<n])) \<Longrightarrow> i < n \<Longrightarrow> j < n \<Longrightarrow> p \<in> set (f i) \<Longrightarrow> p \<in> set (f j) \<Longrightarrow> i = j"
proof (induction n)
  case (Suc n)
  then have "set (f i) \<inter> set (f n) = {}" if "i < n" for i
    using that by fastforce
  with Suc show ?case by (auto simp: less_Suc_eq)
qed simp

lemma operation_types_all:
  "list_all P operation_types \<Longrightarrow> T \<in> set operation_types \<Longrightarrow> P T"
  by (simp add: list_all_iff)

lemma untracked_distinct:
  "T \<in> set operation_types \<Longrightarrow>
     distinct (concat (map (\<lambda>k. flight_phases T k @ review_phases T k) [0..<length (commands T)]))"
  by (erule operation_types_all [rotated]) code_simp

lemma tracked_distinct:
  "T \<in> set operation_types \<Longrightarrow> distinct (concat (map (tracked_phases T) [0..<length (commands T)]))
     \<or> length (commands T) = 1"
  by (erule operation_types_all [rotated]) code_simp

lemma flight_review_disjoint:
  "T \<in> set operation_types \<Longrightarrow> k < length (commands T) \<Longrightarrow>
     set (flight_phases T k) \<inter> set (review_phases T k) = {}"
proof -
  have "list_all (\<lambda>T. list_all (\<lambda>k. \<not> list_ex (\<lambda>p. p \<in> set (review_phases T k)) (flight_phases T k))
      [0..<length (commands T)]) operation_types"
    by code_simp
  then show "T \<in> set operation_types \<Longrightarrow> k < length (commands T) \<Longrightarrow> ?thesis"
    by (auto simp: list_all_iff list_ex_iff)
qed

lemma ready_unique:
  "T \<in> set operation_types \<Longrightarrow> i < length (commands T) \<Longrightarrow> j < length (commands T) \<Longrightarrow>
     ready_phase T i = ready_phase T j \<Longrightarrow> i = j"
proof -
  have "list_all (\<lambda>T. distinct (map (ready_phase T) [0..<length (commands T)])) operation_types"
    by code_simp
  then show "T \<in> set operation_types \<Longrightarrow> i < length (commands T) \<Longrightarrow> j < length (commands T) \<Longrightarrow>
     ready_phase T i = ready_phase T j \<Longrightarrow> i = j"
    by (auto simp: list_all_iff distinct_map inj_on_def)
qed

lemma untracked_unique:
  assumes T: "T \<in> set operation_types" "i < length (commands T)" "j < length (commands T)"
    and p: "p \<in> set (flight_phases T i @ review_phases T i)" "p \<in> set (flight_phases T j @ review_phases T j)"
  shows "i = j"
  using untracked_distinct [OF T(1)] T(2,3) p by (rule index_unique)

lemma tracked_unique:
  assumes T: "T \<in> set operation_types" "i < length (commands T)" "j < length (commands T)"
    and p: "p \<in> set (tracked_phases T i)" "p \<in> set (tracked_phases T j)"
  shows "i = j"
  using tracked_distinct [OF T(1)]
proof
  assume "distinct (concat (map (tracked_phases T) [0..<length (commands T)]))"
  then show ?thesis using T(2,3) p by (rule index_unique)
qed (use T in simp)

lemma untracked_eq:
  "T \<in> set operation_types \<Longrightarrow> i < length (commands T) \<Longrightarrow> j < length (commands T) \<Longrightarrow>
   p \<in> set (flight_phases T i) \<union> set (review_phases T i) \<Longrightarrow>
   p \<in> set (flight_phases T j) \<union> set (review_phases T j) \<Longrightarrow> i = j"
  using untracked_unique [of T i j p] by simp

lemma holds_shape:
  "holds op a \<Longrightarrow>
     (case a of Ready k \<Rightarrow> op_status op = ''pending''
      | InFlight k \<Rightarrow> op_status op = ''processing'' \<and> op_task op = None
      | Review k \<Rightarrow> op_status op = ''processing'' \<and> op_task op = None
      | Tracked k \<Rightarrow> op_status op = ''processing'' \<and> op_task op \<noteq> None
      | Done \<Rightarrow> op_status op = ''succeeded''
      | Failed \<Rightarrow> op_status op = ''failed'')"
  by (cases a) simp_all

lemma holds_unique:
  assumes a: "holds op a" "a \<in> set (astates (op_type op))"
    and b: "holds op b" "b \<in> set (astates (op_type op))"
    and T: "op_type op \<in> set operation_types"
  shows "a = b"
proof (cases a)
  case (Ready i)
  then obtain j where "b = Ready j"
    using holds_shape [OF a(1)] holds_shape [OF b(1)] by (cases b) simp_all
  then show ?thesis using Ready a b ready_unique [OF T] by (simp add: in_astates)
next
  case (Tracked i)
  then obtain j where "b = Tracked j"
    using holds_shape [OF a(1)] holds_shape [OF b(1)] by (cases b) simp_all
  then show ?thesis using Tracked a b tracked_unique [OF T] by (auto simp: in_astates)
next
  case (InFlight i)
  then obtain p where p: "op_phase op = Some p" "p \<in> set (flight_phases (op_type op) i)"
      "i < length (commands (op_type op))"
    using a by (auto simp: in_astates)
  consider j where "b = InFlight j" | j where "b = Review j"
    using InFlight holds_shape [OF a(1)] holds_shape [OF b(1)] by (cases b) simp_all
  then show ?thesis
  proof cases
    case (1 j)
    then have "j < length (commands (op_type op))" "p \<in> set (flight_phases (op_type op) j)"
      using b p by (auto simp: in_astates)
    then have "i = j" by (intro untracked_eq [OF T p(3)]) (use p in auto)
    with 1 InFlight show ?thesis by simp
  next
    case (2 j)
    then have j: "j < length (commands (op_type op))" "p \<in> set (review_phases (op_type op) j)"
      using b p by (auto simp: in_astates)
    then have "i = j" by (intro untracked_eq [OF T p(3)]) (use p in auto)
    with p j flight_review_disjoint [OF T, of i] show ?thesis by blast
  qed
next
  case (Review i)
  then obtain p where p: "op_phase op = Some p" "p \<in> set (review_phases (op_type op) i)"
      "i < length (commands (op_type op))"
    using a by (auto simp: in_astates)
  consider j where "b = InFlight j" | j where "b = Review j"
    using Review holds_shape [OF a(1)] holds_shape [OF b(1)] by (cases b) simp_all
  then show ?thesis
  proof cases
    case (1 j)
    then have j: "j < length (commands (op_type op))" "p \<in> set (flight_phases (op_type op) j)"
      using b p by (auto simp: in_astates)
    then have "i = j" by (intro untracked_eq [OF T p(3)]) (use p in auto)
    with p j flight_review_disjoint [OF T, of i] show ?thesis by blast
  next
    case (2 j)
    then have "j < length (commands (op_type op))" "p \<in> set (review_phases (op_type op) j)"
      using b p by (auto simp: in_astates)
    then have "i = j" by (intro untracked_eq [OF T p(3)]) (use p in auto)
    with 2 Review show ?thesis by simp
  qed
next
  case Done
  then show ?thesis using holds_shape [OF a(1)] holds_shape [OF b(1)] by (cases b) simp_all
next
  case Failed
  then show ?thesis using holds_shape [OF a(1)] holds_shape [OF b(1)] by (cases b) simp_all
qed

lemma abs_stateI:
  assumes "holds op a" "a \<in> set (astates (op_type op))" "op_type op \<in> set operation_types"
  shows "abs_state op = Some a"
proof -
  from assms obtain b where b: "find (holds op) (astates (op_type op)) = Some b"
    by (metis find_None_iff not_Some_eq)
  then have "holds op b" "b \<in> set (astates (op_type op))"
    by (auto simp: find_Some_iff)
  with assms have "b = a" by (blast intro: holds_unique)
  with b assms(3) show ?thesis by (simp add: abs_state_def)
qed

lemma abs_state_iff:
  "abs_state op = Some a \<longleftrightarrow>
     op_type op \<in> set operation_types \<and> a \<in> set (astates (op_type op)) \<and> holds op a"
  using abs_stateI abs_state_holds abs_state_type abs_state_in by blast

section \<open>A step of the worker as a step of the abstract machine\<close>

definition op_frame :: "Operation \<Rightarrow> Operation \<Rightarrow> bool" where
  "op_frame op op' \<longleftrightarrow>
     op_id op' = op_id op \<and> op_vm op' = op_vm op \<and> op_type op' = op_type op \<and> op_key op' = op_key op
     \<and> op_created op' = op_created op"

definition vm_frame :: "VirtualMachine \<Rightarrow> VirtualMachine \<Rightarrow> bool" where
  "vm_frame v v' \<longleftrightarrow>
     vm_id v' = vm_id v \<and> vm_owner v' = vm_owner v \<and> vm_vcpus v' = vm_vcpus v
     \<and> vm_memory_mb v' = vm_memory_mb v \<and> vm_storage_gb v' = vm_storage_gb v
     \<and> vm_image v' = vm_image v \<and> vm_ssh_key v' = vm_ssh_key v"

definition same_place :: "VirtualMachine \<Rightarrow> VirtualMachine \<Rightarrow> bool" where
  "same_place v v' \<longleftrightarrow>
     vm_provider_node v' = vm_provider_node v \<and> vm_provider_vmid v' = vm_provider_vmid v"

text \<open>
  \<open>moves l op v op' v'\<close>: the rows \<open>op\<close>, \<open>v\<close> became \<open>op'\<close>, \<open>v'\<close> by an allowed step with the
  label \<open>l\<close>; nothing but the status, the phase bookkeeping and, once, the placement changed.
\<close>

definition moves ::
  "nat option \<Rightarrow> Operation \<Rightarrow> VirtualMachine \<Rightarrow> Operation \<Rightarrow> VirtualMachine \<Rightarrow> bool" where
  "moves l op v op' v' \<longleftrightarrow>
     op_frame op op' \<and> vm_frame v v'
     \<and> (\<exists>a a'. abs_state op = Some a \<and> abs_state op' = Some a'
          \<and> spec_step (op_type op) (a, vm_status v) l (a', vm_status v')
          \<and> ((placed v \<and> same_place v v')
             \<or> (a = Ready 0 \<and> a' = Ready 0 \<and> l = None \<and> vm_provider_node v = None
                \<and> vm_provider_vmid v = None \<and> placed v')))
     \<and> op_attempts op' = op_attempts op + (if l = None then 0 else 1)"

lemma movesI:
  assumes "abs_state op = Some a" "holds op' a'" "a' \<in> set (astates (op_type op))"
    "op_frame op op'" "vm_frame v v'" "spec_step (op_type op) (a, vm_status v) l (a', vm_status v')"
    "placed v" "same_place v v'" "op_attempts op' = op_attempts op + (if l = None then 0 else 1)"
  shows "moves l op v op' v'"
proof -
  have "abs_state op' = Some a'"
    using assms abs_state_type [OF assms(1)] by (auto simp: op_frame_def intro: abs_stateI)
  with assms show ?thesis by (auto simp: moves_def)
qed

lemma op_frame_refl [simp]: "op_frame op op"
  by (simp add: op_frame_def)

lemma vm_frame_refl [simp]: "vm_frame v v" "same_place v v"
  by (simp_all add: vm_frame_def same_place_def)

lemma vm_frame_status [simp]: "vm_frame v (v\<lparr>vm_status := st\<rparr>)" "same_place v (v\<lparr>vm_status := st\<rparr>)"
  by (simp_all add: vm_frame_def same_place_def)

lemma vm_status_idem: "vm_status v = st \<Longrightarrow> v\<lparr>vm_status := st\<rparr> = v"
  by (cases v) simp

text \<open>
  The same for the states of a session whose operation is known to be in the abstract state
  \<open>a\<close>; it does not look at the phase of the operation it starts from.
\<close>

definition reaches :: "astate \<Rightarrow> 'p sess \<Rightarrow> 'q sess \<Rightarrow> bool" where
  "reaches a s t \<longleftrightarrow>
     (\<exists>v v' a'. s_vm s = Some v \<and> s_vm t = Some v' \<and> op_frame (s_op s) (s_op t) \<and> vm_frame v v'
        \<and> same_place v v' \<and> holds (s_op t) a' \<and> op_attempts (s_op t) = op_attempts (s_op s)
        \<and> spec_step (op_type (s_op s)) (a, vm_status v) None (a', vm_status v'))"

lemma reachesI:
  assumes "s_vm s = Some v" "s_vm t = Some v'" "op_frame (s_op s) (s_op t)" "vm_frame v v'"
    "same_place v v'" "holds (s_op t) a'" "op_attempts (s_op t) = op_attempts (s_op s)"
    "spec_step (op_type (s_op s)) (a, vm_status v) None (a', vm_status v')"
  shows "reaches a s t"
  using assms unfolding reaches_def by blast

lemma reaches_moves:
  assumes "reaches a s t" "abs_state op = Some a" "op_frame op (s_op s)" "op_attempts (s_op s) = op_attempts op"
    "s_vm s = Some v" "placed v"
  shows "\<exists>v'. s_vm t = Some v' \<and> moves None op v (s_op t) v'"
proof -
  from assms(1,5) obtain v' a' where r: "s_vm t = Some v'" "op_frame (s_op s) (s_op t)" "vm_frame v v'"
      "same_place v v'" "holds (s_op t) a'" "op_attempts (s_op t) = op_attempts (s_op s)"
      "spec_step (op_type (s_op s)) (a, vm_status v) None (a', vm_status v')"
    by (auto simp: reaches_def)
  have T: "op_type (s_op s) = op_type op"
    using assms(3) by (simp add: op_frame_def)
  have "a' \<in> set (astates (op_type op))"
    using spec_step_astates [OF r(7)] abs_state_in [OF assms(2)] T by simp
  then have "moves None op v (s_op t) v'"
    using r assms T by (intro movesI [OF assms(2), of _ a']) (auto simp: op_frame_def)
  with r(1) show ?thesis by blast
qed

text \<open>What the first transaction may prepare: the command the step submits, at the VM's place.\<close>

fun dispatches :: "Operation \<Rightarrow> VirtualMachine \<Rightarrow> nat option \<Rightarrow> dispatch option \<Rightarrow> bool" where
  "dispatches op v None disp = (disp = None)"
| "dispatches op v (Some k) None = False"
| "dispatches op v (Some k) (Some (CreateDispatch oid vid phase request target)) =
     (op_type op = ''vm.create'' \<and> oid = op_id op \<and> vid = op_vm op \<and> phase = commands (op_type op) ! k
      \<and> Some (place_node target) = vm_provider_node v \<and> Some (place_vmid target) = vm_provider_vmid v
      \<and> (request = None \<longleftrightarrow> k = 3) \<and> (\<forall>r. request = Some r \<longrightarrow> req_vm_id r = vm_id v))"
| "dispatches op v (Some k) (Some (StartDispatch oid vid target)) =
     (op_type op = ''vm.start'' \<and> oid = op_id op \<and> vid = op_vm op \<and> k = 0
      \<and> Some (place_node target) = vm_provider_node v \<and> Some (place_vmid target) = vm_provider_vmid v)"
| "dispatches op v (Some k) (Some (LifecycleDispatch oid vid command target)) =
     (op_type op \<in> {''vm.shutdown'', ''vm.stop'', ''vm.reboot'', ''vm.delete''}
      \<and> oid = op_id op \<and> vid = op_vm op \<and> command = commands (op_type op) ! k
      \<and> Some (place_node target) = vm_provider_node v \<and> Some (place_vmid target) = vm_provider_vmid v)"

text \<open>One rule per kind of step; \<open>v'\<close> is the virtual machine after it.\<close>

definition keeps :: "VirtualMachine \<Rightarrow> 'p sess \<Rightarrow> string \<Rightarrow> 'q sess \<Rightarrow> bool" where
  "keeps v s st t \<longleftrightarrow> s_vm s = Some v \<and> op_frame (s_op s) (s_op t) \<and> op_attempts (s_op t) = op_attempts (s_op s)
     \<and> s_vm t = Some (v\<lparr>vm_status := st\<rparr>)"

lemma keeps_reaches:
  "keeps v s st t \<Longrightarrow> holds (s_op t) a' \<Longrightarrow> spec_step (op_type (s_op s)) (a, vm_status v) None (a', st) \<Longrightarrow>
   reaches a s t"
  by (rule reachesI [of _ v _ "v\<lparr>vm_status := st\<rparr>" a']) (auto simp: keeps_def)

lemma reaches_rules:
  "keeps v s (vm_status v) t \<Longrightarrow> holds (s_op t) (Tracked k) \<Longrightarrow> reaches (Tracked k) s t"
  "keeps v s (confirmed (op_type (s_op s)) k) t \<Longrightarrow> holds (s_op t) (after (op_type (s_op s)) k) \<Longrightarrow>
     reaches (Tracked k) s t"
  "keeps v s (failed_status (op_type (s_op s)) (vm_status v)) t \<Longrightarrow> holds (s_op t) Failed \<Longrightarrow>
     reaches (Tracked k) s t"
  "keeps v s (vm_status v) t \<Longrightarrow> holds (s_op t) (InFlight k) \<Longrightarrow> reaches (InFlight k) s t"
  "keeps v s (if op_type (s_op s) = ''vm.create'' then ''provisioning'' else vm_status v) t \<Longrightarrow>
     holds (s_op t) (Tracked k) \<Longrightarrow> reaches (InFlight k) s t"
  "keeps v s (confirmed (op_type (s_op s)) k) t \<Longrightarrow> holds (s_op t) (after (op_type (s_op s)) k) \<Longrightarrow>
     reaches (InFlight k) s t"
  "op_type (s_op s) = ''vm.create'' \<Longrightarrow> k = 1 \<or> k = 2 \<Longrightarrow> keeps v s (vm_status v) t \<Longrightarrow>
     holds (s_op t) (Review k) \<Longrightarrow> reaches (InFlight k) s t"
  "op_type (s_op s) = ''vm.create'' \<Longrightarrow> keeps v s ''provisioning'' t \<Longrightarrow> holds (s_op t) (InFlight 0) \<Longrightarrow>
     reaches (InFlight 0) s t"
  by (erule (1) keeps_reaches, simp add: spec_step.intros;
      fail | erule (1) keeps_reaches, rule spec_step.intros; simp)+

lemmas reaches_poll = reaches_rules(1)
lemmas reaches_complete = reaches_rules(2)
lemmas reaches_fail = reaches_rules(3)
lemmas reaches_hold = reaches_rules(4)
lemmas reaches_track = reaches_rules(5)
lemmas reaches_confirm = reaches_rules(6)
lemmas reaches_review = reaches_rules(7)
lemmas reaches_hold_clone = reaches_rules(8)

lemmas step_facts = keeps_def op_frame_def phase_defs failed_status_def after_def confirmed_def

lemma reaches_phase: "reaches a (s\<lparr>s_op := (s_op s)\<lparr>op_phase := p\<rparr>\<rparr>) t \<Longrightarrow> reaches a s t"
  by (simp add: reaches_def op_frame_def)

lemma same_phase:
  "op_phase (s_op s) = p \<Longrightarrow> s\<lparr>s_op := (s_op s)\<lparr>op_phase := p\<rparr>\<rparr> = s"
  by (cases s; cases "s_op s") auto

end
