(* ===== verification/CreateSteps.thy ===== *)
theory CreateSteps
  imports StepRules
begin

text \<open>Every function of the create flow, as the worker calls it, is a step of the abstract machine.\<close>

section \<open>Operations of type vm.create\<close>

lemma create_ready_eq:
  assumes op: "op_type (s_op s) = ''vm.create''" "op_status (s_op s) = ''pending''" "op_task (s_op s) = None"
      "op_phase (s_op s) = Some c"
    and c: "c = ''clone'' \<or> c = ''configure'' \<or> c = ''resize'' \<or> c = ''start''"
    and v: "s_vm s = Some v" "vm_provider_node v = Some node" "vm_provider_vmid v = Some vmid"
      "request_for (s_keys s) v = Some req"
  shows "process_create_branch now A s =
    (Inr (Some (CreateDispatch (op_id (s_op s)) (op_vm (s_op s)) c
                  (if c = ''start'' then None else Some req) \<lparr>place_node = node, place_vmid = vmid\<rparr>)),
     s\<lparr>s_op := (s_op s)\<lparr>op_status := ''processing'', op_phase := Some (''dispatch_create_'' @ c),
                          op_attempts := op_attempts (s_op s) + 1, op_updated := now\<rparr>\<rparr>)"
  using c
  by (elim disjE; simp add: op v vc Let_def process_create_branch_def prepare_create_def
      prepare_create_vm_dispatch_def py_bind_def py_then_def)

lemma refresh_create_outcome:
  assumes op: "op_type (s_op s) = ''vm.create''" "op_status (s_op s) = ''processing''"
      "op_task (s_op s) = Some upid" "op_phase (s_op s) = Some (commands ''vm.create'' ! k)"
    and k: "k = 0 \<or> k = 1 \<or> k = 2 \<or> k = 3"
    and v: "s_vm s = Some v" "vm_provider_node v = Some node" "vm_provider_vmid v = Some vmid"
      "vm_status v = ''provisioning''"
  shows "outcome (refresh_create_vm_operation now A s) (\<lambda>_ t. reaches (Tracked k) s t)
           (\<lambda>_ t. s_op t = s_op s \<and> s_vm t = s_vm s)"
proof -
  have op4: "op_phase (s_op s) = Some ''clone'' \<and> k = 0 \<or> op_phase (s_op s) = Some ''configure'' \<and> k = 1
      \<or> op_phase (s_op s) = Some ''resize'' \<and> k = 2 \<or> op_phase (s_op s) = Some ''start'' \<and> k = 3"
    using k op(4) by (elim disjE) simp_all
  note st = vm_status_idem [OF v(4)]
  show ?thesis
    by (insert op4; elim disjE conjE; simp add: op(1-3) v vc Let_def refresh_create_vm_operation_def;
        ((rule conjI allI impI)
         | (rule reaches_rules [where v = v]; simp add: op(1-3) v st step_facts; fail))+)
qed

lemma create_tracked_outcome:
  assumes op: "op_type (s_op s) = ''vm.create''" "holds (s_op s) (Tracked k)" and k: "k < 4"
    and v: "s_vm s = Some v" "vm_provider_node v = Some node" "vm_provider_vmid v = Some vmid"
      "vm_status v = ''provisioning''"
  shows "outcome (process_create_branch now A s) (\<lambda>disp t. disp = None \<and> reaches (Tracked k) s t) (\<lambda>_ _. False)"
proof -
  define c where "c = commands ''vm.create'' ! k"
  define s' where "s' = s\<lparr>s_op := (s_op s)\<lparr>op_phase := Some c\<rparr>\<rparr>"
  have k': "k = 0 \<or> k = 1 \<or> k = 2 \<or> k = 3"
    using k by auto
  obtain upid where task: "op_status (s_op s) = ''processing''" "op_task (s_op s) = Some upid"
    using op by auto
  have phase: "op_phase (s_op s) = Some c \<or> op_phase (s_op s) = Some (''poll_backoff_create_'' @ c)"
    using op by (auto simp: tracked_phases_def c_def)
  have c: "c = ''clone'' \<or> c = ''configure'' \<or> c = ''resize'' \<or> c = ''start''"
    using k' by (elim disjE) (simp_all add: c_def)
  have "outcome (refresh_create_vm_operation now A s') (\<lambda>_ t. reaches (Tracked k) s' t)
           (\<lambda>_ t. s_op t = s_op s' \<and> s_vm t = s_vm s')"
    by (rule refresh_create_outcome [OF _ _ _ _ k', of _ _ v node vmid]) (simp_all add: s'_def op(1) task v c_def)
  then have r: "outcome (process_create_vm_operation now A s') (\<lambda>_ t. reaches (Tracked k) s' t)
           (\<lambda>_ t. s_op t = s_op s' \<and> s_vm t = s_vm s')"
    by (simp add: process_create_vm_operation_def s'_def task)
  have backoff: "reaches (Tracked k) s' (t\<lparr>s_op := (s_op t)\<lparr>op_phase := Some (''poll_backoff_create_'' @ fstr (op_phase (s_op t))),
                      op_error := Some ''provider_status_unavailable'', op_updated := now\<rparr>\<rparr>)"
    if "s_op t = s_op s'" "s_vm t = s_vm s'" for t
    by (rule reaches_poll [of v]) (simp_all add: that s'_def task v op keeps_def op_frame_def tracked_phases_def c_def)
  have *: "outcome (process_create_branch now A s) Q E =
      outcome (process_create_vm_operation now A s') (\<lambda>_ t. Q None t)
        (\<lambda>_ t. Q None (t\<lparr>s_op := (s_op t)\<lparr>op_phase := Some (''poll_backoff_create_'' @ fstr (op_phase (s_op t))),
                      op_error := Some ''provider_status_unavailable'', op_updated := now\<rparr>\<rparr>))"
    for Q :: "dispatch option \<Rightarrow> 'a sess \<Rightarrow> bool" and E
    using phase c
    by (elim disjE) (simp_all add: process_create_branch_def vc Let_def task s'_def same_phase removeprefix_def)
  have orig: "reaches (Tracked k) s' t \<Longrightarrow> reaches (Tracked k) s t" for t
    unfolding s'_def by (rule reaches_phase)
  show ?thesis
    unfolding * using r
    by (rule outcome_mono) (blast intro: orig backoff)+
qed

lemma create_place_outcome:
  assumes op: "op_type (s_op s) = ''vm.create''" "op_status (s_op s) = ''pending''" "op_task (s_op s) = None"
      "op_phase (s_op s) = Some ''clone''"
    and v: "s_vm s = Some v" "vm_provider_node v = None" "vm_provider_vmid v = None"
      "request_for (s_keys s) v = Some req"
  shows "outcome (process_create_branch now A s)
     (\<lambda>disp t. disp = None \<and> (\<exists>target p. choose_clone_target A req (s_prov s) = (Inr target, p)
        \<and> t = s\<lparr>s_vm := Some (v\<lparr>vm_provider_node := Some (place_node target),
                              vm_provider_vmid := Some (place_vmid target)\<rparr>), s_prov := p\<rparr>))
     (\<lambda>e t. \<exists>p. choose_clone_target A req (s_prov s) = (Inl e, p))"
  by (simp add: op v vc Let_def process_create_branch_def process_create_vm_operation_def
      start_create_vm_operation_def)

text \<open>The string operations on the phases of a create, evaluated once.\<close>

lemma create_phase_strings [simp]:
  "replace1 ''dispatch_'' ''reconcile_'' ''dispatch_create_clone'' = ''reconcile_create_clone''"
  "replace1 ''dispatch_'' ''reconcile_'' ''reconcile_create_clone'' = ''reconcile_create_clone''"
  "replace1 ''dispatch_'' ''reconcile_'' ''dispatch_create_configure'' = ''reconcile_create_configure''"
  "replace1 ''dispatch_'' ''reconcile_'' ''reconcile_create_configure'' = ''reconcile_create_configure''"
  "replace1 ''dispatch_'' ''reconcile_'' ''dispatch_create_resize'' = ''reconcile_create_resize''"
  "replace1 ''dispatch_'' ''reconcile_'' ''reconcile_create_resize'' = ''reconcile_create_resize''"
  "replace1 ''dispatch_'' ''reconcile_'' ''dispatch_create_start'' = ''reconcile_create_start''"
  "replace1 ''dispatch_'' ''reconcile_'' ''reconcile_create_start'' = ''reconcile_create_start''"
  "replace1 ''reconcile_'' ''needs_review_'' (replace1 ''dispatch_'' ''needs_review_'' ''dispatch_create_configure'') = ''needs_review_create_configure''"
  "replace1 ''reconcile_'' ''needs_review_'' (replace1 ''dispatch_'' ''needs_review_'' ''reconcile_create_configure'') = ''needs_review_create_configure''"
  "replace1 ''reconcile_'' ''needs_review_'' (replace1 ''dispatch_'' ''needs_review_'' ''dispatch_create_resize'') = ''needs_review_create_resize''"
  "replace1 ''reconcile_'' ''needs_review_'' (replace1 ''dispatch_'' ''needs_review_'' ''reconcile_create_resize'') = ''needs_review_create_resize''"
  by code_simp+

lemma create_phase_suffixes [simp]:
  "ends_with ''_clone'' ''dispatch_create_clone''"
  "\<not> ends_with ''_configure'' ''dispatch_create_clone''"
  "\<not> ends_with ''_resize'' ''dispatch_create_clone''"
  "\<not> ends_with ''_start'' ''dispatch_create_clone''"
  "ends_with ''_clone'' ''reconcile_create_clone''"
  "\<not> ends_with ''_configure'' ''reconcile_create_clone''"
  "\<not> ends_with ''_resize'' ''reconcile_create_clone''"
  "\<not> ends_with ''_start'' ''reconcile_create_clone''"
  "\<not> ends_with ''_clone'' ''dispatch_create_configure''"
  "ends_with ''_configure'' ''dispatch_create_configure''"
  "\<not> ends_with ''_resize'' ''dispatch_create_configure''"
  "\<not> ends_with ''_start'' ''dispatch_create_configure''"
  "\<not> ends_with ''_clone'' ''reconcile_create_configure''"
  "ends_with ''_configure'' ''reconcile_create_configure''"
  "\<not> ends_with ''_resize'' ''reconcile_create_configure''"
  "\<not> ends_with ''_start'' ''reconcile_create_configure''"
  "\<not> ends_with ''_clone'' ''dispatch_create_resize''"
  "\<not> ends_with ''_configure'' ''dispatch_create_resize''"
  "ends_with ''_resize'' ''dispatch_create_resize''"
  "\<not> ends_with ''_start'' ''dispatch_create_resize''"
  "\<not> ends_with ''_clone'' ''reconcile_create_resize''"
  "\<not> ends_with ''_configure'' ''reconcile_create_resize''"
  "ends_with ''_resize'' ''reconcile_create_resize''"
  "\<not> ends_with ''_start'' ''reconcile_create_resize''"
  "\<not> ends_with ''_clone'' ''dispatch_create_start''"
  "\<not> ends_with ''_configure'' ''dispatch_create_start''"
  "\<not> ends_with ''_resize'' ''dispatch_create_start''"
  "ends_with ''_start'' ''dispatch_create_start''"
  "\<not> ends_with ''_clone'' ''reconcile_create_start''"
  "\<not> ends_with ''_configure'' ''reconcile_create_start''"
  "\<not> ends_with ''_resize'' ''reconcile_create_start''"
  "ends_with ''_start'' ''reconcile_create_start''"
  by code_simp+

lemma create_flight_status: "coherent ''vm.create'' (InFlight k) st \<Longrightarrow> st = ''provisioning'' \<or> k = 0"
  by auto

lemma create_flight_cases:
  assumes "holds op (InFlight k)" "op_type op = ''vm.create''" "k < 4"
  shows "k = 0 \<and> op_phase op = Some ''dispatch_create_clone''
      \<or> k = 0 \<and> op_phase op = Some ''reconcile_create_clone''
      \<or> k = 1 \<and> op_phase op = Some ''dispatch_create_configure''
      \<or> k = 1 \<and> op_phase op = Some ''reconcile_create_configure''
      \<or> k = 2 \<and> op_phase op = Some ''dispatch_create_resize''
      \<or> k = 2 \<and> op_phase op = Some ''reconcile_create_resize''
      \<or> k = 3 \<and> op_phase op = Some ''dispatch_create_start''
      \<or> k = 3 \<and> op_phase op = Some ''reconcile_create_start''"
proof -
  have "k = 0 \<or> k = 1 \<or> k = 2 \<or> k = 3"
    using assms by auto
  then show ?thesis
    using assms by (elim disjE) (simp_all add: flight_phases_def)
qed

lemma reconcile_create_outcome:
  assumes op: "op_type (s_op s) = ''vm.create''" "op_status (s_op s) = ''processing''"
      "op_task (s_op s) = None" "holds (s_op s) (InFlight k)" and k: "k < 4"
    and v: "s_vm s = Some v" "vm_provider_node v = Some node" "vm_provider_vmid v = Some vmid"
      "vm_status v = ''provisioning'' \<or> k = 0"
  shows "outcome (reconcile_create_vm_operation now A s) (\<lambda>_ t. reaches (InFlight k) s t)
           (\<lambda>_ t. s_op t = s_op s \<and> s_vm t = s_vm s)"
proof -
  note same = vm_status_idem [where v = v]
  show ?thesis
    by (insert create_flight_cases [OF op(4,1) k] v(4); elim disjE conjE; simp add: op(1-3) v(1-3) vc Let_def
          reconcile_create_vm_operation_def create_reconcile_phases_def create_outcome_unknown_def;
        ((rule conjI allI impI)
         | (rule reaches_hold [of v] reaches_confirm [of v] reaches_review [where v = v];
            simp add: op(1-3) v(1-3) same keeps_def op_frame_def flight_phases_def ready_phase_def review_phases_def
              after_def confirmed_def; fail))+)
qed

lemma create_inflight_outcome:
  assumes op: "op_type (s_op s) = ''vm.create''" "holds (s_op s) (InFlight k)" and k: "k < 4"
    and v: "s_vm s = Some v" "vm_provider_node v = Some node" "vm_provider_vmid v = Some vmid"
      "coherent ''vm.create'' (InFlight k) (vm_status v)"
  shows "outcome (process_create_branch now A s) (\<lambda>disp t. disp = None \<and> reaches (InFlight k) s t) (\<lambda>_ _. False)"
proof -
  have task: "op_status (s_op s) = ''processing''" "op_task (s_op s) = None"
    using op by auto
  have st: "vm_status v = ''provisioning'' \<or> k = 0"
    by (rule create_flight_status [OF v(4)])
  define p where "p = op_phase (s_op s)"
  define p' where "p' = map_option (replace1 ''dispatch_'' ''reconcile_'') p"
  have p': "p' \<in> Some ` set (flight_phases ''vm.create'' k) \<and> (starts_with ''dispatch_create_'' (or_empty p)
      \<or> starts_with ''reconcile_create_'' (or_empty p))"
    using create_flight_cases [OF op(2,1) k] unfolding p_def [symmetric] p'_def
    by (elim disjE conjE) (simp_all add: flight_phases_def)
  have r: "outcome (reconcile_create_vm_operation now A s) (\<lambda>_ t. reaches (InFlight k) s t)
      (\<lambda>_ t. s_op t = s_op s \<and> s_vm t = s_vm s)"
    by (rule reconcile_create_outcome [OF op(1) task op(2) k v(1-3) st])
  have unavailable: "reaches (InFlight k) s (t\<lparr>s_op := (s_op t)\<lparr>op_phase :=
        map_option (replace1 ''dispatch_'' ''reconcile_'') (op_phase (s_op t)),
        op_error := Some ''provider_status_unavailable'', op_updated := now\<rparr>\<rparr>)"
    if "s_op t = s_op s \<and> s_vm t = s_vm s" for t
    using p' unfolding p'_def p_def
    by (intro reaches_hold [of v]) (auto simp: that op v task keeps_def op_frame_def)
  have "outcome (process_create_branch now A s) Q E =
      outcome (reconcile_create_vm_operation now A s) (\<lambda>_ t. Q None t)
        (\<lambda>_ t. Q None (t\<lparr>s_op := (s_op t)\<lparr>op_phase :=
        map_option (replace1 ''dispatch_'' ''reconcile_'') (op_phase (s_op t)),
        op_error := Some ''provider_status_unavailable'', op_updated := now\<rparr>\<rparr>))"
    for Q :: "dispatch option \<Rightarrow> 'a sess \<Rightarrow> bool" and E
    using p' unfolding p_def by (simp add: process_create_branch_def vc Let_def task)
  then show ?thesis
    using r by (simp, elim outcome_mono) (blast intro: unavailable)+
qed

lemma create_review_ineligible:
  assumes "op_type op = ''vm.create''" "holds op (Review k)"
  shows "\<not> eligible now op"
  using assms by (auto simp: eligible_def review_phases_def)

lemma create_dispatch_phase:
  assumes op: "op_type op = ''vm.create''" "abs_state op = Some a" "op_status op = ''processing''"
      "op_phase op = Some (''dispatch_create_'' @ phase)"
  shows "\<exists>k. a = InFlight k \<and> op_task op = None
     \<and> (k = 0 \<and> phase = ''clone'' \<or> k = 1 \<and> phase = ''configure'' \<or> k = 2 \<and> phase = ''resize''
        \<or> k = 3 \<and> phase = ''start'')"
proof -
  have h: "holds op a" "a \<in> set (astates ''vm.create'')"
    using abs_state_holds [OF op(2)] abs_state_in [OF op(2)] op(1) by simp_all
  show ?thesis
  proof (cases a)
    case (InFlight k)
    with h have "k = 0 \<or> k = 1 \<or> k = 2 \<or> k = 3"
      by (simp add: in_astates less_4_cases)
    then show ?thesis
      using h InFlight op by (elim disjE) (simp_all add: flight_phases_def)
  next
    case (Tracked k)
    with h have "k = 0 \<or> k = 1 \<or> k = 2 \<or> k = 3"
      by (simp add: in_astates less_4_cases)
    then show ?thesis
      using h Tracked op by (elim disjE) (simp_all add: tracked_phases_def)
  next
    case (Review k)
    with h have "k = 0 \<or> k = 1 \<or> k = 2 \<or> k = 3"
      by (simp add: in_astates less_4_cases)
    then show ?thesis
      using h Review op by (elim disjE) (simp_all add: review_phases_def)
  qed (use h op in simp_all)
qed

lemma finish_create_task_outcome:
  assumes op: "op_type (s_op s) = ''vm.create''" "op_status (s_op s) = ''processing''" "op_task (s_op s) = None"
    and v: "s_vm s = Some v" "vm_status v = ''provisioning'' \<or> k = 0"
    and p: "k = 0 \<and> phase = ''clone'' \<or> k = 1 \<and> phase = ''configure'' \<or> k = 2 \<and> phase = ''resize''
        \<or> k = 3 \<and> phase = ''start''"
    and u: "u = s \<and> k \<noteq> 0 \<or> u = s\<lparr>s_vm := Some (v\<lparr>vm_status := ''provisioning''\<rparr>)\<rparr>"
  shows "outcome (finish_create_task phase node vmid t u) (\<lambda>_ t. reaches (InFlight k) s t) (\<lambda>_ _. True)"
proof -
  note same = vm_status_idem [where v = v]
  show ?thesis
    by (insert p u v(2); cases t; elim disjE conjE; simp add: vc finish_create_task_def;
        ((rule conjI allI impI)
         | (rule reaches_rules [where v = v]; simp add: op v(1) same step_facts; fail))+)
qed

lemma create_store_outcome:
  assumes op: "op_type (s_op s) = ''vm.create''" "abs_state (s_op s) = Some a"
    and v: "s_vm s = Some v" "vm_provider_node v = Some node" "vm_provider_vmid v = Some vmid"
      "coherent ''vm.create'' a (vm_status v)"
  shows "outcome (store_step now (CreateDispatch oid vid phase request target) res s)
     (\<lambda>_ t. reaches a s t) (\<lambda>_ _. True)"
proof (cases "op_status (s_op s) = ''processing'' \<and> op_phase (s_op s) = Some (''dispatch_create_'' @ phase)")
  case False
  then show ?thesis
    by (cases res; cases "op_status (s_op s) = ''processing''")
      (simp_all add: vc Let_def store_step_def mark_unknown_def finish_dispatch_def finish_create_vm_dispatch_def)
next
  case True
  obtain k where "a = InFlight k \<and> op_task (s_op s) = None
     \<and> (k = 0 \<and> phase = ''clone'' \<or> k = 1 \<and> phase = ''configure'' \<or> k = 2 \<and> phase = ''resize''
        \<or> k = 3 \<and> phase = ''start'')"
    using create_dispatch_phase [OF op True [THEN conjunct1] True [THEN conjunct2]] by (elim exE)
  note w = this
  note a = conjunct1 [OF w] conjunct1 [OF conjunct2 [OF w]] and k = conjunct2 [OF conjunct2 [OF w]]
  have st: "vm_status v = ''provisioning'' \<or> k = 0"
    by (rule create_flight_status [OF v(4) [unfolded a(1)]])
  note same = vm_status_idem [where v = v]
  have unknown: "reaches (InFlight k) s
      (s\<lparr>s_op := (s_op s)\<lparr>op_phase := Some (''reconcile_create_'' @ phase),
               op_error := Some ''provider_submit_unknown'', op_updated := now\<rparr>\<rparr>)"
    by (rule reaches_hold [of v], insert k; elim disjE conjE)
      (simp_all add: op True a v same keeps_def op_frame_def flight_phases_def)
  show ?thesis
  proof (cases res)
    case (Inl e)
    then show ?thesis
      using True a(1) unknown by (simp add: vc Let_def store_step_def mark_unknown_def)
  next
    case (Inr result)
    have other: "outcome (store_step now (CreateDispatch oid vid phase request target) res s)
       (\<lambda>_ t. reaches (InFlight k) s t) (\<lambda>_ _. True)" if "result = TaskReply x \<or> result = DeleteReply y" for x y
      by (insert k that finish_create_task_outcome [OF op(1) True [THEN conjunct1] a(2) v(1) st];
          elim disjE conjE; simp add: op True a v(1-3) Inr vc Let_def store_step_def finish_dispatch_def
            finish_create_vm_dispatch_def)
    have clone: "outcome (store_step now (CreateDispatch oid vid phase request target) res s)
       (\<lambda>_ t. reaches (InFlight k) s t) (\<lambda>_ _. True)" if "result = CloneReply r" for r
      by (insert k that finish_create_task_outcome [OF op(1) True [THEN conjunct1] a(2) v(1) st];
          elim disjE conjE; simp add: op True a v(1-3) Inr vc Let_def store_step_def finish_dispatch_def
            finish_create_vm_dispatch_def;
          (rule conjI impI
           | (rule reaches_rules [where v = v]; simp add: op True a v(1-3) same step_facts; fail))+)
    show ?thesis
      using other clone a(1) by (cases result) simp_all
  qed
qed

end
