(* ===== verification/LifecycleSteps.thy ===== *)
theory LifecycleSteps
  imports StepRules
begin

text \<open>
  Every function of the start, shutdown, stop, reboot and delete flows, as the worker calls
  it, is a step of the abstract machine.
\<close>

section \<open>Operations of type vm.start\<close>

lemma start_ready_eq:
  assumes op: "op_type (s_op s) = ''vm.start''" "op_status (s_op s) = ''pending''" "op_task (s_op s) = None"
    and v: "s_vm s = Some v" "vm_provider_node v = Some node" "vm_provider_vmid v = Some vmid"
  shows "process_start_branch now A s =
    (Inr (Some (StartDispatch (op_id (s_op s)) (op_vm (s_op s)) \<lparr>place_node = node, place_vmid = vmid\<rparr>)),
     s\<lparr>s_op := (s_op s)\<lparr>op_status := ''processing'', op_phase := Some ''dispatching'',
                          op_attempts := op_attempts (s_op s) + 1, op_updated := now\<rparr>\<rparr>)"
  by (simp add: op v vc Let_def process_start_branch_def prepare_start_vm_dispatch_def py_bind_def py_then_def)

lemma start_tracked_outcome:
  assumes op: "op_type (s_op s) = ''vm.start''" "holds (s_op s) (Tracked 0)"
    and v: "s_vm s = Some v" "vm_provider_node v = Some node" "vm_provider_vmid v = Some vmid"
  shows "outcome (process_start_branch now A s) (\<lambda>disp t. disp = None \<and> reaches (Tracked 0) s t) (\<lambda>_ _. False)"
proof -
  obtain upid where task: "op_status (s_op s) = ''processing''" "op_task (s_op s) = Some upid"
    using op by auto
  have phase: "op_phase (s_op s) \<in> Some ` set (tracked_phases ''vm.start'' 0)"
    using op by simp
  note same = vm_status_idem [where v = v]
  show ?thesis
    by (insert phase; simp add: op(1) task v vc Let_def process_start_branch_def process_start_vm_operation_def;
        ((rule conjI allI impI)
         | (rule reaches_rules [where v = v]; simp add: op(1) task v same step_facts; fail))+)
qed

lemma start_inflight_outcome:
  assumes op: "op_type (s_op s) = ''vm.start''" "holds (s_op s) (InFlight 0)"
    and v: "s_vm s = Some v" "vm_provider_node v = Some node" "vm_provider_vmid v = Some vmid"
  shows "outcome (process_start_branch now A s) (\<lambda>disp t. disp = None \<and> reaches (InFlight 0) s t) (\<lambda>_ _. False)"
proof -
  have task: "op_status (s_op s) = ''processing''" "op_task (s_op s) = None"
    using op by auto
  have phase: "op_phase (s_op s) = Some ''dispatching'' \<or> op_phase (s_op s) = Some ''reconcile''"
    using op by (simp add: flight_phases_def)
  note same = vm_status_idem [where v = v]
  show ?thesis
    by (insert phase; elim disjE; simp add: op(1) task v vc Let_def process_start_branch_def
          reconcile_start_vm_operation_def;
        ((rule conjI allI impI)
         | (rule reaches_rules [where v = v]; simp add: op(1) task v same step_facts; fail))+)
qed

lemma start_store_outcome:
  assumes op: "op_type (s_op s) = ''vm.start''" "abs_state (s_op s) = Some a"
    and v: "s_vm s = Some v" "vm_provider_node v = Some node" "vm_provider_vmid v = Some vmid"
  shows "outcome (store_step now (StartDispatch oid vid target) res s)
     (\<lambda>_ t. reaches a s t) (\<lambda>_ _. True)"
proof (cases "op_status (s_op s) = ''processing'' \<and> op_phase (s_op s) = Some ''dispatching''")
  case False
  then show ?thesis
    by (cases res; cases "op_phase (s_op s) = Some ''dispatching''")
      (simp_all add: vc Let_def store_step_def mark_unknown_def finish_dispatch_def
        finish_start_vm_dispatch_def split: reply.split)
next
  case True
  have a: "a = InFlight 0 \<and> op_task (s_op s) = None"
    using abs_state_holds [OF op(2)] abs_state_in [OF op(2)] True op(1)
    by (cases a) (simp_all add: in_astates step_facts)
  note same = vm_status_idem [where v = v]
  show ?thesis
    by (insert a; elim conjE; cases res; simp add: op(1) True v vc Let_def store_step_def mark_unknown_def
          finish_dispatch_def finish_start_vm_dispatch_def split: reply.split option.split;
        ((rule conjI allI impI)
         | (rule reaches_rules [where v = v]; simp add: op(1) True v same step_facts; fail))+)
qed

section \<open>The other lifecycle operations\<close>

text \<open>The string operations on the phases of a lifecycle operation, evaluated once.\<close>

lemma lifecycle_phase_strings [simp]:
  "replace1 ''dispatch_'' ''reconcile_'' ''dispatch_shutdown'' = ''reconcile_shutdown''"
  "replace1 ''dispatch_'' ''reconcile_'' ''reconcile_shutdown'' = ''reconcile_shutdown''"
  "replace1 ''dispatch_'' ''reconcile_'' ''dispatch_stop'' = ''reconcile_stop''"
  "replace1 ''dispatch_'' ''reconcile_'' ''reconcile_stop'' = ''reconcile_stop''"
  "replace1 ''dispatch_'' ''reconcile_'' ''dispatch_delete'' = ''reconcile_delete''"
  "replace1 ''dispatch_'' ''reconcile_'' ''reconcile_delete'' = ''reconcile_delete''"
  "replace1 ''dispatch_'' ''reconcile_'' ''dispatch_reboot_shutdown'' = ''reconcile_reboot_shutdown''"
  "replace1 ''dispatch_'' ''reconcile_'' ''reconcile_reboot_shutdown'' = ''reconcile_reboot_shutdown''"
  "replace1 ''dispatch_'' ''reconcile_'' ''dispatch_reboot_start'' = ''reconcile_reboot_start''"
  "replace1 ''dispatch_'' ''reconcile_'' ''reconcile_reboot_start'' = ''reconcile_reboot_start''"
  by code_simp+

definition lifecycle_step :: "string \<Rightarrow> nat \<Rightarrow> bool" where
  "lifecycle_step T k \<longleftrightarrow> T = ''vm.shutdown'' \<and> k = 0 \<or> T = ''vm.stop'' \<and> k = 0 \<or> T = ''vm.delete'' \<and> k = 0
     \<or> T = ''vm.reboot'' \<and> k = 0 \<or> T = ''vm.reboot'' \<and> k = 1"

lemma lifecycle_stepI:
  "T \<in> {''vm.shutdown'', ''vm.stop'', ''vm.reboot'', ''vm.delete''} \<Longrightarrow> k < length (commands T) \<Longrightarrow> lifecycle_step T k"
  unfolding insert_iff empty_iff
  by (elim disjE FalseE) (simp_all add: lifecycle_step_def less_Suc_eq)

lemma lifecycle_ready_eq:
  assumes op: "op_status (s_op s) = ''pending''" "op_task (s_op s) = None"
      "op_phase (s_op s) = ready_phase (op_type (s_op s)) k"
    and T: "lifecycle_step (op_type (s_op s)) k"
    and v: "s_vm s = Some v" "vm_provider_node v = Some node" "vm_provider_vmid v = Some vmid"
  shows "process_lifecycle_branch now A s =
    (Inr (Some (LifecycleDispatch (op_id (s_op s)) (op_vm (s_op s)) (commands (op_type (s_op s)) ! k)
             \<lparr>place_node = node, place_vmid = vmid\<rparr>)),
     s\<lparr>s_op := (s_op s)\<lparr>op_status := ''processing'', op_phase := Some (flight_phases (op_type (s_op s)) k ! 0),
                        op_attempts := op_attempts (s_op s) + 1, op_updated := now\<rparr>,
       s_vm := Some (if op_type (s_op s) = ''vm.delete'' then v\<lparr>vm_status := ''deleting''\<rparr> else v)\<rparr>)"
  using T op(3) unfolding lifecycle_step_def
  by (elim disjE conjE) (simp_all add: op(1,2) v vc Let_def process_lifecycle_branch_def
      prepare_lifecycle_dispatch_def lifecycle_command_def ready_phase_def flight_phases_def py_bind_def py_then_def)

text \<open>A poll of a known task, once the phase is the plain one.\<close>

lemma poll_task_outcome:
  assumes v: "s_vm s = Some v"
    and running: "\<And>p. Q () (s\<lparr>s_prov := p, s_op := (s_op s)\<lparr>op_updated := now\<rparr>\<rparr>)"
    and failed: "\<And>p e. outcome (after_failure (s\<lparr>s_prov := p, s_op := (s_op s)\<lparr>op_status := ''failed'', op_error := Some e\<rparr>\<rparr>)) Q E"
    and succeeded: "\<And>p. outcome (on_success (s\<lparr>s_prov := p\<rparr>)) Q E"
    and raised: "\<And>p e. E e (s\<lparr>s_prov := p\<rparr>)"
  shows "outcome (poll_task now A upid vmid node on_success after_failure s) Q E"
  by (simp add: poll_task_def vc assms)

lemma process_lifecycle_outcome:
  assumes op: "op_status (s_op s) = ''processing''" "op_task (s_op s) = Some upid"
    and T: "lifecycle_step (op_type (s_op s)) k"
    and p: "op_type (s_op s) = ''vm.reboot'' \<Longrightarrow> op_phase (s_op s) = Some (commands ''vm.reboot'' ! k)"
      "op_phase (s_op s) \<in> Some ` set (tracked_phases (op_type (s_op s)) k)"
    and v: "s_vm s = Some v" "vm_provider_node v = Some node" "vm_provider_vmid v = Some vmid"
  shows "outcome ((if op_type (s_op s) \<in> {''vm.shutdown'', ''vm.stop''} then process_power_off_vm_operation now A
               else if op_type (s_op s) = ''vm.reboot'' then process_reboot_vm_operation now A
               else process_delete_vm_operation now A) s)
     (\<lambda>_ t. reaches (Tracked k) s t) (\<lambda>_ t. s_op t = s_op s \<and> s_vm t = s_vm s)"
proof -
  note same = vm_status_idem [where v = v]
  show ?thesis
    by (insert T [unfolded lifecycle_step_def] p; elim disjE conjE;
        simp add: op v vc Let_def process_power_off_vm_operation_def process_reboot_vm_operation_def
          process_delete_vm_operation_def;
        (rule poll_task_outcome, rule v(1));
        (simp add: op v vc; fail)?;
        (simp add: vc v)?;
        (rule reaches_rules [where v = v]; simp add: op v same step_facts; fail))
qed

lemma lifecycle_tracked_outcome:
  assumes T: "lifecycle_step (op_type (s_op s)) k" and op: "holds (s_op s) (Tracked k)"
    and v: "s_vm s = Some v" "vm_provider_node v = Some node" "vm_provider_vmid v = Some vmid"
  shows "outcome (process_lifecycle_branch now A s) (\<lambda>disp t. disp = None \<and> reaches (Tracked k) s t) (\<lambda>_ _. False)"
proof -
  let ?T = "op_type (s_op s)" and ?p = "op_phase (s_op s)"
  define q where "q = (if ?T = ''vm.reboot'' then Some (commands ''vm.reboot'' ! k) else ?p)"
  define s' where "s' = s\<lparr>s_op := (s_op s)\<lparr>op_phase := q\<rparr>\<rparr>"
  define retry :: "'a sess \<Rightarrow> 'a sess" where "retry = (\<lambda>t. t\<lparr>s_op := (s_op t)\<lparr>
     op_phase := Some (if op_type (s_op t) = ''vm.reboot'' then ''poll_backoff_'' @ fstr (op_phase (s_op t))
                       else ''poll_backoff''),
     op_error := Some ''provider_status_unavailable'', op_updated := now\<rparr>\<rparr>)"
  obtain upid where task: "op_status (s_op s) = ''processing''" "op_task (s_op s) = Some upid"
    using op by auto
  have phase: "?p \<in> Some ` set (tracked_phases ?T k)"
    using op by simp
  have q: "q \<in> Some ` set (tracked_phases ?T k)"
    using phase by (simp add: q_def tracked_phases_def)
  have unprefixed: "(if ?T = ''vm.reboot'' \<and> starts_with ''poll_backoff_'' (or_empty ?p)
       then map_option (removeprefix ''poll_backoff_'') ?p else ?p) = q"
    using T phase unfolding lifecycle_step_def
    by (elim disjE conjE; simp add: q_def tracked_phases_def; elim disjE; simp add: removeprefix_def)
  have sT: "op_type (s_op s') = ?T"
    by (simp add: s'_def)
  have main: "outcome ((if ?T \<in> {''vm.shutdown'', ''vm.stop''} then process_power_off_vm_operation now A
               else if ?T = ''vm.reboot'' then process_reboot_vm_operation now A
               else process_delete_vm_operation now A) s')
     (\<lambda>_ t. reaches (Tracked k) s' t) (\<lambda>_ t. s_op t = s_op s' \<and> s_vm t = s_vm s')"
    by (rule process_lifecycle_outcome [where s = s' and upid = upid and v = v and node = node and vmid = vmid,
          unfolded sT]) (use T q in \<open>simp_all add: s'_def q_def task v\<close>)
  have backoff: "reaches (Tracked k) s' (retry t)" if "s_op t = s_op s' \<and> s_vm t = s_vm s'" for t
    using T unfolding lifecycle_step_def retry_def
    by (intro reaches_poll [of v]; elim disjE conjE;
        simp add: that s'_def q_def task v keeps_def op_frame_def tracked_phases_def)
  have orig: "reaches (Tracked k) s' t \<Longrightarrow> reaches (Tracked k) s t" for t
    unfolding s'_def by (rule reaches_phase)
  have "outcome (process_lifecycle_branch now A s) Q E =
      outcome ((if ?T \<in> {''vm.shutdown'', ''vm.stop''} then process_power_off_vm_operation now A
               else if ?T = ''vm.reboot'' then process_reboot_vm_operation now A
               else process_delete_vm_operation now A) s')
        (\<lambda>_ t. Q None t) (\<lambda>_ t. Q None (retry t))"
    for Q :: "dispatch option \<Rightarrow> 'a sess \<Rightarrow> bool" and E
  proof (cases "?T = ''vm.reboot'' \<and> starts_with ''poll_backoff_'' (or_empty ?p)")
    case True
    have "s\<lparr>s_op := (s_op s)\<lparr>op_phase := map_option (removeprefix ''poll_backoff_'') ?p\<rparr>\<rparr> = s'"
      using unprefixed True by (simp add: s'_def)
    with True show ?thesis
      by (simp add: process_lifecycle_branch_def vc Let_def task retry_def)
  next
    case False
    have "s' = s"
      using unprefixed False by (simp add: s'_def same_phase)
    with False show ?thesis
      by (simp add: process_lifecycle_branch_def vc Let_def task retry_def)
  qed
  note branch = this
  show ?thesis
    unfolding branch using main by (rule outcome_mono) (blast intro: orig backoff)+
qed

lemma lifecycle_flight_cases:
  assumes "holds op (InFlight k)" "lifecycle_step (op_type op) k"
  shows "op_type op = ''vm.shutdown'' \<and> k = 0 \<and> op_phase op = Some ''dispatch_shutdown''
     \<or> op_type op = ''vm.shutdown'' \<and> k = 0 \<and> op_phase op = Some ''reconcile_shutdown''
     \<or> op_type op = ''vm.stop'' \<and> k = 0 \<and> op_phase op = Some ''dispatch_stop''
     \<or> op_type op = ''vm.stop'' \<and> k = 0 \<and> op_phase op = Some ''reconcile_stop''
     \<or> op_type op = ''vm.delete'' \<and> k = 0 \<and> op_phase op = Some ''dispatch_delete''
     \<or> op_type op = ''vm.delete'' \<and> k = 0 \<and> op_phase op = Some ''reconcile_delete''
     \<or> op_type op = ''vm.reboot'' \<and> k = 0 \<and> op_phase op = Some ''dispatch_reboot_shutdown''
     \<or> op_type op = ''vm.reboot'' \<and> k = 0 \<and> op_phase op = Some ''reconcile_reboot_shutdown''
     \<or> op_type op = ''vm.reboot'' \<and> k = 1 \<and> op_phase op = Some ''dispatch_reboot_start''
     \<or> op_type op = ''vm.reboot'' \<and> k = 1 \<and> op_phase op = Some ''reconcile_reboot_start''"
  using assms(2,1) unfolding lifecycle_step_def
  by (elim disjE conjE) (simp_all add: flight_phases_def)

lemma reconcile_lifecycle_outcome:
  assumes op: "op_status (s_op s) = ''processing''" "op_task (s_op s) = None" "holds (s_op s) (InFlight k)"
    and T: "lifecycle_step (op_type (s_op s)) k"
    and v: "s_vm s = Some v" "vm_provider_node v = Some node" "vm_provider_vmid v = Some vmid"
  shows "outcome (reconcile_lifecycle_operation now A s) (\<lambda>_ t. reaches (InFlight k) s t)
           (\<lambda>_ t. s_op t = s_op s \<and> s_vm t = s_vm s)"
proof -
  note same = vm_status_idem [where v = v]
  show ?thesis
    by (insert lifecycle_flight_cases [OF op(3) T]; elim disjE conjE; simp add: op(1,2) v vc Let_def
          reconcile_lifecycle_operation_def lifecycle_reconcile_phases_def;
        ((rule conjI allI impI)
         | (rule reaches_hold [of v] reaches_confirm [of v]; simp add: op(1,2) v same keeps_def op_frame_def
              flight_phases_def ready_phase_def after_def confirmed_def; fail))+)
qed

lemma lifecycle_inflight_outcome:
  assumes T: "lifecycle_step (op_type (s_op s)) k" and op: "holds (s_op s) (InFlight k)"
    and v: "s_vm s = Some v" "vm_provider_node v = Some node" "vm_provider_vmid v = Some vmid"
  shows "outcome (process_lifecycle_branch now A s) (\<lambda>disp t. disp = None \<and> reaches (InFlight k) s t) (\<lambda>_ _. False)"
proof -
  have task: "op_status (s_op s) = ''processing''" "op_task (s_op s) = None"
    using op by auto
  define p where "p = op_phase (s_op s)"
  define p' where "p' = map_option (replace1 ''dispatch_'' ''reconcile_'') p"
  have p': "p' \<in> Some ` set (flight_phases (op_type (s_op s)) k) \<and> (starts_with ''dispatch_'' (or_empty p)
      \<or> starts_with ''reconcile_'' (or_empty p))"
    using lifecycle_flight_cases [OF op T] unfolding p_def [symmetric] p'_def
    by (elim disjE conjE) (simp_all add: flight_phases_def)
  have r: "outcome (reconcile_lifecycle_operation now A s) (\<lambda>_ t. reaches (InFlight k) s t)
      (\<lambda>_ t. s_op t = s_op s \<and> s_vm t = s_vm s)"
    by (rule reconcile_lifecycle_outcome [OF task op T v])
  have unavailable: "reaches (InFlight k) s (t\<lparr>s_op := (s_op t)\<lparr>op_phase :=
        map_option (replace1 ''dispatch_'' ''reconcile_'') (op_phase (s_op t)),
        op_error := Some ''provider_status_unavailable'', op_updated := now\<rparr>\<rparr>)"
    if "s_op t = s_op s \<and> s_vm t = s_vm s" for t
    using p' unfolding p'_def p_def
    by (intro reaches_hold [of v]) (auto simp: that v task keeps_def op_frame_def)
  have branch: "outcome (process_lifecycle_branch now A s) Q E =
      outcome (reconcile_lifecycle_operation now A s) (\<lambda>_ t. Q None t)
        (\<lambda>_ t. Q None (t\<lparr>s_op := (s_op t)\<lparr>op_phase :=
        map_option (replace1 ''dispatch_'' ''reconcile_'') (op_phase (s_op t)),
        op_error := Some ''provider_status_unavailable'', op_updated := now\<rparr>\<rparr>))"
    for Q :: "dispatch option \<Rightarrow> 'a sess \<Rightarrow> bool" and E
    using p' unfolding p_def by (simp add: process_lifecycle_branch_def vc Let_def task)
  show ?thesis
    unfolding branch using r by (rule outcome_mono) (blast intro: unavailable)+
qed

lemma lifecycle_untracked:
  assumes T: "op_type op \<in> {''vm.shutdown'', ''vm.stop'', ''vm.reboot'', ''vm.delete''}" "abs_state op = Some a"
    and op: "op_status op = ''processing''" "op_task op = None"
  shows "\<exists>k. a = InFlight k \<and> holds op (InFlight k) \<and> lifecycle_step (op_type op) k"
proof -
  have h: "holds op a" "a \<in> set (astates (op_type op))"
    using abs_state_holds [OF T(2)] abs_state_in [OF T(2)] .
  have n: "op_type op \<noteq> ''vm.create''"
    using T(1) unfolding insert_iff empty_iff by (elim disjE FalseE) simp_all
  show ?thesis
    using h op n lifecycle_stepI [OF T(1)]
    by (cases a) (simp_all add: in_astates review_phases_def)
qed

lemma lifecycle_dispatch_phase:
  assumes T: "op_type op \<in> {''vm.shutdown'', ''vm.stop'', ''vm.reboot'', ''vm.delete''}" "abs_state op = Some a"
    and p: "op_phase op = Some p" "starts_with ''dispatch_'' p"
  shows "op_status op = ''processing'' \<and> op_task op = None"
proof -
  have h: "holds op a" "a \<in> set (astates (op_type op))"
    using abs_state_holds [OF T(2)] abs_state_in [OF T(2)] .
  have t: "\<not> (\<exists>q\<in>set (tracked_phases (op_type op) k). starts_with ''dispatch_'' q)"
      "ready_phase (op_type op) k \<noteq> Some p" if "k < length (commands (op_type op))" for k
    using lifecycle_stepI [OF T(1) that] p(2) unfolding lifecycle_step_def
    by (elim disjE conjE; auto simp: tracked_phases_def ready_phase_def)+
  show ?thesis
    using h p t
    by (cases a) (auto simp: in_astates list_ex_iff)
qed

lemma lifecycle_store_outcome:
  assumes T: "op_type (s_op s) \<in> {''vm.shutdown'', ''vm.stop'', ''vm.reboot'', ''vm.delete''}"
    and op: "abs_state (s_op s) = Some a"
    and v: "s_vm s = Some v" "vm_provider_node v = Some node" "vm_provider_vmid v = Some vmid"
  shows "outcome (store_step now (LifecycleDispatch oid vid command target) res s)
     (\<lambda>_ t. reaches a s t) (\<lambda>_ _. True)"
proof (cases "op_status (s_op s) = ''processing'' \<and> op_task (s_op s) = None")
  case False
  have n: "\<not> starts_with ''dispatch_'' p" if "op_phase (s_op s) = Some p" for p
    using False lifecycle_dispatch_phase [OF T op that] by (cases "starts_with ''dispatch_'' p") auto
  show ?thesis
    using False n
    by (cases res; cases "op_phase (s_op s)"; cases "op_status (s_op s) = ''processing''")
      (simp_all add: vc Let_def store_step_def mark_unknown_def finish_dispatch_def finish_lifecycle_dispatch_def)
next
  case True
  then obtain k where k: "a = InFlight k" "holds (s_op s) (InFlight k)" "lifecycle_step (op_type (s_op s)) k"
    using lifecycle_untracked [OF T op True [THEN conjunct1] True [THEN conjunct2]] by (elim exE conjE)
  note same = vm_status_idem [where v = v]
  note leaf = keeps_def op_frame_def flight_phases_def tracked_phases_def ready_phase_def after_def confirmed_def
  show ?thesis
  proof (cases res)
    case (Inl e)
    show ?thesis
      by (insert lifecycle_flight_cases [OF k(2,3)]; elim disjE conjE;
          simp add: Inl True v k(1) vc Let_def store_step_def mark_unknown_def;
          rule reaches_hold [of v]; simp add: True v same leaf)
  next
    case (Inr result)
    show ?thesis
      by (insert lifecycle_flight_cases [OF k(2,3)]; elim disjE conjE; cases result;
          simp add: Inr True v k(1) vc Let_def store_step_def finish_dispatch_def
            finish_lifecycle_dispatch_def finish_lifecycle_task_def split: option.split;
        ((rule conjI allI impI)
         | (rule reaches_hold [of v] reaches_confirm [of v] reaches_track [of v]; simp add: True v same leaf; fail))+)
  qed
qed

end
