(* ===== verification/WorkerSteps.thy ===== *)
theory WorkerSteps
  imports CreateSteps LifecycleSteps
begin

text \<open>
  The worker refines the abstract machine of an operation: the pass of the first transaction
  over a selected row and every stored outcome are steps of \<open>spec_step\<close>, the command a pass
  prepares is the one the step submits, and the well-formedness of a row (\<open>row_ok\<close>) is kept.
\<close>

section \<open>Well-formed rows\<close>

definition unplaced :: "VirtualMachine \<Rightarrow> bool" where
  "unplaced v \<longleftrightarrow> vm_provider_node v = None \<and> vm_provider_vmid v = None"

definition row_ok :: "SshPublicKey list \<Rightarrow> Operation \<Rightarrow> VirtualMachine \<Rightarrow> bool" where
  "row_ok keys op v \<longleftrightarrow>
     vm_id v = op_vm op
     \<and> (case abs_state op of
          None \<Rightarrow> False
        | Some a \<Rightarrow>
            coherent (op_type op) a (vm_status v) \<and> submitted_ok (op_type op) a (op_attempts op)
            \<and> (placed v \<or> (unplaced v \<and> a = Ready 0 \<and> op_type op = ''vm.create'')))
     \<and> (op_type op = ''vm.create'' \<longrightarrow> request_for keys v \<noteq> None)"

lemma row_okD:
  assumes "row_ok keys op v"
  obtains a where "vm_id v = op_vm op" "abs_state op = Some a" "coherent (op_type op) a (vm_status v)"
    "submitted_ok (op_type op) a (op_attempts op)"
    "placed v \<or> (unplaced v \<and> a = Ready 0 \<and> op_type op = ''vm.create'')"
    "op_type op = ''vm.create'' \<longrightarrow> request_for keys v \<noteq> None"
  using assms by (auto simp: row_ok_def split: option.splits)

lemma row_okI:
  assumes "vm_id v = op_vm op" "abs_state op = Some a" "coherent (op_type op) a (vm_status v)"
    "submitted_ok (op_type op) a (op_attempts op)"
    "placed v \<or> (unplaced v \<and> a = Ready 0 \<and> op_type op = ''vm.create'')"
    "op_type op = ''vm.create'' \<longrightarrow> request_for keys v \<noteq> None"
  shows "row_ok keys op v"
  using assms by (simp add: row_ok_def)

lemma placedE:
  assumes "placed v"
  obtains node vmid where "vm_provider_node v = Some node" "vm_provider_vmid v = Some vmid"
  using assms by (auto simp: placed_def)

lemma request_for_frame:
  "vm_frame v v' \<Longrightarrow> request_for keys v' = request_for keys v"
  by (simp add: request_for_def vm_frame_def split: option.split)

lemma same_place_placed: "same_place v v' \<Longrightarrow> placed v' = placed v \<and> unplaced v' = unplaced v"
  by (simp add: same_place_def placed_def unplaced_def)

lemma moves_row_ok:
  assumes r: "row_ok keys op v" and m: "moves l op v op' v'"
  shows "row_ok keys op' v'"
proof -
  from r obtain a where a: "vm_id v = op_vm op" "abs_state op = Some a" "coherent (op_type op) a (vm_status v)"
    "submitted_ok (op_type op) a (op_attempts op)"
    "placed v \<or> (unplaced v \<and> a = Ready 0 \<and> op_type op = ''vm.create'')"
    "op_type op = ''vm.create'' \<longrightarrow> request_for keys v \<noteq> None"
    by (rule row_okD)
  from m a(2) obtain a' where f: "op_frame op op'" "vm_frame v v'"
    and a': "abs_state op' = Some a'" "spec_step (op_type op) (a, vm_status v) l (a', vm_status v')"
    and place: "(placed v \<and> same_place v v') \<or> placed v'"
    and n: "op_attempts op' = op_attempts op + (if l = None then 0 else 1)"
    unfolding moves_def by (elim conjE exE) (simp, metis)
  have T: "op_type op' = op_type op" "op_vm op' = op_vm op" "vm_id v' = vm_id v"
    using f by (simp_all add: op_frame_def vm_frame_def)
  note types = abs_state_type [OF a(2)] and astate = abs_state_in [OF a(2)]
  have "placed v'"
    using place same_place_placed [of v v'] by auto
  then show ?thesis
    using spec_step_coherent [OF a'(2) types] spec_step_submitted [OF a'(2)] a astate n T
      request_for_frame [OF f(2)]
    by (intro row_okI [OF _ a'(1)]) simp_all
qed

section \<open>One pass over a selected operation\<close>

text \<open>
  The pass leaves the rows in a state reached by a step of the abstract machine, and what it
  hands over for dispatch is the command of that step. It raises only if the provider could
  not choose a place for a new virtual machine.
\<close>

definition passes :: "Operation \<Rightarrow> VirtualMachine \<Rightarrow> dispatch option \<Rightarrow> 'p sess \<Rightarrow> bool" where
  "passes op v disp t \<longleftrightarrow>
     (\<exists>l v'. s_vm t = Some v' \<and> moves l op v (s_op t) v' \<and> dispatches op v' l disp)"

lemma passes_quiet:
  fixes r :: "(exc + dispatch option) \<times> 'p sess"
  assumes s: "s_op s = op" "s_vm s = Some v" and a: "abs_state op = Some a" "placed v"
    and o: "outcome r (\<lambda>disp t. disp = None \<and> reaches a s t) (\<lambda>_ _. False)"
  shows "outcome r (\<lambda>disp t. passes op v disp t) E"
  using o
proof (rule outcome_mono)
  fix disp :: "dispatch option" and t :: "'p sess"
  assume "disp = None \<and> reaches a s t"
  moreover from this have "\<exists>v'. s_vm t = Some v' \<and> moves None op v (s_op t) v'"
    using a s by (intro reaches_moves [of a s t]) simp_all
  ultimately show "passes op v disp t"
    unfolding passes_def by (metis dispatches.simps(1))
qed simp

lemma passes_submit:
  assumes a: "abs_state op = Some (Ready k)" and v: "placed v"
    and f: "op_frame op op'" "holds op' (InFlight k)" "op_attempts op' = op_attempts op + 1"
    and w: "v' = (if op_type op = ''vm.delete'' then v\<lparr>vm_status := ''deleting''\<rparr> else v)"
    and t: "s_op t = op'" "s_vm t = Some v'" and d: "dispatches op v' (Some k) disp"
  shows "passes op v disp t"
proof -
  have k: "k < length (commands (op_type op))"
    using abs_state_in [OF a] by (simp add: in_astates)
  have "moves (Some k) op v op' v'"
    using k f w spec_step.submit [OF k, of "vm_status v"]
    by (intro movesI [OF a f(2)]) (auto simp: v in_astates)
  with t d show ?thesis
    unfolding passes_def by blast
qed

lemma passes_place:
  assumes a: "abs_state op = Some (Ready 0)" "op_type op = ''vm.create''" and v: "unplaced v"
    and t: "s_op t = op" "s_vm t = Some (v\<lparr>vm_provider_node := Some node, vm_provider_vmid := Some vmid\<rparr>)"
  shows "passes op v None t"
proof -
  let ?v = "v\<lparr>vm_provider_node := Some node, vm_provider_vmid := Some vmid\<rparr>"
  have "moves None op v op ?v"
    using a v spec_step.place [OF a(2)]
    by (simp add: moves_def unplaced_def vm_frame_def placed_def)
  with t show ?thesis
    unfolding passes_def by (metis dispatches.simps(1))
qed

text \<open>An eligible row is ready, in flight or tracked.\<close>

lemma eligible_astate:
  assumes "eligible now op" "abs_state op = Some a"
  obtains k where "a = Ready k" "k < length (commands (op_type op))"
  | k where "a = InFlight k" "k < length (commands (op_type op))"
  | k where "a = Tracked k" "k < length (commands (op_type op))"
proof -
  have h: "holds op a" "a \<in> set (astates (op_type op))"
    using abs_state_holds abs_state_in assms(2) by blast+
  have act: "op_status op = ''pending'' \<or> op_status op = ''processing''"
    using assms(1) by (simp add: eligible_def)
  have "a \<noteq> Review k" for k
  proof
    assume "a = Review k"
    with h have "op_type op = ''vm.create''" "holds op (Review k)"
      by (auto simp: review_phases_def split: if_splits)
    with create_review_ineligible assms(1) show False by blast
  qed
  then show thesis
    using h act that by (cases a) (auto simp: in_astates)
qed

lemma flight_first:
  "k < length (commands T) \<Longrightarrow> T \<in> set operation_types \<Longrightarrow> flight_phases T k ! 0 \<in> set (flight_phases T k)"
  by (simp add: flight_phases_def)

lemma create_pass:
  fixes s :: "'p sess"
  assumes T: "op_type (s_op s) = ''vm.create''" and r: "row_ok (s_keys s) (s_op s) v" and v: "s_vm s = Some v"
    and e: "eligible now' (s_op s)"
  shows "outcome (process_create_branch now A s) (\<lambda>disp t. passes (s_op s) v disp t)
           (\<lambda>e t. \<exists>req p. choose_clone_target A req (s_prov s) = (Inl e, p))"
proof -
  obtain a where a: "vm_id v = op_vm (s_op s)" "abs_state (s_op s) = Some a"
    "coherent (op_type (s_op s)) a (vm_status v)" "submitted_ok (op_type (s_op s)) a (op_attempts (s_op s))"
    "placed v \<or> (unplaced v \<and> a = Ready 0 \<and> op_type (s_op s) = ''vm.create'')"
    "op_type (s_op s) = ''vm.create'' \<longrightarrow> request_for (s_keys s) v \<noteq> None"
    by (rule row_okD [OF r])
  obtain req where req: "request_for (s_keys s) v = Some req"
    using a(6) T by auto
  note h = abs_state_holds [OF a(2)]
  from e a(2) show ?thesis
  proof (cases rule: eligible_astate)
    case (1 k)
    then have k: "k < 4" and c: "commands ''vm.create'' ! k \<in> {''clone'', ''configure'', ''resize'', ''start''}"
      using T nth_mem [of k "commands ''vm.create''"] by simp_all
    have op: "op_status (s_op s) = ''pending''" "op_task (s_op s) = None"
        "op_phase (s_op s) = Some (commands ''vm.create'' ! k)"
      using h 1 T by (simp_all add: ready_phase_def)
    show ?thesis
    proof (cases "placed v")
      case True
      then obtain node vmid where p: "vm_provider_node v = Some node" "vm_provider_vmid v = Some vmid"
        by (rule placedE)
      let ?c = "commands ''vm.create'' ! k"
      have c': "?c = ''clone'' \<or> ?c = ''configure'' \<or> ?c = ''resize'' \<or> ?c = ''start''"
        using c by simp
      have k3: "(?c = ''start'') = (k = 3)"
        using k by (auto simp: less_Suc_eq numeral_eq_Suc)
      show ?thesis
        unfolding create_ready_eq [OF T op(1,2,3) c' v p req] outcome_pair
        by (rule passes_submit [OF a(2) [unfolded 1(1)] True _ _ _ refl])
          (use T v p req k3 a(1) op(2) in \<open>simp_all add: op_frame_def flight_phases_def request_for_vm_id\<close>)
    next
      case False
      with a(5) 1 have u: "unplaced v" "k = 0"
        by auto
      have ph: "op_phase (s_op s) = Some ''clone''"
        using op(3) u(2) by simp
      have n: "vm_provider_node v = None" "vm_provider_vmid v = None"
        using u(1) by (simp_all add: unplaced_def)
      show ?thesis
        by (rule outcome_mono [OF create_place_outcome [OF T op(1,2) ph v n req]])
          (auto intro!: passes_place [OF a(2) [unfolded 1(1) u(2)] T u(1)])
    qed
  next
    case (2 k)
    have p: "placed v" and k: "k < 4"
      using a(5) 2 T by auto
    then obtain node vmid where p': "vm_provider_node v = Some node" "vm_provider_vmid v = Some vmid"
      by (elim placedE)
    show ?thesis
      by (rule passes_quiet [OF refl v a(2) p, unfolded 2(1)],
          rule create_inflight_outcome [OF T h [unfolded 2(1)] k v p' a(3) [unfolded 2(1) T]])
  next
    case (3 k)
    have p: "placed v" and k: "k < 4" and st: "vm_status v = ''provisioning''"
      using a(3,5) 3 T by auto
    then obtain node vmid where p': "vm_provider_node v = Some node" "vm_provider_vmid v = Some vmid"
      by (elim placedE)
    show ?thesis
      by (rule passes_quiet [OF refl v a(2) p, unfolded 3(1)],
          rule create_tracked_outcome [OF T h [unfolded 3(1)] k v p' st])
  qed
qed

lemma start_pass:
  fixes s :: "'p sess"
  assumes T: "op_type (s_op s) = ''vm.start''" and r: "row_ok (s_keys s) (s_op s) v" and v: "s_vm s = Some v"
    and e: "eligible now' (s_op s)"
  shows "outcome (process_start_branch now A s) (\<lambda>disp t. passes (s_op s) v disp t) (\<lambda>_ _. False)"
proof -
  obtain a where a: "vm_id v = op_vm (s_op s)" "abs_state (s_op s) = Some a"
    "coherent (op_type (s_op s)) a (vm_status v)" "submitted_ok (op_type (s_op s)) a (op_attempts (s_op s))"
    "placed v \<or> (unplaced v \<and> a = Ready 0 \<and> op_type (s_op s) = ''vm.create'')"
    "op_type (s_op s) = ''vm.create'' \<longrightarrow> request_for (s_keys s) v \<noteq> None"
    by (rule row_okD [OF r])
  have p: "placed v"
    using a(5) T by simp
  then obtain node vmid where p': "vm_provider_node v = Some node" "vm_provider_vmid v = Some vmid"
    by (elim placedE)
  note h = abs_state_holds [OF a(2)]
  from e a(2) show ?thesis
  proof (cases rule: eligible_astate)
    case (1 k)
    then have k: "k = 0" "op_status (s_op s) = ''pending''" "op_task (s_op s) = None"
      using T h by simp_all
    show ?thesis
      unfolding start_ready_eq [OF T k(2,3) v p'] outcome_pair
      by (rule passes_submit [OF a(2) [unfolded 1(1) k(1)] p _ _ _ refl])
        (use T v p' a(1) k in \<open>simp_all add: op_frame_def flight_phases_def\<close>)
  next
    case (2 k)
    then have k: "k = 0"
      using T by simp
    show ?thesis
      by (rule passes_quiet [OF refl v a(2) p, unfolded 2(1) k],
          rule start_inflight_outcome [OF T h [unfolded 2(1) k] v p'])
  next
    case (3 k)
    then have k: "k = 0"
      using T by simp
    show ?thesis
      by (rule passes_quiet [OF refl v a(2) p, unfolded 3(1) k],
          rule start_tracked_outcome [OF T h [unfolded 3(1) k] v p'])
  qed
qed

lemma lifecycle_pass:
  fixes s :: "'p sess"
  assumes T: "op_type (s_op s) \<in> {''vm.shutdown'', ''vm.stop'', ''vm.reboot'', ''vm.delete''}"
    and r: "row_ok (s_keys s) (s_op s) v" and v: "s_vm s = Some v"
    and e: "eligible now' (s_op s)"
  shows "outcome (process_lifecycle_branch now A s) (\<lambda>disp t. passes (s_op s) v disp t) (\<lambda>_ _. False)"
proof -
  obtain a where a: "vm_id v = op_vm (s_op s)" "abs_state (s_op s) = Some a"
    "coherent (op_type (s_op s)) a (vm_status v)" "submitted_ok (op_type (s_op s)) a (op_attempts (s_op s))"
    "placed v \<or> (unplaced v \<and> a = Ready 0 \<and> op_type (s_op s) = ''vm.create'')"
    "op_type (s_op s) = ''vm.create'' \<longrightarrow> request_for (s_keys s) v \<noteq> None"
    by (rule row_okD [OF r])
  have n: "op_type (s_op s) \<noteq> ''vm.create''"
    using T unfolding insert_iff empty_iff by (elim disjE FalseE) simp_all
  have p: "placed v"
    using a(5) n by blast
  then obtain node vmid where p': "vm_provider_node v = Some node" "vm_provider_vmid v = Some vmid"
    by (elim placedE)
  note h = abs_state_holds [OF a(2)]
  from e a(2) show ?thesis
  proof (cases rule: eligible_astate)
    case (1 k)
    have k: "op_status (s_op s) = ''pending''" "op_task (s_op s) = None"
        "op_phase (s_op s) = ready_phase (op_type (s_op s)) k"
      using 1(1) h by simp_all
    have f: "flight_phases (op_type (s_op s)) k ! 0 \<in> set (flight_phases (op_type (s_op s)) k)"
      by (rule flight_first [OF 1(2) abs_state_type [OF a(2)]])
    show ?thesis
      unfolding lifecycle_ready_eq [OF k lifecycle_stepI [OF T 1(2)] v p'] outcome_pair
      by (rule passes_submit [OF a(2) [unfolded 1(1)] p _ _ _ refl])
        (use T v p' a(1) k f in \<open>simp_all add: op_frame_def\<close>)
  next
    case (2 k)
    show ?thesis
      by (rule passes_quiet [OF refl v a(2) p, unfolded 2(1)],
          rule lifecycle_inflight_outcome [OF lifecycle_stepI [OF T 2(2)] h [unfolded 2(1)] v p'])
  next
    case (3 k)
    show ?thesis
      by (rule passes_quiet [OF refl v a(2) p, unfolded 3(1)],
          rule lifecycle_tracked_outcome [OF lifecycle_stepI [OF T 3(2)] h [unfolded 3(1)] v p'])
  qed
qed

lemma lifecycle_types:
  "T \<in> set operation_types \<Longrightarrow> T = ''vm.create'' \<or> T = ''vm.start''
     \<or> T \<in> {''vm.shutdown'', ''vm.stop'', ''vm.reboot'', ''vm.delete''}"
  by (erule operation_types_cases) simp_all

lemma selected_pass:
  fixes s :: "'p sess"
  assumes r: "row_ok (s_keys s) (s_op s) v" and v: "s_vm s = Some v" and e: "eligible now' (s_op s)"
  shows "outcome (process_selected now A s) (\<lambda>disp t. passes (s_op s) v disp t)
           (\<lambda>e t. \<exists>req p. choose_clone_target A req (s_prov s) = (Inl e, p))"
proof -
  obtain a where "abs_state (s_op s) = Some a"
    by (rule row_okD [OF r])
  from lifecycle_types [OF abs_state_type [OF this]] show ?thesis
  proof (elim disjE)
    assume T: "op_type (s_op s) = ''vm.create''"
    with create_pass [OF T r v e, of now A] show ?thesis
      by (simp add: process_selected_def)
  next
    assume T: "op_type (s_op s) = ''vm.start''"
    with start_pass [OF T r v e, of now A] show ?thesis
      by (simp add: process_selected_def) (erule outcome_mono; simp)
  next
    assume T: "op_type (s_op s) \<in> {''vm.shutdown'', ''vm.stop'', ''vm.reboot'', ''vm.delete''}"
    then have "process_selected now A s = process_lifecycle_branch now A s"
      unfolding insert_iff empty_iff by (elim disjE FalseE) (simp_all add: process_selected_def)
    with lifecycle_pass [OF T r v e, of now A] show ?thesis
      by simp (erule outcome_mono; simp)
  qed
qed

section \<open>Storing the outcome of a command\<close>

text \<open>The operation types a kind of dispatch is made for.\<close>

fun dispatch_for :: "string \<Rightarrow> dispatch \<Rightarrow> bool" where
  "dispatch_for T (CreateDispatch oid vid phase request target) = (T = ''vm.create'')"
| "dispatch_for T (StartDispatch oid vid target) = (T = ''vm.start'')"
| "dispatch_for T (LifecycleDispatch oid vid command target) =
     (T \<in> {''vm.shutdown'', ''vm.stop'', ''vm.reboot'', ''vm.delete''})"

lemma dispatches_for:
  "dispatches op v l (Some disp) \<Longrightarrow> dispatch_for (op_type op) disp \<and> dispatch_op disp = op_id op"
  by (cases l; cases disp) simp_all

lemma store_pending:
  assumes "op_status (s_op s) = ''pending''" "op_type (s_op s) = ''vm.create''" "dispatch_for (op_type (s_op s)) disp"
  shows "outcome (store_step now disp res s) Q (\<lambda>_ _. True)"
  using assms by (cases disp; cases res)
    (simp_all add: vc Let_def store_step_def mark_unknown_def finish_dispatch_def finish_create_vm_dispatch_def)

lemma stored_step:
  fixes s :: "'p sess"
  assumes r: "row_ok keys (s_op s) v" and v: "s_vm s = Some v" and d: "dispatch_for (op_type (s_op s)) disp"
  shows "outcome (store_step now disp res s)
           (\<lambda>_ t. \<exists>v'. s_vm t = Some v' \<and> moves None (s_op s) v (s_op t) v') (\<lambda>_ _. True)"
proof -
  obtain a where a: "vm_id v = op_vm (s_op s)" "abs_state (s_op s) = Some a"
    "coherent (op_type (s_op s)) a (vm_status v)" "submitted_ok (op_type (s_op s)) a (op_attempts (s_op s))"
    "placed v \<or> (unplaced v \<and> a = Ready 0 \<and> op_type (s_op s) = ''vm.create'')"
    "op_type (s_op s) = ''vm.create'' \<longrightarrow> request_for keys v \<noteq> None"
    by (rule row_okD [OF r])
  show ?thesis
  proof (cases "placed v")
    case False
    with a(5) have "op_status (s_op s) = ''pending''" "op_type (s_op s) = ''vm.create''"
      using abs_state_holds [OF a(2)] by simp_all
    from store_pending [OF this d] show ?thesis .
  next
    case True
    then obtain node vmid where p: "vm_provider_node v = Some node" "vm_provider_vmid v = Some vmid"
      by (rule placedE)
    have "outcome (store_step now disp res s) (\<lambda>_ t. reaches a s t) (\<lambda>_ _. True)"
    proof (cases disp)
      case (CreateDispatch oid vid phase request target)
      with d have T: "op_type (s_op s) = ''vm.create''" by simp
      show ?thesis
        unfolding CreateDispatch by (rule create_store_outcome [OF T a(2) v p a(3) [unfolded T]])
    next
      case (StartDispatch oid vid target)
      with d have T: "op_type (s_op s) = ''vm.start''" by simp
      show ?thesis
        unfolding StartDispatch by (rule start_store_outcome [OF T a(2) v p])
    next
      case (LifecycleDispatch oid vid command target)
      with d have T: "op_type (s_op s) \<in> {''vm.shutdown'', ''vm.stop'', ''vm.reboot'', ''vm.delete''}"
        by (simp only: dispatch_for.simps)
      show ?thesis
        unfolding LifecycleDispatch by (rule lifecycle_store_outcome [OF T a(2) v p])
    qed
    then show ?thesis
      by (rule outcome_mono) (use reaches_moves a(2) v True in \<open>fastforce\<close>, simp)
  qed
qed

end
