(* ===== verification/DbInvariant.thy ===== *)
theory DbInvariant
  imports WorkerSteps
begin

text \<open>
  The invariant of the database (\<open>db_ok\<close>): every operation is well formed and belongs to a
  virtual machine, a virtual machine has at most one active operation, and one without an
  active operation is in a settled status. Both transactions of the worker keep it.
\<close>

section \<open>The invariant\<close>

definition settled_statuses :: "string list" where
  "settled_statuses = [''running'', ''stopped'', ''failed'', ''deleting'', ''deleted'']"

definition op_ok :: "db \<Rightarrow> Operation \<Rightarrow> bool" where
  "op_ok d op \<longleftrightarrow> (case get_vm (op_vm op) d of None \<Rightarrow> False | Some v \<Rightarrow> row_ok (ssh_keys d) op v)"

definition one_active :: "Operation list \<Rightarrow> bool" where
  "one_active ops \<longleftrightarrow>
     (\<forall>op\<in>set ops. \<forall>op'\<in>set ops. active op \<longrightarrow> active op' \<longrightarrow> op_vm op = op_vm op' \<longrightarrow> op = op')"

definition vm_settled :: "Operation list \<Rightarrow> VirtualMachine \<Rightarrow> bool" where
  "vm_settled ops v \<longleftrightarrow>
     vm_status v \<in> set settled_statuses \<or> (\<exists>op\<in>set ops. op_vm op = vm_id v \<and> active op)"

definition db_ok :: "db \<Rightarrow> bool" where
  "db_ok d \<longleftrightarrow>
     distinct (map op_id (operations d)) \<and> distinct (map vm_id (vms d))
     \<and> distinct (map op_key (operations d))
     \<and> (\<forall>op\<in>set (operations d). op_ok d op)
     \<and> one_active (operations d)
     \<and> (\<forall>v\<in>set (vms d). vm_constraints v \<and> vm_settled (operations d) v)
     \<and> (\<forall>v\<in>set (vms d). vm_status v \<noteq> ''pending'' \<longrightarrow> placed v)
     \<and> vmid_unique (vms d) \<and> distinct (map key_id (ssh_keys d))"

lemma active_astate:
  assumes "abs_state op = Some a"
  shows "active op \<longleftrightarrow> a \<noteq> Done \<and> a \<noteq> Failed"
  using holds_shape [OF abs_state_holds [OF assms]]
  by (cases a) (simp_all add: active_def)

lemma spec_step_active: "spec_step T x l y \<Longrightarrow> fst x \<noteq> Done \<and> fst x \<noteq> Failed"
  by (erule spec_step.cases) auto

lemma moves_active: "moves l op v op' v' \<Longrightarrow> active op"
  unfolding moves_def using spec_step_active active_astate by fastforce

lemma known_statuses:
  "''provisioning'' \<in> set vm_statuses" "''deleting'' \<in> set vm_statuses"
  "confirmed T k \<in> set vm_statuses" "st \<in> set vm_statuses \<Longrightarrow> failed_status T st \<in> set vm_statuses"
  by (simp_all add: vm_statuses_def confirmed_def failed_status_def)

lemma spec_step_vm_status:
  "spec_step T x l y \<Longrightarrow> snd x \<in> set vm_statuses \<Longrightarrow> snd y \<in> set vm_statuses"
  by (induction rule: spec_step.induct) (simp_all add: known_statuses)

lemma confirmed_settled:
  "T \<in> set operation_types \<Longrightarrow> k < length (commands T) \<Longrightarrow> after T k = Done \<Longrightarrow>
     confirmed T k \<in> set settled_statuses"
  by (erule operation_types_cases)
    (simp_all add: after_def confirmed_def settled_statuses_def split: if_splits)

lemma failed_settled:
  "T \<in> set operation_types \<Longrightarrow> coherent T (Tracked k) st \<Longrightarrow> failed_status T st \<in> set settled_statuses"
  by (erule operation_types_cases)
    (cases "k = 0"; simp add: failed_status_def settled_statuses_def)+

lemma after_not_failed: "after T k \<noteq> Failed"
  by (simp add: after_def)

lemma spec_step_settled:
  assumes "spec_step T x l y" "T \<in> set operation_types" "fst x \<in> set (astates T)"
    "coherent T (fst x) (snd x)" "fst y = Done \<or> fst y = Failed"
  shows "snd y \<in> set settled_statuses"
  using assms
proof (induction rule: spec_step.induct)
  case (fail k st)
  then show ?case using failed_settled [of T k st] by simp
qed (use confirmed_settled in \<open>auto simp: in_astates after_not_failed\<close>)

section \<open>Timestamps do not matter\<close>

lemma holds_touch [simp]: "holds (touch_op now old op) = holds op"
proof
  show "holds (touch_op now old op) a = holds op a" for a
    by (cases a) simp_all
qed

lemma abs_state_touch [simp]: "abs_state (touch_op now old op) = abs_state op"
  by (simp add: abs_state_def)

lemma frame_touch [simp]:
  "op_frame op (touch_op now old op') = op_frame op op'"
  "vm_frame v (touch_vm now old' v') = vm_frame v v'"
  "placed (touch_vm now old' v') = placed v'" "unplaced (touch_vm now old' v') = unplaced v'"
  by (simp_all add: vm_frame_def placed_def unplaced_def, simp add: op_frame_def touch_op_def)

lemma request_for_touch [simp]: "request_for keys (touch_vm now old v) = request_for keys v"
  by (rule request_for_frame) simp

lemma row_ok_touch [simp]:
  "row_ok keys (touch_op now old op) (touch_vm now' old' v) = row_ok keys op v"
  by (simp add: row_ok_def cong: option.case_cong)

lemma active_touch [simp]: "active (touch_op now old op) = active op"
  by (simp add: active_def)

section \<open>Storing one step keeps the invariant\<close>

lemma row_ok_inactive:
  assumes r: "row_ok keys op v" and i: "\<not> active op" and f: "vm_frame v v'" and p: "placed v \<longrightarrow> placed v'"
  shows "row_ok keys op v'"
proof -
  from r obtain a where a: "vm_id v = op_vm op" "abs_state op = Some a" "coherent (op_type op) a (vm_status v)"
    "submitted_ok (op_type op) a (op_attempts op)"
    "placed v \<or> (unplaced v \<and> a = Ready 0 \<and> op_type op = ''vm.create'')"
    "op_type op = ''vm.create'' \<longrightarrow> request_for keys v \<noteq> None"
    by (rule row_okD)
  have "a = Done \<or> a = Failed"
    using active_astate [OF a(2)] i by blast
  then have "coherent (op_type op) a (vm_status v') \<and> placed v'"
    using a(5) p by auto
  then show ?thesis
    using a f request_for_frame [OF f] by (intro row_okI [OF _ a(2)]) (simp_all add: vm_frame_def)
qed

text \<open>What a step changes, as one equation on the database.\<close>

definition stored :: "int \<Rightarrow> Operation \<Rightarrow> VirtualMachine \<Rightarrow> Operation \<Rightarrow> VirtualMachine \<Rightarrow> db \<Rightarrow> db" where
  "stored now op v op' v' d =
     d\<lparr>operations := row_set op_id (touch_op now op op') (operations d),
       vms := row_set vm_id (touch_vm now v v') (vms d)\<rparr>"

lemma commit_rows_stored:
  assumes "get_op (op_id op) d = Some op" "get_vm (vm_id v) d = Some v" "op_frame op op'" "vm_frame v v'"
  shows "commit_rows now op' (Some v') d =
     (if operation_constraints op' \<and> vm_constraints v' \<and> vmid_unique (vms (stored now op v op' v' d))
      then Inr (stored now op v op' v' d) else Inl (IntegrityError ''constraint violated''))"
  using assms by (simp add: commit_rows_def store_op_def store_vm_def stored_def op_frame_def vm_frame_def)

lemma moves_frames: "moves l op v op' v' \<Longrightarrow> op_frame op op' \<and> vm_frame v v'"
  by (simp add: moves_def)

lemma moves_placed: "moves l op v op' v' \<Longrightarrow> placed v'"
  by (auto simp: moves_def same_place_placed)

lemma moves_settled:
  assumes m: "moves l op v op' v'" and r: "row_ok keys op v" and c: "vm_constraints v"
  shows "vm_constraints v'" "active op' \<or> vm_status v' \<in> set settled_statuses"
proof -
  from r obtain a where a: "abs_state op = Some a" "coherent (op_type op) a (vm_status v)"
    by (rule row_okD)
  from m a(1) obtain a' where a': "abs_state op' = Some a'"
      "spec_step (op_type op) (a, vm_status v) l (a', vm_status v')" and f: "vm_frame v v'"
    by (auto simp: moves_def)
  note t = abs_state_type [OF a(1)] abs_state_in [OF a(1)]
  show "vm_constraints v'"
    using spec_step_vm_status [OF a'(2)] c f by (simp add: vm_constraints_def vm_frame_def)
  show "active op' \<or> vm_status v' \<in> set settled_statuses"
    using spec_step_settled [OF a'(2) t(1)] t a active_astate [OF a'(1)] by auto
qed

lemma db_okD:
  assumes "db_ok d" "op \<in> set (operations d)"
  obtains v where "get_vm (op_vm op) d = Some v" "v \<in> set (vms d)" "row_ok (ssh_keys d) op v"
proof -
  have "op_ok d op"
    using assms by (simp add: db_ok_def)
  then obtain v where "get_vm (op_vm op) d = Some v" "row_ok (ssh_keys d) op v"
    by (auto simp: op_ok_def split: option.splits)
  then show thesis
    using that row_get_SomeD by metis
qed

lemma db_ok_get_op: "db_ok d \<Longrightarrow> op \<in> set (operations d) \<Longrightarrow> get_op (op_id op) d = Some op"
  unfolding db_ok_def by (blast intro: row_get_unique)

lemma op_unique: "db_ok d \<Longrightarrow> op \<in> set (operations d) \<Longrightarrow> q \<in> set (operations d) \<Longrightarrow> op_id q = op_id op \<Longrightarrow> q = op"
  using db_ok_get_op by (metis option.inject)

text \<open>A step of the rows of one operation in a well-formed database.\<close>

definition step_in ::
  "db \<Rightarrow> nat option \<Rightarrow> Operation \<Rightarrow> VirtualMachine \<Rightarrow> Operation \<Rightarrow> VirtualMachine \<Rightarrow> bool" where
  "step_in d l op v op' v' \<longleftrightarrow>
     db_ok d \<and> op \<in> set (operations d) \<and> get_vm (op_vm op) d = Some v \<and> moves l op v op' v'"

lemma stored_row: "step_in d l op v op' v' \<Longrightarrow> row_ok (ssh_keys d) op v"
  unfolding step_in_def using db_okD by (metis option.inject)

lemma stored_ids:
  assumes "step_in d l op v op' v'"
  shows "op_id op' = op_id op" "op_vm op' = op_vm op" "op_key op' = op_key op" "vm_id v' = vm_id v"
    "vm_id v = op_vm op" "v \<in> set (vms d)"
  using assms moves_frames [of l op v op' v'] row_get_SomeD [of vm_id "op_vm op" "vms d" v]
  by (auto simp: step_in_def op_frame_def vm_frame_def)

lemma stored_op_member:
  assumes "step_in d l op v op' v'" "q \<in> set (operations (stored now op v op' v' d))"
  shows "q = touch_op now op op' \<or> (q \<in> set (operations d) \<and> op_id q \<noteq> op_id op)"
  using assms(2) in_row_set [of q op_id "touch_op now op op'" "operations d"] stored_ids [OF assms(1)]
  by (simp add: stored_def)

lemma stored_get_vm:
  assumes "step_in d l op v op' v'"
  shows "get_vm u (stored now op v op' v' d) = (if u = vm_id v then Some (touch_vm now v v') else get_vm u d)"
proof (cases "u = vm_id v")
  case True
  then show ?thesis
    using row_get_row_set_same [of vm_id "touch_vm now v v'" "vms d"] assms stored_ids [OF assms]
    by (simp add: stored_def step_in_def)
next
  case False
  then show ?thesis
    using row_get_row_set_other [of u vm_id "touch_vm now v v'" "vms d"] stored_ids [OF assms]
    by (simp add: stored_def)
qed

lemma stored_other_inactive:
  assumes "step_in d l op v op' v'" "q \<in> set (operations d)" "op_id q \<noteq> op_id op" "op_vm q = op_vm op"
  shows "\<not> active q"
  using assms moves_active [of l op v op' v'] by (auto simp: step_in_def db_ok_def one_active_def)

lemma stored_op_ok:
  assumes st: "step_in d l op v op' v'" and q: "q \<in> set (operations (stored now op v op' v' d))"
  shows "op_ok (stored now op v op' v' d) q"
  using stored_op_member [OF st q]
proof
  assume q: "q = touch_op now op op'"
  have "row_ok (ssh_keys d) op' v'"
    using st by (intro moves_row_ok [OF stored_row [OF st], of l]) (simp add: step_in_def)
  then show ?thesis
    using stored_ids [OF st] by (simp add: op_ok_def stored_get_vm [OF st] q) (simp add: stored_def)
next
  assume q: "q \<in> set (operations d) \<and> op_id q \<noteq> op_id op"
  then obtain w where w: "get_vm (op_vm q) d = Some w" "row_ok (ssh_keys d) q w"
    using db_okD st unfolding step_in_def by metis
  have m: "moves l op v op' v'" and v: "get_vm (op_vm op) d = Some v"
    using st by (simp_all add: step_in_def)
  show ?thesis
  proof (cases "op_vm q = op_vm op")
    case True
    then have "w = v" using w v by simp
    then have "row_ok (ssh_keys d) q (touch_vm now v v')"
      using row_ok_inactive [OF w(2) stored_other_inactive [OF st]] q True moves_frames [OF m] moves_placed [OF m]
      by simp
    then show ?thesis
      using True stored_ids [OF st] by (simp add: op_ok_def stored_get_vm [OF st]) (simp add: stored_def)
  next
    case False
    then show ?thesis
      using w stored_ids [OF st] by (simp add: op_ok_def stored_get_vm [OF st]) (simp add: stored_def)
  qed
qed

lemma stored_one_active:
  assumes st: "step_in d l op v op' v'"
  shows "one_active (operations (stored now op v op' v' d))"
proof -
  let ?o = "touch_op now op op'"
  have ids: "op_vm ?o = op_vm op"
    using stored_ids [OF st] by simp
  have old: "one_active (operations d)"
    using st by (simp add: step_in_def db_ok_def)
  have "p = q" if p: "p \<in> set (operations (stored now op v op' v' d))" "active p"
    and q: "q \<in> set (operations (stored now op v op' v' d))" "active q" and eq: "op_vm p = op_vm q" for p q
    using stored_op_member [OF st p(1)] stored_op_member [OF st q(1)]
  proof (elim disjE)
    assume "p = ?o" "q \<in> set (operations d) \<and> op_id q \<noteq> op_id op"
    then show ?thesis using stored_other_inactive [OF st, of q] q eq ids by simp
  next
    assume "p \<in> set (operations d) \<and> op_id p \<noteq> op_id op" "q = ?o"
    then show ?thesis using stored_other_inactive [OF st, of p] p eq ids by simp
  next
    assume "p \<in> set (operations d) \<and> op_id p \<noteq> op_id op" "q \<in> set (operations d) \<and> op_id q \<noteq> op_id op"
    then show ?thesis using old p q eq unfolding one_active_def by blast
  qed simp
  then show ?thesis unfolding one_active_def by blast
qed

lemma stored_op_present:
  assumes st: "step_in d l op v op' v'"
  shows "touch_op now op op' \<in> set (operations (stored now op v op' v' d))"
    "q \<in> set (operations d) \<Longrightarrow> op_id q \<noteq> op_id op \<Longrightarrow> q \<in> set (operations (stored now op v op' v' d))"
proof -
  have "op \<in> set (operations d)"
    using st by (simp add: step_in_def)
  then show "touch_op now op op' \<in> set (operations (stored now op v op' v' d))"
    using stored_ids [OF st] by (force simp: stored_def row_set_def)
  show "q \<in> set (operations d) \<Longrightarrow> op_id q \<noteq> op_id op \<Longrightarrow> q \<in> set (operations (stored now op v op' v' d))"
    using stored_ids [OF st] by (force simp: stored_def row_set_def)
qed

lemma stored_vm_settled:
  assumes st: "step_in d l op v op' v'" and w: "w \<in> set (vms (stored now op v op' v' d))"
  shows "vm_constraints w \<and> vm_settled (operations (stored now op v op' v' d)) w"
proof -
  have m: "moves l op v op' v'" and ok: "db_ok d"
    using st by (simp_all add: step_in_def)
  have old: "vm_constraints x \<and> vm_settled (operations d) x" if "x \<in> set (vms d)" for x
    using ok that by (simp add: db_ok_def)
  note new = moves_settled [OF m stored_row [OF st] conjunct1 [OF old [OF stored_ids(6) [OF st]]]]
  have "w = touch_vm now v v' \<or> (w \<in> set (vms d) \<and> vm_id w \<noteq> vm_id v)"
    using w in_row_set [of w vm_id "touch_vm now v v'" "vms d"] stored_ids [OF st] by (simp add: stored_def)
  then show ?thesis
  proof
    assume w: "w = touch_vm now v v'"
    have "op_vm (touch_op now op op') = vm_id w"
      using stored_ids [OF st] w by simp
    then have "vm_settled (operations (stored now op v op' v' d)) w"
      using new(2) w stored_op_present(1) [OF st, of now] active_touch [of now op op']
      unfolding vm_settled_def by (metis touch_vm_fields(3))
    then show ?thesis
      using new(1) w by (simp add: vm_constraints_def)
  next
    assume w: "w \<in> set (vms d) \<and> vm_id w \<noteq> vm_id v"
    then have "vm_settled (operations d) w" "vm_constraints w"
      using old by blast+
    moreover have "vm_settled (operations (stored now op v op' v' d)) w" if "vm_settled (operations d) w"
      using that stored_op_present(2) [OF st] w stored_ids [OF st] st op_unique [of d op]
      unfolding vm_settled_def step_in_def by metis
    ultimately show ?thesis by blast
  qed
qed

theorem stored_db_ok:
  assumes st: "step_in d l op v op' v'" and u: "vmid_unique (vms (stored now op v op' v' d))"
  shows "db_ok (stored now op v op' v' d)"
proof -
  let ?o = "touch_op now op op'"
  have ok: "db_ok d" and op: "op \<in> set (operations d)"
    using st by (simp_all add: step_in_def)
  have "map op_key (row_set op_id ?o (operations d)) = map op_key (operations d)"
    by (rule map_row_set_cong) (use op_unique [OF ok op] stored_ids [OF st] in \<open>auto\<close>)
  then have "distinct (map op_key (operations (stored now op v op' v' d)))"
    using ok by (simp add: stored_def db_ok_def)
  moreover have "distinct (map op_id (operations (stored now op v op' v' d)))"
      "distinct (map vm_id (vms (stored now op v op' v' d)))"
    using ok by (simp_all add: stored_def db_ok_def)
  moreover have "placed w" if "w \<in> set (vms (stored now op v op' v' d))" "vm_status w \<noteq> ''pending''" for w
    using in_row_set [OF that(1) [unfolded stored_def, simplified]] that(2) ok moves_placed [of l op v op' v'] st
    by (auto simp: db_ok_def step_in_def)
  moreover have "distinct (map key_id (ssh_keys (stored now op v op' v' d)))"
    using ok by (simp add: stored_def db_ok_def)
  ultimately show ?thesis
    using stored_op_ok [OF st] stored_one_active [OF st] stored_vm_settled [OF st] u
    unfolding db_ok_def by blast
qed

end
