(* ===== verification/DbSteps.thy ===== *)
theory DbSteps
  imports DbInvariant
begin

text \<open>
  The two transactions of the worker on the whole database: each leaves it alone or makes one
  step of one operation (\<open>step_in\<close>), and keeps \<open>db_ok\<close>.
\<close>

lemma selected_op:
  assumes "select_operation now locked d = Some op"
  shows "op \<in> set (operations d)" "eligible now op" "op_id op \<notin> set locked"
  using first_min_in [OF assms [unfolded select_operation_def]] by auto

lemma first_transaction_cases:
  assumes ok: "db_ok d" and t: "first_transaction now A locked d p = (r, d', p')"
  obtains (none) "select_operation now locked d = None" "r = Inr (False, None)" "d' = d" "p' = p"
  | (raised) e where "r = Inl e" "d' = d"
  | (step) op v op' v' l disp where "r = Inr (True, disp)" "select_operation now locked d = Some op"
      "step_in d l op v op' v'" "dispatches op v' l disp" "d' = stored now op v op' v' d"
      "vmid_unique (vms d')" "operation_constraints op'"
proof (cases "select_operation now locked d")
  case None
  with t show thesis by (intro none) (simp_all add: first_transaction_def)
next
  case (Some op)
  note sel = selected_op [OF Some]
  obtain v where v: "get_vm (op_vm op) d = Some v" "row_ok (ssh_keys d) op v"
    by (rule db_okD [OF ok sel(1)])
  let ?s = "open_session d p op"
  have s: "s_op ?s = op" "s_vm ?s = Some v" "s_keys ?s = ssh_keys d" "s_prov ?s = p"
    using v by (simp_all add: open_session_def)
  obtain x s' where run: "process_selected now A ?s = (x, s')"
    by (cases "process_selected now A ?s")
  have pass: "outcome (process_selected now A ?s) (\<lambda>disp t. passes op v disp t)
      (\<lambda>e t. \<exists>req p'. choose_clone_target A req p = (Inl e, p'))"
    using selected_pass [of ?s v now now A] v sel s by simp
  show thesis
  proof (cases x)
    case (Inl e)
    with t Some run show thesis
      by (intro raised [of e]) (simp_all add: first_transaction_def)
  next
    case (Inr disp)
    from outcome_InrD [OF pass run [unfolded Inr]] obtain l v' where
      w: "s_vm s' = Some v'" "moves l op v (s_op s') v'" "dispatches op v' l disp"
      unfolding passes_def by blast
    have st: "step_in d l op v (s_op s') v'"
      using ok sel v w by (simp add: step_in_def)
    have vid: "get_vm (vm_id v) d = Some v"
      using v row_get_SomeD [OF v(1)] by simp
    have c: "commit_rows now (s_op s') (Some v') d =
       (if operation_constraints (s_op s') \<and> vm_constraints v' \<and> vmid_unique (vms (stored now op v (s_op s') v' d))
        then Inr (stored now op v (s_op s') v' d) else Inl (IntegrityError ''constraint violated''))"
      using commit_rows_stored [OF db_ok_get_op [OF ok sel(1)] vid] moves_frames [OF w(2)] by blast
    show thesis
    proof (cases "operation_constraints (s_op s') \<and> vm_constraints v' \<and> vmid_unique (vms (stored now op v (s_op s') v' d))")
      case True
      then show thesis
        using t Some run Inr w c st by (intro step [of disp op l v "s_op s'" v']) (simp_all add: first_transaction_def)
    next
      case False
      then show thesis
        using t Some run Inr w c by (intro raised) (auto simp: first_transaction_def)
    qed
  qed
qed

lemma store_outcome_cases:
  fixes res :: "exc + reply"
  assumes ok: "db_ok d" and disp: "\<And>op. get_op (dispatch_op disp) d = Some op \<Longrightarrow> dispatch_for (op_type op) disp"
  obtains (same) "store_outcome now disp res d = d"
  | (step) op v op' v' where "get_op (dispatch_op disp) d = Some op" "step_in d None op v op' v'"
      "store_outcome now disp res d = stored now op v op' v' d"
      "vmid_unique (vms (store_outcome now disp res d))" "operation_constraints op'"
proof (cases "get_op (dispatch_op disp) d")
  case None
  then show thesis by (intro same) (simp add: store_outcome_def)
next
  case (Some op)
  have op: "op \<in> set (operations d)"
    using row_get_SomeD [OF Some] by simp
  obtain v where v: "get_vm (op_vm op) d = Some v" "row_ok (ssh_keys d) op v"
    by (rule db_okD [OF ok op])
  let ?s = "open_session d () op"
  have s: "s_op ?s = op" "s_vm ?s = Some v"
    using v by (simp_all add: open_session_def)
  obtain x s' where run: "store_step now disp res ?s = (x, s')"
    by (cases "store_step now disp res ?s")
  have pass: "outcome (store_step now disp res ?s) (\<lambda>_ t. \<exists>v'. s_vm t = Some v' \<and> moves None op v (s_op t) v') (\<lambda>_ _. True)"
    using stored_step [of "ssh_keys d" ?s v disp now res] v s disp [OF Some] by simp
  show thesis
  proof (cases x)
    case (Inl e)
    with Some run show thesis
      by (intro same) (simp add: store_outcome_def)
  next
    case (Inr y)
    from outcome_InrD [OF pass run [unfolded Inr]] obtain v' where
      w: "s_vm s' = Some v'" "moves None op v (s_op s') v'"
      by blast
    have st: "step_in d None op v (s_op s') v'"
      using ok op v w by (simp add: step_in_def)
    have vid: "get_vm (vm_id v) d = Some v"
      using v row_get_SomeD [OF v(1)] by simp
    have c: "commit_rows now (s_op s') (Some v') d =
       (if operation_constraints (s_op s') \<and> vm_constraints v' \<and> vmid_unique (vms (stored now op v (s_op s') v' d))
        then Inr (stored now op v (s_op s') v' d) else Inl (IntegrityError ''constraint violated''))"
      using commit_rows_stored [OF db_ok_get_op [OF ok op] vid] moves_frames [OF w(2)] by blast
    show thesis
    proof (cases "operation_constraints (s_op s') \<and> vm_constraints v' \<and> vmid_unique (vms (stored now op v (s_op s') v' d))")
      case True
      then have "store_outcome now disp res d = stored now op v (s_op s') v' d"
        using Some run Inr w c by (simp add: store_outcome_def)
      then show thesis
        using Some st True by (intro step [of op v "s_op s'" v']) simp_all
    next
      case False
      then show thesis
        using Some run Inr w c by (intro same) (auto simp: store_outcome_def)
    qed
  qed
qed

lemma first_transaction_db_ok:
  assumes ok: "db_ok d" and t: "first_transaction now A locked d p = (r, d', p')"
  shows "db_ok d'"
  using ok t by (cases rule: first_transaction_cases) (auto intro: stored_db_ok simp: ok)

lemma store_outcome_db_ok:
  assumes "db_ok d" "\<And>op. get_op (dispatch_op disp) d = Some op \<Longrightarrow> dispatch_for (op_type op) disp"
  shows "db_ok (store_outcome now disp res d)"
  using assms by (cases rule: store_outcome_cases [where now = now and res = res]) (auto intro: stored_db_ok simp: assms(1))

text \<open>Why a pass can fail.\<close>

lemma first_transaction_raised:
  assumes ok: "db_ok d" and t: "first_transaction now A locked d p = (Inl e, d', p')"
  shows "d' = d \<and> ((\<exists>req q q'. choose_clone_target A req q = (Inl e, q')) \<or> (\<exists>m. e = IntegrityError m))"
proof (cases "select_operation now locked d")
  case None
  with t show ?thesis by (simp add: first_transaction_def)
next
  case (Some op)
  note sel = selected_op [OF Some]
  obtain v where v: "get_vm (op_vm op) d = Some v" "row_ok (ssh_keys d) op v"
    by (rule db_okD [OF ok sel(1)])
  let ?s = "open_session d p op"
  have s: "s_op ?s = op" "s_vm ?s = Some v" "s_keys ?s = ssh_keys d"
    using v by (simp_all add: open_session_def)
  obtain x s' where run: "process_selected now A ?s = (x, s')"
    by (cases "process_selected now A ?s")
  have pass: "outcome (process_selected now A ?s) (\<lambda>disp t. passes op v disp t)
      (\<lambda>e t. \<exists>req p'. choose_clone_target A req (s_prov ?s) = (Inl e, p'))"
    using selected_pass [of ?s v now now A] v sel s by simp
  show ?thesis
  proof (cases x)
    case (Inl e')
    with t Some run have "e' = e" "d' = d"
      by (simp_all add: first_transaction_def)
    with outcome_InlD [OF pass run [unfolded Inl]] show ?thesis by blast
  next
    case (Inr disp)
    with t Some run show ?thesis
      by (auto simp: first_transaction_def commit_rows_def Let_def split: sum.splits if_splits)
  qed
qed

end
