(* ===== verification/VmInvariant.thy ===== *)
theory VmInvariant
  imports VmServices DbSteps
begin

text \<open>
  What the services of virtual machines keep: a new virtual machine comes with its create
  operation inside the quota, a new operation only for a virtual machine without an active
  one, and \<open>db_ok\<close> holds after either. The locks a service holds are stated as what cannot
  happen between its queries and its flush.
\<close>

section \<open>What the row locks exclude\<close>

text \<open>
  Under the lock on the user's quota no other request adds a virtual machine of the user, so
  the usage cannot have grown; keys, the quota and plans are never removed or changed.
\<close>

definition quota_locked :: "uuid \<Rightarrow> db \<Rightarrow> db \<Rightarrow> bool" where
  "quota_locked user seen d \<longleftrightarrow>
     set (ssh_keys seen) \<subseteq> set (ssh_keys d)
     \<and> row_get quota_user user (quotas d) = row_get quota_user user (quotas seen) \<and> plans d = plans seen
     \<and> usage_le (get_user_compute_usage user d) (get_user_compute_usage user seen)"

text \<open>
  Under the lock on a virtual machine its row stays, and no operation of it becomes active.
\<close>

definition vm_locked :: "uuid \<Rightarrow> db \<Rightarrow> db \<Rightarrow> bool" where
  "vm_locked vid seen d \<longleftrightarrow>
     filter (\<lambda>v. vm_id v = vid) (vms d) = filter (\<lambda>v. vm_id v = vid) (vms seen)
     \<and> (\<forall>op\<in>set (operations d). op_vm op = vid \<and> active op \<longrightarrow>
          (\<exists>q\<in>set (operations seen). op_vm q = vid \<and> active q))"

lemma quota_locked_refl [simp]: "quota_locked user d d"
  by (simp add: quota_locked_def)

lemma vm_locked_refl [simp]: "vm_locked vid d d"
  by (auto simp: vm_locked_def)

section \<open>The results of create_vm\<close>

lemma create_checks_new:
  assumes "create_checks user r key quota seen = Inr None"
  obtains minimum plan where "quota_status quota = ''active''" "IMAGE_MIN_STORAGE_GB (rq_image_id r) = Some minimum"
    "minimum \<le> rq_storage_gb r" "row_get plan_id (quota_plan quota) (plans seen) = Some plan"
    "validate_vm_quota plan (get_user_compute_usage user seen) r = Inr ()"
    "row_get op_key key (operations seen) = None"
  using assms unfolding create_checks_def get_existing_vm_for_create_request_def
  by (auto split: sum.splits option.splits if_splits)

lemma create_vm_cases:
  assumes "create_vm vid oid now user r key seen d = (res, d')"
  obtains (failed) e where "res = Inl e" "d' = d"
  | (existing) vm e where "res = Inr vm" "d' = d"
      "get_existing_vm_for_create_request key user r e = Inr (Some vm)" "e = seen \<or> e = d"
  | (created) quota k where "res = Inr (new_vm vid now user r)"
      "d' = d\<lparr>vms := vms d @ [new_vm vid now user r],
              operations := operations d @ [new_operation oid now vid ''vm.create'' (Some ''clone'') key]\<rparr>"
      "k \<in> set (ssh_keys seen)" "key_id k = rq_ssh_key r" "key_owner k = user"
      "row_get quota_user user (quotas seen) = Some quota"
      "create_checks user r key quota seen = Inr None"
      "vm_constraints (new_vm vid now user r)" "get_vm vid d = None" "get_op oid d = None"
      "row_get op_key key (operations d) = None" "vmid_unique (vms d @ [new_vm vid now user r])"
      "row_get usr_id user (users d) \<noteq> None"
proof -
  let ?vm = "new_vm vid now user r" and ?op = "new_operation oid now vid ''vm.create'' (Some ''clone'') key"
  have flush: thesis
    if k': "find (\<lambda>k. key_id k = rq_ssh_key r \<and> key_owner k = user) (ssh_keys seen) = Some k"
      and k: "k \<in> set (ssh_keys seen) \<and> key_id k = rq_ssh_key r \<and> key_owner k = user"
      and q: "row_get quota_user user (quotas seen) = Some quota"
      and checks: "create_checks user r key quota seen = Inr None" for k quota
  proof -
    let ?flushed = "case flush_vm ?vm d of Inl e \<Rightarrow> Inl e | Inr d1 \<Rightarrow> flush_operation ?op d1"
    have eq: "(res, d') = (case ?flushed of Inr d2 \<Rightarrow> (Inr ?vm, d2)
        | Inl _ \<Rightarrow> (case get_existing_vm_for_create_request key user r d of
                      Inl e \<Rightarrow> (Inl e, d) | Inr (Some vm) \<Rightarrow> (Inr vm, d)
                    | Inr None \<Rightarrow> (Inl (ValueError ''idempotency key already used''), d)))"
      using assms k' q checks by (simp add: create_vm_def Let_def)
    show thesis
    proof (cases ?flushed)
      case (Inl e)
      show thesis
      proof (cases "get_existing_vm_for_create_request key user r d")
        case (Inl e')
        with eq \<open>?flushed = Inl e\<close> show thesis by (intro failed) simp_all
      next
        case (Inr w)
        with eq \<open>?flushed = Inl e\<close> show thesis
          by (cases w) (auto intro: failed existing)
      qed
    next
      case (Inr d2)
      then have "flush_vm ?vm d = Inr (d\<lparr>vms := vms d @ [?vm]\<rparr>)" and c: "vm_constraints ?vm" "get_vm vid d = None"
          "vmid_unique (vms d @ [?vm])" "row_get usr_id user (users d) \<noteq> None"
        by (auto simp: flush_vm_def new_vm_def split: sum.splits if_splits)
      then have "d2 = d\<lparr>vms := vms d @ [?vm], operations := operations d @ [?op]\<rparr>" "get_op oid d = None"
          "row_get op_key key (operations d) = None"
        using Inr by (auto simp: flush_operation_def new_operation_def split: if_splits)
      with eq Inr c k q checks show thesis
        by (intro created [where k = k and quota = quota]) simp_all
    qed
  qed
  show thesis
  proof (cases "find (\<lambda>k. key_id k = rq_ssh_key r \<and> key_owner k = user) (ssh_keys seen)")
    case None
    with assms show thesis by (auto simp: create_vm_def intro: failed)
  next
    case (Some k)
    note k' = this and k = find_SomeD [OF this]
    show thesis
    proof (cases "row_get quota_user user (quotas seen)")
      case None
      with assms k' show thesis by (auto simp: create_vm_def intro: failed)
    next
      case (Some quota)
      note q = this
      show thesis
      proof (cases "create_checks user r key quota seen")
        case (Inl e)
        with assms k' q show thesis by (auto simp: create_vm_def intro: failed)
      next
        case (Inr w)
        show thesis
        proof (cases w)
          case (Some vm)
          then have "get_existing_vm_for_create_request key user r seen = Inr (Some vm)"
            using Inr by (auto simp: create_checks_def split: sum.splits option.splits if_splits)
          with assms k' q Inr Some show thesis by (auto simp: create_vm_def intro: existing)
        next
          case None
          with Inr flush [OF k' k q] show thesis by simp
        qed
      qed
    qed
  qed
qed

section \<open>Inserting keeps the invariant\<close>

lemma row_get_append_new: "row_get f k xs = None \<Longrightarrow> row_get f k (xs @ [y]) = (if f y = k then Some y else None)"
  by (simp add: row_get_append row_get_Cons)

lemma row_get_append_old: "row_get f k xs = Some x \<Longrightarrow> row_get f k (xs @ ys) = Some x"
  by (simp add: row_get_append)

lemma op_ok_append:
  "op_ok d op \<Longrightarrow> op_ok (d\<lparr>vms := vms d @ vs, operations := ops\<rparr>) op"
  by (auto simp: op_ok_def row_get_append split: option.splits)

lemma vm_settled_append: "vm_settled ops v \<Longrightarrow> vm_settled (ops @ qs) v"
  by (auto simp: vm_settled_def)

lemma one_active_append:
  assumes "one_active ops" "\<And>q. q \<in> set ops \<Longrightarrow> op_vm q = op_vm op \<Longrightarrow> \<not> active q"
  shows "one_active (ops @ [op])"
  using assms unfolding one_active_def by (metis Un_iff empty_iff empty_set list.simps(15) set_append insert_iff)

text \<open>A new operation is ready for its first command.\<close>

lemma new_operation_ready:
  assumes "T \<in> set operation_types" "phase = ready_phase T 0"
  shows "abs_state (new_operation oid now vid T phase key) = Some (Ready 0)"
proof -
  have "0 < length (commands T)"
    using assms(1) by (rule operation_types_cases) simp_all
  then show ?thesis
    using assms by (intro abs_stateI) (simp_all add: new_operation_def in_astates)
qed

lemma new_operation_active [simp]: "active (new_operation oid now vid T phase key)"
  by (simp add: active_def new_operation_def)

lemma fresh_vm_operations:
  assumes "db_ok d" "get_vm vid d = None" "q \<in> set (operations d)"
  shows "op_vm q \<noteq> vid"
  using db_okD [OF assms(1,3)] assms(2) by (metis option.distinct(1))

lemma create_vm_db_ok:
  assumes ok: "db_ok d" and c: "create_vm vid oid now user r key seen d = (res, d')"
    and locked: "quota_locked user seen d"
  shows "db_ok d'"
  using c
proof (cases rule: create_vm_cases)
  case (created quota k)
  let ?vm = "new_vm vid now user r" and ?op = "new_operation oid now vid ''vm.create'' (Some ''clone'') key"
  have d': "operations d' = operations d @ [?op]" "vms d' = vms d @ [?vm]" "ssh_keys d' = ssh_keys d"
    using created(2) by simp_all
  have ids: "vm_id ?vm = vid" "op_vm ?op = vid" "op_id ?op = oid" "op_key ?op = key"
    by (simp_all add: new_vm_def new_operation_def)
  have "k \<in> set (ssh_keys d)"
    using locked created(3) by (auto simp: quota_locked_def)
  then have key: "get_key (rq_ssh_key r) d = Some k"
    using ok created(4) row_get_unique [of key_id "ssh_keys d" k] by (simp add: db_ok_def)
  have "row_ok (ssh_keys d) ?op ?vm"
  proof (rule row_okI [OF _ new_operation_ready])
    show "op_type ?op = ''vm.create'' \<longrightarrow> request_for (ssh_keys d) ?vm \<noteq> None"
      using key created(5) by (simp add: request_for_def new_vm_def)
  qed (simp_all add: new_vm_def new_operation_def operation_types_def ready_phase_def unplaced_def)
  then have new_op: "op_ok d' ?op"
    using created(9) ids by (simp add: op_ok_def d' row_get_append_new)
  have old_op: "op_ok d' q" if "q \<in> set (operations d)" for q
    using ok that op_ok_append [where d = d and op = q and vs = "[?vm]" and ops = "operations d @ [?op]"] created(2)
    by (auto simp: db_ok_def)
  have act: "one_active (operations d')"
    unfolding d' using ok fresh_vm_operations [OF ok created(9)] ids
    by (intro one_active_append) (auto simp: db_ok_def)
  have set_vms: "vm_constraints v \<and> vm_settled (operations d') v" if "v \<in> set (vms d')" for v
    using that ok created(8) ids new_operation_active unfolding d' db_ok_def
    by (auto simp: vm_settled_append) (auto simp: vm_settled_def)
  have "distinct (map op_id (operations d'))" "distinct (map op_key (operations d'))" "distinct (map vm_id (vms d'))"
    using ok created(9,10,11) ids by (auto simp: d' db_ok_def row_get_None_iff)
  moreover have "placed v" if "v \<in> set (vms d')" "vm_status v \<noteq> ''pending''" for v
    using that ok by (auto simp: d' db_ok_def new_vm_def)
  ultimately show ?thesis
    using new_op old_op act set_vms created(12) ok d' unfolding db_ok_def by auto
qed (use ok in simp_all)

section \<open>The results of enqueue_vm_operation\<close>

lemma enqueue_cases:
  assumes "enqueue_vm_operation oid now user vid T key seen d = (res, d')"
  obtains (failed) e where "res = Inl e" "d' = d"
  | (existing) q where "res = Inr q" "d' = d" "op_vm q = vid" "op_type q = T" "op_key q = key"
      "q \<in> set (operations seen) \<or> q \<in> set (operations d)"
  | (queued) v statuses where
      "res = Inr (new_operation oid now vid T (if T = ''vm.reboot'' then Some ''shutdown'' else None) key)"
      "d' = d\<lparr>operations := operations d
             @ [new_operation oid now vid T (if T = ''vm.reboot'' then Some ''shutdown'' else None) key]\<rparr>"
      "allowed_statuses T = Some statuses" "v \<in> set (vms seen)" "vm_id v = vid" "vm_owner v = user"
      "vm_status v \<in> set statuses" "\<forall>q\<in>set (operations seen). op_vm q = vid \<longrightarrow> \<not> active q"
      "get_op oid d = None" "row_get op_key key (operations d) = None" "get_vm vid d \<noteq> None"
proof -
  show thesis
  proof (cases "allowed_statuses T")
    case None
    with assms show thesis by (auto simp: enqueue_vm_operation_def intro: failed)
  next
    case (Some statuses)
    note st = this
    show thesis
    proof (cases "find (\<lambda>v. vm_id v = vid \<and> vm_owner v = user) (vms seen)")
      case None
      with assms st show thesis by (auto simp: enqueue_vm_operation_def intro: failed)
    next
      case (Some v)
      note v = this and v' = find_SomeD [OF this]
      show thesis
      proof (cases "row_get op_key key (operations seen)")
        case (Some q)
        from row_get_SomeD [OF Some] have "q \<in> set (operations seen)" "op_key q = key" by auto
        with assms st v Some v' show thesis
          by (auto simp: enqueue_vm_operation_def split: if_splits intro: failed existing)
      next
        case None
        let ?op = "new_operation oid now vid T (if T = ''vm.reboot'' then Some ''shutdown'' else None) key"
        show thesis
        proof (cases "(\<exists>q\<in>set (operations seen). op_vm q = vid \<and> active q) \<or> vm_status v \<notin> set statuses")
          case True
          with assms st v None have "\<exists>e. res = Inl e" "d' = d"
            by (auto simp: enqueue_vm_operation_def list_ex_iff active_def split: if_splits)
          then show thesis using failed by blast
        next
          case False
          then have n: "\<not> list_ex (\<lambda>op. op_vm op = vid \<and> op_status op \<in> {''pending'', ''processing''}) (operations seen)"
              "vm_status v \<in> set statuses"
            by (auto simp: list_ex_iff active_def)
          have "enqueue_vm_operation oid now user vid T key seen d = (case flush_operation ?op d of Inr d' \<Rightarrow> (Inr ?op, d')
             | Inl _ \<Rightarrow> (case row_get op_key key (operations d) of
                  None \<Rightarrow> (Inl (ValueError ''idempotency key already used''), d)
                | Some existing \<Rightarrow>
                    if op_vm existing = vid \<and> op_type existing = T then (Inr existing, d)
                    else (Inl (ValueError ''idempotency key already used''), d)))"
            using st v v' None n by (simp add: enqueue_vm_operation_def Let_def)
          then show thesis
            using assms False st v' queued [OF _ _ st]
            by (cases "flush_operation ?op d"; cases "row_get op_key key (operations d)")
              (auto simp: flush_operation_def new_operation_def split: if_splits dest: row_get_SomeD
                intro: failed existing)
        qed
      qed
    qed
  qed
qed

lemma allowed_statuses_cases:
  assumes "allowed_statuses T = Some statuses"
  obtains "T = ''vm.start''" "statuses = [''stopped'']" | "T = ''vm.shutdown''" "statuses = [''running'']"
    | "T = ''vm.stop''" "statuses = [''running'']" | "T = ''vm.reboot''" "statuses = [''running'']"
    | "T = ''vm.delete''" "statuses = [''stopped'']"
proof -
  have "T = ''vm.start'' \<and> statuses = [''stopped''] \<or> T = ''vm.shutdown'' \<and> statuses = [''running'']
      \<or> T = ''vm.stop'' \<and> statuses = [''running''] \<or> T = ''vm.reboot'' \<and> statuses = [''running'']
      \<or> T = ''vm.delete'' \<and> statuses = [''stopped'']"
    using assms by (simp add: allowed_statuses_def split: if_splits)
  then show thesis
    by (elim disjE conjE) (fact that)+
qed

lemma enqueue_db_ok:
  assumes ok: "db_ok d" and e: "enqueue_vm_operation oid now user vid T key seen d = (res, d')"
    and locked: "vm_locked vid seen d"
  shows "db_ok d'"
  using e
proof (cases rule: enqueue_cases)
  case (queued v statuses)
  let ?phase = "if T = ''vm.reboot'' then Some ''shutdown'' else None"
  let ?op = "new_operation oid now vid T ?phase key"
  have d': "operations d' = operations d @ [?op]" "vms d' = vms d" "ssh_keys d' = ssh_keys d"
    using queued(2) by simp_all
  have ids: "op_vm ?op = vid" "op_id ?op = oid" "op_key ?op = key" "op_type ?op = T" "op_attempts ?op = 0"
    by (simp_all add: new_operation_def)
  have v: "get_vm vid d = Some v"
  proof -
    have "v \<in> set (filter (\<lambda>v. vm_id v = vid) (vms d))"
      using locked queued(4,5) by (simp add: vm_locked_def)
    then show ?thesis
      using ok row_get_unique [of vm_id "vms d" v] by (simp add: db_ok_def)
  qed
  have facts: "T \<in> set operation_types" "?phase = ready_phase T 0" "T \<noteq> ''vm.create''"
      "coherent T (Ready 0) (vm_status v)" "vm_status v \<noteq> ''pending''"
    using queued(3,7)
    by (elim allowed_statuses_cases; simp add: operation_types_def ready_phase_def)+
  have "placed v"
    using ok facts(5) row_get_SomeD [OF v] by (simp add: db_ok_def)
  then have "row_ok (ssh_keys d) ?op v"
    using facts ids row_get_SomeD [OF v]
    by (intro row_okI [OF _ new_operation_ready]) simp_all
  then have new_op: "op_ok d' ?op"
    using v ids by (simp add: op_ok_def d')
  have old_op: "op_ok d' q" if "q \<in> set (operations d)" for q
    using ok that by (simp add: db_ok_def op_ok_def d' cong: option.case_cong)
  have act: "one_active (operations d')"
    unfolding d' using ok locked queued(8) ids
    by (intro one_active_append) (auto simp: db_ok_def vm_locked_def)
  have set_vms: "vm_constraints w \<and> vm_settled (operations d') w \<and> (vm_status w \<noteq> ''pending'' \<longrightarrow> placed w)"
    if "w \<in> set (vms d')" for w
    using that ok by (simp add: d' db_ok_def vm_settled_append)
  have "distinct (map op_id (operations d'))" "distinct (map op_key (operations d'))"
    using ok queued(9,10) ids by (auto simp: d' db_ok_def row_get_None_iff)
  then show ?thesis
    using new_op old_op act set_vms ok d' unfolding db_ok_def by auto
qed (use ok in simp_all)

section \<open>The quota is never exceeded\<close>

definition quota_ok :: "db \<Rightarrow> bool" where
  "quota_ok d \<longleftrightarrow>
     (\<forall>q\<in>set (quotas d). \<forall>p. row_get quota_user (quota_user q) (quotas d) = Some q \<longrightarrow>
        row_get plan_id (quota_plan q) (plans d) = Some p \<longrightarrow>
        fits_plan (get_user_compute_usage (quota_user q) d) p)"

lemma quota_okI:
  assumes "quota_ok d" "quotas d' = quotas d" "plans d' = plans d"
    and "\<And>u. usage_le (get_user_compute_usage u d') (get_user_compute_usage u d)"
  shows "quota_ok d'"
  using assms unfolding quota_ok_def by (metis usage_le_within)

lemma coherent_statuses:
  assumes "T \<in> set operation_types"
  shows "coherent T (Ready k) st \<Longrightarrow> st \<in> set QUOTA_CONSUMING_STATUSES"
    and "coherent T (Tracked k) st \<Longrightarrow> st \<in> set QUOTA_CONSUMING_STATUSES"
    and "coherent T (Review k) st \<Longrightarrow> st \<in> set QUOTA_CONSUMING_STATUSES"
    and "coherent T (InFlight k) st \<Longrightarrow> st \<in> set QUOTA_CONSUMING_STATUSES"
  by (rule operation_types_cases [OF assms];
      cases "k = 0"; simp add: QUOTA_CONSUMING_STATUSES_def; (elim disjE; simp)?)+

lemma coherent_consuming:
  assumes "abs_state op = Some a" "active op" "coherent (op_type op) a st"
  shows "st \<in> set QUOTA_CONSUMING_STATUSES"
  using coherent_statuses [OF abs_state_type [OF assms(1)]] active_astate [OF assms(1)] assms(2,3)
  by (cases a) (simp_all only: simp_thms)

lemma stored_quota_ok:
  assumes st: "step_in d l op v op' v'" and q: "quota_ok d"
  shows "quota_ok (stored now op v op' v' d)"
proof (rule quota_okI [OF q])
  have ok: "db_ok d" and m: "moves l op v op' v'"
    using st by (simp_all add: step_in_def)
  obtain a where "abs_state op = Some a" "coherent (op_type op) a (vm_status v)"
    by (rule row_okD [OF stored_row [OF st]])
  then have c: "vm_status v \<in> set QUOTA_CONSUMING_STATUSES"
    using coherent_consuming moves_active [OF m] by blast
  have dist: "distinct (map vm_id (vms d))"
    using ok by (simp add: db_ok_def)
  have pos: "0 \<le> vm_vcpus w \<and> 0 \<le> vm_memory_mb w \<and> 0 \<le> vm_storage_gb w" if "w \<in> set (vms d)" for w
  proof -
    have "vm_constraints w"
      using ok that by (simp add: db_ok_def)
    then show ?thesis by (simp add: vm_constraints_def)
  qed
  have same: "w = v" if "w \<in> set (vms d)" "vm_id w = vm_id v" for w
  proof -
    have "get_vm (vm_id w) d = Some w" "get_vm (vm_id v) d = Some v"
      by (rule row_get_unique [OF dist that(1)], rule row_get_unique [OF dist stored_ids(6) [OF st]])
    then show ?thesis using that(2) by (metis option.inject)
  qed
  show "usage_le (get_user_compute_usage u (stored now op v op' v' d)) (get_user_compute_usage u d)" for u
    unfolding get_user_compute_usage_def stored_def
  proof (simp, rule usage_row_set)
    show "no_heavier w (touch_vm now v v')" if "w \<in> set (vms d)" "vm_id w = vm_id (touch_vm now v v')" for w
      using same [OF that(1)] that(2) c moves_frames [OF m] stored_ids(4) [OF st]
      by (simp add: no_heavier_def vm_frame_def)
  qed (rule pos)
qed (simp_all add: stored_def)

lemma usage_new_vm:
  "usage_of u [new_vm vid now user r] =
     (if u = user then \<lparr>used_vms = 1, used_vcpus = rq_vcpus r, used_memory_mb = rq_memory_mb r,
                        used_storage_gb = rq_storage_gb r\<rparr>
      else \<lparr>used_vms = 0, used_vcpus = 0, used_memory_mb = 0, used_storage_gb = 0\<rparr>)"
  by (simp add: usage_of_Cons consumes_def new_vm_def QUOTA_CONSUMING_STATUSES_def)

lemma create_vm_quota_ok:
  assumes q: "quota_ok d" and c: "create_vm vid oid now user r key seen d = (res, d')"
    and locked: "quota_locked user seen d"
  shows "quota_ok d'"
  using c
proof (cases rule: create_vm_cases)
  case (created quota k)
  obtain plan where plan: "row_get plan_id (quota_plan quota) (plans d) = Some plan"
      "validate_vm_quota plan (get_user_compute_usage user seen) r = Inr ()"
    using create_checks_new [OF created(7)] locked by (metis quota_locked_def)
  have quota: "row_get quota_user user (quotas d) = Some quota"
    using created(6) locked by (simp add: quota_locked_def)
  have le: "usage_le (get_user_compute_usage user d) (get_user_compute_usage user seen)"
    using locked by (simp add: quota_locked_def)
  have own: "fits_plan (get_user_compute_usage user d') plan"
    using plan(2) le created(2)
    by (simp add: validate_vm_quota_def fits_plan_def usage_le_def get_user_compute_usage_def usage_of_append
        usage_new_vm split: if_splits)
  have other: "get_user_compute_usage u d' = get_user_compute_usage u d" if "u \<noteq> user" for u
    using that created(2)
    by (simp add: get_user_compute_usage_def usage_of_append usage_new_vm)
  have tables: "quotas d' = quotas d" "plans d' = plans d"
    using created(2) by simp_all
  show ?thesis
    unfolding quota_ok_def tables
  proof (intro ballI allI impI)
    fix qu p
    assume qu: "qu \<in> set (quotas d)" "row_get quota_user (quota_user qu) (quotas d) = Some qu"
      "row_get plan_id (quota_plan qu) (plans d) = Some p"
    show "fits_plan (get_user_compute_usage (quota_user qu) d') p"
    proof (cases "quota_user qu = user")
      case True
      then have "qu = quota" using qu(2) quota by simp
      with qu(3) plan(1) own True show ?thesis by simp
    next
      case False
      with other qu q show ?thesis by (simp add: quota_ok_def)
    qed
  qed
qed (use q in simp_all)

end
