(* ===== verification/Accounts.thy ===== *)
theory Accounts
  imports SshKeys Identity VmInvariant
begin

text \<open>
  The invariant of the tables around an account: identifiers, identities, session tokens, keys
  and quotas are unique, references lead somewhere, and every user has a quota. Every service and
  both transactions of the worker keep it.
\<close>

section \<open>The invariant\<close>

definition known_user :: "db \<Rightarrow> uuid \<Rightarrow> bool" where
  "known_user d u \<longleftrightarrow> u \<in> usr_id ` set (users d)"

definition identity_key :: "ExternalIdentity \<Rightarrow> string \<times> string" where
  "identity_key i = (ident_issuer i, ident_subject i)"

definition key_label :: "SshPublicKey \<Rightarrow> uuid \<times> string" where
  "key_label k = (key_owner k, key_name k)"

definition accounts_ok :: "db \<Rightarrow> bool" where
  "accounts_ok d \<longleftrightarrow>
     distinct (map usr_id (users d)) \<and> distinct (map ident_id (identities d))
     \<and> distinct (map identity_key (identities d)) \<and> distinct (map sess_id (app_sessions d))
     \<and> distinct (map sess_token_hash (app_sessions d)) \<and> distinct (map quota_user (quotas d))
     \<and> distinct (map key_fingerprint (ssh_keys d)) \<and> distinct (map key_label (ssh_keys d))
     \<and> list_all (known_user d) (map ident_user (identities d)) \<and> list_all (known_user d) (map sess_user (app_sessions d))
     \<and> list_all (known_user d) (map vm_owner (vms d)) \<and> list_all (known_user d) (map key_owner (ssh_keys d))
     \<and> usr_id ` set (users d) \<subseteq> quota_user ` set (quotas d)
     \<and> list_all plan_constraints (plans d)"

text \<open>Rows of accounts are never deleted, and an identity never changes hands.\<close>

definition accounts_grow :: "db \<Rightarrow> db \<Rightarrow> bool" where
  "accounts_grow seen d \<longleftrightarrow>
     usr_id ` set (users seen) \<subseteq> usr_id ` set (users d)
     \<and> (\<forall>i\<in>set (identities seen). \<exists>j\<in>set (identities d). ident_id j = ident_id i \<and> ident_user j = ident_user i
          \<and> identity_key j = identity_key i)"

lemma accounts_grow_refl [simp]: "accounts_grow d d"
  by (auto simp: accounts_grow_def)

lemma known_user_row: "row_get usr_id u (users d) \<noteq> None \<longleftrightarrow> known_user d u"
  by (simp add: known_user_def row_get_None_iff)

lemma known_user_same [simp]:
  "known_user (d\<lparr>ssh_keys := ks\<rparr>) = known_user d" "known_user (d\<lparr>vms := vs\<rparr>) = known_user d"
  "known_user (d\<lparr>operations := ops\<rparr>) = known_user d" "known_user (d\<lparr>app_sessions := ss\<rparr>) = known_user d"
  "known_user (d\<lparr>identities := is\<rparr>) = known_user d"
  by (simp_all add: known_user_def fun_eq_iff)

section \<open>Machines and operations\<close>

lemma stored_accounts_ok:
  assumes st: "step_in d l op v op' v'" and ok: "accounts_ok d"
  shows "accounts_ok (stored now op v op' v' d)"
proof -
  have m: "moves l op v op' v'" and dok: "db_ok d"
    using st by (simp_all add: step_in_def)
  have dist: "distinct (map vm_id (vms d))"
    using dok by (simp add: db_ok_def)
  have "vm_owner w = vm_owner (touch_vm now v v')" if "w \<in> set (vms d)" "vm_id w = vm_id (touch_vm now v v')" for w
  proof -
    have "get_vm (vm_id w) d = Some w" "get_vm (vm_id v) d = Some v"
      by (rule row_get_unique [OF dist that(1)], rule row_get_unique [OF dist stored_ids(6) [OF st]])
    then have "w = v"
      using that(2) stored_ids(4) [OF st] by (metis option.inject touch_vm_fields(1))
    then show ?thesis
      using moves_frames [OF m] by (simp add: vm_frame_def)
  qed
  then have owners: "map vm_owner (row_set vm_id (touch_vm now v v') (vms d)) = map vm_owner (vms d)"
    by (rule map_row_set_cong)
  have k: "known_user (stored now op v op' v' d) = known_user d"
    by (simp add: stored_def known_user_def fun_eq_iff)
  show ?thesis
    using ok unfolding accounts_ok_def k by (simp add: stored_def owners)
qed

lemma create_vm_accounts_ok:
  assumes "create_vm vid oid now user r key seen d = (res, d')" "accounts_ok d"
  shows "accounts_ok d'"
  using assms(1)
proof (cases rule: create_vm_cases)
  case (created quota k)
  then have "known_user d user"
    using known_user_row by blast
  then show ?thesis
    using assms(2) created(2) by (simp add: accounts_ok_def new_vm_def)
qed (use assms(2) in simp_all)

lemma enqueue_accounts_ok:
  assumes "enqueue_vm_operation oid now user vid T key seen d = (res, d')" "accounts_ok d"
  shows "accounts_ok d'"
  using assms(1) by (cases rule: enqueue_cases) (use assms(2) in \<open>simp_all add: accounts_ok_def\<close>)

section \<open>Keys\<close>

lemma flush_key_Inr:
  assumes "flush_key k d = Inr d'"
  shows "d' = d\<lparr>ssh_keys := ssh_keys d @ [k]\<rparr>" "key_fingerprint k \<notin> key_fingerprint ` set (ssh_keys d)"
    "key_label k \<notin> key_label ` set (ssh_keys d)" "key_id k \<notin> key_id ` set (ssh_keys d)" "known_user d (key_owner k)"
  using assms by (auto simp: flush_key_def name_taken_def fingerprint_taken_def key_label_def list_ex_iff
      row_get_None_iff known_user_def split: if_splits)

lemma import_key_db:
  assumes "import_ssh_key parse kid now user name text seen d = (res, d')"
  shows "(\<exists>e. res = Inl e \<and> d' = d) \<or> (\<exists>p. parse text = Inr p \<and> flush_key (new_key kid now user name p) d = Inr d'
     \<and> res = Inr (key_read (new_key kid now user name p)))"
  using assms unfolding import_ssh_key_def import_ssh_public_key_def Let_def
  by (auto split: prod.splits sum.splits exc.splits if_splits)

lemma generate_key_db:
  assumes "generate_ssh_key_pair_endpoint parse pub priv kid now user name seen d = (res, d')"
  shows "(\<exists>e. res = Inl e \<and> d' = d) \<or> (\<exists>p. parse pub = Inr p \<and> flush_key (new_key kid now user name p) d = Inr d'
     \<and> (\<exists>r. res = Inr r \<and> resp_key r = key_read (new_key kid now user name p) \<and> resp_private_key r = priv))"
  using assms unfolding generate_ssh_key_pair_endpoint_def generate_ssh_key_pair_def Let_def
  by (auto split: prod.splits sum.splits exc.splits if_splits)

lemma row_ok_keys: "row_ok keys op v \<Longrightarrow> row_ok (keys @ ks) op v"
  by (auto simp: row_ok_def request_for_def row_get_append split: option.splits if_splits)

lemma key_append_ok:
  assumes "flush_key k d = Inr d'"
  shows "accounts_ok d \<Longrightarrow> accounts_ok d'" "db_ok d \<Longrightarrow> db_ok d'" "quota_ok d \<Longrightarrow> quota_ok d'"
proof -
  note d' = flush_key_Inr [OF assms]
  show "accounts_ok d \<Longrightarrow> accounts_ok d'"
    using d'(2,3,5) by (simp add: d'(1) accounts_ok_def)
  show "quota_ok d \<Longrightarrow> quota_ok d'"
    by (simp add: d'(1) quota_ok_def get_user_compute_usage_def)
  assume ok: "db_ok d"
  then have "list_all (op_ok d) (operations d)"
    by (simp add: db_ok_def list_all_iff)
  then have "list_all (op_ok d') (operations d)"
    unfolding list_all_iff op_ok_def by (auto simp: d'(1) row_ok_keys split: option.splits)
  then show "db_ok d'"
    using ok d'(4) by (simp add: d'(1) db_ok_def list_all_iff)
qed

section \<open>Sign-in and sessions\<close>

abbreviation new_user :: "draws \<Rightarrow> int \<Rightarrow> User" where
  "new_user w now \<equiv> \<lparr>usr_id = dr_user w, usr_is_active = True, usr_created = now\<rparr>"

abbreviation new_identity :: "draws \<Rightarrow> int \<Rightarrow> string \<Rightarrow> string \<Rightarrow> string \<Rightarrow> ExternalIdentity" where
  "new_identity w now issuer subject email \<equiv>
     \<lparr>ident_id = dr_identity w, ident_user = dr_user w, ident_issuer = issuer, ident_subject = subject,
      ident_email = email, ident_email_verified = True, ident_created = now\<rparr>"

definition fresh_session :: "(string \<Rightarrow> string) \<Rightarrow> draws \<Rightarrow> db \<Rightarrow> bool" where
  "fresh_session sha w d \<longleftrightarrow>
     sha (dr_token w) \<notin> sess_token_hash ` set (app_sessions d) \<and> dr_session w \<notin> sess_id ` set (app_sessions d)"

lemma get_or_create_cases:
  assumes "get_or_create_user w now issuer subject email seen d = (res, d')"
  obtains (failed) e where "res = Inl e"
  | (known) i user where "res = Inr user" "find_identity issuer subject seen = Some i"
      "row_get usr_id (ident_user i) (users seen) = Some user"
      "d' = d\<lparr>identities := row_set ident_id (i\<lparr>ident_email := email, ident_email_verified := True\<rparr>) (identities d)\<rparr>"
  | (created) plan where "res = Inr (new_user w now)" "find_identity issuer subject seen = None"
      "find_identity issuer subject d = None"
      "dr_user w \<notin> usr_id ` set (users d)" "dr_identity w \<notin> ident_id ` set (identities d)"
      "dr_user w \<notin> quota_user ` set (quotas d)" "row_get plan_code ''starter'' (plans d) = Some plan"
      "plan_is_active plan"
      "d' = d\<lparr>users := users d @ [new_user w now], identities := identities d @ [new_identity w now issuer subject email],
             quotas := quotas d @ [\<lparr>quota_user = dr_user w, quota_plan = plan_id plan, quota_status = ''active''\<rparr>]\<rparr>"
proof (cases "find_identity issuer subject seen")
  case (Some i)
  then show thesis
    using assms failed known by (auto simp: get_or_create_user_def split: if_splits option.splits)
next
  case None
  show thesis
  proof (cases res)
    case (Inl e)
    then show thesis by (rule failed)
  next
    case (Inr user)
    then show thesis
      using assms None created
      by (auto simp: get_or_create_user_def assign_starter_quota_def Let_def row_get_None_iff
          split: if_splits option.splits sum.splits prod.splits)
  qed
qed

lemma login_cases:
  assumes "login_and_create_session sha max_age w now issuer subject email seen d = (res, d')"
  obtains (failed) e where "res = Inl e" "d' = d"
  | (signed_in) user d1 where "res = Inr (dr_token w)" "get_or_create_user w now issuer subject email seen d = (Inr user, d1)"
      "usr_is_active user" "fresh_session sha w d"
      "d' = d1\<lparr>app_sessions := app_sessions d1 @ [new_session sha max_age (dr_session w) now (usr_id user) (dr_token w)]\<rparr>"
proof -
  obtain r d1 where g: "get_or_create_user w now issuer subject email seen d = (r, d1)"
    by (cases "get_or_create_user w now issuer subject email seen d")
  show thesis
  proof (cases r)
    case (Inl e)
    with assms g show thesis by (intro failed) (auto simp: login_and_create_session_def)
  next
    case (Inr user)
    show thesis
    proof (cases "usr_is_active user \<and> fresh_session sha w d")
      case True
      then show thesis
        using assms g Inr by (intro signed_in [of user d1])
          (auto simp: login_and_create_session_def fresh_session_def row_get_None_iff split: if_splits)
    next
      case False
      then have "\<exists>e. res = Inl e \<and> d' = d"
        using assms g Inr by (auto simp: login_and_create_session_def fresh_session_def row_get_None_iff split: if_splits)
      then show thesis using failed by blast
    qed
  qed
qed

lemma find_identityD: "find_identity issuer subject d = Some i \<Longrightarrow> i \<in> set (identities d) \<and> identity_key i = (issuer, subject)"
  by (auto simp: find_identity_def identity_key_def dest: find_SomeD)

lemma find_identity_None: "find_identity issuer subject d = None \<longleftrightarrow> (issuer, subject) \<notin> identity_key ` set (identities d)"
  by (auto simp: find_identity_def identity_key_def find_None_iff)

lemma get_or_create_frame:
  assumes "get_or_create_user w now issuer subject email seen d = (Inr user, d')"
  shows "vms d' = vms d" "operations d' = operations d" "ssh_keys d' = ssh_keys d" "plans d' = plans d"
    "app_sessions d' = app_sessions d"
  using assms by (cases rule: get_or_create_cases; simp)+

lemma identity_row_set:
  assumes "distinct (map ident_id rows)" "j \<in> set rows" "ident_id j = ident_id i" "ident_user j = ident_user i"
    "identity_key j = identity_key i"
  shows "map ident_user (row_set ident_id (i\<lparr>ident_email := e, ident_email_verified := b\<rparr>) rows) = map ident_user rows"
    "map identity_key (row_set ident_id (i\<lparr>ident_email := e, ident_email_verified := b\<rparr>) rows) = map identity_key rows"
proof -
  have "r = j" if "r \<in> set rows" "ident_id r = ident_id i" for r
    using row_get_unique [OF assms(1) that(1)] row_get_unique [OF assms(1,2)] that(2) assms(3) by simp
  then show "map ident_user (row_set ident_id (i\<lparr>ident_email := e, ident_email_verified := b\<rparr>) rows) = map ident_user rows"
    "map identity_key (row_set ident_id (i\<lparr>ident_email := e, ident_email_verified := b\<rparr>) rows) = map identity_key rows"
    using assms(4,5) by (auto intro!: map_row_set_cong simp: identity_key_def)
qed

lemma get_or_create_accounts_ok:
  assumes g: "get_or_create_user w now issuer subject email seen d = (Inr user, d')"
    and grow: "accounts_grow seen d" and ok: "accounts_ok d"
  shows "accounts_ok d' \<and> known_user d' (usr_id user)"
  using g
proof (cases rule: get_or_create_cases)
  case (known i user')
  from find_identityD [OF known(2)] grow obtain j where j: "j \<in> set (identities d)" "ident_id j = ident_id i"
      "ident_user j = ident_user i" "identity_key j = identity_key i"
    unfolding accounts_grow_def by blast
  have dist: "distinct (map ident_id (identities d))"
    using ok by (simp add: accounts_ok_def)
  have "user \<in> set (users seen)"
    using known(1) row_get_SomeD [OF known(3)] by simp
  then have "usr_id user \<in> usr_id ` set (users seen)"
    by (rule imageI)
  then have "known_user d (usr_id user)"
    using grow by (auto simp: accounts_grow_def known_user_def)
  then show ?thesis
    using ok unfolding known(4) accounts_ok_def by (simp add: identity_row_set [OF dist j])
next
  case (created plan)
  have k: "known_user d' u \<longleftrightarrow> known_user d u \<or> u = dr_user w" for u
    by (auto simp: created(9) known_user_def)
  have old: "list_all (known_user d) us \<Longrightarrow> list_all (known_user d') us" for us
    by (simp add: list_all_iff k)
  have "known_user d' (dr_user w)"
    by (simp add: k)
  moreover have "accounts_ok d'"
    using ok created(4-6) created(3) [unfolded find_identity_None] old k
    unfolding accounts_ok_def created(9) by (auto simp: identity_key_def)
  ultimately show ?thesis
    using created(1) by simp
qed simp

lemma login_accounts_ok:
  assumes "login_and_create_session sha max_age w now issuer subject email seen d = (res, d')"
    and "accounts_grow seen d" "accounts_ok d"
  shows "accounts_ok d'"
  using assms(1)
proof (cases rule: login_cases)
  case (signed_in user d1)
  have "accounts_ok d1" "known_user d1 (usr_id user)" "app_sessions d1 = app_sessions d"
    using get_or_create_accounts_ok [OF signed_in(2) assms(2,3)] get_or_create_frame [OF signed_in(2)] by simp_all
  then show ?thesis
    using signed_in(4) unfolding signed_in(5) accounts_ok_def by (simp add: fresh_session_def new_session_def)
qed (use assms(3) in simp)

lemma no_machines_no_usage:
  assumes "accounts_ok d" "\<not> known_user d u"
  shows "get_user_compute_usage u d = \<lparr>used_vms = 0, used_vcpus = 0, used_memory_mb = 0, used_storage_gb = 0\<rparr>"
proof -
  have "list_all (\<lambda>v. vm_owner v \<noteq> u) (vms d)"
    using assms by (auto simp: accounts_ok_def list_all_iff)
  then have "filter (consumes u) (vms d) = []"
    by (auto simp: filter_empty_conv consumes_def list_all_iff)
  then show ?thesis
    by (simp add: get_user_compute_usage_def usage_of_def)
qed

lemma get_or_create_quota_ok:
  assumes g: "get_or_create_user w now issuer subject email seen d = (Inr user, d')"
    and ok: "accounts_ok d" and q: "quota_ok d"
  shows "quota_ok d'"
  using g
proof (cases rule: get_or_create_cases)
  case (known i user')
  then show ?thesis
    using q by (simp add: quota_ok_def get_user_compute_usage_def)
next
  case (created plan)
  let ?q = "\<lparr>quota_user = dr_user w, quota_plan = plan_id plan, quota_status = ''active''\<rparr>"
  have usage: "get_user_compute_usage u d' = get_user_compute_usage u d" for u
    by (simp add: created(9) get_user_compute_usage_def)
  have "\<not> known_user d (dr_user w)"
    using created(4) by (simp add: known_user_def)
  note zero = no_machines_no_usage [OF ok this]
  have new: "fits_plan (get_user_compute_usage (dr_user w) d) p" if "p \<in> set (plans d)" for p
    using ok that unfolding zero by (simp add: accounts_ok_def list_all_iff plan_constraints_def fits_plan_def)
  show ?thesis
    unfolding quota_ok_def usage
  proof (intro ballI allI impI)
    fix x p
    assume x: "x \<in> set (quotas d')" "row_get quota_user (quota_user x) (quotas d') = Some x"
      "row_get plan_id (quota_plan x) (plans d') = Some p"
    show "fits_plan (get_user_compute_usage (quota_user x) d) p"
    proof (cases "quota_user x = dr_user w")
      case True
      moreover have "p \<in> set (plans d)"
        using row_get_SomeD [OF x(3)] by (simp add: created(9))
      ultimately show ?thesis using new by simp
    next
      case False
      then have "x \<in> set (quotas d)" "row_get quota_user (quota_user x) (quotas d) = Some x"
          "row_get plan_id (quota_plan x) (plans d) = Some p"
        using x by (auto simp: created(9) row_get_append row_get_Cons split: option.splits)
      then show ?thesis using q unfolding quota_ok_def by blast
    qed
  qed
qed simp

text \<open>Tables of machines and operations that a service leaves alone.\<close>

definition same_machines :: "db \<Rightarrow> db \<Rightarrow> bool" where
  "same_machines d d' \<longleftrightarrow> vms d' = vms d \<and> operations d' = operations d \<and> ssh_keys d' = ssh_keys d"

lemma same_machines_db_ok:
  assumes "same_machines d d'" "db_ok d"
  shows "db_ok d'"
proof -
  have e: "vms d' = vms d" "operations d' = operations d" "ssh_keys d' = ssh_keys d"
    using assms(1) by (simp_all add: same_machines_def)
  then have "op_ok d' = op_ok d"
    unfolding op_ok_def fun_eq_iff by (simp split: option.split)
  then show ?thesis
    using assms(2) by (simp add: db_ok_def e)
qed

lemma same_machines_quota_ok:
  "same_machines d d' \<Longrightarrow> quotas d' = quotas d \<Longrightarrow> plans d' = plans d \<Longrightarrow> quota_ok d \<Longrightarrow> quota_ok d'"
  by (simp add: same_machines_def quota_ok_def get_user_compute_usage_def)

lemma login_keeps:
  assumes "login_and_create_session sha max_age w now issuer subject email seen d = (res, d')"
    and "accounts_grow seen d" "accounts_ok d" "quota_ok d"
  shows "accounts_ok d' \<and> quota_ok d' \<and> same_machines d d'"
proof -
  have "quota_ok d' \<and> same_machines d d'"
    using assms(1)
  proof (cases rule: login_cases)
    case (signed_in user d1)
    have "quota_ok d1" "same_machines d d1"
      using get_or_create_quota_ok [OF signed_in(2) assms(3,4)] get_or_create_frame [OF signed_in(2)]
      by (simp_all add: same_machines_def)
    then show ?thesis
      unfolding signed_in(5) by (simp add: same_machines_def quota_ok_def get_user_compute_usage_def)
  qed (use assms(4) in \<open>simp add: same_machines_def\<close>)
  then show ?thesis
    using login_accounts_ok [OF assms(1-3)] by simp
qed

lemma session_row_set:
  assumes "accounts_ok d" "s \<in> set (app_sessions d)" "sess_token_hash s' = sess_token_hash s" "sess_user s' = sess_user s"
    "sess_id s' = sess_id s"
  shows "accounts_ok (d\<lparr>app_sessions := row_set sess_id s' (app_sessions d)\<rparr>)"
proof -
  let ?rows = "app_sessions d"
  have dist: "distinct (map sess_id ?rows)"
    using assms(1) by (simp add: accounts_ok_def)
  have r: "r = s" if "r \<in> set ?rows" "sess_id r = sess_id s'" for r
    using inj_onD [of sess_id "set ?rows" r s] dist that assms(2,5) by (simp add: distinct_map)
  have f: "sess_token_hash r = sess_token_hash s'" "sess_user r = sess_user s'"
    if "r \<in> set ?rows" "sess_id r = sess_id s'" for r
    using r [OF that] assms(3,4) by simp_all
  have "map sess_token_hash (row_set sess_id s' ?rows) = map sess_token_hash ?rows"
    by (rule map_row_set_cong) (rule f(1))
  moreover have "map sess_user (row_set sess_id s' ?rows) = map sess_user ?rows"
    by (rule map_row_set_cong) (rule f(2))
  ultimately show ?thesis
    using assms(1) by (simp add: accounts_ok_def)
qed

lemma session_changed_keeps:
  assumes "accounts_ok d" "quota_ok d" "row_get sess_token_hash h (app_sessions d) = Some s"
    and "sess_token_hash s' = sess_token_hash s" "sess_user s' = sess_user s" "sess_id s' = sess_id s"
  shows "accounts_ok (d\<lparr>app_sessions := row_set sess_id s' (app_sessions d)\<rparr>)
     \<and> quota_ok (d\<lparr>app_sessions := row_set sess_id s' (app_sessions d)\<rparr>)
     \<and> same_machines d (d\<lparr>app_sessions := row_set sess_id s' (app_sessions d)\<rparr>)"
  using session_row_set [OF assms(1) conjunct1 [OF row_get_SomeD [OF assms(3)]] assms(4-6)] assms(2)
  by (simp add: same_machines_def quota_ok_def get_user_compute_usage_def)

lemma same_machines_refl [simp]: "same_machines d d"
  by (simp add: same_machines_def)

lemma revoke_keeps:
  assumes "accounts_ok d" "quota_ok d"
  shows "accounts_ok (revoke_user_session sha now token d) \<and> quota_ok (revoke_user_session sha now token d)
     \<and> same_machines d (revoke_user_session sha now token d)"
proof (cases "\<exists>t s. token = Some t \<and> row_get sess_token_hash (sha t) (app_sessions d) = Some s \<and> sess_revoked s = None")
  case True
  then obtain t s where ts: "token = Some t" "row_get sess_token_hash (sha t) (app_sessions d) = Some s" "sess_revoked s = None"
    by blast
  then have "revoke_user_session sha now token d
      = d\<lparr>app_sessions := row_set sess_id (s\<lparr>sess_revoked := Some now\<rparr>) (app_sessions d)\<rparr>"
    by (simp add: revoke_user_session_def)
  then show ?thesis
    using session_changed_keeps [OF assms ts(2), of "s\<lparr>sess_revoked := Some now\<rparr>"] by simp
next
  case False
  then have "revoke_user_session sha now token d = d"
    by (cases token) (auto simp: revoke_user_session_def split: option.split)
  with assms show ?thesis by simp
qed

lemma current_user_Inr:
  "get_current_user sha now token d = (Inr user, d') \<longleftrightarrow>
     (\<exists>t s. token = Some t \<and> row_get sess_token_hash (sha t) (app_sessions d) = Some s
        \<and> row_get usr_id (sess_user s) (users d) = Some user \<and> sess_revoked s = None \<and> now < sess_expires s
        \<and> usr_is_active user
        \<and> d' = (if now - sess_last_seen s \<ge> LAST_SEEN_UPDATE_INTERVAL
               then d\<lparr>app_sessions := row_set sess_id (s\<lparr>sess_last_seen := now\<rparr>) (app_sessions d)\<rparr> else d))"
proof (cases token)
  case (Some t)
  show ?thesis
  proof (cases "row_get sess_token_hash (sha t) (app_sessions d)")
    case (Some s)
    then show ?thesis
      using \<open>token = Some t\<close>
      by (cases "row_get usr_id (sess_user s) (users d)") (auto simp: get_current_user_def get_user_by_session_token_def)
  qed (simp add: Some get_current_user_def get_user_by_session_token_def)
qed (simp add: get_current_user_def)

lemma current_user_Inl:
  assumes "get_current_user sha now token d = (Inl e, d')"
  shows "d' = d"
proof (cases token)
  case (Some t)
  show ?thesis
  proof (cases "row_get sess_token_hash (sha t) (app_sessions d)")
    case (Some s)
    then show ?thesis
      using \<open>token = Some t\<close> assms
      by (cases "row_get usr_id (sess_user s) (users d)")
        (auto simp: get_current_user_def get_user_by_session_token_def split: if_splits)
  qed (use assms Some in \<open>simp add: get_current_user_def get_user_by_session_token_def\<close>)
qed (use assms in \<open>simp add: get_current_user_def\<close>)

lemma current_user_keeps:
  assumes c: "get_current_user sha now token d = (res, d')" and ok: "accounts_ok d" "quota_ok d"
  shows "accounts_ok d' \<and> quota_ok d' \<and> same_machines d d'"
proof (cases res)
  case (Inl e)
  with c current_user_Inl ok show ?thesis by fastforce
next
  case (Inr user)
  from c [unfolded Inr current_user_Inr] obtain t s where s: "row_get sess_token_hash (sha t) (app_sessions d) = Some s"
      "d' = (if now - sess_last_seen s \<ge> LAST_SEEN_UPDATE_INTERVAL
               then d\<lparr>app_sessions := row_set sess_id (s\<lparr>sess_last_seen := now\<rparr>) (app_sessions d)\<rparr> else d)"
    by blast
  show ?thesis
    using session_changed_keeps [OF ok s(1), of "s\<lparr>sess_last_seen := now\<rparr>"] ok s(2) by (simp split: if_splits)
qed

end
