(* ===== verification/System.thy ===== *)
theory System
  imports Accounts
begin

text \<open>
  The portal as a whole: any number of workers and requests over one database, interleaved at
  their transactions. Between its two transactions a worker holds a command that it has
  prepared and not sent, or sent and not stored; it can crash at either point. The state keeps
  the commands sent so far, so that what is sent can be stated.
\<close>

section \<open>States and steps\<close>

record 'p sys =
  y_db :: db
  y_prov :: 'p
  y_prepared :: "dispatch list"
  y_answered :: "(dispatch \<times> (exc + reply)) list"
  y_sent :: "dispatch list"

definition note_prepared :: "exc + bool \<times> dispatch option \<Rightarrow> dispatch list \<Rightarrow> dispatch list" where
  "note_prepared r ps =
     (case r of
        Inl _ \<Rightarrow> ps
      | Inr (found, disp) \<Rightarrow> (case disp of None \<Rightarrow> ps | Some c \<Rightarrow> c # ps))"

inductive sys_step :: "'p ProxmoxAdapter \<Rightarrow> 'p sys \<Rightarrow> 'p sys \<Rightarrow> bool" for A where
  pass: "first_transaction now A locked (y_db y) (y_prov y) = (r, d, p) \<Longrightarrow>
     sys_step A y (y\<lparr>y_db := d, y_prov := p, y_prepared := note_prepared r (y_prepared y)\<rparr>)"
| send: "y_prepared y = xs @ c # ys \<Longrightarrow> submit A c (y_prov y) = (res, p) \<Longrightarrow>
     sys_step A y (y\<lparr>y_prov := p, y_prepared := xs @ ys, y_answered := (c, res) # y_answered y,
                     y_sent := c # y_sent y\<rparr>)"
| store: "y_answered y = xs @ (c, res) # ys \<Longrightarrow>
     sys_step A y (y\<lparr>y_db := store_outcome now c res (y_db y), y_answered := xs @ ys\<rparr>)"
| crash_unsent: "y_prepared y = xs @ c # ys \<Longrightarrow> sys_step A y (y\<lparr>y_prepared := xs @ ys\<rparr>)"
| crash_unstored: "y_answered y = xs @ c # ys \<Longrightarrow> sys_step A y (y\<lparr>y_answered := xs @ ys\<rparr>)"
| create: "quota_locked user seen (y_db y) \<Longrightarrow>
     create_my_vm vid oid now user r key seen (y_db y) = (res, d) \<Longrightarrow> sys_step A y (y\<lparr>y_db := d\<rparr>)"
| order: "vm_locked vid seen (y_db y) \<Longrightarrow>
     post_lifecycle action oid now user vid key seen (y_db y) = (res, d) \<Longrightarrow> sys_step A y (y\<lparr>y_db := d\<rparr>)"
| import_key: "import_ssh_key parse kid now user name body seen (y_db y) = (imported, d) \<Longrightarrow>
     sys_step A y (y\<lparr>y_db := d\<rparr>)"
| generate_key: "generate_ssh_key_pair_endpoint parse pub priv kid now user name seen (y_db y) = (generated, d) \<Longrightarrow>
     sys_step A y (y\<lparr>y_db := d\<rparr>)"
| sign_in: "accounts_grow seen (y_db y) \<Longrightarrow>
     login_and_create_session sha max_age w now issuer subject email seen (y_db y) = (answer, d) \<Longrightarrow>
     sys_step A y (y\<lparr>y_db := d\<rparr>)"
| sign_out: "sys_step A y (y\<lparr>y_db := revoke_user_session sha now token (y_db y)\<rparr>)"
| authenticate: "get_current_user sha now token (y_db y) = (found, d) \<Longrightarrow> sys_step A y (y\<lparr>y_db := d\<rparr>)"
| provider_moves: "sys_step A y (y\<lparr>y_prov := p\<rparr>)"

inductive reachable :: "'p ProxmoxAdapter \<Rightarrow> 'p sys \<Rightarrow> 'p sys \<Rightarrow> bool" for A y\<^sub>0 where
  init: "reachable A y\<^sub>0 y\<^sub>0"
| step: "reachable A y\<^sub>0 y \<Longrightarrow> sys_step A y y' \<Longrightarrow> reachable A y\<^sub>0 y'"

inductive_cases sys_stepE: "sys_step A y y'"

definition initial :: "'p sys \<Rightarrow> bool" where
  "initial y \<longleftrightarrow>
     operations (y_db y) = [] \<and> vms (y_db y) = [] \<and> distinct (map key_id (ssh_keys (y_db y)))
     \<and> accounts_ok (y_db y)
     \<and> y_prepared y = [] \<and> y_answered y = [] \<and> y_sent y = []"

section \<open>What a change of the database keeps\<close>

text \<open>
  Operations stay, with their type, and never lose an attempt; a placed virtual machine stays
  where it is.
\<close>

definition db_grows :: "db \<Rightarrow> db \<Rightarrow> bool" where
  "db_grows d d' \<longleftrightarrow>
     (\<forall>oid op. get_op oid d = Some op \<longrightarrow>
        (\<exists>op'. get_op oid d' = Some op' \<and> op_type op' = op_type op \<and> op_vm op' = op_vm op
               \<and> op_attempts op \<le> op_attempts op'))
     \<and> (\<forall>vid v. get_vm vid d = Some v \<longrightarrow>
        (\<exists>v'. get_vm vid d' = Some v' \<and> vm_frame v v' \<and> (placed v \<longrightarrow> same_place v v')))"

lemma db_grows_refl [simp]: "db_grows d d"
  by (simp add: db_grows_def)

lemma same_place_trans: "same_place a b \<Longrightarrow> same_place b c \<Longrightarrow> same_place a c"
  by (simp add: same_place_def)

lemma vm_frame_trans: "vm_frame a b \<Longrightarrow> vm_frame b c \<Longrightarrow> vm_frame a c"
  by (simp add: vm_frame_def)

lemma moves_same_place: "moves l op v op' v' \<Longrightarrow> placed v \<Longrightarrow> same_place v v'"
  by (auto simp: moves_def placed_def)

lemma stored_get_op:
  assumes "step_in d l op v op' v'"
  shows "get_op u (stored now op v op' v' d) = (if u = op_id op then Some (touch_op now op op') else get_op u d)"
proof (cases "u = op_id op")
  case True
  have "get_op (op_id op) d = Some op"
    using assms db_ok_get_op by (simp add: step_in_def)
  then show ?thesis
    using True row_get_row_set_same [of op_id "touch_op now op op'" "operations d"] stored_ids [OF assms]
    by (simp add: stored_def)
next
  case False
  then show ?thesis
    using row_get_row_set_other [of u op_id "touch_op now op op'" "operations d"] stored_ids [OF assms]
    by (simp add: stored_def)
qed

lemma stored_grows:
  assumes st: "step_in d l op v op' v'"
  shows "db_grows d (stored now op v op' v' d)"
proof -
  have m: "moves l op v op' v'" and ok: "db_ok d" and op: "op \<in> set (operations d)"
    and v: "get_vm (op_vm op) d = Some v"
    using st by (simp_all add: step_in_def)
  have "op_attempts op \<le> op_attempts op'" "op_type op' = op_type op"
    using m by (auto simp: moves_def op_frame_def)
  moreover have "get_op (op_id op) d = Some op"
    by (rule db_ok_get_op [OF ok op])
  moreover have "same_place v (touch_vm now v v') = same_place v v'" for now
    by (simp add: same_place_def)
  ultimately show ?thesis
    using v stored_ids [OF st] moves_frames [OF m] moves_same_place [OF m]
    unfolding db_grows_def stored_get_op [OF st] stored_get_vm [OF st] by auto
qed

lemma append_grows:
  "db_grows d (d\<lparr>vms := vms d @ vs, operations := operations d @ ops\<rparr>)"
  "db_grows d (d\<lparr>operations := operations d @ ops\<rparr>)"
  by (auto simp: db_grows_def row_get_append_old)

section \<open>The commands\<close>

primrec dispatch_command :: "dispatch \<Rightarrow> uuid \<times> string" where
  "dispatch_command (CreateDispatch oid vid phase request target) = (oid, phase)"
| "dispatch_command (StartDispatch oid vid target) = (oid, ''start'')"
| "dispatch_command (LifecycleDispatch oid vid command target) = (oid, command)"

primrec dispatch_vm :: "dispatch \<Rightarrow> uuid" where
  "dispatch_vm (CreateDispatch oid vid phase request target) = vid"
| "dispatch_vm (StartDispatch oid vid target) = vid"
| "dispatch_vm (LifecycleDispatch oid vid command target) = vid"

primrec dispatch_target :: "dispatch \<Rightarrow> ProviderPlacement" where
  "dispatch_target (CreateDispatch oid vid phase request target) = target"
| "dispatch_target (StartDispatch oid vid target) = target"
| "dispatch_target (LifecycleDispatch oid vid command target) = target"

text \<open>
  A command is on record: its operation exists and has counted it among the commands it has
  submitted, and it goes to the place of the operation's virtual machine.
\<close>

definition at_place :: "VirtualMachine \<Rightarrow> ProviderPlacement \<Rightarrow> bool" where
  "at_place v t \<longleftrightarrow> vm_provider_node v = Some (place_node t) \<and> vm_provider_vmid v = Some (place_vmid t)"

definition recorded :: "db \<Rightarrow> dispatch \<Rightarrow> bool" where
  "recorded d c \<longleftrightarrow>
     (\<exists>op v. get_op (dispatch_op c) d = Some op \<and> get_vm (op_vm op) d = Some v
        \<and> dispatch_for (op_type op) c \<and> dispatch_vm c = vm_id v \<and> at_place v (dispatch_target c)
        \<and> fst (dispatch_command c) = op_id op
        \<and> snd (dispatch_command c) \<in> set (take (nat (op_attempts op)) (commands (op_type op))))"

lemma recorded_grows:
  assumes g: "db_grows d d'" and r: "recorded d c"
  shows "recorded d' c"
proof -
  from r obtain op v where o: "get_op (dispatch_op c) d = Some op" "get_vm (op_vm op) d = Some v"
    "dispatch_for (op_type op) c" "dispatch_vm c = vm_id v" "at_place v (dispatch_target c)"
    "fst (dispatch_command c) = op_id op"
    "snd (dispatch_command c) \<in> set (take (nat (op_attempts op)) (commands (op_type op)))"
    by (auto simp: recorded_def)
  from g o(1) obtain op' where op': "get_op (dispatch_op c) d' = Some op'" "op_type op' = op_type op"
      "op_vm op' = op_vm op" "op_attempts op \<le> op_attempts op'"
    unfolding db_grows_def by blast
  from g o(2) obtain v' where v': "get_vm (op_vm op) d' = Some v'" "vm_frame v v'" "placed v \<longrightarrow> same_place v v'"
    unfolding db_grows_def by blast
  have ids: "op_id op' = op_id op"
    using row_get_SomeD [OF o(1)] row_get_SomeD [OF op'(1)] by simp
  have "set (take (nat (op_attempts op)) (commands (op_type op)))
      \<subseteq> set (take (nat (op_attempts op')) (commands (op_type op)))"
    by (rule set_take_subset_set_take) (use op'(4) in simp)
  moreover have "at_place v' (dispatch_target c)"
    using o(5) v'(3) by (auto simp: at_place_def same_place_def placed_def)
  moreover have "vm_id v' = vm_id v"
    using v'(2) by (simp add: vm_frame_def)
  ultimately show ?thesis
    using o op' v' ids unfolding recorded_def by auto
qed

lemma commands_distinct: "T \<in> set operation_types \<Longrightarrow> distinct (commands T)"
  by (erule operation_types_cases) simp_all

lemma dispatches_command:
  assumes "dispatches op v (Some k) (Some c)" "k < length (commands (op_type op))" "op_vm op = vm_id v"
  shows "dispatch_op c = op_id op" "dispatch_for (op_type op) c" "dispatch_vm c = vm_id v"
    "at_place v (dispatch_target c)" "dispatch_command c = (op_id op, commands (op_type op) ! k)"
  using assms by (cases c; simp add: at_place_def)+

lemma prepared_fresh:
  assumes st: "step_in d (Some k) op v op' v'" and c: "dispatches op v' (Some k) (Some c)"
  shows "recorded (stored now op v op' v' d) c" "recorded d c' \<Longrightarrow> dispatch_command c' \<noteq> dispatch_command c"
proof -
  have m: "moves (Some k) op v op' v'" and ok: "db_ok d" and op: "op \<in> set (operations d)"
    using st by (simp_all add: step_in_def)
  obtain a where a: "abs_state op = Some a" "submitted_ok (op_type op) a (op_attempts op)"
    by (rule row_okD [OF stored_row [OF st]])
  from m a(1) obtain a' where "spec_step (op_type op) (a, vm_status v) (Some k) (a', vm_status v')"
    by (auto simp: moves_def)
  then have k: "a = Ready k" "k < length (commands (op_type op))"
    by (auto elim: spec_submitE)
  then have n: "op_attempts op = int k" "op_attempts op' = int k + 1" "op_type op' = op_type op"
    using a m by (auto simp: moves_def op_frame_def)
  have ids: "op_vm op = vm_id v'"
    using stored_ids [OF st] by simp
  note c' = dispatches_command [OF c k(2) ids]
  have "commands (op_type op) ! k \<in> set (take (Suc k) (commands (op_type op)))"
    using k(2) by (simp add: take_Suc_conv_app_nth)
  then show "recorded (stored now op v op' v' d) c"
    unfolding recorded_def
    using c' n stored_ids [OF st] stored_get_op [OF st] stored_get_vm [OF st]
    by (intro exI [of _ "touch_op now op op'"] exI [of _ "touch_vm now v v'"]) (simp add: at_place_def nat_add_distrib)
  have "commands (op_type op) ! k \<notin> set (take k (commands (op_type op)))"
    using commands_distinct [OF abs_state_type [OF a(1)]] k(2)
    by (auto simp: in_set_conv_nth nth_eq_iff_index_eq)
  note unsent = this
  show "dispatch_command c' \<noteq> dispatch_command c" if r: "recorded d c'"
  proof
    assume eq: "dispatch_command c' = dispatch_command c"
    from r obtain q where q: "get_op (dispatch_op c') d = Some q" "fst (dispatch_command c') = op_id q"
        "snd (dispatch_command c') \<in> set (take (nat (op_attempts q)) (commands (op_type q)))"
      by (auto simp: recorded_def)
    have "q \<in> set (operations d)" "op_id q = op_id op"
      using row_get_SomeD [OF q(1)] q(2) eq c'(5) by simp_all
    then have "q = op"
      by (rule op_unique [OF ok op])
    then show False
      using q(3) eq c'(5) n(1) unsent by simp
  qed
qed

section \<open>The invariant of the system\<close>

definition sys_ok :: "'p sys \<Rightarrow> bool" where
  "sys_ok y \<longleftrightarrow>
     db_ok (y_db y) \<and> quota_ok (y_db y) \<and> accounts_ok (y_db y)
     \<and> (\<forall>c\<in>set (y_prepared y) \<union> fst ` set (y_answered y) \<union> set (y_sent y). recorded (y_db y) c)
     \<and> distinct (map dispatch_command (y_prepared y @ y_sent y))"

lemma initial_ok: "initial y \<Longrightarrow> sys_ok y"
  by (auto simp: initial_def sys_ok_def db_ok_def one_active_def vmid_unique_def quota_ok_def fits_plan_def
      get_user_compute_usage_def plan_constraints_def map_filter_simps accounts_ok_def list_all_iff dest: row_get_SomeD)

lemma sys_ok_db:
  assumes "sys_ok y" "db_ok d" "quota_ok d" "accounts_ok d" "db_grows (y_db y) d"
  shows "sys_ok (y\<lparr>y_db := d\<rparr>)"
  using assms recorded_grows [OF assms(5)] by (auto simp: sys_ok_def)

lemma pass_step:
  assumes ok: "sys_ok y" and t: "first_transaction now A locked (y_db y) (y_prov y) = (r, d, p)"
  shows "sys_ok (y\<lparr>y_db := d, y_prov := p, y_prepared := note_prepared r (y_prepared y)\<rparr>)
         \<and> db_grows (y_db y) d"
proof -
  have dok: "db_ok (y_db y)" "quota_ok (y_db y)" "accounts_ok (y_db y)"
    using ok by (simp_all add: sys_ok_def)
  from dok(1) t show ?thesis
  proof (cases rule: first_transaction_cases)
    case (step op v op' v' l disp)
    have g: "db_grows (y_db y) d"
      using stored_grows [OF step(3)] step(5) by simp
    have d: "db_ok d" "quota_ok d" "accounts_ok d"
      using stored_db_ok [OF step(3)] stored_quota_ok [OF step(3) dok(2)] stored_accounts_ok [OF step(3) dok(3)] step(5,6)
      by simp_all
    show ?thesis
    proof (cases l)
      case None
      then have "disp = None"
        using step(4) by simp
      then show ?thesis
        using ok d g recorded_grows [OF g] step(1) by (auto simp: sys_ok_def note_prepared_def)
    next
      case (Some k)
      then obtain c where c: "disp = Some c"
        using step(4) by (cases disp) simp_all
      have st: "step_in (y_db y) (Some k) op v op' v'" and cs: "dispatches op v' (Some k) (Some c)"
        using step(3,4) Some c by simp_all
      note new = prepared_fresh [OF st cs]
      have "recorded (y_db y) x" if "x \<in> set (y_prepared y @ y_sent y)" for x
        using that ok by (auto simp: sys_ok_def)
      then have "dispatch_command c \<notin> set (map dispatch_command (y_prepared y @ y_sent y))"
        using new(2) by fastforce
      then show ?thesis
        using ok d g recorded_grows [OF g] new(1) step(1,5) c by (auto simp: sys_ok_def note_prepared_def)
    qed
  qed (use ok in \<open>auto simp: sys_ok_def note_prepared_def\<close>)
qed

lemma store_step_sys:
  assumes ok: "sys_ok y" and a: "y_answered y = xs @ (c, res) # ys"
  shows "sys_ok (y\<lparr>y_db := store_outcome now c res (y_db y), y_answered := xs @ ys\<rparr>)
         \<and> db_grows (y_db y) (store_outcome now c res (y_db y))"
proof -
  have dok: "db_ok (y_db y)" "quota_ok (y_db y)" "accounts_ok (y_db y)" and r: "recorded (y_db y) c"
    using ok a by (auto simp: sys_ok_def)
  have disp: "dispatch_for (op_type q) c" if "get_op (dispatch_op c) (y_db y) = Some q" for q
    using r that by (auto simp: recorded_def)
  consider (same) "store_outcome now c res (y_db y) = y_db y"
    | (step) op v op' v' where "step_in (y_db y) None op v op' v'"
        "store_outcome now c res (y_db y) = stored now op v op' v' (y_db y)"
        "vmid_unique (vms (store_outcome now c res (y_db y)))"
    using store_outcome_cases [OF dok(1) disp] by metis
  then have "db_ok (store_outcome now c res (y_db y)) \<and> quota_ok (store_outcome now c res (y_db y))
      \<and> accounts_ok (store_outcome now c res (y_db y)) \<and> db_grows (y_db y) (store_outcome now c res (y_db y))"
  proof cases
    case same
    then show ?thesis using dok by simp
  next
    case (step op v op' v')
    then show ?thesis
      using stored_db_ok [OF step(1)] stored_quota_ok [OF step(1) dok(2)] stored_accounts_ok [OF step(1) dok(3)]
        stored_grows [OF step(1)] by simp
  qed
  then show ?thesis
    using sys_ok_db [OF ok] a by (auto simp: sys_ok_def)
qed

lemma create_my_vm_db:
  assumes "create_my_vm vid oid now user r key seen d = (res, d')"
  shows "d' = d \<or> (\<exists>vm. create_vm vid oid now user r (uuid_str key) seen d = (Inr vm, d') \<and> res = Inr vm)"
  using assms by (auto simp: create_my_vm_def split: prod.splits sum.splits exc.splits)

lemma enqueue_lifecycle_db:
  assumes "enqueue_lifecycle_operation oid now user vid T key seen d = (res, d')"
  shows "d' = d \<or> (\<exists>op. enqueue_vm_operation oid now user vid T (uuid_str key) seen d = (Inr op, d') \<and> res = Inr op)"
  using assms by (auto simp: enqueue_lifecycle_operation_def split: prod.splits sum.splits exc.splits)

lemma create_vm_grows: "create_vm vid oid now user r key seen d = (res, d') \<Longrightarrow> db_grows d d'"
  by (erule create_vm_cases) (auto simp: append_grows)

lemma enqueue_grows: "enqueue_vm_operation oid now user vid T key seen d = (res, d') \<Longrightarrow> db_grows d d'"
  by (erule enqueue_cases) (auto simp: append_grows)

lemma enqueue_quota_ok:
  assumes "enqueue_vm_operation oid now user vid T key seen d = (res, d')" "quota_ok d"
  shows "quota_ok d'"
  using assms(1) by (cases rule: enqueue_cases) (use assms(2) in \<open>auto simp: quota_ok_def get_user_compute_usage_def\<close>)

lemma create_step:
  assumes ok: "sys_ok y" and l: "quota_locked user seen (y_db y)"
    and c: "create_my_vm vid oid now user r key seen (y_db y) = (res, d)"
  shows "sys_ok (y\<lparr>y_db := d\<rparr>) \<and> db_grows (y_db y) d"
  using create_my_vm_db [OF c]
proof
  assume "\<exists>vm. create_vm vid oid now user r (uuid_str key) seen (y_db y) = (Inr vm, d) \<and> res = Inr vm"
  then obtain vm where vm: "create_vm vid oid now user r (uuid_str key) seen (y_db y) = (Inr vm, d)" by blast
  have dok: "db_ok (y_db y)" "quota_ok (y_db y)" "accounts_ok (y_db y)"
    using ok by (simp_all add: sys_ok_def)
  show ?thesis
    using sys_ok_db [OF ok create_vm_db_ok [OF dok(1) vm l] create_vm_quota_ok [OF dok(2) vm l]
        create_vm_accounts_ok [OF vm dok(3)]]
      create_vm_grows [OF vm] by simp
qed (use ok in simp)

lemma order_step:
  assumes ok: "sys_ok y" and l: "vm_locked vid seen (y_db y)"
    and c: "post_lifecycle action oid now user vid key seen (y_db y) = (res, d)"
  shows "sys_ok (y\<lparr>y_db := d\<rparr>) \<and> db_grows (y_db y) d"
proof (cases "map_of lifecycle_endpoints action")
  case None
  with c ok show ?thesis by (auto simp: post_lifecycle_def)
next
  case (Some T)
  with c have e: "enqueue_lifecycle_operation oid now user vid T key seen (y_db y) = (res, d)"
    by (simp add: post_lifecycle_def)
  from enqueue_lifecycle_db [OF e] show ?thesis
  proof
    assume "\<exists>op. enqueue_vm_operation oid now user vid T (uuid_str key) seen (y_db y) = (Inr op, d) \<and> res = Inr op"
    then obtain op where op: "enqueue_vm_operation oid now user vid T (uuid_str key) seen (y_db y) = (Inr op, d)"
      by blast
    have dok: "db_ok (y_db y)" "quota_ok (y_db y)" "accounts_ok (y_db y)"
      using ok by (simp_all add: sys_ok_def)
    show ?thesis
      using sys_ok_db [OF ok enqueue_db_ok [OF dok(1) op l] enqueue_quota_ok [OF op dok(2)]
          enqueue_accounts_ok [OF op dok(3)]]
        enqueue_grows [OF op] by simp
  qed (use ok in simp)
qed

lemma same_machines_grows: "vms d' = vms d \<Longrightarrow> operations d' = operations d \<Longrightarrow> db_grows d d'"
  using db_grows_refl [of d'] by (simp add: db_grows_def)

lemma account_step:
  assumes ok: "sys_ok y" and d: "accounts_ok d \<and> quota_ok d \<and> same_machines (y_db y) d"
  shows "sys_ok (y\<lparr>y_db := d\<rparr>) \<and> db_grows (y_db y) d"
proof -
  have g: "db_grows (y_db y) d"
    using d by (intro same_machines_grows) (simp_all add: same_machines_def)
  have "db_ok d"
    using same_machines_db_ok d ok by (auto simp: sys_ok_def)
  with sys_ok_db [OF ok _ _ _ g] d g show ?thesis by blast
qed

lemma key_step:
  assumes ok: "sys_ok y" and d: "d = y_db y \<or> (\<exists>k. flush_key k (y_db y) = Inr d)"
  shows "sys_ok (y\<lparr>y_db := d\<rparr>) \<and> db_grows (y_db y) d"
  using d
proof (elim disjE exE)
  fix k
  assume k: "flush_key k (y_db y) = Inr d"
  have dok: "db_ok (y_db y)" "quota_ok (y_db y)" "accounts_ok (y_db y)"
    using ok by (simp_all add: sys_ok_def)
  have g: "db_grows (y_db y) d"
    by (rule same_machines_grows) (simp_all add: flush_key_Inr(1) [OF k])
  show ?thesis
    using sys_ok_db [OF ok key_append_ok(2) [OF k dok(1)] key_append_ok(3) [OF k dok(2)] key_append_ok(1) [OF k dok(3)] g] g
    by simp
qed (use ok in simp)

lemma sys_step_ok:
  assumes "sys_step A y y'" "sys_ok y"
  shows "sys_ok y' \<and> db_grows (y_db y) (y_db y')"
  using assms
proof (cases rule: sys_step.cases)
  case (pass now locked r d p)
  then show ?thesis using pass_step [OF assms(2) pass(2)] by simp
next
  case (send xs c ys res p)
  then show ?thesis using assms(2) by (auto simp: sys_ok_def)
next
  case (store xs c res ys now)
  then show ?thesis using store_step_sys [OF assms(2) store(2), of now] by simp
next
  case (crash_unsent xs c ys)
  then show ?thesis using assms(2) by (auto simp: sys_ok_def)
next
  case (crash_unstored xs c ys)
  then show ?thesis using assms(2) by (auto simp: sys_ok_def)
next
  case (create user seen vid oid now r key res d)
  then show ?thesis using create_step [OF assms(2) create(2,3)] by simp
next
  case (order vid seen action oid now user key res d)
  then show ?thesis using order_step [OF assms(2) order(2,3)] by simp
next
  case (import_key parse kid now user name body seen imported d)
  from import_key_db [OF import_key(2)] have "d = y_db y \<or> (\<exists>k. flush_key k (y_db y) = Inr d)" by blast
  with import_key(1) key_step [OF assms(2)] show ?thesis by simp
next
  case (generate_key parse pub priv kid now user name seen generated d)
  from generate_key_db [OF generate_key(2)] have "d = y_db y \<or> (\<exists>k. flush_key k (y_db y) = Inr d)" by blast
  with generate_key(1) key_step [OF assms(2)] show ?thesis by simp
next
  case (sign_in seen sha max_age w now issuer subject email answer d)
  have "accounts_ok (y_db y)" "quota_ok (y_db y)"
    using assms(2) by (simp_all add: sys_ok_def)
  from account_step [OF assms(2) login_keeps [OF sign_in(3,2) this]] show ?thesis
    using sign_in(1) by simp
next
  case (sign_out sha now token)
  have "accounts_ok (y_db y)" "quota_ok (y_db y)"
    using assms(2) by (simp_all add: sys_ok_def)
  from account_step [OF assms(2) revoke_keeps [OF this]] show ?thesis
    using sign_out by simp
next
  case (authenticate sha now token found d)
  have "accounts_ok (y_db y)" "quota_ok (y_db y)"
    using assms(2) by (simp_all add: sys_ok_def)
  from account_step [OF assms(2) current_user_keeps [OF authenticate(2) this]] show ?thesis
    using authenticate(1) by simp
next
  case (provider_moves p)
  then show ?thesis using assms(2) by (auto simp: sys_ok_def)
qed

lemma reachable_ok: "reachable A y\<^sub>0 y \<Longrightarrow> initial y\<^sub>0 \<Longrightarrow> sys_ok y"
  by (induction rule: reachable.induct) (auto simp: initial_ok sys_step_ok dest: sys_step_ok)

end
