(* ===== verification/SystemFacts.thy ===== *)
theory SystemFacts
  imports System
begin

text \<open>
  Consequences of the invariant of the system that several properties share: the ways in
  which a step changes the database, operations that no step touches, and the count of the
  commands of one operation.
\<close>

section \<open>Changes of the database\<close>

definition db_change :: "db \<Rightarrow> db \<Rightarrow> bool" where
  "db_change d d' \<longleftrightarrow>
     d' = d
     \<or> (\<exists>now l op v op' v'. step_in d l op v op' v' \<and> d' = stored now op v op' v' d)
     \<or> (\<exists>vs ops. vms d' = vms d @ vs \<and> operations d' = operations d @ ops)"

lemma db_change_same: "db_change d d"
  by (simp add: db_change_def)

lemma db_change_stored: "step_in d l op v op' v' \<Longrightarrow> db_change d (stored now op v op' v' d)"
  unfolding db_change_def by metis

lemma create_vm_change: "create_vm vid oid now user r key seen d = (res, d') \<Longrightarrow> db_change d d'"
  by (erule create_vm_cases) (auto simp: db_change_def)

lemma enqueue_change: "enqueue_vm_operation oid now user vid T key seen d = (res, d') \<Longrightarrow> db_change d d'"
  by (erule enqueue_cases) (auto simp: db_change_def)

lemma pass_change:
  assumes "db_ok d" "first_transaction now A locked d p = (r, d', p')"
  shows "db_change d d'"
  using assms by (cases rule: first_transaction_cases) (simp_all add: db_change_same db_change_stored)

lemma store_change:
  assumes "db_ok d" "\<And>op. get_op (dispatch_op c) d = Some op \<Longrightarrow> dispatch_for (op_type op) c"
  shows "db_change d (store_outcome now c res d)"
proof -
  consider "store_outcome now c res d = d"
    | op v op' v' where "step_in d None op v op' v'" "store_outcome now c res d = stored now op v op' v' d"
    using store_outcome_cases [OF assms] by metis
  then show ?thesis
    by cases (simp_all add: db_change_same db_change_stored)
qed

lemma recorded_for:
  "recorded d c \<Longrightarrow> get_op (dispatch_op c) d = Some op \<Longrightarrow> dispatch_for (op_type op) c"
  by (auto simp: recorded_def)

lemma same_machines_change: "same_machines d d' \<Longrightarrow> db_change d d'"
  unfolding db_change_def same_machines_def by (metis append_Nil2)

lemma key_change: "flush_key k d = Inr d' \<Longrightarrow> db_change d d'"
  unfolding db_change_def using flush_key_Inr(1) by fastforce

lemma sys_step_change:
  assumes st: "sys_step A y y'" and ok: "sys_ok y"
  shows "db_change (y_db y) (y_db y')"
proof -
  have dok: "db_ok (y_db y)"
    using ok by (simp add: sys_ok_def)
  note same = db_change_same
  from st show ?thesis
  proof (cases rule: sys_step.cases)
    case (pass now locked r d p)
    then show ?thesis using pass_change [OF dok pass(2)] by simp
  next
    case (store xs c res ys now)
    have "recorded (y_db y) c"
      using ok store(2) by (simp add: sys_ok_def)
    from store_change [OF dok recorded_for [OF this]] show ?thesis
      using store(1) by simp
  next
    case (create user seen vid oid now r key res d)
    then show ?thesis using create_my_vm_db [OF create(3)] create_vm_change same by auto
  next
    case (order vid seen action oid now user key res d)
    show ?thesis
    proof (cases "map_of lifecycle_endpoints action")
      case None
      with order show ?thesis by (auto simp: post_lifecycle_def same)
    next
      case (Some T)
      with order have "enqueue_lifecycle_operation oid now user vid T key seen (y_db y) = (res, d)"
        by (simp add: post_lifecycle_def)
      from enqueue_lifecycle_db [OF this] show ?thesis
        using order(1) enqueue_change same by auto
    qed
  next
    case (import_key parse kid now user name body seen imported d)
    from import_key_db [OF import_key(2)] show ?thesis
      using import_key(1) key_change same by auto
  next
    case (generate_key parse pub priv kid now user name seen generated d)
    from generate_key_db [OF generate_key(2)] show ?thesis
      using generate_key(1) key_change same by auto
  next
    case (sign_in seen sha max_age w now issuer subject email answer d)
    have "accounts_ok (y_db y)" "quota_ok (y_db y)"
      using ok by (simp_all add: sys_ok_def)
    from login_keeps [OF sign_in(3,2) this] show ?thesis
      using sign_in(1) by (simp add: same_machines_change)
  next
    case (sign_out sha now token)
    have "accounts_ok (y_db y)" "quota_ok (y_db y)"
      using ok by (simp_all add: sys_ok_def)
    from revoke_keeps [OF this, of sha now token] show ?thesis
      using sign_out by (simp add: same_machines_change)
  next
    case (authenticate sha now token found d)
    have "accounts_ok (y_db y)" "quota_ok (y_db y)"
      using ok by (simp_all add: sys_ok_def)
    from current_user_keeps [OF authenticate(2) this] show ?thesis
      using authenticate(1) by (simp add: same_machines_change)
  qed (simp_all add: same)
qed

section \<open>Operations that no step touches\<close>

lemma moves_not_final:
  assumes "moves l op v op' v'"
  shows "abs_state op \<noteq> Some Done" "abs_state op \<noteq> Some Failed" "abs_state op \<noteq> Some (Review k)"
  using assms by (auto simp: moves_def elim: spec_from_done spec_from_failed spec_from_review)

lemma change_keeps_op:
  assumes c: "db_change d d'" and op: "get_op oid d = Some op" and m: "\<And>l v op' v'. \<not> moves l op v op' v'"
  shows "get_op oid d' = Some op"
  using c unfolding db_change_def
proof (elim disjE exE conjE)
  fix now l q v q' v'
  assume st: "step_in d l q v q' v'" and d': "d' = stored now q v q' v' d"
  show ?thesis
  proof (cases "oid = op_id q")
    case True
    have "get_op (op_id q) d = Some q"
      using st db_ok_get_op by (simp add: step_in_def)
    with True op have "q = op" by simp
    with st m show ?thesis by (auto simp: step_in_def)
  next
    case False
    then show ?thesis using op d' stored_get_op [OF st] by simp
  qed
next
  fix vs ops
  assume "operations d' = operations d @ ops"
  then show ?thesis using op by (simp add: row_get_append_old)
qed (use op in simp)

section \<open>Counting the commands of one operation\<close>

lemma recorded_command:
  assumes r: "recorded d c" and op: "get_op oid d = Some op" and c: "dispatch_op c = oid"
  shows "dispatch_command c \<in> Pair oid ` set (take (nat (op_attempts op)) (commands (op_type op)))"
proof -
  from r obtain q where q: "get_op (dispatch_op c) d = Some q" "fst (dispatch_command c) = op_id q"
      "snd (dispatch_command c) \<in> set (take (nat (op_attempts q)) (commands (op_type q)))"
    by (auto simp: recorded_def)
  with op c have "q = op" "op_id q = oid"
    using row_get_SomeD [OF q(1)] by simp_all
  with q show ?thesis
    by (cases "dispatch_command c") auto
qed

lemma commands_counted:
  assumes r: "\<And>c. c \<in> set cs \<Longrightarrow> recorded d c" and dist: "distinct (map dispatch_command cs)"
    and op: "get_op oid d = Some op"
  shows "length (filter (\<lambda>c. dispatch_op c = oid) cs) \<le> nat (op_attempts op)"
proof -
  let ?mine = "filter (\<lambda>c. dispatch_op c = oid) cs"
  let ?all = "take (nat (op_attempts op)) (commands (op_type op))"
  have "distinct (map dispatch_command ?mine)"
    using dist by (auto simp: distinct_map inj_on_def)
  then have "length ?mine = card (set (map dispatch_command ?mine))"
    using distinct_card by fastforce
  also have "\<dots> \<le> card (Pair oid ` set ?all)"
    by (rule card_mono) (use recorded_command [OF r op] in auto)
  also have "\<dots> \<le> length ?all"
    by (meson card_image_le card_length finite_set le_trans)
  also have "\<dots> \<le> nat (op_attempts op)"
    by simp
  finally show ?thesis .
qed

lemma attempts_bounded:
  assumes "db_ok d" "get_op oid d = Some op"
  shows "0 \<le> op_attempts op \<and> op_attempts op \<le> int (length (commands (op_type op)))"
proof -
  have "op \<in> set (operations d)"
    using row_get_SomeD [OF assms(2)] by simp
  from db_okD [OF assms(1) this] obtain v where "row_ok (ssh_keys d) op v"
    by metis
  then obtain a where "abs_state op = Some a" "submitted_ok (op_type op) a (op_attempts op)"
    by (rule row_okD)
  then show ?thesis
    using submitted_ok_bound abs_state_in by blast
qed

section \<open>When an operation is selected\<close>

lemma holds_eligible:
  assumes T: "op_type op \<in> set operation_types" and h: "holds op a" "a \<in> set (astates (op_type op))"
    and a: "a \<noteq> Done" "a \<noteq> Failed" "\<And>k. a \<noteq> Review k" and now: "op_updated op + DISPATCH_GRACE \<le> now"
  shows "eligible now op"
proof -
  have t: "op_type op \<in> {''vm.create'', ''vm.start'', ''vm.shutdown'', ''vm.stop'', ''vm.reboot'', ''vm.delete''}"
    using T by (rule operation_types_cases) simp_all
  have r: "op_updated op \<le> now - RECONCILE_DELAY" "op_updated op \<le> now - DISPATCH_GRACE"
    using now by (simp_all add: RECONCILE_DELAY_def DISPATCH_GRACE_def)
  show ?thesis
  proof (cases a)
    case (Ready k)
    then show ?thesis using t h by (simp add: eligible_def)
  next
    case (InFlight k)
    then have "\<exists>p. op_phase op = Some p \<and> (sql_like ''dispatch%'' p \<or> sql_like ''reconcile%'' p)"
      using h by (auto simp: flight_phases_def split: if_splits)
    then show ?thesis
      using InFlight t h r by (auto simp: eligible_def)
  next
    case (Tracked k)
    then have "op_task op \<noteq> None" "\<exists>p. op_phase op = Some p"
      using h by auto
    then show ?thesis
      using Tracked t h r by (cases "column_like (op_phase op) ''poll_backoff%''") (auto simp: eligible_def)
  qed (use a in simp_all)
qed

section \<open>Phases fit their column\<close>

lemma phase_lists_short:
  "T \<in> set operation_types \<Longrightarrow> k < length (commands T) \<Longrightarrow>
     list_all (\<lambda>p. length p \<le> 32) (flight_phases T k @ tracked_phases T k @ review_phases T k)
     \<and> width_ok 32 (ready_phase T k)"
proof -
  have "list_all (\<lambda>T. list_all (\<lambda>k. list_all (\<lambda>p. length p \<le> 32) (flight_phases T k @ tracked_phases T k @ review_phases T k)
     \<and> width_ok 32 (ready_phase T k)) [0..<length (commands T)]) operation_types"
    by code_simp
  then show "T \<in> set operation_types \<Longrightarrow> k < length (commands T) \<Longrightarrow> ?thesis"
    by (simp add: list_all_iff)
qed

lemma abs_state_phase_width:
  assumes "abs_state op = Some a"
  shows "width_ok 32 (op_phase op)"
proof -
  note T = abs_state_type [OF assms] and h = abs_state_holds [OF assms] and i = abs_state_in [OF assms]
  have l: "p \<in> set (flight_phases (op_type op) k) \<Longrightarrow> length p \<le> 32"
      "p \<in> set (tracked_phases (op_type op) k) \<Longrightarrow> length p \<le> 32"
      "p \<in> set (review_phases (op_type op) k) \<Longrightarrow> length p \<le> 32"
    if "k < length (commands (op_type op))" for p k
    using phase_lists_short [OF T that] by (auto simp: list_all_iff)
  show ?thesis
  proof (cases a)
    case (Ready k)
    then show ?thesis using h i phase_lists_short [OF T, of k] by (simp add: in_astates)
  qed (use h i in \<open>auto simp: in_astates list_ex_iff intro: l\<close>)
qed

end
