(* ===== verification/Fake.thy ===== *)
theory Fake
  imports Contracts
begin

text \<open>
  The in-memory provider (portal/app/proxmox/fake.py), with its instance variables as a
  record; the configured node is an argument. It is a provider the worker can rely on: the
  locale \<open>provider_contract\<close> holds of it.
\<close>

section \<open>State and methods\<close>

record fake =
  created_vms :: "int \<rightharpoonup> CreateVmRequest"
  task_statuses :: "string \<rightharpoonup> ProviderTaskStatus"
  deleted_vmids :: "int set"
  power_states :: "int \<rightharpoonup> string"

definition new_fake :: fake where
  "new_fake = \<lparr>created_vms = Map.empty, task_statuses = Map.empty, deleted_vmids = {},
               power_states = Map.empty\<rparr>"

definition vmid_for_vm_id :: "uuid \<Rightarrow> int" where
  "vmid_for_vm_id u = 100000 + uint u mod 899900000"

definition done_status :: ProviderTaskStatus where
  "done_status = \<lparr>ts_status = ''succeeded'', ts_error_code = None\<rparr>"

text \<open>The two checks that every method but \<open>choose_clone_target\<close> and \<open>get_task_status\<close> begins with.\<close>

definition fake_guard :: "string \<Rightarrow> uuid \<Rightarrow> string \<Rightarrow> int \<Rightarrow> (fake, 'a) py \<Rightarrow> (fake, 'a) py" where
  "fake_guard self u node vmid m f =
     (if node \<noteq> self then py_raise (RuntimeError ''fake provider node does not match'') f
      else if vmid \<noteq> vmid_for_vm_id u then py_raise (RuntimeError ''fake provider VMID does not match'') f
      else m f)"

definition fake_task :: "string \<Rightarrow> uuid \<Rightarrow> int \<Rightarrow> string \<Rightarrow> ProviderTask" where
  "fake_task kind u vmid node =
     \<lparr>task_id = ''fake:'' @ kind @ '':'' @ uuid_str u, task_vmid = vmid, task_node = node\<rparr>"

definition fake_choose_clone_target :: "string \<Rightarrow> CreateVmRequest \<Rightarrow> (fake, ProviderPlacement) py" where
  "fake_choose_clone_target self req = py_ret \<lparr>place_node = self, place_vmid = vmid_for_vm_id (req_vm_id req)\<rparr>"

definition fake_clone_vm ::
  "string \<Rightarrow> CreateVmRequest \<Rightarrow> string \<Rightarrow> int \<Rightarrow> (fake, ProviderCloneResult) py" where
  "fake_clone_vm self req node vmid =
     fake_guard self (req_vm_id req) node vmid (\<lambda>f.
       let task = fake_task ''clone'' (req_vm_id req) vmid node in
       (Inr \<lparr>clone_state = ''submitted'', clone_task = Some task\<rparr>,
        f\<lparr>created_vms := (created_vms f)(vmid \<mapsto> req),
          power_states := (power_states f)(vmid \<mapsto> ''stopped''),
          task_statuses := (task_statuses f)(task_id task \<mapsto> done_status)\<rparr>))"

definition fake_operation_types :: "string list" where
  "fake_operation_types = [''clone'', ''resize'', ''start'', ''shutdown'', ''stop'', ''delete'']"

definition fake_get_task_status :: "string \<Rightarrow> ProviderTask \<Rightarrow> (fake, ProviderTaskStatus) py" where
  "fake_get_task_status self task f =
     (case task_statuses f (task_id task) of
        Some status \<Rightarrow> py_ret status f
      | None \<Rightarrow>
         (case split_on CHR '':'' (task_id task) of
            [prefix, operation_type, raw_vm_id] \<Rightarrow>
              if prefix \<noteq> ''fake'' \<or> operation_type \<notin> set fake_operation_types
              then py_raise (RuntimeError ''invalid fake provider task id'') f
              else (case uuid_parse raw_vm_id of
                 None \<Rightarrow> py_raise (RuntimeError ''invalid fake provider task id'') f
               | Some u \<Rightarrow>
                   if task_vmid task \<noteq> vmid_for_vm_id u
                   then py_raise (RuntimeError ''fake provider VMID does not match task'') f
                   else if task_node task \<noteq> self
                   then py_raise (RuntimeError ''fake provider node does not match task'') f
                   else py_ret done_status f)
          | _ \<Rightarrow> py_raise (RuntimeError ''invalid fake provider task id'') f))"

definition fake_configure_vm ::
  "string \<Rightarrow> CreateVmRequest \<Rightarrow> string \<Rightarrow> int \<Rightarrow> (fake, ProviderTask option) py" where
  "fake_configure_vm self req node vmid = fake_guard self (req_vm_id req) node vmid (py_ret None)"

definition fake_resize_vm_disk ::
  "string \<Rightarrow> CreateVmRequest \<Rightarrow> string \<Rightarrow> int \<Rightarrow> (fake, ProviderTask option) py" where
  "fake_resize_vm_disk self req node vmid =
     fake_guard self (req_vm_id req) node vmid (\<lambda>f.
       let task = fake_task ''resize'' (req_vm_id req) vmid node in
       (Inr (Some task), f\<lparr>task_statuses := (task_statuses f)(task_id task \<mapsto> done_status)\<rparr>))"

text \<open>\<open>start_vm\<close>, \<open>shutdown_vm\<close> and \<open>stop_vm\<close> differ in the task id and the power state.\<close>

definition fake_power ::
  "string \<Rightarrow> string \<Rightarrow> string \<Rightarrow> uuid \<Rightarrow> string \<Rightarrow> int \<Rightarrow> (fake, ProviderTask option) py" where
  "fake_power kind st self u node vmid =
     fake_guard self u node vmid (\<lambda>f.
       let task = fake_task kind u vmid node in
       (Inr (Some task),
        f\<lparr>task_statuses := (task_statuses f)(task_id task \<mapsto> done_status),
          power_states := (power_states f)(vmid \<mapsto> st)\<rparr>))"

abbreviation "fake_start_vm \<equiv> fake_power ''start'' ''running''"
abbreviation "fake_shutdown_vm \<equiv> fake_power ''shutdown'' ''stopped''"
abbreviation "fake_stop_vm \<equiv> fake_power ''stop'' ''stopped''"

definition fake_get_vm_power_state :: "string \<Rightarrow> uuid \<Rightarrow> string \<Rightarrow> int \<Rightarrow> (fake, ProviderVmState) py" where
  "fake_get_vm_power_state self u node vmid =
     fake_guard self u node vmid (\<lambda>f.
       if vmid \<in> deleted_vmids f then (Inr \<lparr>power_status = ''missing'', power_locked = False\<rparr>, f)
       else if created_vms f vmid = None \<and> power_states f vmid = None
       then (Inr \<lparr>power_status = ''missing'', power_locked = False\<rparr>, f)
       else (Inr \<lparr>power_status = (case power_states f vmid of None \<Rightarrow> ''stopped'' | Some st \<Rightarrow> st),
                  power_locked = False\<rparr>, f))"

definition fake_delete_vm :: "string \<Rightarrow> uuid \<Rightarrow> string \<Rightarrow> int \<Rightarrow> (fake, ProviderDeleteResult) py" where
  "fake_delete_vm self u node vmid =
     fake_guard self u node vmid (\<lambda>f.
       if vmid \<in> deleted_vmids f then (Inr \<lparr>delete_state = ''succeeded'', delete_task = None\<rparr>, f)
       else
         (let task = fake_task ''delete'' u vmid node in
          (Inr \<lparr>delete_state = ''submitted'', delete_task = Some task\<rparr>,
           f\<lparr>task_statuses := (task_statuses f)(task_id task \<mapsto> done_status),
             deleted_vmids := insert vmid (deleted_vmids f),
             created_vms := (created_vms f)(vmid := None),
             power_states := (power_states f)(vmid := None)\<rparr>)))"

definition FakeProxmoxAdapter :: "string \<Rightarrow> fake ProxmoxAdapter" where
  "FakeProxmoxAdapter self =
     \<lparr>get_vm_power_state = fake_get_vm_power_state self,
      choose_clone_target = fake_choose_clone_target self,
      get_task_status = fake_get_task_status self,
      clone_vm = fake_clone_vm self,
      configure_vm = fake_configure_vm self,
      resize_vm_disk = fake_resize_vm_disk self,
      start_vm = fake_start_vm self,
      shutdown_vm = fake_shutdown_vm self,
      stop_vm = fake_stop_vm self,
      delete_vm = fake_delete_vm self\<rparr>"

section \<open>It keeps the contract\<close>

lemmas fake_defs = FakeProxmoxAdapter_def fake_guard_def fake_task_def fake_choose_clone_target_def
  fake_clone_vm_def fake_configure_vm_def fake_resize_vm_disk_def fake_power_def
  fake_get_vm_power_state_def fake_delete_vm_def

text \<open>The states of the fake that its own methods produce.\<close>

definition fake_ok :: "fake \<Rightarrow> bool" where
  "fake_ok f \<longleftrightarrow>
     (\<forall>t st. task_statuses f t = Some st \<longrightarrow> st = done_status)
     \<and> (\<forall>v p. power_states f v = Some p \<longrightarrow> p \<in> {''running'', ''stopped''})"

lemma fake_commands: "provider_commands (FakeProxmoxAdapter self)"
  by unfold_locales
    (auto simp: fake_defs clone_wf_def delete_wf_def Let_def split: if_splits)

interpretation fake: provider_contract "FakeProxmoxAdapter self" fake_ok
proof (intro provider_contract.intro fake_commands provider_contract_axioms.intro)
  fix f f' :: fake and t st
  assume "fake_ok f" "get_task_status (FakeProxmoxAdapter self) t f = (Inr st, f')"
  then have "st = done_status"
    by (auto simp: FakeProxmoxAdapter_def fake_get_task_status_def fake_ok_def
        split: option.splits list.splits if_splits)
  then show "ts_status st \<in> {''running'', ''succeeded'', ''failed''}"
    by (simp add: done_status_def)
next
  fix f f' :: fake and u node vmid pw
  assume ok: "fake_ok f" and "get_vm_power_state (FakeProxmoxAdapter self) u node vmid f = (Inr pw, f')"
  then have "power_status pw = ''missing''
      \<or> power_status pw = (case power_states f vmid of None \<Rightarrow> ''stopped'' | Some st \<Rightarrow> st)"
    by (auto simp: fake_defs split: if_splits)
  moreover have "(case power_states f vmid of None \<Rightarrow> ''stopped'' | Some st \<Rightarrow> st) \<in> {''running'', ''stopped''}"
    using ok by (simp add: fake_ok_def split: option.split)
  ultimately show "power_status pw \<in> {''running'', ''stopped'', ''missing''}"
    unfolding insert_iff empty_iff by metis
qed (auto simp: fake_defs fake_get_task_status_def fake_ok_def Let_def
      split: if_splits option.splits list.splits)

end
