(* ===== verification/Example.thy ===== *)
theory Example
  imports System Fake
begin

text \<open>
  A concrete run: one user with a starter plan and a key orders a virtual machine from the
  in-memory provider. It shows that the hypotheses of the theorems can be met.
\<close>

definition ex_key :: SshPublicKey where
  "ex_key = \<lparr>key_id = 4, key_owner = 1, key_name = ''laptop'', key_type = ''ssh-ed25519'',
     key_public = ''ssh-ed25519 AAAA'', key_fingerprint = ''SHA256:x'', key_created = 0\<rparr>"

definition ex_plan :: ComputePlan where
  "ex_plan = \<lparr>plan_id = 5, plan_code = ''starter'', max_vms = 2, max_total_vcpus = 4,
     max_total_memory_mb = 8192, max_total_storage_gb = 100, max_shared_storage_gb = 0, plan_is_active = True\<rparr>"

definition ex_db :: db where
  "ex_db = \<lparr>users = [\<lparr>usr_id = 1, usr_is_active = True, usr_created = 0\<rparr>], identities = [], app_sessions = [],
     plans = [ex_plan], quotas = [\<lparr>quota_user = 1, quota_plan = 5, quota_status = ''active''\<rparr>],
     ssh_keys = [ex_key], vms = [], operations = []\<rparr>"

definition ex_request :: VirtualMachineCreate where
  "ex_request = \<lparr>rq_vcpus = 2, rq_memory_mb = 2048, rq_storage_gb = 20, rq_image_id = ''almalinux-9'',
     rq_ssh_key = 4\<rparr>"

abbreviation ex_adapter :: "fake ProxmoxAdapter" where
  "ex_adapter \<equiv> FakeProxmoxAdapter ''fake-node''"

definition ex_start :: "fake sys" where
  "ex_start = \<lparr>y_db = ex_db, y_prov = new_fake, y_prepared = [], y_answered = [], y_sent = []\<rparr>"

text \<open>The database after the order, and the first command.\<close>

definition ex_ordered :: db where
  "ex_ordered = snd (create_my_vm 2 3 1000 1 ex_request 6 ex_db ex_db)"

definition ex_clone :: dispatch where
  "ex_clone = CreateDispatch 3 2 ''clone''
     (Some \<lparr>req_vm_id = 2, req_image_id = ''almalinux-9'', req_vcpus = 2, req_memory_mb = 2048,
            req_storage_gb = 20, req_ssh_public_key = ''ssh-ed25519 AAAA''\<rparr>)
     \<lparr>place_node = ''fake-node'', place_vmid = 100002\<rparr>"

lemma ex_initial: "initial ex_start"
  by (simp add: initial_def ex_start_def ex_db_def plan_constraints_def ex_plan_def accounts_ok_def known_user_def ex_key_def)

abbreviation ex_vm :: VirtualMachine where
  "ex_vm \<equiv> new_vm 2 1000 1 ex_request"

abbreviation ex_op :: Operation where
  "ex_op \<equiv> new_operation 3 1000 2 ''vm.create'' (Some ''clone'') (uuid_str 6)"

lemmas ex_defs = ex_db_def ex_plan_def ex_key_def ex_request_def

lemma ex_ordered_eq: "ex_ordered = ex_db\<lparr>vms := [ex_vm], operations := [ex_op]\<rparr>"
  by (simp add: Let_def ex_ordered_def create_my_vm_def create_vm_def create_checks_def ex_defs row_get_def
      get_existing_vm_for_create_request_def IMAGE_MIN_STORAGE_GB_def validate_vm_quota_def
      get_user_compute_usage_def flush_vm_def flush_operation_def new_vm_def new_operation_def
      vm_constraints_def vm_statuses_def vmid_unique_def map_filter_simps operation_constraints_def
      operation_types_def)

abbreviation ex_vm2 :: VirtualMachine where
  "ex_vm2 \<equiv> ex_vm\<lparr>vm_provider_node := Some ''fake-node'', vm_provider_vmid := Some 100002, vm_updated := 2000\<rparr>"

lemmas py_defs = py_then_def py_bind_def py_catch_def provider_def update_op_def update_vm_def

lemmas worker_defs = first_transaction_def select_operation_def eligible_def process_selected_def open_session_def
  process_create_branch_def process_create_vm_operation_def start_create_vm_operation_def prepare_create_def
  prepare_create_vm_dispatch_def get_lifecycle_vm_def build_create_vm_request_def

lemmas store_defs = commit_rows_def store_op_def store_vm_def row_set_def row_get_def touch_op_def touch_vm_def
  vm_constraints_def vm_statuses_def vmid_unique_def map_filter_simps operation_constraints_def operation_types_def

lemma ex_pass1: "first_transaction 2000 ex_adapter [] ex_ordered new_fake =
    (Inr (True, None), ex_db\<lparr>vms := [ex_vm2], operations := [ex_op]\<rparr>, new_fake)"
  by (simp add: ex_ordered_eq worker_defs store_defs py_defs Let_def ex_defs new_vm_def new_operation_def
      FakeProxmoxAdapter_def fake_choose_clone_target_def vmid_for_vm_id_def new_fake_def)

abbreviation ex_marked_op :: Operation where
  "ex_marked_op \<equiv> ex_op\<lparr>op_status := ''processing'', op_phase := Some ''dispatch_create_clone'',
     op_attempts := 1, op_updated := 3000\<rparr>"

definition ex_marked :: db where
  "ex_marked = ex_db\<lparr>vms := [ex_vm2], operations := [ex_marked_op]\<rparr>"

lemma ex_pass2: "first_transaction 3000 ex_adapter [] (ex_db\<lparr>vms := [ex_vm2], operations := [ex_op]\<rparr>) new_fake =
    (Inr (True, Some ex_clone), ex_marked, new_fake)"
  by (simp add: ex_marked_def ex_clone_def worker_defs store_defs py_defs Let_def ex_defs new_vm_def
      new_operation_def)

text \<open>The state after the clone command was sent.\<close>

definition ex_reply :: "exc + reply" where
  "ex_reply = fst (submit ex_adapter ex_clone new_fake)"

definition ex_sent :: "fake sys" where
  "ex_sent = \<lparr>y_db = ex_marked, y_prov = snd (submit ex_adapter ex_clone new_fake), y_prepared = [],
     y_answered = [(ex_clone, ex_reply)], y_sent = [ex_clone]\<rparr>"

definition ex_y1 :: "fake sys" where "ex_y1 = ex_start\<lparr>y_db := ex_ordered\<rparr>"

definition ex_y2 :: "fake sys" where
  "ex_y2 = ex_start\<lparr>y_db := ex_db\<lparr>vms := [ex_vm2], operations := [ex_op]\<rparr>\<rparr>"

definition ex_y3 :: "fake sys" where "ex_y3 = ex_start\<lparr>y_db := ex_marked, y_prepared := [ex_clone]\<rparr>"

lemma ex_step1: "sys_step ex_adapter ex_start ex_y1"
proof -
  have "create_my_vm 2 3 1000 1 ex_request 6 ex_db (y_db ex_start)
      = (fst (create_my_vm 2 3 1000 1 ex_request 6 ex_db ex_db), ex_ordered)"
    by (simp add: ex_start_def ex_ordered_def)
  from create [OF _ this, of ex_adapter] show ?thesis
    unfolding ex_y1_def by (simp add: ex_start_def)
qed

lemma ex_step2: "sys_step ex_adapter ex_y1 ex_y2"
  using pass [of 2000 ex_adapter "[]" ex_y1] ex_pass1 by (simp add: ex_y1_def ex_y2_def ex_start_def note_prepared_def)

lemma ex_step3: "sys_step ex_adapter ex_y2 ex_y3"
  using pass [of 3000 ex_adapter "[]" ex_y2] ex_pass2 by (simp add: ex_y2_def ex_y3_def ex_start_def note_prepared_def)

lemma ex_step4: "sys_step ex_adapter ex_y3 ex_sent"
  using send [of ex_y3 "[]" ex_clone "[]" ex_adapter ex_reply "snd (submit ex_adapter ex_clone new_fake)"]
  by (simp add: ex_y3_def ex_start_def ex_sent_def ex_reply_def)

lemma ex_sent_reachable: "reachable ex_adapter ex_start ex_sent"
  by (rule reachable.step [OF reachable.step [OF reachable.step [OF reachable.step [OF reachable.init
        ex_step1] ex_step2] ex_step3] ex_step4])

section \<open>Two ways on: the clone fails, and a configuration with an unknown outcome\<close>

abbreviation ex_vm3 :: VirtualMachine where
  "ex_vm3 \<equiv> ex_vm2\<lparr>vm_status := ''provisioning'', vm_updated := 4000\<rparr>"

abbreviation ex_tracked_op :: Operation where
  "ex_tracked_op \<equiv> ex_op\<lparr>op_status := ''processing'', op_phase := Some ''clone'', op_attempts := 1,
     op_task := Some (''fake:clone:'' @ uuid_str 2), op_updated := 4000\<rparr>"

definition ex_tracked :: db where
  "ex_tracked = ex_db\<lparr>vms := [ex_vm3], operations := [ex_tracked_op]\<rparr>"

lemma ex_reply_eq: "ex_reply = Inr (CloneReply \<lparr>clone_state = ''submitted'', clone_task = Some \<lparr>
    task_id = ''fake:clone:'' @ uuid_str 2, task_vmid = 100002, task_node = ''fake-node''\<rparr>\<rparr>)"
  by (simp add: ex_reply_def ex_clone_def submit_def with_request_def py_defs FakeProxmoxAdapter_def
      fake_clone_vm_def fake_guard_def fake_task_def vmid_for_vm_id_def Let_def)

lemma ex_store: "store_outcome 4000 ex_clone ex_reply ex_marked = ex_tracked"
  by (simp add: ex_reply_eq store_outcome_def ex_clone_def ex_marked_def ex_tracked_def store_step_def
      finish_dispatch_def finish_create_vm_dispatch_def finish_create_task_def open_session_def get_lifecycle_vm_def
      store_defs py_defs set_vm_status_def Let_def new_vm_def new_operation_def ex_defs)

definition ex_broken :: fake where
  "ex_broken = new_fake\<lparr>task_statuses := (\<lambda>_. Some \<lparr>ts_status = ''failed'', ts_error_code = None\<rparr>)\<rparr>"

abbreviation ex_failed_op :: Operation where
  "ex_failed_op \<equiv> ex_tracked_op\<lparr>op_status := ''failed'', op_error := Some ''provider_task_failed'', op_updated := 5000\<rparr>"

abbreviation ex_failed_vm :: VirtualMachine where
  "ex_failed_vm \<equiv> ex_vm3\<lparr>vm_status := ''failed'', vm_updated := 5000\<rparr>"

definition ex_failed :: db where
  "ex_failed = ex_db\<lparr>vms := [ex_failed_vm], operations := [ex_failed_op]\<rparr>"

lemma ex_fail_pass: "first_transaction 5000 ex_adapter [] ex_tracked ex_broken = (Inr (True, None), ex_failed, ex_broken)"
  by (simp add: ex_tracked_def ex_failed_def ex_broken_def worker_defs store_defs py_defs Let_def ex_defs new_vm_def
      new_operation_def refresh_create_vm_operation_def FakeProxmoxAdapter_def fake_get_task_status_def
      task_error_def set_vm_status_def)

definition ex_y5 :: "fake sys" where
  "ex_y5 = ex_sent\<lparr>y_db := ex_tracked, y_answered := []\<rparr>"

lemma ex_step5: "sys_step ex_adapter ex_sent ex_y5"
  using store [of ex_sent "[]" ex_clone ex_reply "[]" ex_adapter 4000] ex_store
  by (simp add: ex_sent_def ex_y5_def)

lemma ex_y5_reachable: "reachable ex_adapter ex_start ex_y5"
  by (rule reachable.step [OF ex_sent_reachable ex_step5])

definition ex_failed_sys :: "fake sys" where
  "ex_failed_sys = ex_y5\<lparr>y_db := ex_failed, y_prov := ex_broken\<rparr>"

lemma ex_failed_reachable: "reachable ex_adapter ex_start ex_failed_sys"
proof (rule reachable.step [OF reachable.step [OF ex_y5_reachable]])
  show "sys_step ex_adapter ex_y5 (ex_y5\<lparr>y_prov := ex_broken\<rparr>)"
    by (rule provider_moves)
  show "sys_step ex_adapter (ex_y5\<lparr>y_prov := ex_broken\<rparr>) ex_failed_sys"
    using pass [of 5000 ex_adapter "[]" "ex_y5\<lparr>y_prov := ex_broken\<rparr>"] ex_fail_pass
    by (simp add: ex_y5_def ex_sent_def ex_failed_sys_def note_prepared_def)
qed

abbreviation ex_configure_op :: Operation where
  "ex_configure_op \<equiv> ex_op\<lparr>op_phase := Some ''configure'', op_attempts := 1, op_updated := 5000\<rparr>"

definition ex_configure :: dispatch where
  "ex_configure = CreateDispatch 3 2 ''configure''
     (Some \<lparr>req_vm_id = 2, req_image_id = ''almalinux-9'', req_vcpus = 2, req_memory_mb = 2048,
            req_storage_gb = 20, req_ssh_public_key = ''ssh-ed25519 AAAA''\<rparr>)
     \<lparr>place_node = ''fake-node'', place_vmid = 100002\<rparr>"

abbreviation ex_configuring_op :: Operation where
  "ex_configuring_op \<equiv> ex_op\<lparr>op_status := ''processing'', op_phase := Some ''dispatch_create_configure'',
     op_attempts := 2, op_updated := 6000\<rparr>"

abbreviation ex_review_op :: Operation where
  "ex_review_op \<equiv> ex_configuring_op\<lparr>op_phase := Some ''needs_review_create_configure'',
     op_error := Some ''provider_outcome_unknown'', op_updated := 400000000\<rparr>"

definition ex_fine :: fake where
  "ex_fine = new_fake\<lparr>task_statuses := (\<lambda>_. Some done_status)\<rparr>"

definition ex_with :: "Operation \<Rightarrow> db" where
  "ex_with op = ex_db\<lparr>vms := [ex_vm3], operations := [op]\<rparr>"

lemmas review_defs = refresh_create_vm_operation_def reconcile_create_vm_operation_def create_reconcile_phases_def
  create_outcome_unknown_def ends_with_def DISPATCH_GRACE_def RECONCILE_DELAY_def

lemma ex_poll_pass: "first_transaction 5000 ex_adapter [] (ex_with ex_tracked_op) ex_fine
    = (Inr (True, None), ex_with ex_configure_op, ex_fine)"
  by (simp add: ex_with_def ex_fine_def worker_defs store_defs py_defs Let_def ex_defs new_vm_def
      new_operation_def review_defs FakeProxmoxAdapter_def fake_get_task_status_def done_status_def)

lemma ex_configure_pass: "first_transaction 6000 ex_adapter [] (ex_with ex_configure_op) ex_fine
    = (Inr (True, Some ex_configure), ex_with ex_configuring_op, ex_fine)"
  by (simp add: ex_with_def ex_configure_def worker_defs store_defs py_defs Let_def ex_defs new_vm_def
      new_operation_def)

lemma ex_review_pass: "first_transaction 400000000 ex_adapter [] (ex_with ex_configuring_op) ex_fine
    = (Inr (True, None), ex_with ex_review_op, ex_fine)"
  by (simp add: ex_with_def worker_defs store_defs py_defs Let_def ex_defs new_vm_def
      new_operation_def review_defs)

definition ex_review_sys :: "fake sys" where
  "ex_review_sys = ex_y5\<lparr>y_db := ex_with ex_review_op, y_prov := ex_fine\<rparr>"

lemma ex_review_reachable: "reachable ex_adapter ex_start ex_review_sys"
proof -
  let ?y = "\<lambda>op ps. ex_y5\<lparr>y_db := ex_with op, y_prov := ex_fine, y_prepared := ps\<rparr>"
  have s1: "sys_step ex_adapter ex_y5 (?y ex_tracked_op [])"
    using provider_moves [of ex_adapter ex_y5 ex_fine] by (simp add: ex_y5_def ex_sent_def ex_tracked_def ex_with_def)
  have s2: "sys_step ex_adapter (?y ex_tracked_op []) (?y ex_configure_op [])"
    using pass [of 5000 ex_adapter "[]" "?y ex_tracked_op []"] ex_poll_pass by (simp add: note_prepared_def)
  have s3: "sys_step ex_adapter (?y ex_configure_op []) (?y ex_configuring_op [ex_configure])"
    using pass [of 6000 ex_adapter "[]" "?y ex_configure_op []"] ex_configure_pass by (simp add: note_prepared_def)
  have s4: "sys_step ex_adapter (?y ex_configuring_op [ex_configure]) (?y ex_configuring_op [])"
    using crash_unsent [of "?y ex_configuring_op [ex_configure]" "[]" ex_configure "[]" ex_adapter] by simp
  have s5: "sys_step ex_adapter (?y ex_configuring_op []) (?y ex_review_op [])"
    using pass [of 400000000 ex_adapter "[]" "?y ex_configuring_op []"] ex_review_pass by (simp add: note_prepared_def)
  have "?y ex_review_op [] = ex_review_sys"
    by (simp add: ex_review_sys_def ex_y5_def ex_sent_def)
  moreover have "reachable ex_adapter ex_start (?y ex_review_op [])"
    by (rule reachable.step [OF reachable.step [OF reachable.step [OF reachable.step [OF reachable.step [OF
              ex_y5_reachable s1] s2] s3] s4] s5])
  ultimately show ?thesis by (simp only:)
qed

end
