(* ===== verification/Orders.thy ===== *)
theory Orders
  imports Example
begin

text \<open>
  What the order services promise to a user: an order is taken completely or not at all, a
  repeated request is answered with what it made the first time, limits are respected, and no
  user sees or touches the machine of another.
\<close>

section \<open>Creating\<close>

lemma create_my_vm_Inr:
  "create_my_vm vid oid now user r key seen d = (Inr vm, d') \<Longrightarrow>
     create_vm vid oid now user r (uuid_str key) seen d = (Inr vm, d')"
  by (simp add: create_my_vm_def split: prod.splits sum.splits exc.splits)

lemma create_my_vm_Inl:
  "create_my_vm vid oid now user r key seen d = (Inl e, d') \<Longrightarrow> d' = d"
  by (auto simp: create_my_vm_def split: prod.splits sum.splits exc.splits)

lemma existing_vm:
  assumes "get_existing_vm_for_create_request key user r e = Inr (Some vm)"
  shows "vm_owner vm = user \<and> vm_vcpus vm = rq_vcpus r \<and> vm_memory_mb vm = rq_memory_mb r
     \<and> vm_storage_gb vm = rq_storage_gb r \<and> vm_image vm = rq_image_id r \<and> vm_ssh_key vm = Some (rq_ssh_key r)
     \<and> (\<exists>op. op \<in> set (operations e) \<and> op_key op = key \<and> op_type op = ''vm.create'' \<and> get_vm (op_vm op) e = Some vm)"
  using assms unfolding get_existing_vm_for_create_request_def
  by (auto split: option.splits if_splits dest: row_get_SomeD)

text \<open>
  C18. Ordering a machine is all or nothing: the endpoint raises and changes nothing, or answers
  with a machine of the user that has exactly the requested amounts, image and key; then either
  nothing was inserted and the machine is the one an earlier request with this idempotency key
  made, or exactly the machine and its create operation, pending in phase clone with that key,
  were inserted.
\<close>

theorem create_all_or_nothing:
  assumes "create_my_vm vid oid now user r key seen d = (res, d')"
  shows "(\<exists>e. res = Inl e \<and> d' = d)
     \<or> (\<exists>vm. res = Inr vm \<and> vm_owner vm = user \<and> vm_vcpus vm = rq_vcpus r \<and> vm_memory_mb vm = rq_memory_mb r
          \<and> vm_storage_gb vm = rq_storage_gb r \<and> vm_image vm = rq_image_id r \<and> vm_ssh_key vm = Some (rq_ssh_key r)
          \<and> ((d' = d \<and> (\<exists>e op. (e = seen \<or> e = d) \<and> op \<in> set (operations e) \<and> op_key op = uuid_str key
                \<and> op_type op = ''vm.create'' \<and> get_vm (op_vm op) e = Some vm))
             \<or> (vm = new_vm vid now user r
                \<and> d' = d\<lparr>vms := vms d @ [vm], operations := operations d
                    @ [new_operation oid now vid ''vm.create'' (Some ''clone'') (uuid_str key)]\<rparr>)))"
proof (cases res)
  case (Inl e)
  then show ?thesis
    using create_my_vm_Inl [OF assms [unfolded Inl]] by simp
next
  case (Inr vm)
  from create_my_vm_Inr [OF assms [unfolded Inr]] show ?thesis
  proof (cases rule: create_vm_cases)
    case (existing w e)
    then have w: "w = vm" using Inr by simp
    have d': "d' = d" by (rule existing(2))
    have "\<exists>e op. (e = seen \<or> e = d) \<and> op \<in> set (operations e) \<and> op_key op = uuid_str key
        \<and> op_type op = ''vm.create'' \<and> get_vm (op_vm op) e = Some vm"
      using existing_vm [OF existing(3)] existing(4) unfolding w by blast
    with existing_vm [OF existing(3)] d' show ?thesis
      unfolding Inr w by (intro disjI2 exI [of _ vm] conjI disjI1) simp_all
  next
    case (created quota k)
    then have "vm = new_vm vid now user r" using Inr by simp
    with created show ?thesis unfolding Inr by (simp add: new_vm_def)
  qed simp
qed

theorem create_all_or_nothing_witness:
  "create_my_vm 2 3 1000 1 ex_request 6 ex_db ex_db = (Inr ex_vm, ex_ordered)
     \<and> (\<exists>vm. fst (create_my_vm 2 3 1000 1 ex_request 6 ex_db ex_db) = Inr vm \<and> vm_owner vm = 1 \<and> vm_vcpus vm = 2)"
proof
  have "fst (create_my_vm 2 3 1000 1 ex_request 6 ex_db ex_db) = Inr ex_vm"
    by (simp add: Let_def create_my_vm_def create_vm_def create_checks_def ex_defs row_get_def
        get_existing_vm_for_create_request_def IMAGE_MIN_STORAGE_GB_def validate_vm_quota_def
        get_user_compute_usage_def flush_vm_def flush_operation_def new_vm_def new_operation_def
        vm_constraints_def vm_statuses_def vmid_unique_def map_filter_simps operation_constraints_def
        operation_types_def)
  then show eq: "create_my_vm 2 3 1000 1 ex_request 6 ex_db ex_db = (Inr ex_vm, ex_ordered)"
    by (simp add: ex_ordered_def prod_eq_iff)
  show "\<exists>vm. fst (create_my_vm 2 3 1000 1 ex_request 6 ex_db ex_db) = Inr vm \<and> vm_owner vm = 1 \<and> vm_vcpus vm = 2"
    using create_all_or_nothing [OF eq] eq by (auto simp: ex_request_def)
qed

text \<open>
  C19. Creating is idempotent: the same request with the same key, repeated on the tables the
  first one left, returns the machine the first one returned and inserts
  nothing, whatever identifiers it would have drawn, even when the quota is now used up.
\<close>

theorem create_is_idempotent:
  assumes "db_ok d" "create_my_vm vid oid now user r key d d = (Inr vm, d')"
  shows "create_my_vm vid' oid' now' user r key d' d' = (Inr vm, d')"
proof -
  note c = create_my_vm_Inr [OF assms(2)]
  have checks: "create_vm vid' oid' now' user r (uuid_str key) d' d' = (Inr vm, d')"
    if ex: "get_existing_vm_for_create_request (uuid_str key) user r d' = Inr (Some vm)"
      and k: "\<exists>k. find (\<lambda>k. key_id k = rq_ssh_key r \<and> key_owner k = user) (ssh_keys d') = Some k"
      and q: "\<exists>q. row_get quota_user user (quotas d') = Some q"
    using that by (auto simp: create_vm_def create_checks_def)
  have k: "\<exists>k. find (\<lambda>k. key_id k = rq_ssh_key r \<and> key_owner k = user) (ssh_keys d) = Some k"
    and q: "\<exists>q. row_get quota_user user (quotas d) = Some q"
    using c by (auto simp: create_vm_def split: option.splits)
  from c have "create_vm vid' oid' now' user r (uuid_str key) d' d' = (Inr vm, d')"
  proof (cases rule: create_vm_cases)
    case (existing w e)
    with checks k q show ?thesis by auto
  next
    case (created quota kk)
    let ?op = "new_operation oid now vid ''vm.create'' (Some ''clone'') (uuid_str key)"
    have vm: "vm = new_vm vid now user r" and d': "d' = d\<lparr>vms := vms d @ [vm], operations := operations d @ [?op]\<rparr>"
      using created by simp_all
    have "row_get op_key (uuid_str key) (operations d') = Some ?op"
      unfolding d' using created(11) by (simp add: row_get_append_new new_operation_def)
    moreover have "get_vm vid d' = Some vm"
      unfolding d' vm using created(9) by (simp add: row_get_append_new new_vm_def)
    ultimately have "get_existing_vm_for_create_request (uuid_str key) user r d' = Inr (Some vm)"
      by (simp add: get_existing_vm_for_create_request_def new_operation_def) (simp add: vm new_vm_def)
    then show ?thesis
      by (rule checks) (use k q d' in simp_all)
  qed simp
  then show ?thesis by (simp add: create_my_vm_def)
qed

lemma ex_db_ok: "db_ok ex_db"
  using reachable_ok [OF reachable.init ex_initial] by (simp add: sys_ok_def ex_start_def)

lemma ex_create: "create_my_vm 2 3 1000 1 ex_request 6 ex_db ex_db = (Inr ex_vm, ex_ordered)"
  using create_all_or_nothing_witness by (rule conjunct1)

theorem create_is_idempotent_witness:
  "create_my_vm 9 8 7777 1 ex_request 6 ex_ordered ex_ordered = (Inr ex_vm, ex_ordered)"
  by (rule create_is_idempotent [OF ex_db_ok ex_create])

text \<open>
  C24. A new order that is otherwise in order is accepted exactly when the machine still fits the
  plan: in number, vCPUs, memory and storage, limits included. If it does not fit the answer is
  409, if the quota is suspended it is 403, and nothing is inserted.
\<close>

theorem create_accepts_what_fits:
  assumes "db_ok d" "k \<in> set (ssh_keys d)" "key_id k = rq_ssh_key r" "key_owner k = user"
    and "row_get quota_user user (quotas d) = Some q" "row_get plan_id (quota_plan q) (plans d) = Some p"
    and "row_get op_key (uuid_str key) (operations d) = None" "get_vm vid d = None" "get_op oid d = None"
    and "IMAGE_MIN_STORAGE_GB (rq_image_id r) = Some minimum" "minimum \<le> rq_storage_gb r"
    and "0 < rq_vcpus r" "0 < rq_memory_mb r" "0 < rq_storage_gb r" "row_get usr_id user (users d) \<noteq> None"
  shows "if quota_status q \<noteq> ''active''
         then create_my_vm vid oid now user r key d d = (Inl (HTTPException 403 ''user quota is suspended''), d)
         else if used_vms (get_user_compute_usage user d) + 1 \<le> max_vms p
            \<and> used_vcpus (get_user_compute_usage user d) + rq_vcpus r \<le> max_total_vcpus p
            \<and> used_memory_mb (get_user_compute_usage user d) + rq_memory_mb r \<le> max_total_memory_mb p
            \<and> used_storage_gb (get_user_compute_usage user d) + rq_storage_gb r \<le> max_total_storage_gb p
         then fst (create_my_vm vid oid now user r key d d) = Inr (new_vm vid now user r)
         else (\<exists>m. create_my_vm vid oid now user r key d d = (Inl (HTTPException 409 m), d))"
proof -
  have f: "\<exists>x. find (\<lambda>k. key_id k = rq_ssh_key r \<and> key_owner k = user) (ssh_keys d) = Some x"
    using assms(2,3,4) by (metis (mono_tags, lifting) find_None_iff option.exhaust)
  have e: "get_existing_vm_for_create_request (uuid_str key) user r d = Inr None"
    using assms(7) by (simp add: get_existing_vm_for_create_request_def)
  have k: "get_key (rq_ssh_key r) d \<noteq> None"
    using assms(2,3) by (auto simp: row_get_def find_None_iff)
  have "vmid_unique (vms d @ [new_vm vid now user r])"
    using assms(1) by (simp add: db_ok_def vmid_unique_def List.map_filter_def new_vm_def)
  then have fl: "flush_vm (new_vm vid now user r) d = Inr (d\<lparr>vms := vms d @ [new_vm vid now user r]\<rparr>)"
    using assms(8,12-15) k by (simp add: flush_vm_def new_vm_def vm_constraints_def vm_statuses_def)
  let ?op = "new_operation oid now vid ''vm.create'' (Some ''clone'') (uuid_str key)"
  have "\<exists>d2. flush_operation ?op (d\<lparr>vms := vms d @ [new_vm vid now user r]\<rparr>) = Inr d2"
    using assms(7-9)
    by (simp add: flush_operation_def new_operation_def operation_constraints_def operation_types_def
        row_get_append_new new_vm_def)
  with f e fl show ?thesis
    using assms(5,6,10,11)
    by (auto simp: create_my_vm_def create_vm_def create_checks_def validate_vm_quota_def Let_def)
qed

theorem create_accepts_what_fits_witness:
  "fst (create_my_vm 2 3 1000 1 ex_request 6 ex_db ex_db) = Inr ex_vm"
  using create_accepts_what_fits [OF ex_db_ok, of ex_key ex_request 1 "\<lparr>quota_user = 1, quota_plan = 5, quota_status = ''active''\<rparr>"
      ex_plan 6 2 3 10 1000]
  by (simp add: ex_defs row_get_Cons IMAGE_MIN_STORAGE_GB_def get_user_compute_usage_def)

section \<open>Operations on a machine\<close>

text \<open>
  C20. An operation is accepted only for a machine of the user: the answer is an operation of
  the requested type on that machine with this key; either it already existed and nothing is
  inserted, or it is inserted, pending, and then the machine was in a status that allows it and had
  no active operation. Otherwise nothing changes.
\<close>

theorem lifecycle_order_accepted:
  assumes "post_lifecycle action oid now user vid key seen d = (res, d')"
  shows "(\<exists>e. res = Inl e \<and> d' = d)
    \<or> (\<exists>T op. res = Inr op \<and> map_of lifecycle_endpoints action = Some T \<and> op_vm op = vid \<and> op_type op = T
         \<and> op_key op = uuid_str key
         \<and> ((d' = d \<and> op \<in> set (operations seen) \<union> set (operations d))
            \<or> (d' = d\<lparr>operations := operations d @ [op]\<rparr> \<and> op_status op = ''pending''
               \<and> (\<exists>v statuses. v \<in> set (vms seen) \<and> vm_id v = vid \<and> vm_owner v = user
                     \<and> allowed_statuses T = Some statuses \<and> vm_status v \<in> set statuses)
               \<and> (\<forall>q\<in>set (operations seen). op_vm q = vid \<longrightarrow> \<not> active q))))"
proof (cases "map_of lifecycle_endpoints action")
  case None
  with assms show ?thesis by (auto simp: post_lifecycle_def)
next
  case (Some T)
  note T = this
  let ?e = "enqueue_vm_operation oid now user vid T (uuid_str key) seen d"
  obtain r d1 where e: "?e = (r, d1)" by (cases ?e)
  show ?thesis
  proof (cases r)
    case (Inl x)
    with assms T e have "\<exists>y. res = Inl y" "d' = d"
      by (auto simp: post_lifecycle_def enqueue_lifecycle_operation_def split: exc.splits)
    then show ?thesis by (elim exE) simp
  next
    case (Inr op)
    then have r: "res = Inr op" "d' = d1"
      using assms T e by (simp_all add: post_lifecycle_def enqueue_lifecycle_operation_def)
    from e show ?thesis
    proof (cases rule: enqueue_cases)
      case (existing q)
      then have "q = op" using Inr by simp
      with existing r T Inr show ?thesis
        by (intro disjI2 exI [of _ T] exI [of _ op] conjI disjI1) simp_all
    next
      case (queued v statuses)
      then have op: "op = new_operation oid now vid T (if T = ''vm.reboot'' then Some ''shutdown'' else None) (uuid_str key)"
        using Inr by simp
      have "\<exists>v statuses. v \<in> set (vms seen) \<and> vm_id v = vid \<and> vm_owner v = user
                     \<and> allowed_statuses T = Some statuses \<and> vm_status v \<in> set statuses"
        using queued(3-7) by blast
      then show ?thesis
        unfolding r(1) r(2) using queued(2,8) T
        by (intro disjI2 exI [of _ T] exI [of _ op] conjI) (simp_all add: op new_operation_def)
    qed (use Inr in simp)
  qed
qed

definition ex_idle :: db where
  "ex_idle = ex_db\<lparr>vms := [ex_vm2\<lparr>vm_status := ''running''\<rparr>]\<rparr>"

definition ex_reboot :: Operation where
  "ex_reboot = new_operation 8 9000 2 ''vm.reboot'' (Some ''shutdown'') (uuid_str 5)"

lemma ex_post: "post_lifecycle ''reboot'' 8 9000 1 2 5 ex_idle ex_idle
    = (Inr ex_reboot, ex_idle\<lparr>operations := [ex_reboot]\<rparr>)"
  by (simp add: post_lifecycle_def lifecycle_endpoints_def enqueue_lifecycle_operation_def Let_def
      enqueue_vm_operation_def allowed_statuses_def ex_idle_def ex_reboot_def ex_defs new_vm_def row_get_def
      flush_operation_def new_operation_def operation_constraints_def operation_types_def)

theorem lifecycle_order_accepted_witness:
  "\<exists>T op. fst (post_lifecycle ''reboot'' 8 9000 1 2 5 ex_idle ex_idle) = Inr op
     \<and> map_of lifecycle_endpoints ''reboot'' = Some T \<and> op_vm op = 2 \<and> op_type op = T \<and> op_key op = uuid_str 5"
  using lifecycle_order_accepted [OF ex_post] ex_post by auto

text \<open>
  Nobody operates another user's machine: an order for a machine the user does not own, or
  that does not exist, is answered 404 and changes nothing.
\<close>

lemma foreign_machine_not_found:
  assumes "map_of lifecycle_endpoints action = Some T" "\<forall>v\<in>set (vms seen). vm_id v = vid \<longrightarrow> vm_owner v \<noteq> user"
  shows "post_lifecycle action oid now user vid key seen d = (Inl (HTTPException 404 ''virtual machine not found''), d)"
proof -
  have "find (\<lambda>v. vm_id v = vid \<and> vm_owner v = user) (vms seen) = None"
    using assms(2) by (auto simp: find_None_iff)
  moreover have "\<exists>statuses. allowed_statuses T = Some statuses"
    using assms(1) by (auto simp: lifecycle_endpoints_def allowed_statuses_def split: if_splits)
  ultimately show ?thesis
    using assms(1) by (auto simp: post_lifecycle_def enqueue_lifecycle_operation_def enqueue_vm_operation_def)
qed

section \<open>Reading\<close>

text \<open>
  The status of an operation is shown exactly to the owner of the machine it belongs to, under
  that machine's path: any other caller gets 404.
\<close>

lemma operation_status_is_private:
  assumes "db_ok d"
  shows "operation_status user vid oid d =
    (case get_op oid d of
       None \<Rightarrow> Inl (HTTPException 404 ''Operation not found'')
     | Some op \<Rightarrow> if op_vm op = vid \<and> (\<exists>v\<in>set (vms d). vm_id v = vid \<and> vm_owner v = user)
                  then Inr op else Inl (HTTPException 404 ''Operation not found''))"
proof -
  let ?c = "\<lambda>q. list_ex (\<lambda>v. vm_id v = vid \<and> q = vm_id v \<and> vm_owner v = user) (vms d)"
  have d: "distinct (map op_id (operations d))"
    using assms by (simp add: db_ok_def)
  have c: "?c q \<longleftrightarrow> q = vid \<and> (\<exists>v\<in>set (vms d). vm_id v = vid \<and> vm_owner v = user)" for q
    by (auto simp: list_ex_iff)
  show ?thesis
  proof (cases "get_op oid d")
    case None
    then have "find (\<lambda>op. op_id op = oid \<and> ?c (op_vm op)) (operations d) = None"
      by (auto simp: row_get_def find_None_iff)
    with None show ?thesis by (simp add: operation_status_def)
  next
    case (Some op)
    then have op: "op \<in> set (operations d)" "op_id op = oid"
      by (auto dest: row_get_SomeD)
    then have u: "q = op" if "q \<in> set (operations d)" "op_id q = oid" for q
      using that d by (simp add: distinct_map inj_on_def)
    show ?thesis
    proof (cases "find (\<lambda>op. op_id op = oid \<and> ?c (op_vm op)) (operations d)")
      case None
      with op have "\<not> ?c (op_vm op)"
        by (auto simp: find_None_iff)
      with None Some c show ?thesis by (simp add: operation_status_def)
    next
      case (Some q)
      from find_SomeD [OF Some] have "q = op" "?c (op_vm op)"
        using u by auto
      with Some \<open>get_op oid d = Some op\<close> c show ?thesis by (simp add: operation_status_def)
    qed
  qed
qed

text \<open>
  The list of machines shows a user all of the user's own machines and no other, newest first.
\<close>

lemma my_vms_lists_own:
  "set (my_vms user d) = {v \<in> set (vms d). vm_owner v = user}
   \<and> length (my_vms user d) = length (filter (\<lambda>v. vm_owner v = user) (vms d))
   \<and> sorted_wrt (\<lambda>v w. vm_created w \<le> vm_created v) (my_vms user d)"
proof (intro conjI)
  have "sorted (map (\<lambda>v. - vm_created v) (my_vms user d))"
    by (simp add: my_vms_def)
  then show "sorted_wrt (\<lambda>v w. vm_created w \<le> vm_created v) (my_vms user d)"
    by (simp add: sorted_map)
qed (auto simp: my_vms_def)

text \<open>
  The quota report adds up in every reachable state: each limit is what is used plus what
  remains, and nothing that remains is negative.
\<close>

lemma quota_report_adds_up:
  assumes "initial y\<^sub>0" "reachable A y\<^sub>0 y" "get_quota u (y_db y) = Inr rep"
  shows "rep_usage rep = \<lparr>am_vms = am_vms (rep_limits rep) - am_vms (rep_remaining rep),
           am_vcpus = am_vcpus (rep_limits rep) - am_vcpus (rep_remaining rep),
           am_memory_mb = am_memory_mb (rep_limits rep) - am_memory_mb (rep_remaining rep),
           am_storage_gb = am_storage_gb (rep_limits rep) - am_storage_gb (rep_remaining rep),
           am_shared_storage_gb = 0\<rparr>
     \<and> 0 \<le> am_vms (rep_remaining rep) \<and> 0 \<le> am_vcpus (rep_remaining rep)
     \<and> 0 \<le> am_memory_mb (rep_remaining rep) \<and> 0 \<le> am_storage_gb (rep_remaining rep)
     \<and> 0 \<le> am_vms (rep_usage rep)"
proof -
  have ok: "quota_ok (y_db y)"
    using reachable_ok [OF assms(2,1)] by (simp add: sys_ok_def)
  from assms(3) obtain q p where q: "row_get quota_user u (quotas (y_db y)) = Some q"
      "row_get plan_id (quota_plan q) (plans (y_db y)) = Some p"
    by (auto simp: get_quota_def split: option.splits)
  from row_get_SomeD [OF q(1)] have "q \<in> set (quotas (y_db y))" "quota_user q = u"
    by auto
  then have "fits_plan (get_user_compute_usage u (y_db y)) p"
    using ok q by (auto simp: quota_ok_def)
  moreover have "0 \<le> used_vms (get_user_compute_usage u (y_db y))"
    by (simp add: get_user_compute_usage_def usage_of_def Let_def)
  ultimately show ?thesis
    using assms(3) q by (auto simp: get_quota_def fits_plan_def Let_def)
qed

text \<open>
  A create request that validation lets through asks for positive amounts and names an image
  of 1 to 100 characters that begins with a lower-case letter or a digit and continues with
  those or \<open>. _ -\<close>; validation changes nothing but the blanks around the image's name.
\<close>

lemma validated_request:
  assumes "validate_vm_create r = Some r'"
  shows "r' = r\<lparr>rq_image_id := strip (rq_image_id r)\<rparr> \<and> 0 < rq_vcpus r' \<and> 0 < rq_memory_mb r' \<and> 0 < rq_storage_gb r'
     \<and> 1 \<le> length (rq_image_id r') \<and> length (rq_image_id r') \<le> 100 \<and> is_lower_alnum (rq_image_id r' ! 0)
     \<and> (\<forall>c\<in>set (rq_image_id r'). is_lower_alnum c \<or> c \<in> {CHR ''.'', CHR ''_'', CHR ''-''})"
proof -
  let ?i = "strip (rq_image_id r)"
  have r': "r' = r\<lparr>rq_image_id := ?i\<rparr>" and i: "image_id_ok ?i"
      and p: "0 < rq_vcpus r" "0 < rq_memory_mb r" "0 < rq_storage_gb r"
    using assms by (auto simp: validate_vm_create_def Let_def split: if_splits)
  show ?thesis
    using i p unfolding r' by (cases ?i) (auto simp: image_id_ok_def list_all_iff)
qed

end
