(* ===== verification/Client.thy ===== *)
theory Client
  imports Transport
begin

text \<open>
  The Proxmox API client (portal/app/proxmox/client.py), over an HTTP transport \<open>H\<close> that is a
  parameter. The text of an exception leaves out the repr of the JSON value it ends in.
\<close>

section \<open>Construction and the common request\<close>

record HttpOptions =
  opt_base_url :: string
  opt_headers :: "(string \<times> string) list"
  opt_verify :: string
  opt_timeout :: rat
  opt_follow_redirects :: bool
  opt_trust_env :: bool

definition rstrip_slash :: "string \<Rightarrow> string" where
  "rstrip_slash s = rev (dropWhile (\<lambda>c. c = CHR ''/'') (rev s))"

definition client_options :: "string \<Rightarrow> string \<Rightarrow> string \<Rightarrow> string \<Rightarrow> rat \<Rightarrow> HttpOptions" where
  "client_options api_url tok_id tok_secret ca_file timeout =
     \<lparr>opt_base_url = rstrip_slash api_url @ ''/'',
      opt_headers = [(''Accept'', ''application/json''),
                     (''Authorization'', ''PVEAPIToken='' @ tok_id @ ''='' @ tok_secret)],
      opt_verify = ca_file, opt_timeout = timeout, opt_follow_redirects = False, opt_trust_env = False\<rparr>"

text \<open>What \<open>_request_data\<close> makes of a response.\<close>

definition response_data :: "HttpResponse \<Rightarrow> exc + json" where
  "response_data response =
     (case raise_for_status response of
        Inl e \<Rightarrow> Inl e
      | Inr _ \<Rightarrow>
         (case response_json response of
            Inl e \<Rightarrow> Inl e
          | Inr body \<Rightarrow>
             (case body of
                JObj d \<Rightarrow>
                  (case map_of d ''data'' of
                     None \<Rightarrow> Inl (RuntimeError ''Proxmox response has no data field'')
                   | Some v \<Rightarrow> Inr v)
              | _ \<Rightarrow> Inl (RuntimeError ''invalid Proxmox response body''))))"

definition request_data ::
  "'n http \<Rightarrow> string \<Rightarrow> string \<Rightarrow> fields option \<Rightarrow> fields option \<Rightarrow> ('n, json) py" where
  "request_data H method url data params =
     py_bind (H \<lparr>hr_method = method, hr_url = url, hr_data = data, hr_params = params\<rparr>)
       (\<lambda>response. py_lift (response_data response))"

text \<open>The check that every command applies to its answer.\<close>

definition upid_of :: "string \<Rightarrow> json \<Rightarrow> exc + string" where
  "upid_of what v =
     (case v of
        JStr upid \<Rightarrow> if starts_with ''UPID:'' upid then Inr upid
                    else Inl (ValueError (''Invalid Proxmox '' @ what @ '' response''))
      | _ \<Rightarrow> Inl (ValueError (''Invalid Proxmox '' @ what @ '' response'')))"

definition vm_path :: "string \<Rightarrow> int \<Rightarrow> string" where
  "vm_path node vmid = ''nodes/'' @ node @ ''/qemu/'' @ int_str vmid"

section \<open>Queries\<close>

definition get_version :: "'n http \<Rightarrow> ('n, fields) py" where
  "get_version H = py_bind (request_data H ''GET'' ''version'' None None) (\<lambda>data.
     case data of JObj d \<Rightarrow> py_ret d
     | _ \<Rightarrow> py_raise (ValueError ''Invalid Proxmox version response''))"

definition get_nodes :: "'n http \<Rightarrow> ('n, json list) py" where
  "get_nodes H = py_bind (request_data H ''GET'' ''nodes'' None None) (\<lambda>data.
     case data of JList xs \<Rightarrow> py_ret xs
     | _ \<Rightarrow> py_raise (ValueError ''Invalid Proxmox nodes response''))"

definition get_next_vmid :: "'n http \<Rightarrow> ('n, int) py" where
  "get_next_vmid H = py_bind (request_data H ''GET'' ''cluster/nextid'' None None) (\<lambda>data.
     case data of
       JStr s \<Rightarrow>
         (case py_int 10 s of
            None \<Rightarrow> py_raise (ValueError (''Invalid Proxmox next VMID value: '' @ s))
          | Some vmid \<Rightarrow>
              if vmid \<le> 0 then py_raise (ValueError (''Invalid Proxmox next VMID value: '' @ int_str vmid))
              else py_ret vmid)
     | _ \<Rightarrow> py_raise (ValueError ''Invalid Proxmox next VMID response''))"

definition task_status_path :: "string \<Rightarrow> string \<Rightarrow> string" where
  "task_status_path node upid = ''nodes/'' @ node @ ''/tasks/'' @ quote upid @ ''/status''"

definition client_get_task_status :: "'n http \<Rightarrow> string \<Rightarrow> string \<Rightarrow> ('n, fields) py" where
  "client_get_task_status H node upid =
     py_bind (request_data H ''GET'' (task_status_path node upid) None None) (\<lambda>data.
       case data of
         JObj d \<Rightarrow>
           (case dict_get ''status'' d of
              JStr _ \<Rightarrow> py_ret d
            | _ \<Rightarrow> py_raise (ValueError ''Invalid Proxmox status request response''))
       | _ \<Rightarrow> py_raise (ValueError ''Invalid Proxmox status request response''))"

text \<open>\<open>all(isinstance(resource, dict) ...)\<close> and the list of the dictionaries.\<close>

fun all_dicts :: "json list \<Rightarrow> fields list option" where
  "all_dicts [] = Some []"
| "all_dicts (JObj d # xs) = map_option (\<lambda>ds. d # ds) (all_dicts xs)"
| "all_dicts (_ # xs) = None"

definition list_vm_resources :: "'n http \<Rightarrow> ('n, fields list) py" where
  "list_vm_resources H =
     py_bind (request_data H ''GET'' ''cluster/resources'' None (Some [(''type'', JStr ''vm'')])) (\<lambda>resources.
       case resources of
         JList xs \<Rightarrow>
           (case all_dicts xs of
              None \<Rightarrow> py_raise (ValueError ''Invalid VM resource in Proxmox response'')
            | Some ds \<Rightarrow> py_ret ds)
       | _ \<Rightarrow> py_raise (ValueError ''Invalid Proxmox cluster/resources response''))"

text \<open>The loop of \<open>find_vm_resource\<close>.\<close>

fun vmid_matches :: "int \<Rightarrow> fields list \<Rightarrow> exc + fields list" where
  "vmid_matches vmid [] = Inr []"
| "vmid_matches vmid (resource # rest) =
     (let resource_vmid = dict_get ''vmid'' resource in
      if \<not> is_int resource_vmid then Inl (ValueError ''Invalid VMID in Proxmox resource'')
      else (case vmid_matches vmid rest of
              Inl e \<Rightarrow> Inl e
            | Inr ms \<Rightarrow> Inr (if eq_int resource_vmid vmid then resource # ms else ms)))"

definition find_vm_resource :: "'n http \<Rightarrow> int \<Rightarrow> ('n, fields option) py" where
  "find_vm_resource H vmid =
     (if vmid \<le> 0 then py_raise (ValueError ''VMID must be positive'')
      else py_bind (list_vm_resources H) (\<lambda>resources.
        py_bind (py_lift (vmid_matches vmid resources)) (\<lambda>matches.
          if length matches > 1
          then py_raise (RuntimeError (''Proxmox returned multiple resources with VMID '' @ int_str vmid))
          else (case matches of [] \<Rightarrow> py_ret None | m # _ \<Rightarrow> py_ret (Some m)))))"

definition get_vm_current_status :: "'n http \<Rightarrow> string \<Rightarrow> int \<Rightarrow> ('n, fields) py" where
  "get_vm_current_status H node vmid =
     py_bind (request_data H ''GET'' (vm_path node vmid @ ''/status/current'') None None) (\<lambda>data.
       case data of
         JObj d \<Rightarrow>
           if \<not> eq_int (dict_get ''vmid'' d) vmid
           then py_raise (ValueError ''Proxmox returned status for another VM'')
           else py_ret d
       | _ \<Rightarrow> py_raise (ValueError ''Invalid Proxmox VM status response''))"

section \<open>Commands\<close>

record CloneArgs =
  ca_source_node :: string
  ca_target_node :: string
  ca_template_vmid :: int
  ca_new_vmid :: int
  ca_name :: string
  ca_storage :: string
  ca_pool :: string

definition client_clone_vm :: "'n http \<Rightarrow> CloneArgs \<Rightarrow> ('n, string) py" where
  "client_clone_vm H a =
     py_bind (request_data H ''POST'' (vm_path (ca_source_node a) (ca_template_vmid a) @ ''/clone'')
         (Some [(''newid'', JInt (ca_new_vmid a)), (''name'', JStr (ca_name a)), (''full'', JInt 1),
                (''storage'', JStr (ca_storage a)), (''pool'', JStr (ca_pool a)),
                (''target'', JStr (ca_target_node a))]) None)
       (\<lambda>v. py_lift (upid_of ''clone request'' v))"

record ConfigureArgs =
  cf_vcpus :: int
  cf_memory_mb :: int
  cf_cloud_init_user :: string
  cf_ipconfig0 :: string
  cf_nameserver :: string
  cf_search_domain :: string
  cf_ssh_public_key :: string
  cf_tags :: string

definition client_configure_vm :: "'n http \<Rightarrow> string \<Rightarrow> int \<Rightarrow> ConfigureArgs \<Rightarrow> ('n, string option) py" where
  "client_configure_vm H node vmid a =
     py_bind (request_data H ''POST'' (vm_path node vmid @ ''/config'')
         (Some [(''cores'', JInt (cf_vcpus a)), (''memory'', JInt (cf_memory_mb a)),
                (''ciuser'', JStr (cf_cloud_init_user a)), (''ipconfig0'', JStr (cf_ipconfig0 a)),
                (''nameserver'', JStr (cf_nameserver a)), (''searchdomain'', JStr (cf_search_domain a)),
                (''sshkeys'', JStr (quote (cf_ssh_public_key a))), (''protection'', JInt 0),
                (''tags'', JStr (cf_tags a))]) None)
       (\<lambda>v. if v = JNull then py_ret None
            else py_bind (py_lift (upid_of ''configure VM'' v)) (\<lambda>upid. py_ret (Some upid)))"

definition client_resize_vm_disk :: "'n http \<Rightarrow> string \<Rightarrow> int \<Rightarrow> string \<Rightarrow> int \<Rightarrow> ('n, string) py" where
  "client_resize_vm_disk H node vmid disk size_gb =
     (if size_gb \<le> 0 then py_raise (ValueError ''disk size must be positive'')
      else py_bind (request_data H ''PUT'' (vm_path node vmid @ ''/resize'')
          (Some [(''disk'', JStr disk), (''size'', JStr (int_str size_gb @ ''G''))]) None)
        (\<lambda>v. py_lift (upid_of ''resize VM disk'' v)))"

definition client_start_vm :: "'n http \<Rightarrow> string \<Rightarrow> int \<Rightarrow> ('n, string) py" where
  "client_start_vm H node vmid =
     py_bind (request_data H ''POST'' (vm_path node vmid @ ''/status/start'') None None)
       (\<lambda>v. py_lift (upid_of ''start VM'' v))"

definition client_shutdown_vm :: "'n http \<Rightarrow> string \<Rightarrow> int \<Rightarrow> int \<Rightarrow> ('n, string) py" where
  "client_shutdown_vm H node vmid timeout_seconds =
     py_bind (request_data H ''POST'' (vm_path node vmid @ ''/status/shutdown'')
         (Some [(''timeout'', JInt timeout_seconds), (''forceStop'', JInt 0)]) None)
       (\<lambda>v. py_lift (upid_of ''shutdown VM'' v))"

definition client_stop_vm :: "'n http \<Rightarrow> string \<Rightarrow> int \<Rightarrow> ('n, string) py" where
  "client_stop_vm H node vmid =
     py_bind (request_data H ''POST'' (vm_path node vmid @ ''/status/stop'') None None)
       (\<lambda>v. py_lift (upid_of ''stop VM'' v))"

definition client_delete_vm :: "'n http \<Rightarrow> string \<Rightarrow> int \<Rightarrow> ('n, string) py" where
  "client_delete_vm H node vmid =
     py_bind (request_data H ''DELETE'' (vm_path node vmid) None (Some [(''purge'', JInt 1)]))
       (\<lambda>v. py_lift (upid_of ''delete VM'' v))"

definition client_reboot_vm :: "'n http \<Rightarrow> string \<Rightarrow> int \<Rightarrow> int \<Rightarrow> ('n, string) py" where
  "client_reboot_vm H node vmid timeout_seconds =
     py_bind (request_data H ''POST'' (vm_path node vmid @ ''/status/reboot'')
         (Some [(''timeout'', JInt timeout_seconds)]) None)
       (\<lambda>v. py_lift (upid_of ''reboot VM'' v))"

end
