(* ===== verification/HttpAdapter.thy ===== *)
theory HttpAdapter
  imports Contracts Client
begin

text \<open>
  The adapter that talks to Proxmox (portal/app/proxmox/http_adapter.py). Its instance
  variables other than the client are a record; the client is its HTTP transport. It keeps the
  provider contract, whatever the other side answers.
\<close>

section \<open>Configuration\<close>

record HttpConfig =
  ad_target_node :: string
  ad_pool :: string
  ad_template_node :: string
  ad_template_vmid :: int
  ad_template_image_id :: string
  ad_storage :: string
  ad_cloud_init_user :: string
  ad_ipconfig0 :: string
  ad_nameserver :: string
  ad_search_domain :: string

definition vm_name :: "uuid \<Rightarrow> string" where
  "vm_name u = ''npd-'' @ uuid_str u"

definition vmid_text :: "int \<Rightarrow> string" where
  "vmid_text vmid = ''VMID '' @ int_str vmid"

section \<open>Whose machine it is\<close>

definition http_choose_clone_target :: "HttpConfig \<Rightarrow> 'n http \<Rightarrow> CreateVmRequest \<Rightarrow> ('n, ProviderPlacement) py" where
  "http_choose_clone_target cfg H request =
     py_bind (get_next_vmid H) (\<lambda>vmid. py_ret \<lparr>place_node = ad_target_node cfg, place_vmid = vmid\<rparr>)"

definition owned_resource :: "HttpConfig \<Rightarrow> uuid \<Rightarrow> string \<Rightarrow> int \<Rightarrow> fields \<Rightarrow> exc + fields" where
  "owned_resource cfg u node vmid resource =
     (if dict_get ''type'' resource \<noteq> JStr ''qemu''
        then Inl (ProviderResourceConflictError (vmid_text vmid @ '' belongs to a non-QEMU resource''))
      else if dict_get ''name'' resource \<noteq> JStr (vm_name u)
        then Inl (ProviderResourceConflictError (vmid_text vmid @ '' has unexpected name''))
      else if dict_get ''pool'' resource \<noteq> JStr (ad_pool cfg)
        then Inl (ProviderResourceConflictError (vmid_text vmid @ '' belongs to another pool''))
      else if dict_get ''node'' resource \<noteq> JStr node
        then Inl (ProviderResourceConflictError (vmid_text vmid @ '' belongs to another node''))
      else Inr resource)"

definition find_owned_vm_resource ::
  "HttpConfig \<Rightarrow> 'n http \<Rightarrow> uuid \<Rightarrow> string \<Rightarrow> int \<Rightarrow> ('n, fields option) py" where
  "find_owned_vm_resource cfg H u node vmid =
     py_bind (find_vm_resource H vmid) (\<lambda>found.
       case found of
         None \<Rightarrow> py_ret None
       | Some resource \<Rightarrow>
           py_bind (py_lift (owned_resource cfg u node vmid resource)) (\<lambda>r. py_ret (Some r)))"

definition new_task :: "string \<Rightarrow> string \<Rightarrow> int \<Rightarrow> ProviderTask" where
  "new_task upid node vmid = \<lparr>task_id = upid, task_vmid = vmid, task_node = node\<rparr>"

section \<open>Methods\<close>

definition http_clone_vm ::
  "HttpConfig \<Rightarrow> 'n http \<Rightarrow> CreateVmRequest \<Rightarrow> string \<Rightarrow> int \<Rightarrow> ('n, ProviderCloneResult) py" where
  "http_clone_vm cfg H request node vmid =
     (if node \<noteq> ad_target_node cfg then py_raise (ValueError ''unexpected Proxmox target node'')
      else if req_image_id request \<noteq> ad_template_image_id cfg
        then py_raise (ValueError (''unsupported VM image: '' @ req_image_id request))
      else
        py_bind (find_owned_vm_resource cfg H (req_vm_id request) node vmid) (\<lambda>found.
          case found of
            Some resource \<Rightarrow>
              (let lock = dict_get ''lock'' resource in
               if lock = JStr ''clone'' then py_ret \<lparr>clone_state = ''in_progress'', clone_task = None\<rparr>
               else if lock \<noteq> JNull
                 then py_raise (ProviderResourceConflictError (vmid_text vmid @ '' has unexpected lock''))
               else py_ret \<lparr>clone_state = ''succeeded'', clone_task = None\<rparr>)
          | None \<Rightarrow>
              py_bind (client_clone_vm H
                  \<lparr>ca_source_node = ad_template_node cfg, ca_target_node = node,
                   ca_template_vmid = ad_template_vmid cfg, ca_new_vmid = vmid,
                   ca_name = vm_name (req_vm_id request), ca_storage = ad_storage cfg, ca_pool = ad_pool cfg\<rparr>)
                (\<lambda>upid. py_ret \<lparr>clone_state = ''submitted'', clone_task = Some (new_task upid node vmid)\<rparr>)))"

definition http_get_task_status :: "HttpConfig \<Rightarrow> 'n http \<Rightarrow> ProviderTask \<Rightarrow> ('n, ProviderTaskStatus) py" where
  "http_get_task_status cfg H task =
     py_bind (client_get_task_status H (task_node task) (task_id task)) (\<lambda>data.
       if dict_get ''upid'' data \<noteq> JStr (task_id task)
         then py_raise (RuntimeError ''Proxmox returned status for another task'')
       else
         (let status = dict_get ''status'' data in
          if status = JStr ''running'' then py_ret \<lparr>ts_status = ''running'', ts_error_code = None\<rparr>
          else if status \<noteq> JStr ''stopped'' then py_raise (RuntimeError ''unknown Proxmox task status'')
          else
            (case dict_get ''exitstatus'' data of
               JStr exit_status \<Rightarrow>
                 if exit_status = ''OK'' then py_ret \<lparr>ts_status = ''succeeded'', ts_error_code = None\<rparr>
                 else py_ret \<lparr>ts_status = ''failed'', ts_error_code = Some ''proxmox_task_failed''\<rparr>
             | _ \<Rightarrow> py_raise (RuntimeError ''finished Proxmox task has no exit status''))))"

text \<open>The owned resource, unlocked; the two ways to say that it is not there or locked.\<close>

definition unlocked_resource ::
  "HttpConfig \<Rightarrow> 'n http \<Rightarrow> uuid \<Rightarrow> string \<Rightarrow> int \<Rightarrow> string \<Rightarrow> ('n, unit) py" where
  "unlocked_resource cfg H u node vmid suffix =
     py_bind (find_owned_vm_resource cfg H u node vmid) (\<lambda>found.
       case found of
         None \<Rightarrow> py_raise (RuntimeError (vmid_text vmid @ '' is missing'' @ suffix))
       | Some resource \<Rightarrow>
           if dict_get ''lock'' resource \<noteq> JNull
           then py_raise (RuntimeError (vmid_text vmid @ '' is locked'' @ suffix))
           else py_ret ())"

definition http_configure_vm ::
  "HttpConfig \<Rightarrow> 'n http \<Rightarrow> CreateVmRequest \<Rightarrow> string \<Rightarrow> int \<Rightarrow> ('n, ProviderTask option) py" where
  "http_configure_vm cfg H request node vmid =
     (if node \<noteq> ad_target_node cfg then py_raise (ValueError ''unexpected Proxmox target node'')
      else
        py_bind (unlocked_resource cfg H (req_vm_id request) node vmid '' before configuration'') (\<lambda>_.
        py_bind (client_configure_vm H node vmid
            \<lparr>cf_vcpus = req_vcpus request, cf_memory_mb = req_memory_mb request,
             cf_cloud_init_user = ad_cloud_init_user cfg, cf_ipconfig0 = ad_ipconfig0 cfg,
             cf_nameserver = ad_nameserver cfg, cf_search_domain = ad_search_domain cfg,
             cf_ssh_public_key = req_ssh_public_key request,
             cf_tags = ''npd-portal;npd-'' @ uuid_str (req_vm_id request)\<rparr>)
          (\<lambda>upid. py_ret (map_option (\<lambda>t. new_task t node vmid) upid))))"

definition http_resize_vm_disk ::
  "HttpConfig \<Rightarrow> 'n http \<Rightarrow> CreateVmRequest \<Rightarrow> string \<Rightarrow> int \<Rightarrow> ('n, ProviderTask option) py" where
  "http_resize_vm_disk cfg H request node vmid =
     (if node \<noteq> ad_target_node cfg then py_raise (ValueError ''unexpected Proxmox target node'')
      else
        py_bind (unlocked_resource cfg H (req_vm_id request) node vmid '' before disk resize'') (\<lambda>_.
        py_bind (get_vm_current_status H node vmid) (\<lambda>vm_status.
          case dict_get ''maxdisk'' vm_status of
            JInt current_size_bytes \<Rightarrow>
              if current_size_bytes \<le> 0
                then py_raise (RuntimeError (vmid_text vmid @ '' has invalid disk size''))
              else if current_size_bytes > req_storage_gb request * 1024 ^ 3
                then py_raise (RuntimeError (vmid_text vmid @ '' disk is larger than requested''))
              else if current_size_bytes = req_storage_gb request * 1024 ^ 3 then py_ret None
              else py_bind (client_resize_vm_disk H node vmid ''scsi0'' (req_storage_gb request))
                     (\<lambda>upid. py_ret (Some (new_task upid node vmid)))
          | _ \<Rightarrow> py_raise (RuntimeError (vmid_text vmid @ '' has invalid disk size'')))))"

text \<open>\<open>current_status not in {"running", "stopped"}\<close> raises.\<close>

definition run_status :: "int \<Rightarrow> fields \<Rightarrow> exc + string" where
  "run_status vmid vm_status =
     (case in_str_set (dict_get ''status'' vm_status) [''running'', ''stopped''] of
        Inl e \<Rightarrow> Inl e
      | Inr known \<Rightarrow>
         (case dict_get ''status'' vm_status of
            JStr s \<Rightarrow> if known then Inr s else Inl (RuntimeError (vmid_text vmid @ '' has unexpected status''))
          | _ \<Rightarrow> Inl (RuntimeError (vmid_text vmid @ '' has unexpected status''))))"

definition http_get_vm_power_state ::
  "HttpConfig \<Rightarrow> 'n http \<Rightarrow> uuid \<Rightarrow> string \<Rightarrow> int \<Rightarrow> ('n, ProviderVmState) py" where
  "http_get_vm_power_state cfg H u node vmid =
     (if node \<noteq> ad_target_node cfg then py_raise (ValueError ''unexpected Proxmox target node'')
      else
        py_bind (find_owned_vm_resource cfg H u node vmid) (\<lambda>found.
          case found of
            None \<Rightarrow> py_ret \<lparr>power_status = ''missing'', power_locked = False\<rparr>
          | Some resource \<Rightarrow>
              py_bind (get_vm_current_status H node vmid) (\<lambda>vm_status.
              py_bind (py_lift (run_status vmid vm_status)) (\<lambda>current_status.
                py_ret \<lparr>power_status = current_status,
                  power_locked = (dict_get ''lock'' resource \<noteq> JNull \<or> dict_get ''lock'' vm_status \<noteq> JNull)\<rparr>))))"

definition http_start_vm :: "HttpConfig \<Rightarrow> 'n http \<Rightarrow> uuid \<Rightarrow> string \<Rightarrow> int \<Rightarrow> ('n, ProviderTask option) py" where
  "http_start_vm cfg H u node vmid =
     py_bind (http_get_vm_power_state cfg H u node vmid) (\<lambda>state.
       if power_locked state then py_raise (RuntimeError (vmid_text vmid @ '' is locked before start''))
       else if power_status state = ''running'' then py_ret None
       else if power_status state \<noteq> ''stopped''
         then py_raise (RuntimeError (vmid_text vmid @ '' has unexpected status before start: '' @ power_status state))
       else py_bind (client_start_vm H node vmid) (\<lambda>upid. py_ret (Some (new_task upid node vmid))))"

definition get_owned_vm_status :: "HttpConfig \<Rightarrow> 'n http \<Rightarrow> uuid \<Rightarrow> string \<Rightarrow> int \<Rightarrow> ('n, string) py" where
  "get_owned_vm_status cfg H u node vmid =
     py_bind (unlocked_resource cfg H u node vmid []) (\<lambda>_.
     py_bind (get_vm_current_status H node vmid) (\<lambda>vm_status. py_lift (run_status vmid vm_status)))"

definition http_shutdown_vm :: "HttpConfig \<Rightarrow> 'n http \<Rightarrow> uuid \<Rightarrow> string \<Rightarrow> int \<Rightarrow> ('n, ProviderTask option) py" where
  "http_shutdown_vm cfg H u node vmid =
     py_bind (get_owned_vm_status cfg H u node vmid) (\<lambda>current_status.
       if current_status = ''stopped'' then py_ret None
       else py_bind (client_shutdown_vm H node vmid 60) (\<lambda>upid. py_ret (Some (new_task upid node vmid))))"

definition http_stop_vm :: "HttpConfig \<Rightarrow> 'n http \<Rightarrow> uuid \<Rightarrow> string \<Rightarrow> int \<Rightarrow> ('n, ProviderTask option) py" where
  "http_stop_vm cfg H u node vmid =
     py_bind (get_owned_vm_status cfg H u node vmid) (\<lambda>current_status.
       if current_status = ''stopped'' then py_ret None
       else py_bind (client_stop_vm H node vmid) (\<lambda>upid. py_ret (Some (new_task upid node vmid))))"

definition http_delete_vm :: "HttpConfig \<Rightarrow> 'n http \<Rightarrow> uuid \<Rightarrow> string \<Rightarrow> int \<Rightarrow> ('n, ProviderDeleteResult) py" where
  "http_delete_vm cfg H u node vmid =
     (if node \<noteq> ad_target_node cfg then py_raise (ValueError ''unexpected Proxmox target node'')
      else
        py_bind (find_owned_vm_resource cfg H u node vmid) (\<lambda>found.
          case found of
            None \<Rightarrow> py_ret \<lparr>delete_state = ''succeeded'', delete_task = None\<rparr>
          | Some resource \<Rightarrow>
              if dict_get ''lock'' resource \<noteq> JNull
              then py_ret \<lparr>delete_state = ''in_progress'', delete_task = None\<rparr>
              else
                py_bind (get_vm_current_status H node vmid) (\<lambda>vm_status.
                  if dict_get ''status'' vm_status \<noteq> JStr ''stopped''
                  then py_raise (RuntimeError (vmid_text vmid @ '' must be stopped before delete''))
                  else py_bind (client_delete_vm H node vmid) (\<lambda>upid.
                    py_ret \<lparr>delete_state = ''submitted'', delete_task = Some (new_task upid node vmid)\<rparr>))))"

definition HttpProxmoxAdapter :: "HttpConfig \<Rightarrow> 'n http \<Rightarrow> 'n ProxmoxAdapter" where
  "HttpProxmoxAdapter cfg H =
     \<lparr>get_vm_power_state = http_get_vm_power_state cfg H,
      choose_clone_target = http_choose_clone_target cfg H,
      get_task_status = http_get_task_status cfg H,
      clone_vm = http_clone_vm cfg H,
      configure_vm = http_configure_vm cfg H,
      resize_vm_disk = http_resize_vm_disk cfg H,
      start_vm = http_start_vm cfg H,
      shutdown_vm = http_shutdown_vm cfg H,
      stop_vm = http_stop_vm cfg H,
      delete_vm = http_delete_vm cfg H\<rparr>"

section \<open>It keeps the contract\<close>

lemma new_task_fields [simp]:
  "task_id (new_task upid node vmid) = upid" "task_vmid (new_task upid node vmid) = vmid"
  "task_node (new_task upid node vmid) = node"
  by (simp_all add: new_task_def)

lemma run_status_values: "run_status vmid d = Inr s \<Longrightarrow> s = ''running'' \<or> s = ''stopped''"
  by (auto simp: run_status_def split: sum.splits json.splits if_splits)

lemma http_clone_wf: "returns (http_clone_vm cfg H request node vmid) (clone_wf node vmid)"
  unfolding http_clone_vm_def Let_def by (intro returns_rules) (simp_all add: clone_wf_def)

lemma http_delete_wf: "returns (http_delete_vm cfg H u node vmid) (delete_wf node vmid)"
  unfolding http_delete_vm_def by (intro returns_rules) (simp_all add: delete_wf_def)

lemma targets_new_task: "targets node vmid (map_option (\<lambda>t. new_task t node vmid) upid)"
  by (simp add: targets_def split: option.split)

lemma http_task_targets:
  "returns (http_configure_vm cfg H request node vmid) (targets node vmid)"
  "returns (http_resize_vm_disk cfg H request node vmid) (targets node vmid)"
  "returns (http_start_vm cfg H u node vmid) (targets node vmid)"
  "returns (http_shutdown_vm cfg H u node vmid) (targets node vmid)"
  "returns (http_stop_vm cfg H u node vmid) (targets node vmid)"
  unfolding http_configure_vm_def http_resize_vm_disk_def http_start_vm_def http_shutdown_vm_def http_stop_vm_def
  by (intro returns_rules targets_new_task; simp split: json.split; intro conjI allI impI returns_rules; simp)+

lemma http_task_status_values:
  "returns (http_get_task_status cfg H t) (\<lambda>st. ts_status st \<in> {''running'', ''succeeded'', ''failed''})"
  unfolding http_get_task_status_def Let_def
  by (intro returns_rules; simp split: json.split; intro conjI allI impI returns_rules; simp)+

lemma http_power_values:
  "returns (http_get_vm_power_state cfg H u node vmid)
     (\<lambda>pw. power_status pw \<in> {''running'', ''stopped'', ''missing''})"
  unfolding http_get_vm_power_state_def
  by (intro returns_if returns_raise returns_bind [where m = "find_owned_vm_resource cfg H u node vmid"]
      returns_option returns_ret returns_bind [where m = "get_vm_current_status H node vmid"]
      returns_bind_value [OF returns_lift [OF run_status_values]]) auto

interpretation http: provider_contract "HttpProxmoxAdapter cfg H" "\<lambda>_. True"
  by unfold_locales
    (simp_all add: HttpProxmoxAdapter_def returnsD [OF http_clone_wf] returnsD [OF http_delete_wf]
      returnsD [OF http_task_targets(1)] returnsD [OF http_task_targets(2)] returnsD [OF http_task_targets(3)]
      returnsD [OF http_task_targets(4)] returnsD [OF http_task_targets(5)]
      returnsD [OF http_task_status_values, simplified] returnsD [OF http_power_values, simplified])

end
