(* ===== verification/HttpSafety.thy ===== *)
theory HttpSafety
  imports System HttpAdapter
begin

text \<open>
  What the HTTP adapter sends. Whatever Proxmox answers, a command of the worker costs at most one
  request that is not a GET; it is the last one, and it goes to the machine's own path only after
  the cluster's resource list has shown a machine with that VMID, the portal's name for it, the
  portal's pool and the expected node, not locked. A clone is sent only after the list has shown
  that the VMID is free.
\<close>

section \<open>Evidence in an exchange\<close>

definition all_get :: "exchange list \<Rightarrow> bool" where
  "all_get es \<longleftrightarrow> (\<forall>e\<in>set es. hr_method (fst e) = ''GET'')"

definition list_request :: HttpRequest where
  "list_request = \<lparr>hr_method = ''GET'', hr_url = ''cluster/resources'', hr_data = None,
     hr_params = Some [(''type'', JStr ''vm'')]\<rparr>"

text \<open>A resource list that was seen, as the dictionaries in it.\<close>

definition listed :: "exchange list \<Rightarrow> fields list \<Rightarrow> bool" where
  "listed es ds \<longleftrightarrow>
     (\<exists>resp xs. (list_request, Inr resp) \<in> set es \<and> response_data resp = Inr (JList xs) \<and> all_dicts xs = Some ds)"

definition vmid_free :: "int \<Rightarrow> exchange list \<Rightarrow> bool" where
  "vmid_free vmid es \<longleftrightarrow> (\<exists>ds. listed es ds \<and> (\<forall>d\<in>set ds. \<not> eq_int (dict_get ''vmid'' d) vmid))"

definition owned_seen :: "HttpConfig \<Rightarrow> uuid \<Rightarrow> string \<Rightarrow> int \<Rightarrow> fields \<Rightarrow> exchange list \<Rightarrow> bool" where
  "owned_seen cfg u node vmid d es \<longleftrightarrow>
     (\<exists>ds. listed es ds \<and> filter (\<lambda>r. eq_int (dict_get ''vmid'' r) vmid) ds = [d])
     \<and> dict_get ''type'' d = JStr ''qemu'' \<and> dict_get ''name'' d = JStr (vm_name u)
     \<and> dict_get ''pool'' d = JStr (ad_pool cfg) \<and> dict_get ''node'' d = JStr node"

definition ready_seen :: "HttpConfig \<Rightarrow> uuid \<Rightarrow> string \<Rightarrow> int \<Rightarrow> exchange list \<Rightarrow> bool" where
  "ready_seen cfg u node vmid es \<longleftrightarrow> (\<exists>d. owned_seen cfg u node vmid d es \<and> dict_get ''lock'' d = JNull)"

lemma all_get_simps [simp]:
  "all_get []" "all_get (e # es) = (hr_method (fst e) = ''GET'' \<and> all_get es)"
  "all_get (es @ fs) = (all_get es \<and> all_get fs)"
  by (auto simp: all_get_def)

lemma seen_append:
  "vmid_free vmid es \<Longrightarrow> vmid_free vmid (es @ fs)"
  "owned_seen cfg u node vmid d es \<Longrightarrow> owned_seen cfg u node vmid d (es @ fs)"
  "ready_seen cfg u node vmid es \<Longrightarrow> ready_seen cfg u node vmid (es @ fs)"
  unfolding vmid_free_def owned_seen_def ready_seen_def listed_def set_append by blast+

section \<open>Queries\<close>

text \<open>A computation that only asks, and one that may end in a command that \<open>P\<close> justifies.\<close>

definition asks :: "('n \<times> exchange list, 'a) py \<Rightarrow> ('a \<Rightarrow> exchange list \<Rightarrow> bool) \<Rightarrow> bool" where
  "asks m R = sends m (\<lambda>x es. all_get es \<and> R x es) all_get"

definition one_command :: "(exchange list \<Rightarrow> HttpRequest \<Rightarrow> bool) \<Rightarrow> exchange list \<Rightarrow> bool" where
  "one_command P es \<longleftrightarrow>
     all_get es \<or> (\<exists>qs rq x. es = qs @ [(rq, x)] \<and> all_get qs \<and> hr_method rq \<noteq> ''GET'' \<and> P qs rq)"

definition commands_once :: "('n \<times> exchange list, 'a) py \<Rightarrow> (exchange list \<Rightarrow> HttpRequest \<Rightarrow> bool) \<Rightarrow> bool" where
  "commands_once m P = sends m (\<lambda>_. one_command P) (one_command P)"

lemma sends_request_data:
  fixes H :: "'n http" and mth url :: string and data params :: "fields option"
  defines "rq \<equiv> \<lparr>hr_method = mth, hr_url = url, hr_data = data, hr_params = params\<rparr>"
  shows "sends (request_data (tapped H) mth url data params)
    (\<lambda>v es. \<exists>resp. es = [(rq, Inr resp)] \<and> response_data resp = Inr v) (\<lambda>es. \<exists>r. es = [(rq, r)])"
  unfolding request_data_def rq_def by (rule sends_bind [OF sends_tapped]) (auto intro: sends_lift)

lemma asks_request: "asks (request_data (tapped H) ''GET'' url data params)
    (\<lambda>v es. \<exists>resp. es = [(\<lparr>hr_method = ''GET'', hr_url = url, hr_data = data, hr_params = params\<rparr>, Inr resp)]
                \<and> response_data resp = Inr v)"
  unfolding asks_def by (rule sends_mono [OF sends_request_data]) auto

lemma asks_ret: "R x [] \<Longrightarrow> asks (py_ret x) R"
  unfolding asks_def by (rule sends_ret) simp

lemma asks_raise: "asks (py_raise e) R"
  unfolding asks_def by (rule sends_raise) simp

lemma asks_lift_bind: "(\<And>x. r = Inr x \<Longrightarrow> asks (f x) R) \<Longrightarrow> asks (py_bind (py_lift r) f) R"
  by (cases r) (simp_all add: asks_raise)

lemma asks_bind:
  assumes "asks m R" "\<And>x es. R x es \<Longrightarrow> asks (f x) (\<lambda>y fs. R' y (es @ fs))"
  shows "asks (py_bind m f) R'"
  unfolding asks_def
  by (rule sends_bind [OF assms(1) [unfolded asks_def]], rule sends_mono [OF assms(2) [unfolded asks_def]]) auto

lemma asks_if: "(b \<Longrightarrow> asks m R) \<Longrightarrow> (\<not> b \<Longrightarrow> asks m' R) \<Longrightarrow> asks (if b then m else m') R"
  by simp

lemma asks_mono: "asks m R \<Longrightarrow> (\<And>x es. R x es \<Longrightarrow> R' x es) \<Longrightarrow> asks m R'"
  unfolding asks_def by (erule sends_mono) auto

lemma vmid_matches_filter:
  "vmid_matches vmid ds = Inr ms \<Longrightarrow> ms = filter (\<lambda>d. eq_int (dict_get ''vmid'' d) vmid) ds"
  by (induction ds arbitrary: ms) (auto simp: Let_def split: if_splits sum.splits)

lemma asks_list: "asks (list_vm_resources (tapped H)) (\<lambda>ds es. listed es ds)"
  unfolding list_vm_resources_def
  by (rule asks_bind [OF asks_request])
    (auto intro!: asks_ret asks_raise simp: listed_def list_request_def split: json.split option.split)

lemma asks_find:
  "asks (find_vm_resource (tapped H) vmid)
     (\<lambda>found es. \<exists>ds. listed es ds \<and> filter (\<lambda>d. eq_int (dict_get ''vmid'' d) vmid) ds
        = (case found of None \<Rightarrow> [] | Some d \<Rightarrow> [d]))"
  unfolding find_vm_resource_def
proof (intro asks_if asks_raise asks_bind [OF asks_list] asks_lift_bind)
  fix ds es ms
  assume "listed es ds" "vmid_matches vmid ds = Inr ms" "\<not> 1 < length ms"
  then show "asks (case ms of [] \<Rightarrow> py_ret None | m # _ \<Rightarrow> py_ret (Some m))
      (\<lambda>found fs. \<exists>ds. listed (es @ fs) ds \<and> filter (\<lambda>d. eq_int (dict_get ''vmid'' d) vmid) ds
        = (case found of None \<Rightarrow> [] | Some d \<Rightarrow> [d]))"
    using vmid_matches_filter by (cases ms) (auto intro!: asks_ret)
qed

lemma asks_find_owned:
  "asks (find_owned_vm_resource cfg (tapped H) u node vmid)
     (\<lambda>found es. case found of None \<Rightarrow> vmid_free vmid es | Some d \<Rightarrow> owned_seen cfg u node vmid d es)"
  unfolding find_owned_vm_resource_def
proof (rule asks_bind [OF asks_find])
  fix found es
  assume seen: "\<exists>ds. listed es ds \<and> filter (\<lambda>d. eq_int (dict_get ''vmid'' d) vmid) ds
        = (case found of None \<Rightarrow> [] | Some d \<Rightarrow> [d])"
  show "asks (case found of None \<Rightarrow> py_ret None
          | Some resource \<Rightarrow> py_bind (py_lift (owned_resource cfg u node vmid resource)) (\<lambda>r. py_ret (Some r)))
      (\<lambda>found fs. case found of None \<Rightarrow> vmid_free vmid (es @ fs) | Some d \<Rightarrow> owned_seen cfg u node vmid d (es @ fs))"
  proof (cases found)
    case None
    with seen have "vmid_free vmid es"
      by (auto simp: vmid_free_def filter_empty_conv)
    with None show ?thesis by (simp add: asks_ret)
  next
    case (Some d)
    have "owned_seen cfg u node vmid r es" if "owned_resource cfg u node vmid d = Inr r" for r
      using that seen Some by (auto simp: owned_resource_def owned_seen_def split: if_splits)
    then show ?thesis
      unfolding Some by (auto intro!: asks_lift_bind asks_ret)
  qed
qed

section \<open>Commands\<close>

lemma commands_ret: "commands_once (py_ret x) P"
  unfolding commands_once_def by (rule sends_ret) (simp add: one_command_def)

lemma commands_raise: "commands_once (py_raise e) P"
  unfolding commands_once_def by (rule sends_raise) (simp add: one_command_def)

lemma commands_if:
  "(b \<Longrightarrow> commands_once m P) \<Longrightarrow> (\<not> b \<Longrightarrow> commands_once m' P) \<Longrightarrow> commands_once (if b then m else m') P"
  by simp

lemma one_command_prefix: "all_get es \<Longrightarrow> one_command (\<lambda>qs. P (es @ qs)) fs \<Longrightarrow> one_command P (es @ fs)"
  unfolding one_command_def by (metis all_get_simps(3) append.assoc)

lemma commands_ask:
  assumes "asks m R" "\<And>x es. R x es \<Longrightarrow> commands_once (f x) (\<lambda>qs. P (es @ qs))"
  shows "commands_once (py_bind m f) P"
  unfolding commands_once_def
proof (rule sends_bind [OF assms(1) [unfolded asks_def]])
  fix x es
  assume es: "all_get es \<and> R x es"
  then have "sends (f x) (\<lambda>_. one_command (\<lambda>qs. P (es @ qs))) (one_command (\<lambda>qs. P (es @ qs)))"
    using assms(2) unfolding commands_once_def by (elim conjE)
  then show "sends (f x) (\<lambda>_ fs. one_command P (es @ fs)) (\<lambda>fs. one_command P (es @ fs))"
    by (rule sends_mono) (rule one_command_prefix [OF conjunct1 [OF es]], assumption)+
qed (simp add: one_command_def)

lemma commands_lift:
  "(\<And>x. r = Inr x \<Longrightarrow> commands_once (f x) P) \<Longrightarrow> commands_once (py_bind (py_lift r) f) P"
  by (cases r) (simp_all add: commands_raise)

text \<open>What follows the command sends nothing.\<close>

definition silent :: "('n \<times> exchange list, 'a) py \<Rightarrow> bool" where
  "silent m = sends m (\<lambda>_ es. es = []) (\<lambda>es. es = [])"

lemma silent_rules:
  "silent (py_ret x)" "silent (py_raise e)" "silent (py_lift r)"
  "(b \<Longrightarrow> silent m) \<Longrightarrow> (\<not> b \<Longrightarrow> silent m') \<Longrightarrow> silent (if b then m else m')"
  unfolding silent_def by (simp_all add: sends_ret sends_raise sends_lift)

lemma silent_bind: "silent m \<Longrightarrow> (\<And>x. silent (f x)) \<Longrightarrow> silent (py_bind m f)"
  unfolding silent_def by (rule sends_bind, assumption) simp_all

lemma commands_request:
  assumes "mth \<noteq> ''GET''"
    and "P [] \<lparr>hr_method = mth, hr_url = url, hr_data = data, hr_params = params\<rparr>" "\<And>v. silent (k v)"
  shows "commands_once (py_bind (request_data (tapped H) mth url data params) k) P"
  unfolding commands_once_def
proof (rule sends_bind [OF sends_request_data])
  fix v and es :: "exchange list"
  assume "\<exists>resp. es = [(\<lparr>hr_method = mth, hr_url = url, hr_data = data, hr_params = params\<rparr>, Inr resp)]
      \<and> response_data resp = Inr v"
  then have "one_command P es"
    using assms(1,2) by (auto simp: one_command_def)
  then show "sends (k v) (\<lambda>_ fs. one_command P (es @ fs)) (\<lambda>fs. one_command P (es @ fs))"
    by (intro sends_mono [OF assms(3) [unfolded silent_def]]) simp_all
qed (use assms(1,2) in \<open>auto simp: one_command_def\<close>)

lemmas silent_intros = silent_rules silent_bind

lemma asks_status: "asks (get_vm_current_status (tapped H) node vmid) (\<lambda>_ _. True)"
  unfolding get_vm_current_status_def
  by (rule asks_bind [OF asks_request]) (auto intro!: asks_ret asks_raise split: json.split)

lemma asks_unlocked:
  "asks (unlocked_resource cfg (tapped H) u node vmid suffix) (\<lambda>_ es. ready_seen cfg u node vmid es)"
  unfolding unlocked_resource_def
  by (rule asks_bind [OF asks_find_owned])
    (auto intro!: asks_ret asks_raise simp: ready_seen_def split: option.split)

lemma asks_power:
  "asks (http_get_vm_power_state cfg (tapped H) u node vmid)
     (\<lambda>state es. power_status state \<noteq> ''missing'' \<longrightarrow> \<not> power_locked state \<longrightarrow> ready_seen cfg u node vmid es)"
  unfolding http_get_vm_power_state_def
proof (intro asks_if asks_raise asks_bind [OF asks_find_owned])
  fix found es
  assume seen: "case found of None \<Rightarrow> vmid_free vmid es | Some d \<Rightarrow> owned_seen cfg u node vmid d es"
  show "asks (case found of None \<Rightarrow> py_ret \<lparr>power_status = ''missing'', power_locked = False\<rparr>
      | Some resource \<Rightarrow> py_bind (get_vm_current_status (tapped H) node vmid) (\<lambda>vm_status.
          py_bind (py_lift (run_status vmid vm_status)) (\<lambda>current_status.
            py_ret \<lparr>power_status = current_status, power_locked =
              (dict_get ''lock'' resource \<noteq> JNull \<or> dict_get ''lock'' vm_status \<noteq> JNull)\<rparr>)))
      (\<lambda>state fs. power_status state \<noteq> ''missing'' \<longrightarrow> \<not> power_locked state \<longrightarrow> ready_seen cfg u node vmid (es @ fs))"
  proof (cases found)
    case (Some d)
    with seen have "dict_get ''lock'' d = JNull \<Longrightarrow> ready_seen cfg u node vmid (es @ fs)" for fs
      unfolding ready_seen_def using seen_append(2) by (metis option.simps(5))
    with Some show ?thesis
      by (auto intro!: asks_bind [OF asks_status] asks_lift_bind asks_ret)
  qed (simp add: asks_ret)
qed

lemma asks_owned_status:
  "asks (get_owned_vm_status cfg (tapped H) u node vmid) (\<lambda>_ es. ready_seen cfg u node vmid es)"
  unfolding get_owned_vm_status_def
proof (rule asks_bind [OF asks_unlocked], rule asks_bind [OF asks_status])
  fix d es fs
  assume "ready_seen cfg u node vmid es"
  then show "asks (py_lift (run_status vmid d)) (\<lambda>_ gs. ready_seen cfg u node vmid (es @ fs @ gs))"
    by (cases "run_status vmid d") (simp_all add: asks_ret asks_raise seen_append)
qed

section \<open>The commands of the adapter\<close>

text \<open>A command to the machine itself, and the one that makes it.\<close>

definition machine_command :: "HttpConfig \<Rightarrow> uuid \<Rightarrow> string \<Rightarrow> int \<Rightarrow> exchange list \<Rightarrow> HttpRequest \<Rightarrow> bool" where
  "machine_command cfg u node vmid qs rq \<longleftrightarrow>
     ready_seen cfg u node vmid qs
     \<and> hr_url rq \<in> (\<lambda>s. vm_path node vmid @ s) `
         {[], ''/config'', ''/resize'', ''/status/start'', ''/status/shutdown'', ''/status/stop''}"

definition clone_command :: "HttpConfig \<Rightarrow> uuid \<Rightarrow> string \<Rightarrow> int \<Rightarrow> exchange list \<Rightarrow> HttpRequest \<Rightarrow> bool" where
  "clone_command cfg u node vmid qs rq \<longleftrightarrow>
     vmid_free vmid qs
     \<and> hr_url rq = vm_path (ad_template_node cfg) (ad_template_vmid cfg) @ ''/clone''
     \<and> (\<exists>d. hr_data rq = Some d \<and> dict_get ''newid'' d = JInt vmid \<and> dict_get ''name'' d = JStr (vm_name u)
            \<and> dict_get ''pool'' d = JStr (ad_pool cfg) \<and> dict_get ''target'' d = JStr node)"

lemma commands_map: "commands_once m P \<Longrightarrow> (\<And>x. silent (f x)) \<Longrightarrow> commands_once (py_bind m f) P"
  unfolding commands_once_def
proof (erule sends_bind)
  fix x es
  assume s: "\<And>x. silent (f x)" and es: "one_command P es"
  show "sends (f x) (\<lambda>_ fs. one_command P (es @ fs)) (\<lambda>fs. one_command P (es @ fs))"
    by (rule sends_mono [OF s [unfolded silent_def]]) (simp_all add: es)
qed

lemma client_commands:
  fixes H :: "'n http"
  assumes "ready_seen cfg u node vmid es"
  shows "commands_once (client_configure_vm (tapped H) node vmid a) (\<lambda>qs. machine_command cfg u node vmid (es @ qs))"
    and "commands_once (client_resize_vm_disk (tapped H) node vmid disk n) (\<lambda>qs. machine_command cfg u node vmid (es @ qs))"
    and "commands_once (client_start_vm (tapped H) node vmid) (\<lambda>qs. machine_command cfg u node vmid (es @ qs))"
    and "commands_once (client_shutdown_vm (tapped H) node vmid t) (\<lambda>qs. machine_command cfg u node vmid (es @ qs))"
    and "commands_once (client_stop_vm (tapped H) node vmid) (\<lambda>qs. machine_command cfg u node vmid (es @ qs))"
    and "commands_once (client_delete_vm (tapped H) node vmid) (\<lambda>qs. machine_command cfg u node vmid (es @ qs))"
  unfolding client_configure_vm_def client_resize_vm_disk_def client_start_vm_def client_shutdown_vm_def
    client_stop_vm_def client_delete_vm_def
  by (intro commands_if commands_raise commands_request silent_intros;
      simp add: machine_command_def assms)+

lemma http_configure_once:
  "commands_once (http_configure_vm cfg (tapped H) r node vmid) (machine_command cfg (req_vm_id r) node vmid)"
  unfolding http_configure_vm_def
  by (intro commands_if commands_raise commands_ask [OF asks_unlocked] commands_map silent_rules client_commands)

lemma http_resize_once:
  "commands_once (http_resize_vm_disk cfg (tapped H) r node vmid) (machine_command cfg (req_vm_id r) node vmid)"
  unfolding http_resize_vm_disk_def
proof (intro commands_if commands_raise commands_ask [OF asks_unlocked] commands_ask [OF asks_status])
  fix d and es fs :: "exchange list"
  assume "ready_seen cfg (req_vm_id r) node vmid es"
  then have "ready_seen cfg (req_vm_id r) node vmid (es @ fs)"
    by (rule seen_append)
  note c = client_commands(2) [OF this, of H, unfolded append.assoc]
  show "commands_once (case dict_get ''maxdisk'' d of
            JInt current_size_bytes \<Rightarrow>
              if current_size_bytes \<le> 0
                then py_raise (RuntimeError (vmid_text vmid @ '' has invalid disk size''))
              else if current_size_bytes > req_storage_gb r * 1024 ^ 3
                then py_raise (RuntimeError (vmid_text vmid @ '' disk is larger than requested''))
              else if current_size_bytes = req_storage_gb r * 1024 ^ 3 then py_ret None
              else py_bind (client_resize_vm_disk (tapped H) node vmid ''scsi0'' (req_storage_gb r))
                     (\<lambda>upid. py_ret (Some (new_task upid node vmid)))
          | _ \<Rightarrow> py_raise (RuntimeError (vmid_text vmid @ '' has invalid disk size'')))
       (\<lambda>qs. machine_command cfg (req_vm_id r) node vmid (es @ fs @ qs))"
    by (cases "dict_get ''maxdisk'' d")
      (simp_all only: json.case, (intro commands_if commands_raise commands_ret commands_map silent_rules c)+)
qed

lemma http_start_once:
  "commands_once (http_start_vm cfg (tapped H) u node vmid) (machine_command cfg u node vmid)"
  unfolding http_start_vm_def
proof (intro commands_ask [OF asks_power] commands_if commands_raise commands_ret commands_map silent_rules
    client_commands)
  fix state es
  assume "power_status state \<noteq> ''missing'' \<longrightarrow> \<not> power_locked state \<longrightarrow> ready_seen cfg u node vmid es"
    "\<not> power_locked state" "\<not> power_status state \<noteq> ''stopped''"
  then show "ready_seen cfg u node vmid es" by simp
qed

lemma http_shutdown_once:
  "commands_once (http_shutdown_vm cfg (tapped H) u node vmid) (machine_command cfg u node vmid)"
  "commands_once (http_stop_vm cfg (tapped H) u node vmid) (machine_command cfg u node vmid)"
  unfolding http_shutdown_vm_def http_stop_vm_def
  by (intro commands_ask [OF asks_owned_status] commands_if commands_ret commands_map silent_rules client_commands;
      assumption)+

lemma http_delete_once:
  "commands_once (http_delete_vm cfg (tapped H) u node vmid) (machine_command cfg u node vmid)"
  unfolding http_delete_vm_def
proof (intro commands_if commands_raise commands_ask [OF asks_find_owned])
  fix found es
  assume seen: "case found of None \<Rightarrow> vmid_free vmid es | Some d \<Rightarrow> owned_seen cfg u node vmid d es"
  show "commands_once (case found of
            None \<Rightarrow> py_ret \<lparr>delete_state = ''succeeded'', delete_task = None\<rparr>
          | Some resource \<Rightarrow>
              if dict_get ''lock'' resource \<noteq> JNull
              then py_ret \<lparr>delete_state = ''in_progress'', delete_task = None\<rparr>
              else
                py_bind (get_vm_current_status (tapped H) node vmid) (\<lambda>vm_status.
                  if dict_get ''status'' vm_status \<noteq> JStr ''stopped''
                  then py_raise (RuntimeError (vmid_text vmid @ '' must be stopped before delete''))
                  else py_bind (client_delete_vm (tapped H) node vmid) (\<lambda>upid.
                    py_ret \<lparr>delete_state = ''submitted'', delete_task = Some (new_task upid node vmid)\<rparr>)))
      (\<lambda>qs. machine_command cfg u node vmid (es @ qs))"
  proof (cases found)
    case (Some d)
    have c: "commands_once (client_delete_vm (tapped H) node vmid) (\<lambda>qs. machine_command cfg u node vmid (es @ fs @ qs))"
      if "\<not> dict_get ''lock'' d \<noteq> JNull" for fs
    proof -
      have "owned_seen cfg u node vmid d (es @ fs)"
        by (rule seen_append) (use seen Some in simp)
      then have "ready_seen cfg u node vmid (es @ fs)"
        using that by (auto simp: ready_seen_def)
      from client_commands(6) [OF this, of H] show ?thesis by simp
    qed
    show ?thesis
      unfolding Some option.case
      by (intro commands_if commands_raise commands_ret commands_ask [OF asks_status] commands_map silent_rules c)
  qed (simp add: commands_ret)
qed

lemma http_clone_once:
  "commands_once (http_clone_vm cfg (tapped H) r node vmid) (clone_command cfg (req_vm_id r) node vmid)"
  unfolding http_clone_vm_def Let_def
proof (intro commands_if commands_raise commands_ask [OF asks_find_owned])
  fix found es
  assume seen: "case found of None \<Rightarrow> vmid_free vmid es
    | Some d \<Rightarrow> owned_seen cfg (req_vm_id r) node vmid d es"
  show "commands_once (case found of
            Some resource \<Rightarrow>
              (if dict_get ''lock'' resource = JStr ''clone''
                 then py_ret \<lparr>clone_state = ''in_progress'', clone_task = None\<rparr>
               else if dict_get ''lock'' resource \<noteq> JNull
                 then py_raise (ProviderResourceConflictError (vmid_text vmid @ '' has unexpected lock''))
               else py_ret \<lparr>clone_state = ''succeeded'', clone_task = None\<rparr>)
          | None \<Rightarrow>
              py_bind (client_clone_vm (tapped H)
                  \<lparr>ca_source_node = ad_template_node cfg, ca_target_node = node,
                   ca_template_vmid = ad_template_vmid cfg, ca_new_vmid = vmid,
                   ca_name = vm_name (req_vm_id r), ca_storage = ad_storage cfg, ca_pool = ad_pool cfg\<rparr>)
                (\<lambda>upid. py_ret \<lparr>clone_state = ''submitted'', clone_task = Some (new_task upid node vmid)\<rparr>))
      (\<lambda>qs. clone_command cfg (req_vm_id r) node vmid (es @ qs))"
  proof (cases found)
    case None
    with seen have "vmid_free vmid es" by simp
    then show ?thesis
      unfolding None option.case client_clone_vm_def
      by (intro commands_map commands_request silent_rules) (simp_all add: clone_command_def dict_get_def)
  next
    case (Some d)
    show ?thesis
      unfolding Some option.case by (intro commands_if commands_raise commands_ret)
  qed
qed

text \<open>The virtual machine that a command is about, as the adapter is told.\<close>

fun command_vm :: "dispatch \<Rightarrow> uuid" where
  "command_vm (CreateDispatch oid vid phase request target) =
     (case request of None \<Rightarrow> vid | Some r \<Rightarrow> if phase = ''start'' then vid else req_vm_id r)"
| "command_vm (StartDispatch oid vid target) = vid"
| "command_vm (LifecycleDispatch oid vid command target) = vid"

fun is_clone :: "dispatch \<Rightarrow> bool" where
  "is_clone (CreateDispatch oid vid phase request target) = (phase = ''clone'')"
| "is_clone c = False"

definition justified :: "HttpConfig \<Rightarrow> dispatch \<Rightarrow> exchange list \<Rightarrow> HttpRequest \<Rightarrow> bool" where
  "justified cfg c =
     (if is_clone c then clone_command else machine_command)
       cfg (command_vm c) (place_node (dispatch_target c)) (place_vmid (dispatch_target c))"

lemmas http_once = http_configure_once http_resize_once http_start_once http_shutdown_once http_delete_once
  http_clone_once

lemma submit_once: "commands_once (submit (HttpProxmoxAdapter cfg (tapped H)) c) (justified cfg c)"
proof (cases c)
  case (CreateDispatch oid vid phase request target)
  then show ?thesis
    by (cases request)
      (auto simp: submit_def with_request_def justified_def HttpProxmoxAdapter_def
        intro!: commands_if commands_map [OF http_once(1)] commands_map [OF http_once(2)] commands_map [OF http_once(3)]
          commands_map [OF http_once(7)] commands_raise silent_rules)
next
  case (StartDispatch oid vid target)
  then show ?thesis
    by (simp add: submit_def justified_def HttpProxmoxAdapter_def commands_map [OF http_once(3)] silent_rules)
next
  case (LifecycleDispatch oid vid command target)
  then show ?thesis
    by (auto simp: submit_def justified_def HttpProxmoxAdapter_def intro!: commands_map [OF http_once(3)]
        commands_map [OF http_once(4)] commands_map [OF http_once(5)] commands_map [OF http_once(6)]
        commands_raise silent_rules)
qed

end
