(* ===== verification/Replies.thy ===== *)
theory Replies
  imports Example HttpSafety
begin

text \<open>
  The client side of the provider contract. A reply that keeps the laws of \<open>provider_commands\<close> is
  never refused when the second transaction stores it on the row its command was dispatched from;
  both providers of the portal keep those laws.
\<close>

section \<open>A reply to one's own command\<close>

text \<open>The row as the first transaction left it when it handed over the command.\<close>

fun dispatched_from :: "dispatch \<Rightarrow> Operation \<Rightarrow> bool" where
  "dispatched_from (CreateDispatch oid vid phase request target) op =
     (op_type op = ''vm.create'' \<and> phase \<in> {''clone'', ''configure'', ''resize'', ''start''}
      \<and> op_phase op = Some (''dispatch_create_'' @ phase))"
| "dispatched_from (StartDispatch oid vid target) op =
     (op_type op = ''vm.start'' \<and> op_phase op = Some ''dispatching'')"
| "dispatched_from (LifecycleDispatch oid vid command target) op =
     ((op_type op = ''vm.reboot'' \<and> command \<in> {''shutdown'', ''start''}
         \<and> op_phase op = Some (''dispatch_reboot_'' @ command))
      \<or> ((op_type op, command) \<in> {(''vm.shutdown'', ''shutdown''), (''vm.stop'', ''stop''), (''vm.delete'', ''delete'')}
         \<and> op_phase op = Some (''dispatch_'' @ command)))"

definition awaiting :: "dispatch \<Rightarrow> 'q sess \<Rightarrow> bool" where
  "awaiting c s \<longleftrightarrow>
     dispatched_from c (s_op s) \<and> op_status (s_op s) = ''processing'' \<and> op_task (s_op s) = None
     \<and> (\<exists>v. s_vm s = Some v \<and> vm_provider_node v = Some (place_node (dispatch_target c))
            \<and> vm_provider_vmid v = Some (place_vmid (dispatch_target c)))"

text \<open>What a reply to the command may be, if it keeps the laws.\<close>

definition fitting :: "dispatch \<Rightarrow> reply \<Rightarrow> bool" where
  "fitting c r =
     (let node = place_node (dispatch_target c); vmid = place_vmid (dispatch_target c) in
      case r of
        CloneReply x \<Rightarrow> snd (dispatch_command c) = ''clone'' \<and> clone_wf node vmid x
      | DeleteReply x \<Rightarrow> snd (dispatch_command c) = ''delete'' \<and> delete_wf node vmid x
      | TaskReply t \<Rightarrow> snd (dispatch_command c) \<notin> {''clone'', ''delete''} \<and> targets node vmid t)"

context provider_commands
begin

lemma reply_fits: "submit A c p = (Inr r, p') \<Longrightarrow> fitting c r"
  by (cases c)
    (auto simp: submit_def with_request_def fitting_def py_bind_Inr_iff split: if_splits option.splits
      dest: clone_result configure_target resize_target start_target shutdown_target stop_target delete_result)

end

text \<open>
  Storing a fitting reply does not raise, and takes the row out of its dispatch phase. If the
  reply says more than that the command goes on, the row is then tracked by the task of the
  reply, or the command is confirmed.
\<close>

fun reply_task :: "reply \<Rightarrow> ProviderTask option" where
  "reply_task (CloneReply x) = clone_task x"
| "reply_task (DeleteReply x) = delete_task x"
| "reply_task (TaskReply t) = t"

fun conclusive :: "reply \<Rightarrow> bool" where
  "conclusive (CloneReply x) = (clone_state x \<noteq> ''in_progress'')"
| "conclusive (DeleteReply x) = (delete_state x \<noteq> ''in_progress'')"
| "conclusive (TaskReply t) = True"

definition resolved :: "reply \<Rightarrow> Operation \<Rightarrow> bool" where
  "resolved r op \<longleftrightarrow> op_error op = None
     \<and> (case reply_task r of
          None \<Rightarrow> op_task op = None \<and> (op_status op = ''pending'' \<or> op_status op = ''succeeded'')
        | Some t \<Rightarrow> op_task op = Some (task_id t) \<and> column_not_like (op_phase op) ''poll_backoff%'')"

definition settles :: "reply \<Rightarrow> 'q sess \<Rightarrow> (exc + unit) \<times> 'q sess \<Rightarrow> bool" where
  "settles r s x \<longleftrightarrow>
     outcome x (\<lambda>_ t. op_phase (s_op t) \<noteq> op_phase (s_op s) \<and> (conclusive r \<longrightarrow> resolved r (s_op t)))
       (\<lambda>_ _. False)"

lemmas settle_defs = settles_def resolved_def finish_dispatch_def finish_create_vm_dispatch_def finish_create_task_def
  finish_start_vm_dispatch_def finish_lifecycle_dispatch_def finish_lifecycle_task_def Let_def vc

lemma create_reply_settles:
  assumes "awaiting c s" "fitting c r" "c = CreateDispatch oid vid phase request target"
  shows "settles r s (finish_dispatch now c r s)"
proof -
  obtain v where v: "s_vm s = Some v" "vm_provider_node v = Some (place_node target)"
      "vm_provider_vmid v = Some (place_vmid target)"
    and op: "op_type (s_op s) = ''vm.create''" "op_status (s_op s) = ''processing''" "op_task (s_op s) = None"
      "op_phase (s_op s) = Some (''dispatch_create_'' @ phase)"
    and ph: "phase = ''clone'' \<or> phase = ''configure'' \<or> phase = ''resize'' \<or> phase = ''start''"
    using assms(1,3) by (auto simp: awaiting_def)
  note g = get_lifecycle_vm_placed [OF v]
  show ?thesis
  proof (cases r)
    case (CloneReply x)
    then have "phase = ''clone''" and wf: "clone_wf (place_node target) (place_vmid target) x"
      using assms(2,3) by (simp_all add: fitting_def)
    with CloneReply op g show ?thesis
      by (cases "clone_task x") (auto simp: assms(3) settle_defs clone_wf_def)
  next
    case (TaskReply t)
    then have t: "phase \<noteq> ''clone''" "targets (place_node target) (place_vmid target) t"
      using assms(2,3) by (simp_all add: fitting_def)
    show ?thesis
      using ph t op g TaskReply
      by (cases t; elim disjE; simp add: assms(3) settle_defs)
  next
    case (DeleteReply x)
    then show ?thesis using assms(2,3) ph by (auto simp: fitting_def)
  qed
qed

lemma start_reply_settles:
  assumes "awaiting c s" "fitting c r" "c = StartDispatch oid vid target"
  shows "settles r s (finish_dispatch now c r s)"
proof -
  obtain v where v: "s_vm s = Some v" "vm_provider_node v = Some (place_node target)"
      "vm_provider_vmid v = Some (place_vmid target)"
    and op: "op_type (s_op s) = ''vm.start''" "op_status (s_op s) = ''processing''" "op_task (s_op s) = None"
      "op_phase (s_op s) = Some ''dispatching''"
    using assms(1,3) by (auto simp: awaiting_def)
  note g = get_lifecycle_vm_placed [OF v]
  obtain t where "r = TaskReply t" "targets (place_node target) (place_vmid target) t"
    using assms(2,3) by (cases r) (simp_all add: fitting_def)
  then show ?thesis
    using op g v by (cases t) (simp_all add: assms(3) settle_defs)
qed

lemma lifecycle_reply_settles:
  assumes "awaiting c s" "fitting c r" "c = LifecycleDispatch oid vid command target"
  shows "settles r s (finish_dispatch now c r s)"
proof -
  obtain v where v: "s_vm s = Some v" "vm_provider_node v = Some (place_node target)"
      "vm_provider_vmid v = Some (place_vmid target)"
    and op: "op_status (s_op s) = ''processing''" "op_task (s_op s) = None"
    and ph: "op_type (s_op s) = ''vm.delete'' \<and> command = ''delete'' \<and> op_phase (s_op s) = Some ''dispatch_delete''
      \<or> op_type (s_op s) = ''vm.reboot'' \<and> command = ''shutdown'' \<and> op_phase (s_op s) = Some ''dispatch_reboot_shutdown''
      \<or> op_type (s_op s) = ''vm.reboot'' \<and> command = ''start'' \<and> op_phase (s_op s) = Some ''dispatch_reboot_start''
      \<or> op_type (s_op s) = ''vm.shutdown'' \<and> command = ''shutdown'' \<and> op_phase (s_op s) = Some ''dispatch_shutdown''
      \<or> op_type (s_op s) = ''vm.stop'' \<and> command = ''stop'' \<and> op_phase (s_op s) = Some ''dispatch_stop''"
    using assms(1,3) by (auto simp: awaiting_def)
  note g = get_lifecycle_vm_placed [OF v]
  show ?thesis
  proof (cases r)
    case (DeleteReply x)
    then have "command = ''delete''" and wf: "delete_wf (place_node target) (place_vmid target) x"
      using assms(2,3) by (simp_all add: fitting_def)
    with ph have "op_type (s_op s) = ''vm.delete'' \<and> op_phase (s_op s) = Some ''dispatch_delete''"
      by auto
    with DeleteReply op g wf show ?thesis
      by (cases "delete_task x") (auto simp: assms(3) settle_defs delete_wf_def)
  next
    case (TaskReply t)
    then have t: "command \<noteq> ''delete''" "targets (place_node target) (place_vmid target) t"
      using assms(2,3) by (simp_all add: fitting_def)
    show ?thesis
      using ph t op g TaskReply by (cases t; elim disjE conjE; simp add: assms(3) settle_defs)
  next
    case (CloneReply x)
    then show ?thesis using assms(2,3) ph by (auto simp: fitting_def)
  qed
qed

lemma reply_settles: "awaiting c s \<Longrightarrow> fitting c r \<Longrightarrow> settles r s (finish_dispatch now c r s)"
  by (cases c) (blast intro: create_reply_settles start_reply_settles lifecycle_reply_settles)+

context provider_commands
begin

lemma own_reply_stored:
  assumes "submit A c p = (Inr r, p')" "awaiting c s"
  shows "\<exists>t. finish_dispatch now c r s = (Inr (), t) \<and> op_phase (s_op t) \<noteq> op_phase (s_op s)"
proof -
  obtain x t where f: "finish_dispatch now c r s = (x, t)" by (cases "finish_dispatch now c r s")
  have "settles r s (x, t)"
    using reply_settles [OF assms(2) reply_fits [OF assms(1)], of now] by (simp only: f)
  then show ?thesis
    unfolding f by (cases x) (simp_all add: settles_def outcome_pair)
qed

end

section \<open>The two providers\<close>


definition ex_cfg :: HttpConfig where
  "ex_cfg = \<lparr>ad_target_node = ''pve01'', ad_pool = ''portal'', ad_template_node = ''pve01'', ad_template_vmid = 9000,
     ad_template_image_id = ''almalinux-9'', ad_storage = ''ceph'', ad_cloud_init_user = ''npd'',
     ad_ipconfig0 = ''ip=dhcp'', ad_nameserver = ''1.1.1.1'', ad_search_domain = ''local''\<rparr>"

definition ex_answer :: "json \<Rightarrow> HttpResponse" where
  "ex_answer v = \<lparr>raise_for_status = Inr (), response_json = Inr (JObj [(''data'', v)])\<rparr>"

definition ex_machine :: json where
  "ex_machine = JObj [(''vmid'', JInt 100002), (''type'', JStr ''qemu''), (''name'', JStr (vm_name 2)),
     (''pool'', JStr ''portal''), (''node'', JStr ''pve01'')]"

definition ex_http :: "unit http" where
  "ex_http rq n = (Inr (ex_answer
     (if hr_url rq = ''cluster/resources'' then JList [ex_machine]
      else if hr_method rq = ''GET'' then JObj [(''vmid'', JInt 100002), (''status'', JStr ''stopped'')]
      else JStr ''UPID:1'')), n)"

definition ex_start_command :: dispatch where
  "ex_start_command = StartDispatch 3 2 \<lparr>place_node = ''pve01'', place_vmid = 100002\<rparr>"

lemmas http_eval = submit_def HttpProxmoxAdapter_def http_start_vm_def http_get_vm_power_state_def
  find_owned_vm_resource_def find_vm_resource_def list_vm_resources_def request_data_def response_data_def
  owned_resource_def get_vm_current_status_def run_status_def client_start_vm_def upid_of_def dict_get_def
  py_bind_def py_lift_def vm_path_def




text \<open>
  The same holds of the in-memory provider, so the two can be exchanged for each other.
\<close>

lemma fake_replies_are_stored:
  assumes "submit (FakeProxmoxAdapter self) c p = (Inr r, p')" "awaiting c s"
  shows "\<exists>t. finish_dispatch now c r s = (Inr (), t) \<and> op_phase (s_op t) \<noteq> op_phase (s_op s)"
  by (rule fake.own_reply_stored [OF assms])

section \<open>What is sent to Proxmox\<close>

text \<open>
  C2. A command of a worker changes Proxmox with at most one request, the last it sends. Every
  request before it is a GET, and what they returned justifies the command: for a clone, the resource
  list had no machine with the chosen VMID, and the request names that VMID, the portal's name for
  the machine, its pool and its node; for every other command the list had exactly one machine with
  the VMID, a QEMU machine with the portal's name for this virtual machine, in the portal's pool,
  on the expected node and not locked, and the request goes to that machine's own path. So no
  machine that is not the portal's is ever changed.
\<close>

theorem commands_are_justified:
  assumes "submit (HttpProxmoxAdapter cfg (tapped H)) c (n, []) = (r, (n', es))"
    and "(rq, x) \<in> set es" "hr_method rq \<noteq> ''GET''"
  shows "\<exists>qs. es = qs @ [(rq, x)] \<and> (\<forall>e\<in>set qs. hr_method (fst e) = ''GET'') \<and> justified cfg c qs rq"
proof -
  have "one_command (justified cfg c) es"
    using sendsD [OF submit_once [unfolded commands_once_def] assms(1)] by (simp split: sum.splits)
  moreover have "\<not> all_get es"
    using assms(2,3) unfolding all_get_def by force
  ultimately obtain qs rq' x' where es: "es = qs @ [(rq', x')]" "all_get qs" "justified cfg c qs rq'"
    by (auto simp: one_command_def)
  have "(rq, x) \<notin> set qs"
    using es(2) assms(3) unfolding all_get_def by force
  then have "rq = rq'" "x = x'"
    using assms(2) es(1) by simp_all
  with es show ?thesis unfolding all_get_def by blast
qed

theorem commands_are_justified_witness:
  "\<exists>qs rq x. snd (snd (submit (HttpProxmoxAdapter ex_cfg (tapped ex_http)) ex_start_command ((), []))) = qs @ [(rq, x)]
     \<and> hr_method rq = ''POST'' \<and> length qs = 2 \<and> justified ex_cfg ex_start_command qs rq"
proof -
  let ?rq = "\<lparr>hr_method = ''POST'', hr_url = vm_path ''pve01'' 100002 @ ''/status/start'', hr_data = None, hr_params = None\<rparr>"
  let ?x = "Inr (ex_answer (JStr ''UPID:1'')) :: exc + HttpResponse"
  obtain es where es: "submit (HttpProxmoxAdapter ex_cfg (tapped ex_http)) ex_start_command ((), [])
      = (Inr (TaskReply (Some (new_task ''UPID:1'' ''pve01'' 100002))), ((), es @ [(?rq, ?x)]))" "length es = 2"
    by (simp add: http_eval tapped_def ex_http_def ex_answer_def ex_machine_def ex_start_command_def ex_cfg_def)
  obtain qs where "es @ [(?rq, ?x)] = qs @ [(?rq, ?x)]" "justified ex_cfg ex_start_command qs ?rq"
    using commands_are_justified [OF es(1), of ?rq ?x] by auto
  then show ?thesis
    unfolding es(1) using es(2) by (intro exI [of _ es] exI [of _ ?rq] exI [of _ ?x]) simp
qed

text \<open>
  The path of a task status request has exactly five segments whatever the task id, and the
  fourth, read back, is the task id: an id with slashes or percent signs cannot reach another path.
\<close>

lemma task_status_path_segments:
  assumes "CHR ''/'' \<notin> set node"
  shows "split_on CHR ''/'' (task_status_path node upid) = [''nodes'', node, ''tasks'', quote upid, ''status'']
     \<and> unquote (quote upid) = upid"
proof
  have eq: "task_status_path node upid
      = ''nodes'' @ CHR ''/'' # node @ CHR ''/'' # ''tasks'' @ CHR ''/'' # quote upid @ CHR ''/'' # ''status''"
    by (simp add: task_status_path_def)
  show "split_on CHR ''/'' (task_status_path node upid) = [''nodes'', node, ''tasks'', quote upid, ''status'']"
    unfolding eq using assms quote_no_slash [of upid] by (simp add: split_on_append split_on_no)
qed (rule unquote_quote_raw)

text \<open>
  The in-memory provider forgets nothing that matters when it is restarted: the task id it
  gives out for an operation on a virtual machine, read back by a provider that has never
  heard of it, still reports the operation as succeeded.
\<close>

lemma fake_task_survives:
  assumes "kind \<in> set fake_operation_types" "fake_ok f"
  shows "fake_get_task_status self (fake_task kind u (vmid_for_vm_id u) self) f = (Inr done_status, f)"
proof (cases "task_statuses f (task_id (fake_task kind u (vmid_for_vm_id u) self))")
  case (Some st)
  then have "st = done_status"
    using assms(2) unfolding fake_ok_def by blast
  with Some show ?thesis by (simp add: fake_get_task_status_def)
next
  case None
  have "CHR '':'' \<notin> set kind"
    using assms(1) by (auto simp: fake_operation_types_def)
  moreover have "''fake:'' @ kind @ '':'' @ uuid_str u = ''fake'' @ CHR '':'' # kind @ CHR '':'' # uuid_str u"
    by simp
  ultimately have "split_on CHR '':'' (''fake:'' @ kind @ '':'' @ uuid_str u) = [''fake'', kind, uuid_str u]"
    using uuid_str_no_colon [of u] by (simp add: split_on_append split_on_no)
  with None assms(1) show ?thesis
    by (simp add: fake_get_task_status_def fake_task_def)
qed

end
