(* ===== verification/KeyFacts.thy ===== *)
theory KeyFacts
  imports Example
begin

text \<open>
  What a user can rely on when storing a key: what is accepted, how the fingerprint is made, and
  how a conflict is answered when another request stores the same key in between.
\<close>

section \<open>Base64 with its padding taken off\<close>

text \<open>A digest of 32 bytes leaves two bytes for the last group, so there is one pad character.\<close>

lemma b64_one_pad:
  "length s mod 3 = 2 \<Longrightarrow>
     \<exists>body. b64encode s = body @ ''='' \<and> CHR ''='' \<notin> set body \<and> length body = 4 * (length s div 3) + 3"
proof (induction s rule: b64encode.induct)
  case (3 a b)
  let ?body = "[b64_char (of_char a div 4), b64_char (of_char a mod 4 * 16 + of_char b div 16),
      b64_char (of_char b mod 16 * 4)]"
  have "CHR ''='' \<notin> set ?body"
    using byte_groups(1) [OF nat_of_char_less_256 [of a]] char_groups(1) [of a b] char_groups(4) [of b]
    by (simp add: not_sym [OF b64_char_not_pad])
  then show ?case
    by (intro exI [of _ ?body]) (simp add: Let_def)
next
  case (4 a b c s)
  have "length s mod 3 = 2"
    using 4(2) by simp
  from 4(1) [OF refl refl refl this] obtain body where body: "b64encode s = body @ ''=''" "CHR ''='' \<notin> set body"
      "length body = 4 * (length s div 3) + 3"
    by blast
  let ?new = "[b64_char (of_char a div 4), b64_char (of_char a mod 4 * 16 + of_char b div 16),
      b64_char (of_char b mod 16 * 4 + of_char c div 64), b64_char (of_char c mod 64)]"
  have "CHR ''='' \<notin> set ?new"
    using byte_groups(1) [OF nat_of_char_less_256 [of a]] char_groups(1) [of a b] char_groups(2) [of b c]
    by (simp add: not_sym [OF b64_char_not_pad])
  moreover have "b64encode (a # b # c # s) = (?new @ body) @ ''=''"
    using body(1) by (simp add: Let_def)
  moreover have "length (?new @ body) = 4 * (length (a # b # c # s) div 3) + 3"
    using body(3) by simp
  ultimately show ?case
    using body(2) by (intro exI [of _ "?new @ body"] conjI) simp_all
qed simp_all

lemma rstrip_one_pad: "CHR ''='' \<notin> set body \<Longrightarrow> rstrip_pad (body @ ''='') = body"
  by (cases body rule: rev_cases) (auto simp: rstrip_pad_def)

section \<open>Parsing\<close>

definition ex_crypto :: "string crypto" where
  "ex_crypto = \<lparr>load_ssh_public_key = (\<lambda>s. if take 12 s = ''ssh-ed25519 '' then Some s else None),
     kind_of = (\<lambda>_. Ed25519Key), public_bytes = (\<lambda>s. s),
     sha256_fingerprint = (\<lambda>s. take 32 (drop 12 s @ replicate 32 CHR ''x''))\<rparr>"

lemma parse_cases:
  assumes "parse_ssh_public_key C body = r"
  obtains (bad) m where "r = Inl (ValueError m)"
  | (good) k where "load_ssh_public_key C (strip body) = Some k"
      "kind_of C k = Ed25519Key \<or> (\<exists>bits. kind_of C k = RsaKey bits \<and> 2048 \<le> bits)"
      "r = Inr \<lparr>parsed_type = takeWhile (\<lambda>c. c \<noteq> CHR '' '') (public_bytes C k), parsed_public = public_bytes C k,
              parsed_fingerprint = ''SHA256:'' @ rstrip_pad (b64encode (sha256_fingerprint C k))\<rparr>"
  using assms unfolding parse_ssh_public_key_def acceptable_def Let_def
  by (auto split: option.splits key_kind.splits if_splits)

text \<open>
  C35. Only an Ed25519 key, or an RSA key of at least 2048 bits, is stored, in the text that the
  library serializes. Its fingerprint is SHA256: and 43 characters that decode, with the
  padding put back, to the 32 bytes of the digest, so two keys conflict exactly when their
  digests agree.
\<close>

theorem fingerprint_decodes:
  assumes "parse_ssh_public_key C body = Inr p" and "\<And>k. length (sha256_fingerprint C k) = 32"
  shows "\<exists>k f. load_ssh_public_key C (strip body) = Some k
     \<and> (kind_of C k = Ed25519Key \<or> (\<exists>bits. kind_of C k = RsaKey bits \<and> 2048 \<le> bits))
     \<and> parsed_public p = public_bytes C k \<and> parsed_fingerprint p = ''SHA256:'' @ f \<and> length f = 43
     \<and> b64decode (f @ ''='') = Some (sha256_fingerprint C k)"
  using assms(1)
proof (cases rule: parse_cases)
  case (good k)
  have "length (sha256_fingerprint C k) mod 3 = 2"
    by (simp add: assms(2))
  then obtain f where f: "b64encode (sha256_fingerprint C k) = f @ ''=''" "CHR ''='' \<notin> set f"
      "length f = 4 * (length (sha256_fingerprint C k) div 3) + 3"
    using b64_one_pad by blast
  have "b64decode (f @ ''='') = Some (sha256_fingerprint C k)"
    using b64_roundtrip_raw [of "sha256_fingerprint C k"] by (simp only: f(1))
  then show ?thesis
    using good(1,2) good(3) f rstrip_one_pad [OF f(2)] assms(2)
    by (intro exI [of _ k] exI [of _ f]) simp
qed simp

theorem fingerprint_decodes_witness:
  "\<exists>p f. parse_ssh_public_key ex_crypto ''ssh-ed25519 AAAA'' = Inr p \<and> parsed_fingerprint p = ''SHA256:'' @ f
     \<and> b64decode (f @ ''='') = Some (''AAAA'' @ replicate 28 CHR ''x'')"
proof -
  let ?s = "''ssh-ed25519 AAAA''"
  have strip: "strip ?s = ?s"
    by code_simp
  have load: "load_ssh_public_key ex_crypto ?s = Some ?s"
    by (simp add: ex_crypto_def)
  have "\<exists>p. parse_ssh_public_key ex_crypto ?s = Inr p"
    unfolding parse_ssh_public_key_def strip load by (simp add: acceptable_def ex_crypto_def)
  then obtain p where p: "parse_ssh_public_key ex_crypto ?s = Inr p" by blast
  have "length (sha256_fingerprint ex_crypto k) = 32" for k
    by (simp add: ex_crypto_def)
  from fingerprint_decodes [OF p this] obtain f where
      "parsed_fingerprint p = ''SHA256:'' @ f" "b64decode (f @ ''='') = Some (sha256_fingerprint ex_crypto ?s)"
    unfolding strip load by auto
  then show ?thesis
    using p by (simp add: ex_crypto_def numeral_eq_Suc)
qed

section \<open>Storing\<close>

lemma taken_later:
  assumes "set (ssh_keys seen) \<subseteq> set (ssh_keys d)"
  shows "name_taken user name seen \<Longrightarrow> name_taken user name d" "fingerprint_taken f seen \<Longrightarrow> fingerprint_taken f d"
  using assms by (auto simp: name_taken_def fingerprint_taken_def list_ex_iff)

lemma flush_new_key:
  assumes "get_key kid d = None" "row_get usr_id user (users d) \<noteq> None" "length name \<le> 100"
    "length (parsed_type p) \<le> 50" "length (parsed_fingerprint p) \<le> 100"
  shows "flush_key (new_key kid now user name p) d =
     (if name_taken user name d \<or> fingerprint_taken (parsed_fingerprint p) d then Inl (IntegrityError ''ssh_public_keys'')
      else Inr (d\<lparr>ssh_keys := ssh_keys d @ [new_key kid now user name p]\<rparr>))"
  using assms by (auto simp: flush_key_def new_key_def)

text \<open>
  C36. Importing an acceptable key stores it exactly when neither its fingerprint nor, for this
  user, its name is taken at that moment; otherwise the answer is 409 and nothing is stored.
  This also holds when the other key was stored after the checks had found nothing.
\<close>

theorem import_stores_or_conflicts:
  assumes "parse body = Inr p" "set (ssh_keys seen) \<subseteq> set (ssh_keys d)"
    and "get_key kid d = None" "row_get usr_id user (users d) \<noteq> None" "length name \<le> 100"
    and "length (parsed_type p) \<le> 50" "length (parsed_fingerprint p) \<le> 100"
  shows "if name_taken user name d \<or> fingerprint_taken (parsed_fingerprint p) d
         then \<exists>m. import_ssh_key parse kid now user name body seen d = (Inl (HTTPException 409 m), d)
         else import_ssh_key parse kid now user name body seen d
                = (Inr (key_read (new_key kid now user name p)),
                   d\<lparr>ssh_keys := ssh_keys d @ [new_key kid now user name p]\<rparr>)"
  using assms(1) taken_later [OF assms(2)] flush_new_key [OF assms(3-7)]
  by (auto simp: import_ssh_key_def import_ssh_public_key_def Let_def split: if_splits)

abbreviation ex_parsed :: ParsedSshPublicKey where
  "ex_parsed \<equiv> \<lparr>parsed_type = ''ssh-ed25519'', parsed_public = ''ssh-ed25519 BBBB'', parsed_fingerprint = ''SHA256:y''\<rparr>"

theorem import_stores_or_conflicts_witness:
  "ssh_keys (snd (import_ssh_key (\<lambda>_. Inr ex_parsed) 8 9 1 ''desk'' ''k'' ex_db ex_db)) = [ex_key, new_key 8 9 1 ''desk'' ex_parsed]
   \<and> (\<exists>m. import_ssh_key (\<lambda>_. Inr ex_parsed) 8 9 1 ''laptop'' ''k'' (ex_db\<lparr>ssh_keys := []\<rparr>) ex_db = (Inl (HTTPException 409 m), ex_db))"
proof
  show "ssh_keys (snd (import_ssh_key (\<lambda>_. Inr ex_parsed) 8 9 1 ''desk'' ''k'' ex_db ex_db))
      = [ex_key, new_key 8 9 1 ''desk'' ex_parsed]"
    using import_stores_or_conflicts [of "\<lambda>_. Inr ex_parsed" "''k''" ex_parsed ex_db ex_db 8 1 "''desk''" 9]
    by (simp add: ex_db_def ex_key_def row_get_def name_taken_def fingerprint_taken_def)
  show "\<exists>m. import_ssh_key (\<lambda>_. Inr ex_parsed) 8 9 1 ''laptop'' ''k'' (ex_db\<lparr>ssh_keys := []\<rparr>) ex_db
      = (Inl (HTTPException 409 m), ex_db)"
    using import_stores_or_conflicts [of "\<lambda>_. Inr ex_parsed" "''k''" ex_parsed "ex_db\<lparr>ssh_keys := []\<rparr>" ex_db 8 1 "''laptop''" 9]
    by (simp add: ex_db_def ex_key_def row_get_def name_taken_def fingerprint_taken_def)
qed

text \<open>
  Generating a key pair answers 409 for a name that is taken when it looks, but when
  another request of the user stores a key of this name after that, the error of the database
  reaches the caller as it is. Importing answers 409 in the same situation. Nothing is stored
  in any of these cases.
\<close>

lemma generate_loses_the_race:
  assumes "parse pub = Inr p" "name_taken user name d" "name_taken user name seen \<or> \<not> fingerprint_taken (parsed_fingerprint p) seen"
    and "length name \<le> 100" "length (parsed_type p) \<le> 50" "length (parsed_fingerprint p) \<le> 100"
  shows "generate_ssh_key_pair_endpoint parse pub priv kid now user name seen d =
           (Inl (if name_taken user name seen then HTTPException 409 ''SSH key name already exists''
                 else IntegrityError ''ssh_public_keys''), d)
     \<and> import_ssh_key parse kid now user name pub seen d = (Inl (HTTPException 409 ''SSH key name already exists''), d)"
  using assms
  by (auto simp: generate_ssh_key_pair_endpoint_def generate_ssh_key_pair_def import_ssh_key_def import_ssh_public_key_def
      Let_def flush_key_def new_key_def)

end
