(* ===== verification/Web.thy ===== *)
theory Web
  imports VmServices Identity SshKeys
begin

text \<open>
  The pages of the portal: portal/app/web/router.py and the response models of the
  virtual machine and operation endpoints. Rendering a template is left to the library; a page is
  its context. A form maps the names of its fields to their values. \<open>coerce\<close> is pydantic's
  reading of the raw field values into integers, text and an identifier.
\<close>

section \<open>Response models\<close>

record VirtualMachineRead =
  vr_id :: uuid
  vr_status :: string
  vr_vcpus :: int
  vr_memory_mb :: int
  vr_storage_gb :: int
  vr_image_id :: string
  vr_ssh_key :: "uuid option"
  vr_created :: int
  vr_updated :: int

definition vm_read :: "VirtualMachine \<Rightarrow> VirtualMachineRead" where
  "vm_read v = \<lparr>vr_id = vm_id v, vr_status = vm_status v, vr_vcpus = vm_vcpus v, vr_memory_mb = vm_memory_mb v,
     vr_storage_gb = vm_storage_gb v, vr_image_id = vm_image v, vr_ssh_key = vm_ssh_key v,
     vr_created = vm_created v, vr_updated = vm_updated v\<rparr>"

record OperationRead =
  or_id :: uuid
  or_vm :: uuid
  or_type :: string
  or_status :: string
  or_phase :: "string option"
  or_created :: int
  or_updated :: int
  or_error :: "string option"

definition operation_read :: "Operation \<Rightarrow> OperationRead" where
  "operation_read op = \<lparr>or_id = op_id op, or_vm = op_vm op, or_type = op_type op, or_status = op_status op,
     or_phase = op_phase op, or_created = op_created op, or_updated = op_updated op, or_error = op_error op\<rparr>"

section \<open>The dashboard\<close>

record dashboard_context =
  dc_user :: uuid
  dc_quota :: "UserQuota option"
  dc_plan :: "ComputePlan option"
  dc_usage :: "usage option"
  dc_vms :: "VirtualMachine list"
  dc_ssh_keys :: "SshPublicKey list"
  dc_operations :: "Operation list"
  dc_csrf_token :: string
  dc_create_key :: string
  dc_start_keys :: "(uuid \<times> string) list"

text \<open>The operations of the machines of a user, newest first: the first ten.\<close>

definition recent_operations :: "uuid \<Rightarrow> db \<Rightarrow> Operation list" where
  "recent_operations user d =
     take 10 (sort_key (\<lambda>op. - op_created op)
       (filter (\<lambda>op. list_ex (\<lambda>v. op_vm op = vm_id v \<and> vm_owner v = user) (vms d)) (operations d)))"

text \<open>\<open>draw\<close> gives the key drawn for each machine, \<open>create_key\<close> the one for a new machine.\<close>

definition dashboard ::
  "(string \<Rightarrow> string) \<Rightarrow> (uuid \<Rightarrow> uuid) \<Rightarrow> uuid \<Rightarrow> string \<Rightarrow> uuid \<Rightarrow> db \<Rightarrow> dashboard_context" where
  "dashboard mac draw create_key session_token user d =
     (let quota = row_get quota_user user (quotas d);
          plan = (case quota of None \<Rightarrow> None | Some q \<Rightarrow> row_get plan_id (quota_plan q) (plans d));
          usage = (case plan of None \<Rightarrow> None | Some _ \<Rightarrow> Some (get_user_compute_usage user d));
          my = sort_key (\<lambda>v. - vm_created v) (filter (\<lambda>v. vm_owner v = user) (vms d))
      in \<lparr>dc_user = user, dc_quota = quota, dc_plan = plan, dc_usage = usage, dc_vms = my,
          dc_ssh_keys = sort_key (\<lambda>k. - key_created k) (filter (\<lambda>k. key_owner k = user) (ssh_keys d)),
          dc_operations = recent_operations user d,
          dc_csrf_token = make_csrf_token mac session_token,
          dc_create_key = uuid_str create_key,
          dc_start_keys = map (\<lambda>v. (vm_id v, uuid_str (draw (vm_id v)))) (filter (\<lambda>v. vm_status v = ''stopped'') my)\<rparr>)"

section \<open>The forms\<close>

text \<open>
  \<open>UUID(str(value))\<close>: a missing field reads \<open>None\<close>, and the text of an uploaded file is never an
  identifier.
\<close>

definition form_uuid :: "form_field \<Rightarrow> uuid option" where
  "form_uuid value =
     (case value of FieldText s \<Rightarrow> uuid_parse s | FieldMissing \<Rightarrow> uuid_parse ''None'' | FieldFile \<Rightarrow> None)"

definition vm_form_fields :: "string list" where
  "vm_form_fields = [''requested_vcpus'', ''requested_memory_mb'', ''requested_storage_gb'', ''image_id'', ''ssh_public_key_id'']"

definition read_vm_form ::
  "(form_field list \<Rightarrow> VirtualMachineCreate option) \<Rightarrow> (string \<Rightarrow> form_field) \<Rightarrow> VirtualMachineCreate option" where
  "read_vm_form coerce form =
     (case coerce (map form vm_form_fields) of None \<Rightarrow> None | Some r \<Rightarrow> validate_vm_create r)"

definition dashboard_vms ::
  "(form_field list \<Rightarrow> VirtualMachineCreate option) \<Rightarrow> uuid \<Rightarrow> uuid \<Rightarrow> int \<Rightarrow> uuid \<Rightarrow> (string \<Rightarrow> form_field) \<Rightarrow> db \<Rightarrow> (db, string) py" where
  "dashboard_vms coerce vid oid now user form seen d =
     (case read_vm_form coerce form of
        None \<Rightarrow> (Inl (HTTPException 422 ''Invalid VM form''), d)
      | Some request_model \<Rightarrow>
         (case form_uuid (form ''idempotency_key'') of
            None \<Rightarrow> (Inl (HTTPException 422 ''Invalid VM form''), d)
          | Some idempotency_key \<Rightarrow>
             (case create_vm vid oid now user request_model (uuid_str idempotency_key) seen d of
                (Inr vm, d') \<Rightarrow> (Inr ''/dashboard#vms'', d')
              | (Inl e, _) \<Rightarrow>
                 (case e of
                    PermissionError m \<Rightarrow> (Inl (HTTPException 403 m), d)
                  | ValueError m \<Rightarrow> (Inl (HTTPException 409 m), d)
                  | _ \<Rightarrow> (Inl e, d)))))"

definition vm_start ::
  "uuid \<Rightarrow> int \<Rightarrow> uuid \<Rightarrow> uuid \<Rightarrow> (string \<Rightarrow> form_field) \<Rightarrow> db \<Rightarrow> (db, string) py" where
  "vm_start oid now user vid form seen d =
     (case form_uuid (form ''idempotency_key'') of
        None \<Rightarrow> (Inl (HTTPException 422 ''Invalid idempotency key''), d)
      | Some idempotency_key \<Rightarrow>
         (case enqueue_vm_operation oid now user vid ''vm.start'' (uuid_str idempotency_key) seen d of
            (Inr operation, d') \<Rightarrow> (Inr ''/dashboard#vms'', d')
          | (Inl e, _) \<Rightarrow>
             (case e of
                LookupError m \<Rightarrow> (Inl (HTTPException 404 m), d)
              | ValueError m \<Rightarrow> (Inl (HTTPException 409 m), d)
              | _ \<Rightarrow> (Inl e, d))))"

end
