(* ===== verification/SignIn.thy ===== *)
theory SignIn
  imports SystemFacts Example
begin

text \<open>
  What holds of accounts and sessions in every reachable state of the portal: the tables stay
  consistent, a session that has ended stays ended, and a sign-in opens a session of the right
  user.
\<close>

section \<open>Accounts in every reachable state\<close>

text \<open>
  C22. In every reachable state no two users, identities, sessions, keys or quotas share what
  identifies them: issuer and subject, token digest, fingerprint, owner and name of a key. Every
  session, identity, key and machine belongs to a user that exists, and every user has exactly
  one quota.
\<close>

theorem accounts_stay_consistent:
  assumes "initial y\<^sub>0" "reachable A y\<^sub>0 y"
  shows "distinct (map usr_id (users (y_db y)))
     \<and> distinct (map (\<lambda>i. (ident_issuer i, ident_subject i)) (identities (y_db y)))
     \<and> distinct (map sess_token_hash (app_sessions (y_db y)))
     \<and> distinct (map key_fingerprint (ssh_keys (y_db y)))
     \<and> distinct (map (\<lambda>k. (key_owner k, key_name k)) (ssh_keys (y_db y)))
     \<and> set (map sess_user (app_sessions (y_db y)) @ map ident_user (identities (y_db y))
            @ map key_owner (ssh_keys (y_db y)) @ map vm_owner (vms (y_db y))) \<subseteq> usr_id ` set (users (y_db y))
     \<and> (\<forall>u\<in>set (users (y_db y)). length (filter (\<lambda>q. quota_user q = usr_id u) (quotas (y_db y))) = 1)"
proof -
  have ok: "accounts_ok (y_db y)"
    using reachable_ok [OF assms(2,1)] by (simp add: sys_ok_def)
  then have dist: "distinct (map quota_user (quotas (y_db y)))"
    and quota: "usr_id ` set (users (y_db y)) \<subseteq> quota_user ` set (quotas (y_db y))"
    by (simp_all add: accounts_ok_def)
  have one: "length (filter (\<lambda>q. quota_user q = u) qs) = 1" if "distinct (map quota_user qs)" "u \<in> quota_user ` set qs" for u qs
    using that by (induction qs) (auto simp: filter_empty_conv image_iff)
  have fns: "identity_key = (\<lambda>i. (ident_issuer i, ident_subject i))" "key_label = (\<lambda>k. (key_owner k, key_name k))"
    by (simp_all add: identity_key_def key_label_def fun_eq_iff)
  have "\<forall>u\<in>set (users (y_db y)). length (filter (\<lambda>q. quota_user q = usr_id u) (quotas (y_db y))) = 1"
    using one [OF dist] quota by blast
  then show ?thesis
    using ok by (simp add: accounts_ok_def fns list_all_iff known_user_def image_subset_iff)
qed

theorem accounts_stay_consistent_witness:
  "length (filter (\<lambda>q. quota_user q = 1) (quotas (y_db ex_sent))) = 1"
  using accounts_stay_consistent [OF ex_initial ex_sent_reachable]
  by (simp add: ex_sent_def ex_marked_def ex_db_def)

section \<open>Sessions over time\<close>

definition sessions_last :: "db \<Rightarrow> db \<Rightarrow> bool" where
  "sessions_last d d' \<longleftrightarrow>
     (\<forall>s\<in>set (app_sessions d). \<exists>s'\<in>set (app_sessions d').
        sess_token_hash s' = sess_token_hash s \<and> sess_expires s' = sess_expires s
        \<and> (sess_revoked s \<noteq> None \<longrightarrow> sess_revoked s' \<noteq> None))"

lemma sessions_last_refl [simp]: "sessions_last d d"
  by (auto simp: sessions_last_def)

lemma sessions_last_trans:
  assumes "sessions_last d e" "sessions_last e f"
  shows "sessions_last d f"
  unfolding sessions_last_def
proof
  fix s assume "s \<in> set (app_sessions d)"
  then obtain t where t: "t \<in> set (app_sessions e)" "sess_token_hash t = sess_token_hash s" "sess_expires t = sess_expires s"
      "sess_revoked s \<noteq> None \<longrightarrow> sess_revoked t \<noteq> None"
    using assms(1) unfolding sessions_last_def by blast
  then obtain u where "u \<in> set (app_sessions f)" "sess_token_hash u = sess_token_hash t" "sess_expires u = sess_expires t"
      "sess_revoked t \<noteq> None \<longrightarrow> sess_revoked u \<noteq> None"
    using assms(2) unfolding sessions_last_def by blast
  with t show "\<exists>s'\<in>set (app_sessions f). sess_token_hash s' = sess_token_hash s \<and> sess_expires s' = sess_expires s
      \<and> (sess_revoked s \<noteq> None \<longrightarrow> sess_revoked s' \<noteq> None)"
    by (intro bexI [of _ u]) auto
qed

lemma sessions_last_same: "app_sessions d' = app_sessions d \<Longrightarrow> sessions_last d d'"
  by (auto simp: sessions_last_def)

lemma sessions_last_append: "app_sessions d' = app_sessions d @ ss \<Longrightarrow> sessions_last d d'"
  by (auto simp: sessions_last_def)

lemma sessions_last_row_set:
  assumes ok: "accounts_ok d" and s: "row_get sess_token_hash h (app_sessions d) = Some s"
    and s': "sess_token_hash s' = sess_token_hash s" "sess_expires s' = sess_expires s" "sess_id s' = sess_id s"
      "sess_revoked s \<noteq> None \<Longrightarrow> sess_revoked s' \<noteq> None"
  shows "sessions_last d (d\<lparr>app_sessions := row_set sess_id s' (app_sessions d)\<rparr>)"
  unfolding sessions_last_def
proof
  fix r assume r: "r \<in> set (app_sessions d)"
  let ?rows = "row_set sess_id s' (app_sessions d)"
  have in_rows: "(if sess_id r = sess_id s' then s' else r) \<in> set ?rows"
    using r by (auto simp: row_set_def)
  have "inj_on sess_id (set (app_sessions d))"
    using ok by (simp add: accounts_ok_def distinct_map)
  then have "r = s" if "sess_id r = sess_id s'"
    using that r row_get_SomeD [OF s] s'(3) by (simp add: inj_on_def)
  then show "\<exists>t\<in>set (app_sessions (d\<lparr>app_sessions := ?rows\<rparr>)). sess_token_hash t = sess_token_hash r
      \<and> sess_expires t = sess_expires r \<and> (sess_revoked r \<noteq> None \<longrightarrow> sess_revoked t \<noteq> None)"
    using in_rows s' by (intro bexI [of _ "if sess_id r = sess_id s' then s' else r"]) auto
qed

lemma stored_sessions: "app_sessions (stored now op v op' v' d) = app_sessions d"
  by (simp add: stored_def)

lemma step_sessions_last:
  assumes st: "sys_step A y y'" and ok: "sys_ok y"
  shows "sessions_last (y_db y) (y_db y')"
proof -
  have dok: "db_ok (y_db y)" and aok: "accounts_ok (y_db y)"
    using ok by (simp_all add: sys_ok_def)
  note same = sessions_last_same
  from st show ?thesis
  proof (cases rule: sys_step.cases)
    case (pass now locked r d p)
    from dok pass(2) have "app_sessions d = app_sessions (y_db y)"
      by (cases rule: first_transaction_cases) (simp_all add: stored_sessions)
    then show ?thesis using pass(1) by (simp add: same)
  next
    case (store xs c res ys now)
    have "recorded (y_db y) c"
      using ok store(2) by (simp add: sys_ok_def)
    from recorded_for [OF this] have "app_sessions (store_outcome now c res (y_db y)) = app_sessions (y_db y)"
      by (rule store_outcome_cases [OF dok, of c now res]) (simp_all add: stored_sessions)
    then show ?thesis using store(1) by (simp add: same)
  next
    case (create user seen vid oid now r key res d)
    from create_my_vm_db [OF create(3)] have "app_sessions d = app_sessions (y_db y)"
      by (auto elim!: create_vm_cases)
    then show ?thesis using create(1) by (simp add: same)
  next
    case (order vid seen action oid now user key res d)
    have "app_sessions d = app_sessions (y_db y)"
    proof (cases "map_of lifecycle_endpoints action")
      case (Some T)
      with order have "enqueue_lifecycle_operation oid now user vid T key seen (y_db y) = (res, d)"
        by (simp add: post_lifecycle_def)
      from enqueue_lifecycle_db [OF this] show ?thesis
        by (auto elim!: enqueue_cases)
    qed (use order in \<open>simp add: post_lifecycle_def\<close>)
    then show ?thesis using order(1) by (simp add: same)
  next
    case (import_key parse kid now user name body seen imported d)
    from import_key_db [OF import_key(2)] have "app_sessions d = app_sessions (y_db y)"
      by (auto dest: flush_key_Inr(1))
    then show ?thesis using import_key(1) by (simp add: same)
  next
    case (generate_key parse pub priv kid now user name seen generated d)
    from generate_key_db [OF generate_key(2)] have "app_sessions d = app_sessions (y_db y)"
      by (auto dest: flush_key_Inr(1))
    then show ?thesis using generate_key(1) by (simp add: same)
  next
    case (sign_in seen sha max_age w now issuer subject email answer d)
    from sign_in(3) have "sessions_last (y_db y) d"
    proof (cases rule: login_cases)
      case (signed_in user d1)
      then show ?thesis
        using get_or_create_frame(5) [OF signed_in(2)] by (intro sessions_last_append) simp
    qed simp
    then show ?thesis using sign_in(1) by simp
  next
    case (sign_out sha now token)
    have "sessions_last (y_db y) (revoke_user_session sha now token (y_db y))"
      unfolding revoke_user_session_def
      by (auto split: option.splits intro!: sessions_last_row_set [OF aok])
    then show ?thesis using sign_out by simp
  next
    case (authenticate sha now token found d)
    have "sessions_last (y_db y) d"
    proof (cases found)
      case (Inl e)
      with authenticate(2) current_user_Inl show ?thesis by fastforce
    next
      case (Inr user)
      from authenticate(2) [unfolded Inr current_user_Inr] obtain t s where
          s: "row_get sess_token_hash (sha t) (app_sessions (y_db y)) = Some s"
          "d = (if now - sess_last_seen s \<ge> LAST_SEEN_UPDATE_INTERVAL
               then (y_db y)\<lparr>app_sessions := row_set sess_id (s\<lparr>sess_last_seen := now\<rparr>) (app_sessions (y_db y))\<rparr>
               else y_db y)"
        by blast
      have "sessions_last (y_db y)
          ((y_db y)\<lparr>app_sessions := row_set sess_id (s\<lparr>sess_last_seen := now\<rparr>) (app_sessions (y_db y))\<rparr>)"
        by (rule sessions_last_row_set [OF aok s(1)]) simp_all
      with s(2) show ?thesis by simp
    qed
    then show ?thesis using authenticate(1) by simp
  qed simp_all
qed

lemma reachable_sessions_last:
  assumes "reachable A y y'" "sys_ok y"
  shows "sessions_last (y_db y) (y_db y') \<and> sys_ok y'"
  using assms
proof (induction rule: reachable.induct)
  case (step y1 y2)
  then show ?case
    using step_sessions_last [OF step.hyps(2)] sys_step_ok [OF step.hyps(2)] sessions_last_trans by blast
qed simp

lemma session_with_hash:
  assumes "accounts_ok d" "s \<in> set (app_sessions d)" "sess_token_hash s = h"
  shows "row_get sess_token_hash h (app_sessions d) = Some s" "\<exists>u. row_get usr_id (sess_user s) (users d) = Some u"
proof -
  show "row_get sess_token_hash h (app_sessions d) = Some s"
    using row_get_unique [of sess_token_hash "app_sessions d" s] assms by (simp add: accounts_ok_def)
  have "known_user d (sess_user s)"
    using assms(1,2) by (simp add: accounts_ok_def list_all_iff)
  then show "\<exists>u. row_get usr_id (sess_user s) (users d) = Some u"
    using known_user_row by blast
qed

text \<open>
  C21. A session that was revoked or has expired stays unusable: whatever requests and workers
  do afterwards, the other users' and this user's sign-ins included, its token is answered 401.
  Using a session does not extend it.
\<close>

theorem ended_session_stays_ended:
  assumes "initial y\<^sub>0" "reachable A y\<^sub>0 y" "reachable A y y'"
    and "row_get sess_token_hash (sha t) (app_sessions (y_db y)) = Some s"
    and "sess_revoked s \<noteq> None \<or> sess_expires s \<le> now"
  shows "get_current_user sha now (Some t) (y_db y') = (Inl (HTTPException 401 ''Invalid session''), y_db y')"
proof -
  have "sys_ok y"
    by (rule reachable_ok [OF assms(2,1)])
  from reachable_sessions_last [OF assms(3) this] have last: "sessions_last (y_db y) (y_db y')"
    and ok: "accounts_ok (y_db y')"
    by (simp_all add: sys_ok_def)
  have "s \<in> set (app_sessions (y_db y))" "sess_token_hash s = sha t"
    using row_get_SomeD [OF assms(4)] by simp_all
  with last obtain s' where s': "s' \<in> set (app_sessions (y_db y'))" "sess_token_hash s' = sha t"
      "sess_expires s' = sess_expires s" "sess_revoked s \<noteq> None \<longrightarrow> sess_revoked s' \<noteq> None"
    unfolding sessions_last_def by metis
  note row = session_with_hash [OF ok s'(1,2)]
  then obtain u where u: "row_get usr_id (sess_user s') (users (y_db y')) = Some u" by blast
  show ?thesis
    using assms(5) s'(3,4) row(1) u
    by (auto simp: get_current_user_def get_user_by_session_token_def)
qed

definition ex_session :: ApplicationSession where
  "ex_session = new_session (\<lambda>t. t) 3600 7 0 1 ''token''"

definition ex_signed_db :: db where
  "ex_signed_db = ex_db\<lparr>identities := [\<lparr>ident_id = 8, ident_user = 1, ident_issuer = ''idp'', ident_subject = ''sub'',
     ident_email = ''a@b'', ident_email_verified = True, ident_created = 0\<rparr>], app_sessions := [ex_session]\<rparr>"

definition ex_signed :: "fake sys" where "ex_signed = ex_start\<lparr>y_db := ex_signed_db\<rparr>"

lemma ex_signed_initial: "initial ex_signed"
  using ex_initial by (simp add: initial_def ex_signed_def ex_start_def ex_signed_db_def ex_db_def accounts_ok_def
      known_user_def ex_session_def new_session_def identity_key_def)

definition ex_left :: "fake sys" where
  "ex_left = ex_signed\<lparr>y_db := revoke_user_session (\<lambda>t. t) 50 (Some ''token'') ex_signed_db\<rparr>"

lemma ex_left_reachable: "reachable ex_adapter ex_signed ex_left"
  using sign_out [of ex_adapter ex_signed "\<lambda>t. t" 50 "Some ''token''"] reachable.step [OF reachable.init]
  by (simp add: ex_left_def ex_signed_def)

lemma ex_left_row:
  "row_get sess_token_hash ''token'' (app_sessions (y_db ex_left)) = Some (ex_session\<lparr>sess_revoked := Some 50\<rparr>)"
  by (simp add: ex_left_def revoke_user_session_def ex_signed_db_def ex_session_def new_session_def row_get_def row_set_def)

theorem ended_session_stays_ended_witness:
  "fst (get_current_user (\<lambda>t. t) 60 (Some ''token'') (y_db ex_left)) = Inl (HTTPException 401 ''Invalid session'')
   \<and> fst (get_current_user (\<lambda>t. t) 40 (Some ''token'') ex_signed_db) = Inr \<lparr>usr_id = 1, usr_is_active = True, usr_created = 0\<rparr>"
proof
  show "fst (get_current_user (\<lambda>t. t) 60 (Some ''token'') (y_db ex_left)) = Inl (HTTPException 401 ''Invalid session'')"
    using ended_session_stays_ended [where sha = "\<lambda>t. t" and t = "''token''" and now = 60, OF ex_signed_initial
        ex_left_reachable reachable.init ex_left_row] by simp
  show "fst (get_current_user (\<lambda>t. t) 40 (Some ''token'') ex_signed_db) = Inr \<lparr>usr_id = 1, usr_is_active = True, usr_created = 0\<rparr>"
    by (simp add: ex_signed_db_def ex_session_def new_session_def get_current_user_def get_user_by_session_token_def
        row_get_def ex_db_def LAST_SEEN_UPDATE_INTERVAL_def)
qed

section \<open>Signing in\<close>

lemma identity_with_key:
  assumes "accounts_ok d" "i \<in> set (identities d)" "identity_key i = (issuer, subject)"
  shows "find_identity issuer subject d = Some i"
proof -
  have "inj_on identity_key (set (identities d))"
    using assms(1) by (simp add: accounts_ok_def distinct_map)
  then have "j = i" if "find_identity issuer subject d = Some j" for j
    using find_identityD [OF that] assms(2,3) by (simp add: inj_on_def)
  moreover have "find_identity issuer subject d \<noteq> None"
    unfolding find_identity_None using imageI [OF assms(2), of identity_key] assms(3) by simp
  ultimately show ?thesis by auto
qed

lemma get_or_create_user_row:
  assumes g: "get_or_create_user w now issuer subject email d d = (Inr user, d')"
  shows "(row_get usr_id (usr_id user) (users d') = Some user)
     \<and> (\<exists>i\<in>set (identities d'). identity_key i = (issuer, subject) \<and> ident_user i = usr_id user
           \<and> ident_email i = email \<and> ident_email_verified i)"
  using g
proof (cases rule: get_or_create_cases)
  case (known i user')
  let ?i = "i\<lparr>ident_email := email, ident_email_verified := True\<rparr>"
  have i: "i \<in> set (identities d)" "identity_key i = (issuer, subject)"
    using find_identityD [OF known(2)] by simp_all
  then have "?i \<in> set (row_set ident_id ?i (identities d))"
    by (force simp: row_set_def)
  moreover have "user' = user" "usr_id user' = ident_user i"
    using known(1) row_get_SomeD [OF known(3)] by simp_all
  ultimately show ?thesis
    using known(3) i(2) unfolding known(4) by (intro conjI bexI [of _ ?i]) (simp_all add: identity_key_def)
next
  case (created plan)
  have "user = new_user w now"
    using created(1) by simp
  moreover have "row_get usr_id (dr_user w) (users d @ [new_user w now]) = Some (new_user w now)"
    using created(4) by (simp add: row_get_append_new row_get_None_iff)
  ultimately show ?thesis
    unfolding created(9) by (simp add: identity_key_def)
qed simp

text \<open>
  C32. The token that a sign-in returns authenticates, until it expires, the active user to whom
  the identity (issuer and subject) of that sign-in belongs, and the identity has the verified
  e-mail address of the sign-in.
\<close>

theorem sign_in_authenticates:
  assumes "initial y\<^sub>0" "reachable A y\<^sub>0 y"
    and "login_and_create_session sha max_age w now issuer subject email (y_db y) (y_db y) = (Inr token, d)"
    and "now' < now + max_age * 1000000"
  shows "\<exists>user i. fst (get_current_user sha now' (Some token) d) = Inr user \<and> usr_is_active user
     \<and> find_identity issuer subject d = Some i \<and> ident_user i = usr_id user
     \<and> ident_email i = email \<and> ident_email_verified i"
  using assms(3)
proof (cases rule: login_cases)
  case (signed_in user d1)
  let ?s = "new_session sha max_age (dr_session w) now (usr_id user) (dr_token w)"
  have ok: "accounts_ok (y_db y)"
    using reachable_ok [OF assms(2,1)] by (simp add: sys_ok_def)
  have d: "accounts_ok d"
    by (rule login_accounts_ok [OF assms(3) accounts_grow_refl ok])
  have "?s \<in> set (app_sessions d)" "sess_token_hash ?s = sha token"
    using signed_in(1,5) by (simp_all add: new_session_def)
  note row = session_with_hash(1) [OF d this]
  from get_or_create_user_row [OF signed_in(2)] obtain i where
      i: "row_get usr_id (usr_id user) (users d1) = Some user" "i \<in> set (identities d1)"
        "identity_key i = (issuer, subject)" "ident_user i = usr_id user" "ident_email i = email" "ident_email_verified i"
    by blast
  have same: "users d = users d1" "identities d = identities d1"
    by (simp_all add: signed_in(5))
  have "find_identity issuer subject d = Some i"
    by (rule identity_with_key [OF d]) (use i(2,3) same in simp_all)
  moreover have "fst (get_current_user sha now' (Some token) d) = Inr user"
    using row i(1) signed_in(3) assms(4) same
    by (simp add: get_current_user_def get_user_by_session_token_def new_session_def)
  ultimately show ?thesis
    using i signed_in(3) by blast
qed simp

definition ex_draws :: draws where
  "ex_draws = \<lparr>dr_user = 11, dr_identity = 12, dr_session = 13, dr_token = ''fresh''\<rparr>"

lemma ex_login:
  "fst (login_and_create_session (\<lambda>t. t) 3600 ex_draws 100 ''idp'' ''sub'' ''c@d'' ex_signed_db ex_signed_db) = Inr ''fresh''"
  by (simp add: login_and_create_session_def get_or_create_user_def find_identity_def ex_signed_db_def ex_db_def
      ex_draws_def row_get_def ex_session_def new_session_def)

theorem sign_in_authenticates_witness:
  "\<exists>user. fst (get_current_user (\<lambda>t. t) 200 (Some ''fresh'')
      (snd (login_and_create_session (\<lambda>t. t) 3600 ex_draws 100 ''idp'' ''sub'' ''c@d'' ex_signed_db ex_signed_db))) = Inr user
    \<and> usr_is_active user"
proof -
  let ?l = "login_and_create_session (\<lambda>t. t) 3600 ex_draws 100 ''idp'' ''sub'' ''c@d'' ex_signed_db ex_signed_db"
  have "?l = (Inr ''fresh'', snd ?l)"
    using ex_login by (simp add: prod_eq_iff)
  moreover have "y_db ex_signed = ex_signed_db"
    by (simp add: ex_signed_def)
  ultimately have l: "login_and_create_session (\<lambda>t. t) 3600 ex_draws 100 ''idp'' ''sub'' ''c@d'' (y_db ex_signed) (y_db ex_signed)
      = (Inr ''fresh'', snd ?l)"
    by simp
  have "(200::int) < 100 + 3600 * 1000000"
    by simp
  from sign_in_authenticates [OF ex_signed_initial reachable.init l this] show ?thesis
    by blast
qed

text \<open>
  C33. When two first sign-ins of one identity race, the one that loses meets the identity the
  other has just inserted, tries once more, and signs in as that same user: it adds a session
  and no user, identity or quota.
\<close>

theorem lost_sign_in_is_retried:
  assumes "find_identity (ui_iss info) (ui_sub info) seen = None" "find_identity (ui_iss info) (ui_sub info) d = Some i"
    and "row_get usr_id (ident_user i) (users d) = Some user" "usr_is_active user"
    and "ui_email info = Some email" "email \<noteq> []" "ui_email_verified info"
    and "length (ui_iss info) \<le> 255" "length (ui_sub info) \<le> 255" "length email \<le> 320" "fresh_session sha w' d"
  shows "\<exists>c d'. auth_callback sha max_age secure w w' now info seen d = (Inr c, d')
     \<and> ck_value c = dr_token w' \<and> ck_httponly c \<and> ck_samesite c = ''lax''
     \<and> users d' = users d \<and> quotas d' = quotas d \<and> map ident_id (identities d') = map ident_id (identities d)
     \<and> app_sessions d' = app_sessions d @ [new_session sha max_age (dr_session w') now (usr_id user) (dr_token w')]"
proof -
  have lost: "\<exists>m. login_and_create_session sha max_age w now (ui_iss info) (ui_sub info) email seen d = (Inl (IntegrityError m), d)"
    using assms(1,2,8-10) by (simp add: login_and_create_session_def get_or_create_user_def Let_def)
  let ?i = "i\<lparr>ident_email := email, ident_email_verified := True\<rparr>"
  let ?d = "d\<lparr>identities := row_set ident_id ?i (identities d),
      app_sessions := app_sessions d @ [new_session sha max_age (dr_session w') now (usr_id user) (dr_token w')]\<rparr>"
  have "row_get sess_token_hash (sha (dr_token w')) (app_sessions d) = None" "row_get sess_id (dr_session w') (app_sessions d) = None"
    using assms(11) by (simp_all add: fresh_session_def row_get_None_iff)
  then have again: "login_and_create_session sha max_age w' now (ui_iss info) (ui_sub info) email d d = (Inr (dr_token w'), ?d)"
    using assms(2-4,8-10) by (simp add: login_and_create_session_def get_or_create_user_def)
  have "map ident_id (identities ?d) = map ident_id (identities d)"
    by (simp add: row_set_def)
  then show ?thesis
    using lost again assms(5-7) unfolding auth_callback_def Let_def by auto
qed

abbreviation ex_info :: userinfo where
  "ex_info \<equiv> \<lparr>ui_email = Some ''c@d'', ui_email_verified = True, ui_iss = ''idp'', ui_sub = ''sub''\<rparr>"

theorem lost_sign_in_is_retried_witness:
  "\<exists>c d'. auth_callback (\<lambda>t. t) 3600 True ex_draws ex_draws 100 ex_info ex_db ex_signed_db = (Inr c, d')
     \<and> users d' = users ex_signed_db \<and> length (app_sessions d') = 2"
  using lost_sign_in_is_retried [of ex_info ex_db ex_signed_db "hd (identities ex_signed_db)" "hd (users ex_db)" "''c@d''"
      "\<lambda>t. t" ex_draws 3600 True ex_draws 100]
  by (auto simp: ex_signed_db_def ex_db_def find_identity_def row_get_def fresh_session_def ex_draws_def ex_session_def
      new_session_def)

section \<open>The CSRF check\<close>



end
