(* ===== verification/WebFacts.thy ===== *)
theory WebFacts
  imports Web Orders SignIn
begin

text \<open>What the pages show and what their forms do, against the programming interface.\<close>

section \<open>Forms and endpoints\<close>

definition answered_alike :: "exc + 'a \<Rightarrow> exc + 'b \<Rightarrow> bool" where
  "answered_alike a b \<longleftrightarrow> (case a of Inl e \<Rightarrow> b = Inl e | Inr _ \<Rightarrow> (\<exists>x. b = Inr x))"

lemma dashboard_vms_api:
  assumes "read_vm_form coerce form = Some r" "form_uuid (form ''idempotency_key'') = Some key"
  shows "snd (dashboard_vms coerce vid oid now user form seen d) = snd (create_my_vm vid oid now user r key seen d)"
    "answered_alike (fst (create_my_vm vid oid now user r key seen d)) (fst (dashboard_vms coerce vid oid now user form seen d))"
proof -
  obtain q e where c: "create_vm vid oid now user r (uuid_str key) seen d = (q, e)"
    by (cases "create_vm vid oid now user r (uuid_str key) seen d")
  show "snd (dashboard_vms coerce vid oid now user form seen d) = snd (create_my_vm vid oid now user r key seen d)"
    "answered_alike (fst (create_my_vm vid oid now user r key seen d)) (fst (dashboard_vms coerce vid oid now user form seen d))"
    using assms c by (cases q; simp add: dashboard_vms_def create_my_vm_def answered_alike_def split: exc.split)+
qed

lemma vm_start_api:
  assumes "form_uuid (form ''idempotency_key'') = Some key"
  shows "snd (vm_start oid now user vid form seen d) = snd (post_lifecycle ''start'' oid now user vid key seen d)"
    "answered_alike (fst (post_lifecycle ''start'' oid now user vid key seen d)) (fst (vm_start oid now user vid form seen d))"
proof -
  obtain q e where c: "enqueue_vm_operation oid now user vid ''vm.start'' (uuid_str key) seen d = (q, e)"
    by (cases "enqueue_vm_operation oid now user vid ''vm.start'' (uuid_str key) seen d")
  have "post_lifecycle ''start'' oid now user vid key seen d = enqueue_lifecycle_operation oid now user vid ''vm.start'' key seen d"
    by (simp add: post_lifecycle_def lifecycle_endpoints_def)
  then show "snd (vm_start oid now user vid form seen d) = snd (post_lifecycle ''start'' oid now user vid key seen d)"
    "answered_alike (fst (post_lifecycle ''start'' oid now user vid key seen d)) (fst (vm_start oid now user vid form seen d))"
    using assms c by (cases q; simp add: vm_start_def enqueue_lifecycle_operation_def answered_alike_def split: exc.split)+
qed

text \<open>
  The forms of the dashboard are the endpoints of the programming interface: on a form that
  reads as a request, each changes the tables exactly as its endpoint does, raises the same
  HTTP error, and is a step of the portal, so that the invariants hold for it too; on any other
  form it answers 422 and changes nothing.
\<close>

lemma forms_are_orders:
  assumes "quota_locked user seen (y_db y)" "vm_locked vm seen (y_db y)"
  shows "(case (read_vm_form coerce form, form_uuid (form ''idempotency_key'')) of
            (Some r, Some key) \<Rightarrow>
              snd (dashboard_vms coerce vid oid now user form seen (y_db y)) = snd (create_my_vm vid oid now user r key seen (y_db y))
              \<and> answered_alike (fst (create_my_vm vid oid now user r key seen (y_db y)))
                  (fst (dashboard_vms coerce vid oid now user form seen (y_db y)))
              \<and> sys_step A y (y\<lparr>y_db := snd (dashboard_vms coerce vid oid now user form seen (y_db y))\<rparr>)
          | _ \<Rightarrow> dashboard_vms coerce vid oid now user form seen (y_db y) = (Inl (HTTPException 422 ''Invalid VM form''), y_db y))
     \<and> (case form_uuid (form ''idempotency_key'') of
            Some key \<Rightarrow>
              snd (vm_start oid now user vm form seen (y_db y)) = snd (post_lifecycle ''start'' oid now user vm key seen (y_db y))
              \<and> answered_alike (fst (post_lifecycle ''start'' oid now user vm key seen (y_db y)))
                  (fst (vm_start oid now user vm form seen (y_db y)))
              \<and> sys_step A y (y\<lparr>y_db := snd (vm_start oid now user vm form seen (y_db y))\<rparr>)
          | None \<Rightarrow> vm_start oid now user vm form seen (y_db y) = (Inl (HTTPException 422 ''Invalid idempotency key''), y_db y))"
proof (rule conjI, goal_cases)
  case 1
  show ?case
  proof (cases "read_vm_form coerce form")
    case None
    then show ?thesis by (simp add: dashboard_vms_def)
  next
    case (Some r)
    show ?thesis
    proof (cases "form_uuid (form ''idempotency_key'')")
      case None
      then show ?thesis using Some by (simp add: dashboard_vms_def)
    next
      fix key
      assume key: "form_uuid (form ''idempotency_key'') = Some key"
      note api = dashboard_vms_api [where coerce = coerce and form = form, OF Some key]
      have "sys_step A y (y\<lparr>y_db := snd (create_my_vm vid oid now user r key seen (y_db y))\<rparr>)"
        by (rule create [OF assms(1) prod.collapse [symmetric]])
      then show ?thesis
        using Some key api by simp
    qed
  qed
next
  case 2
  show ?case
  proof (cases "form_uuid (form ''idempotency_key'')")
    case None
    then show ?thesis by (simp add: vm_start_def)
  next
    case (Some key)
    have "sys_step A y (y\<lparr>y_db := snd (post_lifecycle ''start'' oid now user vm key seen (y_db y))\<rparr>)"
      by (rule order [OF assms(2) prod.collapse [symmetric]])
    then show ?thesis
      using Some vm_start_api [where form = form, OF Some] by simp
  qed
qed

section \<open>The dashboard\<close>

lemma first_of_sorted:
  fixes k :: "'a \<Rightarrow> int"
  assumes "x \<in> set xs" "x \<notin> set (take n (sort_key k xs))"
  shows "length (take n (sort_key k xs)) = n \<and> (\<forall>q\<in>set (take n (sort_key k xs)). k q \<le> k x)"
proof -
  let ?S = "sort_key k xs"
  have "x \<in> set (take n ?S @ drop n ?S)"
    using assms(1) by simp
  then have x: "x \<in> set (drop n ?S)"
    using assms(2) unfolding set_append by simp
  have "sorted (map k (take n ?S @ drop n ?S))"
    by simp
  then have "\<forall>q\<in>set (take n ?S). \<forall>r\<in>set (drop n ?S). k q \<le> k r"
    unfolding map_append sorted_append by simp
  moreover have "n < length ?S"
    using x by (cases "n < length ?S") simp_all
  ultimately show ?thesis
    using x by simp
qed

text \<open>
  C38. The dashboard of a signed-in user shows the user's own machines and keys, all of them and
  no others, and at most ten operations, all on these machines, none of them older than one it
  leaves out. It offers a start key exactly for the machines that are stopped. The quota is
  always there, and the usage shown with a plan is within the plan.
\<close>

theorem dashboard_shows_own:
  assumes "initial y\<^sub>0" "reachable A y\<^sub>0 y" "u \<in> set (users (y_db y))"
    and c: "c = dashboard mac draw key token (usr_id u) (y_db y)"
  shows "set (dc_vms c) = {v \<in> set (vms (y_db y)). vm_owner v = usr_id u}
     \<and> set (dc_ssh_keys c) = {k \<in> set (ssh_keys (y_db y)). key_owner k = usr_id u}
     \<and> (\<forall>op\<in>set (dc_operations c). op_vm op \<in> vm_id ` set (dc_vms c))
     \<and> (\<forall>op\<in>set (operations (y_db y)). op_vm op \<in> vm_id ` set (dc_vms c) \<longrightarrow>
          op \<in> set (dc_operations c) \<or> (length (dc_operations c) = 10 \<and> (\<forall>q\<in>set (dc_operations c). op_created op \<le> op_created q)))
     \<and> length (dc_operations c) \<le> 10
     \<and> set (map fst (dc_start_keys c)) = vm_id ` {v \<in> set (dc_vms c). vm_status v = ''stopped''}
     \<and> (\<exists>q. dc_quota c = Some q \<and> quota_user q = usr_id u)
     \<and> (\<forall>p us. dc_plan c = Some p \<longrightarrow> dc_usage c = Some us \<longrightarrow> fits_plan us p)"
proof -
  let ?d = "y_db y" and ?u = "usr_id u"
  have ok: "accounts_ok ?d" "quota_ok ?d"
    using reachable_ok [OF assms(2,1)] by (simp_all add: sys_ok_def)
  let ?mine = "filter (\<lambda>op. list_ex (\<lambda>v. op_vm op = vm_id v \<and> vm_owner v = ?u) (vms ?d)) (operations ?d)"
  let ?sorted = "sort_key (\<lambda>op. - op_created op) ?mine"
  have vms: "set (dc_vms c) = {v \<in> set (vms ?d). vm_owner v = ?u}"
    and keys: "set (dc_ssh_keys c) = {k \<in> set (ssh_keys ?d). key_owner k = ?u}"
    and ops: "dc_operations c = take 10 ?sorted"
    and starts: "set (map fst (dc_start_keys c)) = vm_id ` {v \<in> set (dc_vms c). vm_status v = ''stopped''}"
    and quota: "dc_quota c = row_get quota_user ?u (quotas ?d)"
    by (auto simp: c dashboard_def Let_def recent_operations_def image_iff)
  have mine: "set ?mine = {op \<in> set (operations ?d). op_vm op \<in> vm_id ` set (dc_vms c)}"
    unfolding vms by (auto simp: list_ex_iff)
  have own: "\<forall>op\<in>set (dc_operations c). op_vm op \<in> vm_id ` set (dc_vms c)"
    using mine set_take_subset [of 10 ?sorted] unfolding ops by auto
  have newest: "op \<in> set (dc_operations c) \<or> (length (dc_operations c) = 10 \<and> (\<forall>q\<in>set (dc_operations c). op_created op \<le> op_created q))"
    if op: "op \<in> set (operations ?d)" "op_vm op \<in> vm_id ` set (dc_vms c)" for op
  proof (cases "op \<in> set (dc_operations c)")
    case False
    moreover have "op \<in> set ?mine"
      using op unfolding mine by simp
    ultimately show ?thesis
      using first_of_sorted [of op ?mine 10 "\<lambda>op. - op_created op"] unfolding ops by simp
  qed simp
  have "?u \<in> quota_user ` set (quotas ?d)"
    using ok(1) assms(3) by (auto simp: accounts_ok_def)
  then have "row_get quota_user ?u (quotas ?d) \<noteq> None"
    by (simp add: row_get_None_iff)
  then obtain q where q: "row_get quota_user ?u (quotas ?d) = Some q" by blast
  note qu = row_get_SomeD [OF q]
  have "fits_plan us p" if "dc_plan c = Some p" "dc_usage c = Some us" for p us
  proof -
    have p: "row_get plan_id (quota_plan q) (plans ?d) = Some p" and us: "us = get_user_compute_usage ?u ?d"
      using that q by (simp_all add: c dashboard_def Let_def)
    have "\<forall>p. row_get plan_id (quota_plan q) (plans ?d) = Some p \<longrightarrow> fits_plan (get_user_compute_usage (quota_user q) ?d) p"
      using bspec [OF ok(2) [unfolded quota_ok_def], of q] q qu by simp
    then show ?thesis
      using p us qu by simp
  qed
  moreover have "length (dc_operations c) \<le> 10"
    by (simp add: ops)
  moreover have "\<exists>q. dc_quota c = Some q \<and> quota_user q = ?u"
    using quota q qu by simp
  ultimately show ?thesis
    using vms keys own newest starts by blast
qed

theorem dashboard_shows_own_witness:
  "\<exists>q. dc_quota (dashboard (\<lambda>t. t) (\<lambda>v. v) 9 ''token'' 1 (y_db ex_sent)) = Some q \<and> quota_user q = 1"
proof -
  have "\<lparr>usr_id = 1, usr_is_active = True, usr_created = 0\<rparr> \<in> set (users (y_db ex_sent))"
    by (simp add: ex_sent_def ex_marked_def ex_db_def)
  from dashboard_shows_own [OF ex_initial ex_sent_reachable this refl, of "\<lambda>t. t" "\<lambda>v. v" 9 "''token''"]
  show ?thesis by simp
qed

end
