(* ===== verification/Portal.thy ===== *)
theory Portal
  imports Web
begin

text \<open>
  The application: portal/app/core/config.py, identity/oidc.py, system/router.py, main.py and the
  routers it includes. A request is matched against the routes, the dependencies of the route
  admit it or not, and its endpoint serves it. What the request meets outside of the portal's code
  (the clock, random draws, digests, the parsing of bodies, the identity provider, the answer to
  \<open>SELECT 1\<close> and which exceptions are SQLAlchemy's) is the record \<open>platform\<close>. The routes that FastAPI adds for its own documentation and
  its redirects between paths with and without a trailing slash are left out; both run no code of
  the portal.
\<close>

section \<open>Settings\<close>

record Settings =
  database_url :: string
  oidc_issuer :: string
  oidc_client_id :: string
  oidc_client_secret :: string
  oidc_state_secret :: string
  oidc_cookie_secure :: bool
  session_max_age_seconds :: int
  csrf_secret :: string

definition optional_setting :: "(string \<Rightarrow> 'a option) \<Rightarrow> 'a \<Rightarrow> string option \<Rightarrow> 'a option" where
  "optional_setting read x v = (case v of None \<Rightarrow> Some x | Some s \<Rightarrow> read s)"

text \<open>\<open>as_bool\<close> and \<open>as_int\<close> are pydantic's readings of a text; \<open>env\<close> the environment with the file \<open>.env\<close>.\<close>

definition load_settings ::
  "(string \<Rightarrow> bool option) \<Rightarrow> (string \<Rightarrow> int option) \<Rightarrow> (string \<Rightarrow> string option) \<Rightarrow> exc + Settings" where
  "load_settings as_bool as_int env =
     (let get = (\<lambda>name. or_empty (env name)) in
      if list_ex (\<lambda>name. env name = None)
           [''database_url'', ''oidc_issuer'', ''oidc_client_id'', ''oidc_client_secret'', ''oidc_state_secret'', ''csrf_secret'']
      then Inl (ValueError ''Field required'')
      else
        (case (optional_setting as_bool False (env ''oidc_cookie_secure''),
               optional_setting as_int (7 * 24 * 60 * 60) (env ''session_max_age_seconds'')) of
           (Some secure, Some max_age) \<Rightarrow>
             Inr \<lparr>database_url = get ''database_url'', oidc_issuer = get ''oidc_issuer'',
                  oidc_client_id = get ''oidc_client_id'', oidc_client_secret = get ''oidc_client_secret'',
                  oidc_state_secret = get ''oidc_state_secret'', oidc_cookie_secure = secure,
                  session_max_age_seconds = max_age, csrf_secret = get ''csrf_secret''\<rparr>
         | _ \<Rightarrow> Inl (ValueError ''invalid setting'')))"

text \<open>The client that is registered with the OIDC library.\<close>

record oidc_client =
  oc_name :: string
  oc_client_id :: string
  oc_client_secret :: string
  oc_server_metadata_url :: string
  oc_scope :: string

definition oauth_keycloak :: "Settings \<Rightarrow> oidc_client" where
  "oauth_keycloak s =
     \<lparr>oc_name = ''keycloak'', oc_client_id = oidc_client_id s, oc_client_secret = oidc_client_secret s,
      oc_server_metadata_url = oidc_issuer s @ ''/.well-known/openid-configuration'',
      oc_scope = ''openid profile email''\<rparr>"

section \<open>Requests and answers\<close>

text \<open>
  The parts of a request that the portal looks at. \<open>rq_cookie\<close> is the cookie \<open>npd_session\<close>;
  \<open>rq_csrf_header\<close> and \<open>rq_key_header\<close> are the headers \<open>X-CSRF-Token\<close> and \<open>Idempotency-Key\<close>.
\<close>

record request =
  rq_method :: string
  rq_path :: string
  rq_cookie :: "string option"
  rq_content_type :: "string option"
  rq_csrf_header :: "string option"
  rq_key_header :: "string option"
  rq_body :: string
  rq_form :: "string \<Rightarrow> form_field"

record platform =
  pf_now :: int
  pf_sha256 :: "string \<Rightarrow> string"
  pf_hmac :: "string \<Rightarrow> string \<Rightarrow> string"
  pf_new_id :: uuid
  pf_new_operation_id :: uuid
  pf_draws :: draws
  pf_draws_again :: draws
  pf_start_key :: "uuid \<Rightarrow> uuid"
  pf_create_key :: uuid
  pf_read_uuid :: "string \<Rightarrow> uuid option"
  pf_coerce_form :: "form_field list \<Rightarrow> VirtualMachineCreate option"
  pf_body_rejected :: "request \<Rightarrow> bool"
  pf_read_vm :: "string \<Rightarrow> VirtualMachineCreate option"
  pf_read_key :: "string \<Rightarrow> (string \<times> string) option"
  pf_read_key_name :: "string \<Rightarrow> string option"
  pf_parse_key :: "string \<Rightarrow> exc + ParsedSshPublicKey"
  pf_public_text :: string
  pf_private_text :: string
  pf_userinfo :: "request \<Rightarrow> exc + userinfo"
  pf_end_session_endpoint :: "exc + string"
  pf_url_for :: "string \<Rightarrow> string"
  pf_select_1 :: "exc + unit"
  pf_is_sqlalchemy_error :: "exc \<Rightarrow> bool"

definition csrf_mac :: "Settings \<Rightarrow> platform \<Rightarrow> string \<Rightarrow> string" where
  "csrf_mac s e = pf_hmac e (csrf_secret s)"

datatype answer =
    StaticFile string
  | HomePage
  | DashboardPage dashboard_context
  | SeeOther string
  | Authorize oidc_client string "string option"
  | SignedIn string cookie
  | SignedOut string
  | UserId "(string \<times> string) list"
  | CsrfToken "(string \<times> string) list" "(string \<times> string) list"
  | Health "(string \<times> string) list" "(string \<times> string) list"
  | QuotaReport quota_report
  | Machines "VirtualMachineRead list"
  | Machine VirtualMachineRead
  | OperationState OperationRead
  | Keys "SshPublicKeyRead list"
  | Key SshPublicKeyRead
  | GeneratedKey generated_response

section \<open>The endpoints\<close>

text \<open>An endpoint that asks for the current user is a \<open>user_endpoint\<close>, the others are public.\<close>

datatype public_endpoint =
  Static | Home | Login | Register | AuthCallback | Logout | LoggedOut | HealthCheck | Readiness

datatype user_endpoint =
    Dashboard | DashboardVms | VmStart
  | Me | GetCsrfToken | GetQuota
  | MyVms | CreateMyVm | PostLifecycle string | OperationStatus
  | ImportSshKey | GetListKeys | GenerateSshKeyPair

datatype endpoint = Public public_endpoint | ForUser user_endpoint

definition answered :: "('a \<Rightarrow> answer) \<Rightarrow> (exc + 'a) \<times> db \<Rightarrow> (exc + answer) \<times> db" where
  "answered wrap r = (case r of (Inl e, d) \<Rightarrow> (Inl e, d) | (Inr x, d) \<Rightarrow> (Inr (wrap x), d))"

definition unprocessable :: exc where
  "unprocessable = HTTPException 422 ''Unprocessable Content''"

definition readiness :: "(exc \<Rightarrow> bool) \<Rightarrow> exc + unit \<Rightarrow> exc + answer" where
  "readiness is_sqlalchemy_error select_1 =
     (case select_1 of
        Inr _ \<Rightarrow> Inr (Health [(''status'', ''ok'')] [(''database'', ''ok'')])
      | Inl x \<Rightarrow> if is_sqlalchemy_error x then Inl (HTTPException 503 ''database unavailable'') else Inl x)"

text \<open>
  How each endpoint reads its request. \<open>seen\<close> is the database that an endpoint reads, \<open>d\<close> the database when
  it writes. On signing out the session is revoked before the identity provider is asked where to
  send the browser.
\<close>

definition callback_request :: "Settings \<Rightarrow> platform \<Rightarrow> request \<Rightarrow> db \<Rightarrow> (db, answer) py" where
  "callback_request s e rq seen d =
     (case pf_userinfo e rq of
        Inl x \<Rightarrow> (Inl x, d)
      | Inr info \<Rightarrow>
          answered (SignedIn (pf_url_for e ''dashboard''))
            (auth_callback (pf_sha256 e) (session_max_age_seconds s) (oidc_cookie_secure s) (pf_draws e) (pf_draws_again e)
               (pf_now e) info seen d))"

definition logout_request :: "Settings \<Rightarrow> platform \<Rightarrow> request \<Rightarrow> (db, answer) py" where
  "logout_request s e rq d =
     (case pf_end_session_endpoint e of
        Inl x \<Rightarrow> (Inl x, revoke_user_session (pf_sha256 e) (pf_now e) (rq_cookie rq) d)
      | Inr end_session_endpoint \<Rightarrow>
          answered SignedOut
            (logout (pf_sha256 e) (pf_now e) (rq_cookie rq) end_session_endpoint (oidc_client_id s)
               (pf_url_for e ''logged_out'') d))"

definition csrf_request :: "Settings \<Rightarrow> platform \<Rightarrow> request \<Rightarrow> answer" where
  "csrf_request s e rq =
     (let (body, headers) = get_csrf_token (csrf_mac s e) (or_empty (rq_cookie rq)) in CsrfToken body headers)"

text \<open>
  \<open>ids\<close> are the texts that stand for the parameters of the path, read as UUIDs. The header of
  the idempotency key is required.
\<close>

definition path_uuids :: "platform \<Rightarrow> nat \<Rightarrow> string list \<Rightarrow> uuid list option" where
  "path_uuids e n ids = (if length ids = n then those (map (pf_read_uuid e) ids) else None)"

definition header_uuid :: "platform \<Rightarrow> request \<Rightarrow> uuid option" where
  "header_uuid e rq = (case rq_key_header rq of None \<Rightarrow> None | Some t \<Rightarrow> pf_read_uuid e t)"

definition start_form_request :: "platform \<Rightarrow> string list \<Rightarrow> request \<Rightarrow> User \<Rightarrow> db \<Rightarrow> (db, answer) py" where
  "start_form_request e ids rq user seen d =
     (case path_uuids e 1 ids of
        Some [vm] \<Rightarrow>
          answered SeeOther (vm_start (pf_new_operation_id e) (pf_now e) (usr_id user) vm (rq_form rq) seen d)
      | _ \<Rightarrow> (Inl unprocessable, d))"

definition create_vm_request :: "platform \<Rightarrow> request \<Rightarrow> User \<Rightarrow> db \<Rightarrow> (db, answer) py" where
  "create_vm_request e rq user seen d =
     (case (header_uuid e rq, pf_read_vm e (rq_body rq)) of
        (Some key, Some model) \<Rightarrow>
          (case validate_vm_create model of
             None \<Rightarrow> (Inl unprocessable, d)
           | Some request_model \<Rightarrow>
               answered (\<lambda>vm. Machine (vm_read vm))
                 (create_my_vm (pf_new_id e) (pf_new_operation_id e) (pf_now e) (usr_id user) request_model key seen d))
      | _ \<Rightarrow> (Inl unprocessable, d))"

definition lifecycle_request :: "platform \<Rightarrow> string \<Rightarrow> string list \<Rightarrow> request \<Rightarrow> User \<Rightarrow> db \<Rightarrow> (db, answer) py" where
  "lifecycle_request e action ids rq user seen d =
     (case (path_uuids e 1 ids, header_uuid e rq) of
        (Some [vm], Some key) \<Rightarrow>
          answered (\<lambda>op. OperationState (operation_read op))
            (post_lifecycle action (pf_new_operation_id e) (pf_now e) (usr_id user) vm key seen d)
      | _ \<Rightarrow> (Inl unprocessable, d))"

definition status_request :: "platform \<Rightarrow> string list \<Rightarrow> User \<Rightarrow> db \<Rightarrow> exc + answer" where
  "status_request e ids user d =
     (case path_uuids e 2 ids of
        Some [vm, operation_id] \<Rightarrow>
          (case operation_status (usr_id user) vm operation_id d of
             Inl x \<Rightarrow> Inl x
           | Inr operation \<Rightarrow> Inr (OperationState (operation_read operation)))
      | _ \<Rightarrow> Inl unprocessable)"

definition import_request :: "platform \<Rightarrow> request \<Rightarrow> User \<Rightarrow> db \<Rightarrow> (db, answer) py" where
  "import_request e rq user seen d =
     (case pf_read_key e (rq_body rq) of
        None \<Rightarrow> (Inl unprocessable, d)
      | Some (name, public_key) \<Rightarrow>
          (case (validate_key_name name, validate_key_text public_key) of
             (Some name, Some public_key) \<Rightarrow>
               answered Key
                 (import_ssh_key (pf_parse_key e) (pf_new_id e) (pf_now e) (usr_id user) name public_key seen d)
           | _ \<Rightarrow> (Inl unprocessable, d)))"

definition generate_request :: "platform \<Rightarrow> request \<Rightarrow> User \<Rightarrow> db \<Rightarrow> (db, answer) py" where
  "generate_request e rq user seen d =
     (case pf_read_key_name e (rq_body rq) of
        None \<Rightarrow> (Inl unprocessable, d)
      | Some name \<Rightarrow>
          (case validate_key_name name of
             None \<Rightarrow> (Inl unprocessable, d)
           | Some name \<Rightarrow>
               answered GeneratedKey
                 (generate_ssh_key_pair_endpoint (pf_parse_key e) (pf_public_text e) (pf_private_text e) (pf_new_id e)
                    (pf_now e) (usr_id user) name seen d)))"

lemmas request_defs = callback_request_def logout_request_def csrf_request_def start_form_request_def create_vm_request_def
  lifecycle_request_def status_request_def import_request_def generate_request_def

fun serve_public :: "Settings \<Rightarrow> platform \<Rightarrow> public_endpoint \<Rightarrow> request \<Rightarrow> db \<Rightarrow> (db, answer) py" where
  "serve_public s e Static rq seen d = (Inr (StaticFile (rq_path rq)), d)"
| "serve_public s e Home rq seen d = (Inr HomePage, d)"
| "serve_public s e Login rq seen d = (Inr (Authorize (oauth_keycloak s) (pf_url_for e ''auth_callback'') None), d)"
| "serve_public s e Register rq seen d =
     (Inr (Authorize (oauth_keycloak s) (pf_url_for e ''auth_callback'') (Some ''create'')), d)"
| "serve_public s e AuthCallback rq seen d = callback_request s e rq seen d"
| "serve_public s e Logout rq seen d = logout_request s e rq d"
| "serve_public s e LoggedOut rq seen d = (Inr (SeeOther ''/''), d)"
| "serve_public s e HealthCheck rq seen d = (Inr (Health [(''status'', ''ok'')] []), d)"
| "serve_public s e Readiness rq seen d = (readiness (pf_is_sqlalchemy_error e) (pf_select_1 e), d)"

fun serve_user ::
  "Settings \<Rightarrow> platform \<Rightarrow> user_endpoint \<Rightarrow> string list \<Rightarrow> request \<Rightarrow> User \<Rightarrow> db \<Rightarrow> (db, answer) py" where
  "serve_user s e Dashboard ids rq user seen d =
     (Inr (DashboardPage (dashboard (csrf_mac s e) (pf_start_key e) (pf_create_key e) (or_empty (rq_cookie rq)) (usr_id user) d)), d)"
| "serve_user s e DashboardVms ids rq user seen d =
     answered SeeOther
       (dashboard_vms (pf_coerce_form e) (pf_new_id e) (pf_new_operation_id e) (pf_now e) (usr_id user) (rq_form rq) seen d)"
| "serve_user s e VmStart ids rq user seen d = start_form_request e ids rq user seen d"
| "serve_user s e Me ids rq user seen d = (Inr (UserId (me user)), d)"
| "serve_user s e GetCsrfToken ids rq user seen d = (Inr (csrf_request s e rq), d)"
| "serve_user s e GetQuota ids rq user seen d =
     (case get_quota (usr_id user) d of Inl x \<Rightarrow> (Inl x, d) | Inr report \<Rightarrow> (Inr (QuotaReport report), d))"
| "serve_user s e MyVms ids rq user seen d = (Inr (Machines (map vm_read (my_vms (usr_id user) d))), d)"
| "serve_user s e CreateMyVm ids rq user seen d = create_vm_request e rq user seen d"
| "serve_user s e (PostLifecycle action) ids rq user seen d = lifecycle_request e action ids rq user seen d"
| "serve_user s e OperationStatus ids rq user seen d = (status_request e ids user d, d)"
| "serve_user s e ImportSshKey ids rq user seen d = import_request e rq user seen d"
| "serve_user s e GetListKeys ids rq user seen d = (Inr (Keys (get_list_keys (usr_id user) d)), d)"
| "serve_user s e GenerateSshKeyPair ids rq user seen d = generate_request e rq user seen d"

section \<open>The routes\<close>

text \<open>A parameter of a path is a segment that is not empty; \<open>Rest\<close> is everything below a mount.\<close>

datatype segment = Lit string | Param | Rest

record route =
  rt_method :: string
  rt_path :: "segment list"
  rt_csrf :: bool
  rt_endpoint :: endpoint

abbreviation (input) get :: "segment list \<Rightarrow> endpoint \<Rightarrow> route" where
  "get path endpoint \<equiv> \<lparr>rt_method = ''GET'', rt_path = path, rt_csrf = False, rt_endpoint = endpoint\<rparr>"

text \<open>\<open>dependencies=[Depends(verify_csrf)]\<close>\<close>

abbreviation (input) post_csrf :: "segment list \<Rightarrow> endpoint \<Rightarrow> route" where
  "post_csrf path endpoint \<equiv> \<lparr>rt_method = ''POST'', rt_path = path, rt_csrf = True, rt_endpoint = endpoint\<rparr>"

definition prefixed :: "segment list \<Rightarrow> route list \<Rightarrow> route list" where
  "prefixed prefix = map (\<lambda>r. r\<lparr>rt_path := prefix @ rt_path r\<rparr>)"

definition web_router :: "route list" where
  "web_router =
     [get [Lit []] (Public Home),
      get [Lit ''dashboard''] (ForUser Dashboard),
      post_csrf [Lit ''dashboard'', Lit ''vms''] (ForUser DashboardVms),
      post_csrf [Lit ''dashboard'', Lit ''vms'', Param, Lit ''start''] (ForUser VmStart)]"

definition identity_router :: "route list" where
  "identity_router = prefixed [Lit ''auth'']
     [get [Lit ''login''] (Public Login),
      get [Lit ''register''] (Public Register),
      get [Lit ''callback''] (Public AuthCallback),
      get [Lit ''me''] (ForUser Me),
      post_csrf [Lit ''logout''] (Public Logout),
      get [Lit ''logged-out''] (Public LoggedOut),
      get [Lit ''csrf''] (ForUser GetCsrfToken)]"

definition system_router :: "route list" where
  "system_router =
     [get [Lit ''health''] (Public HealthCheck),
      get [Lit ''health'', Lit ''ready''] (Public Readiness)]"

definition compute_router :: "route list" where
  "compute_router = prefixed [Lit ''compute''] [get [Lit ''quota''] (ForUser GetQuota)]"

definition vm_router :: "route list" where
  "vm_router = prefixed [Lit ''compute'', Lit ''vms'']
     [get [] (ForUser MyVms),
      post_csrf [] (ForUser CreateMyVm),
      post_csrf [Param, Lit ''start''] (ForUser (PostLifecycle ''start'')),
      post_csrf [Param, Lit ''shutdown''] (ForUser (PostLifecycle ''shutdown'')),
      post_csrf [Param, Lit ''stop''] (ForUser (PostLifecycle ''stop'')),
      post_csrf [Param, Lit ''reboot''] (ForUser (PostLifecycle ''reboot'')),
      post_csrf [Param, Lit ''delete''] (ForUser (PostLifecycle ''delete'')),
      get [Param, Lit ''operations'', Param] (ForUser OperationStatus)]"

definition ssh_keys_router :: "route list" where
  "ssh_keys_router = prefixed [Lit ''compute'', Lit ''ssh-keys'']
     [post_csrf [Lit ''import''] (ForUser ImportSshKey),
      get [] (ForUser GetListKeys),
      post_csrf [Lit ''generate''] (ForUser GenerateSshKeyPair)]"

record session_middleware =
  sm_secret_key :: string
  sm_session_cookie :: string
  sm_max_age :: int
  sm_same_site :: string
  sm_https_only :: bool

record app =
  app_title :: string
  app_version :: string
  app_middleware :: session_middleware
  app_routes :: "route list"

definition create_app :: "Settings \<Rightarrow> app" where
  "create_app s =
     \<lparr>app_title = ''portal'', app_version = ''0.1.0'',
      app_middleware = \<lparr>sm_secret_key = oidc_state_secret s, sm_session_cookie = ''npd_oidc_state'', sm_max_age = 600,
        sm_same_site = ''lax'', sm_https_only = oidc_cookie_secure s\<rparr>,
      app_routes = [get [Lit ''static'', Rest] (Public Static)] @ web_router @ identity_router @ system_router
        @ compute_router @ vm_router @ ssh_keys_router\<rparr>"

section \<open>Serving a request\<close>

text \<open>The segments of a path against those of a route: the texts that stand for its parameters.\<close>

fun match_path :: "segment list \<Rightarrow> string list \<Rightarrow> string list option" where
  "match_path [] [] = Some []"
| "match_path [Rest] (p # ps) = Some []"
| "match_path (Lit l # ss) (p # ps) = (if l = p then match_path ss ps else None)"
| "match_path (Param # ss) (p # ps) =
     (if p = [] then None else (case match_path ss ps of None \<Rightarrow> None | Some ids \<Rightarrow> Some (p # ids)))"
| "match_path _ _ = None"

text \<open>The first route whose path and method match; 405 if only paths do.\<close>

definition path_segments :: "string \<Rightarrow> string list" where
  "path_segments path = tl (split_on CHR ''/'' path)"

definition find_route :: "route list \<Rightarrow> request \<Rightarrow> exc + route \<times> string list" where
  "find_route routes rq =
     (let matched = List.map_filter (\<lambda>r. case match_path (rt_path r) (path_segments (rq_path rq)) of
                      None \<Rightarrow> None | Some ids \<Rightarrow> Some (r, ids)) routes
      in case find (\<lambda>(r, ids). rt_method r = rq_method rq) matched of
           Some m \<Rightarrow> Inr m
         | None \<Rightarrow> Inl (if matched = [] then HTTPException 404 ''Not Found'' else HTTPException 405 ''Method Not Allowed''))"

text \<open>
  The dependencies of a route, in their order: a body that cannot be read, the CSRF check, the
  current user.
\<close>

definition admit :: "Settings \<Rightarrow> platform \<Rightarrow> route \<Rightarrow> request \<Rightarrow> (db, User option) py" where
  "admit s e r rq d =
     (if pf_body_rejected e rq then (Inl unprocessable, d)
      else
        (case (if rt_csrf r then verify_csrf (csrf_mac s e) (rq_content_type rq) (rq_form rq ''csrf_token'') (rq_cookie rq)
                                   (rq_csrf_header rq) else Inr ()) of
           Inl x \<Rightarrow> (Inl x, d)
         | Inr _ \<Rightarrow>
             (case rt_endpoint r of
                Public _ \<Rightarrow> (Inr None, d)
              | ForUser _ \<Rightarrow>
                  (case get_current_user (pf_sha256 e) (pf_now e) (rq_cookie rq) d of
                     (Inl x, d1) \<Rightarrow> (Inl x, d1)
                   | (Inr user, d1) \<Rightarrow> (Inr (Some user), d1)))))"

definition serve ::
  "Settings \<Rightarrow> platform \<Rightarrow> endpoint \<Rightarrow> string list \<Rightarrow> request \<Rightarrow> User option \<Rightarrow> db \<Rightarrow> (db, answer) py" where
  "serve s e endpoint ids rq user seen d =
     (case endpoint of
        Public ep \<Rightarrow> serve_public s e ep rq seen d
      | ForUser ep \<Rightarrow>
          (case user of
             None \<Rightarrow> (Inl (HTTPException 401 ''Authentication required''), d)
           | Some u \<Rightarrow> serve_user s e ep ids rq u seen d))"

text \<open>
  A request from end to end. Other transactions run between the one that authenticates the user,
  the reads of the endpoint and its writes; \<open>between\<close> is the database it reads and the one it
  writes, given the one that authentication left.
\<close>

definition handle ::
  "Settings \<Rightarrow> platform \<Rightarrow> request \<Rightarrow> (db \<Rightarrow> db \<times> db) \<Rightarrow> (db, answer) py" where
  "handle s e rq between d =
     (case find_route (app_routes (create_app s)) rq of
        Inl x \<Rightarrow> (Inl x, d)
      | Inr (r, ids) \<Rightarrow>
          (case admit s e r rq d of
             (Inl x, d1) \<Rightarrow> (Inl x, d1)
           | (Inr user, d1) \<Rightarrow>
               (let (seen, d2) = between d1 in serve s e (rt_endpoint r) ids rq user seen d2)))"

end
