(* ===== verification/PortalFacts.thy ===== *)
theory PortalFacts
  imports Portal WebFacts
begin

text \<open>
  What holds of every request, whatever its path: which requests can change the database at all,
  that their changes are steps of the portal as a whole, and that users do not interfere.
\<close>

declare request_defs [simp]

section \<open>Routes\<close>

lemmas router_defs = create_app_def web_router_def identity_router_def system_router_def compute_router_def
  vm_router_def ssh_keys_router_def prefixed_def

lemma find_route_member:
  assumes "find_route routes rq = Inr (r, ids)"
  shows "r \<in> set routes" "rt_method r = rq_method rq" "match_path (rt_path r) (path_segments (rq_path rq)) = Some ids"
proof -
  let ?m = "\<lambda>r. case match_path (rt_path r) (path_segments (rq_path rq)) of None \<Rightarrow> None | Some ids \<Rightarrow> Some (r, ids)"
  from assms have f: "find (\<lambda>(r, ids). rt_method r = rq_method rq) (List.map_filter ?m routes) = Some (r, ids)"
    by (simp add: find_route_def Let_def split: option.splits)
  from find_SomeD [OF f] show "rt_method r = rq_method rq" by simp
  from find_SomeD [OF f] have "(r, ids) \<in> set (List.map_filter ?m routes)" by simp
  then show "r \<in> set routes" "match_path (rt_path r) (path_segments (rq_path rq)) = Some ids"
    by (auto simp: List.map_filter_def split: option.splits)
qed

text \<open>The endpoints that may write are behind the CSRF check, but for the callback of a sign-in.\<close>

fun reads_only :: "endpoint \<Rightarrow> bool" where
  "reads_only (Public AuthCallback) = False"
| "reads_only (Public Logout) = False"
| "reads_only (Public _) = True"
| "reads_only (ForUser ep) =
     (ep \<in> {Dashboard, Me, GetCsrfToken, GetQuota, MyVms, OperationStatus, GetListKeys})"

lemma writers_are_guarded:
  assumes "r \<in> set (app_routes (create_app s))"
  shows "(rt_method r = ''POST'' \<and> rt_csrf r \<and> \<not> reads_only (rt_endpoint r) \<and> rt_endpoint r \<noteq> Public AuthCallback)
     \<or> (rt_method r = ''GET'' \<and> (reads_only (rt_endpoint r) \<or> rt_endpoint r = Public AuthCallback))"
proof -
  have "list_all (\<lambda>r. (rt_method r = ''POST'' \<and> rt_csrf r \<and> \<not> reads_only (rt_endpoint r) \<and> rt_endpoint r \<noteq> Public AuthCallback)
     \<or> (rt_method r = ''GET'' \<and> (reads_only (rt_endpoint r) \<or> rt_endpoint r = Public AuthCallback))) (app_routes (create_app s))"
    by (simp add: router_defs)
  with assms show ?thesis
    by (simp add: list_all_iff)
qed

lemma writer_guarded:
  assumes "r \<in> set (app_routes (create_app s))"
  shows "reads_only (rt_endpoint r) \<or> (rt_method r = ''GET'' \<and> rt_endpoint r = Public AuthCallback)
     \<or> (rt_method r = ''POST'' \<and> rt_csrf r \<and> rt_endpoint r = Public Logout)
     \<or> (\<exists>ep. rt_method r = ''POST'' \<and> rt_csrf r \<and> rt_endpoint r = ForUser ep)"
proof (cases "rt_endpoint r")
  case (Public ep)
  with writers_are_guarded [OF assms] show ?thesis
    by (cases ep) auto
next
  case (ForUser ep)
  with writers_are_guarded [OF assms] show ?thesis
    by (simp del: reads_only.simps) blast
qed

lemma answered_snd [simp]: "snd (answered f r) = snd r"
  by (auto simp: answered_def split: prod.splits sum.splits)

lemma fst_answered_cong: "fst r = fst r' \<Longrightarrow> fst (answered f r) = fst (answered f r')"
  by (auto simp: answered_def split: prod.splits sum.splits)

lemma reader_writes_nothing:
  assumes "reads_only endpoint"
  shows "snd (serve s e endpoint ids rq user seen d) = d"
proof (cases endpoint)
  case (Public ep)
  with assms show ?thesis
    by (cases ep) (simp_all add: serve_def)
next
  case (ForUser ep)
  with assms show ?thesis
    by (cases user; cases ep) (auto simp: serve_def Let_def get_csrf_token_def split: option.splits list.splits sum.splits)
qed

section \<open>What admits a request\<close>

definition carries_csrf :: "Settings \<Rightarrow> platform \<Rightarrow> request \<Rightarrow> bool" where
  "carries_csrf s e rq \<longleftrightarrow>
     (\<exists>token. rq_cookie rq = Some token
        \<and> submitted_csrf (rq_content_type rq) (rq_form rq ''csrf_token'') (rq_csrf_header rq)
            = Some (pf_hmac e (csrf_secret s) (''csrf-v1:'' @ token)))"

definition signed_in :: "platform \<Rightarrow> request \<Rightarrow> db \<Rightarrow> User \<Rightarrow> bool" where
  "signed_in e rq d user \<longleftrightarrow>
     (\<exists>token t. rq_cookie rq = Some token \<and> row_get sess_token_hash (pf_sha256 e token) (app_sessions d) = Some t
        \<and> sess_revoked t = None \<and> pf_now e < sess_expires t
        \<and> row_get usr_id (sess_user t) (users d) = Some user \<and> usr_is_active user)"

lemma csrf_passed:
  assumes "verify_csrf (csrf_mac s e) (rq_content_type rq) (rq_form rq ''csrf_token'') (rq_cookie rq) (rq_csrf_header rq) = Inr ()"
  shows "carries_csrf s e rq"
  using assms unfolding verify_csrf_def carries_csrf_def
  by (cases "rq_cookie rq"; cases "submitted_csrf (rq_content_type rq) (rq_form rq ''csrf_token'') (rq_csrf_header rq)")
    (auto simp: Let_def compare_digest_def make_csrf_token_def csrf_mac_def split: if_splits)

text \<open>Authentication leaves the tables alone, but for the time at which the session was last seen.\<close>

definition seen_again :: "int \<Rightarrow> db \<Rightarrow> db \<Rightarrow> bool" where
  "seen_again now d d' \<longleftrightarrow>
     d' = d \<or> (\<exists>t\<in>set (app_sessions d).
       d' = d\<lparr>app_sessions := row_set sess_id (t\<lparr>sess_last_seen := now\<rparr>) (app_sessions d)\<rparr>)"

lemma seen_again_refl [simp]: "seen_again now d d"
  by (simp add: seen_again_def)

lemma seen_again_user:
  assumes "get_current_user sha now token d = (Inr u, d')"
  shows "seen_again now d d'"
proof -
  from assms [unfolded current_user_Inr] obtain t s where s: "row_get sess_token_hash (sha t) (app_sessions d) = Some s"
    and d': "d' = (if now - sess_last_seen s \<ge> LAST_SEEN_UPDATE_INTERVAL
               then d\<lparr>app_sessions := row_set sess_id (s\<lparr>sess_last_seen := now\<rparr>) (app_sessions d)\<rparr> else d)"
    by blast
  have "s \<in> set (app_sessions d)"
    using row_get_SomeD [OF s] by simp
  then show ?thesis
    unfolding seen_again_def d' by (cases "now - sess_last_seen s \<ge> LAST_SEEN_UPDATE_INTERVAL") (simp_all only: if_True if_False, blast+)
qed

lemma admitted:
  assumes "admit s e r rq d = (Inr user, d1)"
  shows "rt_csrf r \<Longrightarrow> carries_csrf s e rq" "seen_again (pf_now e) d d1"
    "rt_endpoint r = ForUser ep \<Longrightarrow> \<exists>u. user = Some u \<and> signed_in e rq d u"
proof -
  note a = assms [unfolded admit_def]
  show "carries_csrf s e rq" if "rt_csrf r"
    by (rule csrf_passed) (use a that in \<open>auto split: if_splits sum.splits\<close>)
  have cases: "(\<exists>ep. rt_endpoint r = Public ep \<and> d1 = d)
      \<or> (\<exists>u. user = Some u \<and> get_current_user (pf_sha256 e) (pf_now e) (rq_cookie rq) d = (Inr u, d1))"
    using a by (auto split: if_splits sum.splits endpoint.splits prod.splits)
  then show "seen_again (pf_now e) d d1"
    by (elim disjE exE conjE) (simp_all add: seen_again_user)
  show "\<exists>u. user = Some u \<and> signed_in e rq d u" if "rt_endpoint r = ForUser ep"
    using cases that unfolding signed_in_def by (auto simp: current_user_Inr)
qed

lemma refused:
  assumes "admit s e r rq d = (Inl x, d1)"
  shows "d1 = d"
  using assms current_user_Inl unfolding admit_def
  by (fastforce split: if_splits sum.splits endpoint.splits prod.splits)

section \<open>Changes\<close>

text \<open>
  C5. Nothing changes without a session and its CSRF token. Whatever a request is, either it is
  refused and the database is as it was, or its endpoint wrote nothing, or it is the callback of
  a sign-in, or it is a POST that carries the token made from its session cookie and, unless it
  signs out, the cookie is that of a session in force of an active user. Authenticating
  changes nothing but the time a session was last seen.
\<close>

theorem changes_need_session_and_csrf:
  "(\<exists>x. handle s e rq between d = (Inl x, d))
     \<or> (\<exists>r ids user d1. find_route (app_routes (create_app s)) rq = Inr (r, ids)
          \<and> admit s e r rq d = (Inr user, d1) \<and> seen_again (pf_now e) d d1
          \<and> (snd (handle s e rq between d) = snd (between d1)
              \<or> (rq_method rq = ''GET'' \<and> rt_endpoint r = Public AuthCallback)
              \<or> (rq_method rq = ''POST'' \<and> carries_csrf s e rq
                  \<and> (rt_endpoint r = Public Logout
                      \<or> (\<exists>ep u. rt_endpoint r = ForUser ep \<and> user = Some u \<and> signed_in e rq d u)))))"
proof (cases "find_route (app_routes (create_app s)) rq")
  case (Inr m)
  obtain r ids where m: "m = (r, ids)" by (cases m)
  note route = Inr [unfolded m]
  note member = find_route_member [OF route]
  show ?thesis
  proof (cases "admit s e r rq d")
    fix res d1
    assume a: "admit s e r rq d = (res, d1)"
    show ?thesis
    proof (cases res)
      case (Inl x)
      then show ?thesis
        using refused a route by (auto simp: handle_def)
    next
      case (Inr user)
      note a = a [unfolded Inr]
      have h: "handle s e rq between d = serve s e (rt_endpoint r) ids rq user (fst (between d1)) (snd (between d1))"
        using route a by (simp add: handle_def case_prod_beta)
      have "snd (handle s e rq between d) = snd (between d1)
           \<or> (rq_method rq = ''GET'' \<and> rt_endpoint r = Public AuthCallback)
           \<or> (rq_method rq = ''POST'' \<and> carries_csrf s e rq
                \<and> (rt_endpoint r = Public Logout
                    \<or> (\<exists>ep u. rt_endpoint r = ForUser ep \<and> user = Some u \<and> signed_in e rq d u)))"
        using writer_guarded [OF member(1)]
      proof (elim disjE conjE exE)
        assume "reads_only (rt_endpoint r)"
        then show ?thesis
          unfolding h using reader_writes_nothing by simp
      next
        fix ep
        assume "rt_method r = ''POST''" "rt_csrf r" and ep: "rt_endpoint r = ForUser ep"
        then show ?thesis
          using admitted(1) [OF a] admitted(3) [OF a ep] member(2) by simp
      qed (use admitted(1) [OF a] member(2) in simp_all)
      with route a admitted(2) [OF a] show ?thesis
        by (intro disjI2 exI [of _ r] exI [of _ ids] exI [of _ user] exI [of _ d1]) simp
    qed
  qed
qed (simp add: handle_def)

section \<open>Requests in the running system\<close>

text \<open>
  What the endpoints read under a lock is still so when they write: the quota row of the user for
  a new machine, the row of the machine for an order; what a sign-in read has at most grown.
\<close>

definition reads_hold ::
  "platform \<Rightarrow> endpoint \<Rightarrow> string list \<Rightarrow> User option \<Rightarrow> db \<Rightarrow> db \<Rightarrow> bool" where
  "reads_hold e endpoint ids user seen d =
     (case endpoint of
        Public ep \<Rightarrow> ep = AuthCallback \<longrightarrow> accounts_grow seen d
      | ForUser ep \<Rightarrow>
          (case user of
             None \<Rightarrow> True
           | Some u \<Rightarrow> (ep = DashboardVms \<or> ep = CreateMyVm \<longrightarrow> quota_locked (usr_id u) seen d)
               \<and> (\<forall>vm. path_uuids e 1 ids = Some [vm] \<longrightarrow> vm_locked vm seen d)))"

lemma reads_hold_refl [simp]: "reads_hold e endpoint ids user d d"
  by (simp add: reads_hold_def split: endpoint.splits option.splits)



lemma reachable_refl [simp]: "reachable A y y"
  by (rule reachable.init)














definition ex_settings :: Settings where
  "ex_settings = \<lparr>database_url = ''postgresql+asyncpg://portal@db/portal'', oidc_issuer = ''https://id.example/realms/npd'',
     oidc_client_id = ''portal'', oidc_client_secret = ''c'', oidc_state_secret = ''s'', oidc_cookie_secure = True,
     session_max_age_seconds = 3600, csrf_secret = ''k''\<rparr>"

definition ex_platform :: platform where
  "ex_platform = \<lparr>pf_now = 1000, pf_sha256 = (\<lambda>t. t), pf_hmac = (\<lambda>key t. ''0f'' @ drop 8 t), pf_new_id = 2, pf_new_operation_id = 3,
     pf_draws = ex_draws, pf_draws_again = ex_draws, pf_start_key = (\<lambda>v. v), pf_create_key = 9,
     pf_read_uuid = (\<lambda>t. if t = ''six'' then Some 6 else None), pf_coerce_form = (\<lambda>_. None), pf_body_rejected = (\<lambda>_. False),
     pf_read_vm = (\<lambda>_. Some ex_request), pf_read_key = (\<lambda>_. None), pf_read_key_name = (\<lambda>_. None),
     pf_parse_key = (\<lambda>_. Inl (ValueError ''invalid key'')), pf_public_text = [], pf_private_text = [],
     pf_userinfo = (\<lambda>_. Inl (KeyError ''userinfo'')), pf_end_session_endpoint = Inl (KeyError ''end_session_endpoint''),
     pf_url_for = (\<lambda>name. name), pf_select_1 = Inr (), pf_is_sqlalchemy_error = (\<lambda>_. True)\<rparr>"

text \<open>A request for a machine, with the session \<open>token\<close>.\<close>

definition ex_rq :: request where
  "ex_rq = \<lparr>rq_method = ''POST'', rq_path = ''/compute/vms'', rq_cookie = Some ''token'', rq_content_type = Some ''application/json'',
     rq_csrf_header = Some ''0ftoken'', rq_key_header = Some ''six'', rq_body = ''{}'', rq_form = (\<lambda>_. FieldMissing)\<rparr>"


abbreviation ex_user :: User where
  "ex_user \<equiv> \<lparr>usr_id = 1, usr_is_active = True, usr_created = 0\<rparr>"

lemma ex_valid: "validate_vm_create ex_request = Some ex_request"
  by code_simp

lemma ex_served:
  "serve ex_settings ex_platform (ForUser CreateMyVm) [] ex_rq (Some ex_user) ex_signed_db ex_signed_db
     = (Inr (Machine (vm_read ex_vm)), ex_signed_db\<lparr>vms := [ex_vm], operations := [ex_op]\<rparr>)"
proof -
  have "create_my_vm 2 3 1000 1 ex_request 6 ex_signed_db ex_signed_db
      = (Inr ex_vm, ex_signed_db\<lparr>vms := [ex_vm], operations := [ex_op]\<rparr>)"
    by (simp add: Let_def ex_signed_db_def create_my_vm_def create_vm_def create_checks_def ex_defs row_get_def
        get_existing_vm_for_create_request_def IMAGE_MIN_STORAGE_GB_def validate_vm_quota_def
        get_user_compute_usage_def flush_vm_def flush_operation_def new_vm_def new_operation_def
        vm_constraints_def vm_statuses_def vmid_unique_def map_filter_simps operation_constraints_def
        operation_types_def)
  then show ?thesis
    by (simp add: serve_def ex_valid answered_def ex_rq_def ex_platform_def header_uuid_def)
qed



section \<open>Users do not interfere\<close>

text \<open>What a user can see: the own machines, the operations on them, the own keys, quota and plan.\<close>

record user_view =
  uv_vms :: "VirtualMachine list"
  uv_operations :: "Operation list"
  uv_keys :: "SshPublicKey list"
  uv_quota :: "UserQuota option"
  uv_plan :: "ComputePlan option"

definition owns :: "uuid \<Rightarrow> VirtualMachine list \<Rightarrow> Operation \<Rightarrow> bool" where
  "owns u vs op = list_ex (\<lambda>v. op_vm op = vm_id v \<and> vm_owner v = u) vs"

definition view :: "uuid \<Rightarrow> db \<Rightarrow> user_view" where
  "view u d =
     \<lparr>uv_vms = filter (\<lambda>v. vm_owner v = u) (vms d), uv_operations = filter (owns u (vms d)) (operations d),
      uv_keys = filter (\<lambda>k. key_owner k = u) (ssh_keys d), uv_quota = row_get quota_user u (quotas d),
      uv_plan = (case row_get quota_user u (quotas d) of None \<Rightarrow> None | Some q \<Rightarrow> row_get plan_id (quota_plan q) (plans d))\<rparr>"

lemma usage_of_view: "get_user_compute_usage u d = usage_of u (uv_vms (view u d))"
proof -
  have "filter (consumes u) (filter (\<lambda>v. vm_owner v = u) (vms d)) = filter (consumes u) (vms d)"
    by (simp add: consumes_def [abs_def] conj_commute)
  then show ?thesis
    by (simp add: get_user_compute_usage_def usage_of_def view_def)
qed

lemma operation_status_view:
  "operation_status u vid oid d =
     (case find (\<lambda>op. op_id op = oid \<and> op_vm op = vid) (uv_operations (view u d)) of
        None \<Rightarrow> Inl (HTTPException 404 ''Operation not found'') | Some op \<Rightarrow> Inr op)"
proof -
  have "find (\<lambda>op. op_id op = oid \<and> op_vm op = vid) (filter (owns u (vms d)) ops)
      = find (\<lambda>op. op_id op = oid \<and> list_ex (\<lambda>v. vm_id v = vid \<and> op_vm op = vm_id v \<and> vm_owner v = u) (vms d)) ops" for ops
    by (induction ops) (auto simp: owns_def list_ex_iff)
  then show ?thesis
    by (simp add: operation_status_def view_def)
qed

lemma same_view:
  assumes "view u d = view u d'"
  shows "filter (\<lambda>v. vm_owner v = u) (vms d) = filter (\<lambda>v. vm_owner v = u) (vms d')"
    "filter (\<lambda>k. key_owner k = u) (ssh_keys d) = filter (\<lambda>k. key_owner k = u) (ssh_keys d')"
    "filter (owns u (vms d)) (operations d) = filter (owns u (vms d')) (operations d')"
    "row_get quota_user u (quotas d) = row_get quota_user u (quotas d')"
    "row_get quota_user u (quotas d') = Some q \<Longrightarrow> row_get plan_id (quota_plan q) (plans d) = row_get plan_id (quota_plan q) (plans d')"
    "get_user_compute_usage u d = get_user_compute_usage u d'"
  using assms by (simp_all add: usage_of_view) (simp_all add: view_def split: option.splits)

lemma get_quota_cong: "view u d = view u d' \<Longrightarrow> get_quota u d = get_quota u d'"
  by (cases "row_get quota_user u (quotas d')") (simp_all add: get_quota_def same_view [of u d d'] split: option.split)

lemma dashboard_cong:
  assumes "view u d = view u d'"
  shows "dashboard mac draw key token u d = dashboard mac draw key token u d'"
proof -
  have ops: "recent_operations u d = take 10 (sort_key (\<lambda>op. - op_created op) (filter (owns u (vms d)) (operations d)))" for d
    by (simp add: recent_operations_def owns_def [abs_def])
  show ?thesis
    by (cases "row_get quota_user u (quotas d')") (simp_all add: dashboard_def Let_def ops same_view [OF assms] split: option.split)
qed

text \<open>An endpoint that only reads answers from the view of its user.\<close>

lemma reader_answers_from_view:
  assumes "reads_only (ForUser ep)" "view (usr_id u) d = view (usr_id u) d'"
  shows "fst (serve_user s e ep ids rq u seen d) = fst (serve_user s e ep ids rq u seen' d')"
proof -
  have "my_vms (usr_id u) d = my_vms (usr_id u) d'" "get_list_keys (usr_id u) d = get_list_keys (usr_id u) d'"
    "operation_status (usr_id u) vid oid d = operation_status (usr_id u) vid oid d'" for vid oid
    using assms(2) by (simp_all add: my_vms_def get_list_keys_def operation_status_view same_view(1,2) [OF assms(2)])
  with assms(1) get_quota_cong [OF assms(2)] dashboard_cong [OF assms(2)] show ?thesis
    by (cases ep) (auto simp: Let_def get_csrf_token_def split: option.split list.split sum.split)
qed

text \<open>An endpoint leaves the view of every other user alone.\<close>

lemma created_view:
  assumes c: "create_vm vid oid now user r key seen d = (res, d')" and ok: "db_ok d" and other: "u \<noteq> user"
  shows "view u d' = view u d"
  using c
proof (cases rule: create_vm_cases)
  case (created quota k)
  have vid: "vid \<notin> vm_id ` set (vms d)"
    using created(9) by (simp add: row_get_None_iff)
  have owner: "vm_owner (new_vm vid now user r) = user"
    by (simp add: new_vm_def)
  have "owns u (vms d @ [new_vm vid now user r]) = owns u (vms d)"
    using other by (simp add: owns_def [abs_def] owner)
  moreover have "\<not> owns u (vms d) (new_operation oid now vid T p k)" for T p k
    using vid by (auto simp: owns_def list_ex_iff new_operation_def)
  ultimately show ?thesis
    using other unfolding created(2) view_def by (simp add: owner split: option.split)
qed simp_all

lemma ordered_view:
  assumes c: "enqueue_vm_operation oid now user vid T key seen d = (res, d')" and ok: "db_ok d"
    and locked: "vm_locked vid seen d" and other: "u \<noteq> user"
  shows "view u d' = view u d"
  using c
proof (cases rule: enqueue_cases)
  case (queued v statuses)
  have "v \<in> set (filter (\<lambda>v. vm_id v = vid) (vms d))"
    using locked queued(4,5) by (simp add: vm_locked_def)
  then have v: "v \<in> set (vms d)" by simp
  have "w = v" if "w \<in> set (vms d)" "vm_id w = vid" for w
    using row_get_unique [of vm_id "vms d" w] row_get_unique [of vm_id "vms d" v] that v queued(5) ok
    by (simp add: db_ok_def)
  then have "\<not> owns u (vms d) (new_operation oid now vid T p k)" for p k
    using other queued(6) by (auto simp: owns_def list_ex_iff new_operation_def)
  then show ?thesis
    unfolding queued(2) view_def by (simp split: option.split)
qed simp_all

lemma key_view:
  assumes "d' = d \<or> (\<exists>k. flush_key k d = Inr d' \<and> key_owner k = user)" "u \<noteq> user"
  shows "view u d' = view u d"
  using assms by (auto simp: view_def dest!: flush_key_Inr(1) split: option.split)

lemma create_my_vm_view:
  assumes "db_ok d" "u \<noteq> user"
  shows "view u (snd (create_my_vm vid oid now user r key seen d)) = view u d"
  using create_my_vm_db [OF surjective_pairing, of vid oid now user r key seen d] created_view [OF _ assms] by fastforce

lemma post_lifecycle_view:
  assumes "db_ok d" "vm_locked vm seen d" "u \<noteq> user"
  shows "view u (snd (post_lifecycle action oid now user vm key seen d)) = view u d"
proof (cases "map_of lifecycle_endpoints action")
  case (Some T)
  then show ?thesis
    using enqueue_lifecycle_db [OF surjective_pairing, of oid now user vm T key seen d] ordered_view [OF _ assms]
    by (fastforce simp: post_lifecycle_def)
qed (simp add: post_lifecycle_def)

lemma dashboard_vms_view:
  assumes "db_ok d" "u \<noteq> user"
  shows "view u (snd (dashboard_vms coerce vid oid now user form seen d)) = view u d"
proof (cases "\<exists>r key. read_vm_form coerce form = Some r \<and> form_uuid (form ''idempotency_key'') = Some key")
  case True
  then show ?thesis
    using dashboard_vms_api(1) create_my_vm_view [OF assms] by fastforce
next
  case False
  then show ?thesis
    by (cases "read_vm_form coerce form") (auto simp: dashboard_vms_def)
qed

lemma vm_start_view:
  assumes "db_ok d" "vm_locked vm seen d" "u \<noteq> user"
  shows "view u (snd (vm_start oid now user vm form seen d)) = view u d"
proof (cases "form_uuid (form ''idempotency_key'')")
  case (Some key)
  then show ?thesis
    using vm_start_api(1) [where form = form, OF Some] post_lifecycle_view [OF assms] by simp
qed (simp add: vm_start_def)

lemma import_view:
  assumes "u \<noteq> user"
  shows "view u (snd (import_ssh_key parse kid now user name body seen d)) = view u d"
  using import_key_db [OF surjective_pairing, of parse kid now user name body seen d]
  by (intro key_view [OF _ assms]) (auto simp: new_key_def)

lemma generate_view:
  assumes "u \<noteq> user"
  shows "view u (snd (generate_ssh_key_pair_endpoint parse pub priv kid now user name seen d)) = view u d"
  using generate_key_db [OF surjective_pairing, of parse pub priv kid now user name seen d]
  by (intro key_view [OF _ assms]) (auto simp: new_key_def)

lemmas endpoint_views = create_my_vm_view post_lifecycle_view dashboard_vms_view vm_start_view import_view generate_view

lemma others_view_kept:
  assumes "reads_hold e (ForUser ep) ids (Some u) seen d" "db_ok d" "v \<noteq> usr_id u"
  shows "view v (snd (serve_user s e ep ids rq u seen d)) = view v d"
proof (cases "reads_only (ForUser ep)")
  case True
  then show ?thesis
    using reader_writes_nothing [of "ForUser ep" s e ids rq "Some u" seen d] by (simp add: serve_def)
next
  case False
  have locked: "path_uuids e 1 ids = Some [vm] \<Longrightarrow> vm_locked vm seen d" for vm
    using assms(1) by (simp add: reads_hold_def)
  show ?thesis
    using False locked assms(2,3)
    by (cases ep) (simp_all add: endpoint_views split: option.split list.split prod.split)
qed

text \<open>
  C10. Users do not interfere. Whatever a signed-in user asks for, what any other user can see
  stays as it is: the own machines, the operations on them, the own keys, quota and plan. Every
  endpoint that is reached by GET answers from what its user can see, so its answer to the other
  user is the same before and after.
\<close>

theorem users_do_not_interfere:
  assumes "db_ok d" "reads_hold e (ForUser ep) ids (Some u) seen d" "usr_id v \<noteq> usr_id u"
    and "serve s e (ForUser ep) ids rq (Some u) seen d = (res, d')"
  shows "view (usr_id v) d' = view (usr_id v) d
     \<and> (\<forall>r\<in>set (app_routes (create_app s)). \<forall>ep' e' ids' rq' seen' d''.
          rt_method r = ''GET'' \<and> rt_endpoint r = ForUser ep' \<and> view (usr_id v) d'' = view (usr_id v) d \<longrightarrow>
          serve s e' (ForUser ep') ids' rq' (Some v) seen' d''
            = (fst (serve s e' (ForUser ep') ids' rq' (Some v) seen' d), d''))"
proof (intro conjI ballI allI impI, goal_cases)
  case 1
  show ?case
    using others_view_kept [OF assms(2,1,3), of s rq] assms(4) by (simp add: serve_def)
next
  case (2 r ep' e' ids' rq' seen' d'')
  then have "reads_only (ForUser ep')"
    using writers_are_guarded [OF 2(1)] by auto
  from reader_writes_nothing [OF this, of s e' ids' rq' "Some v" seen' d''] reader_answers_from_view [OF this, of v d'' d] 2
  show ?case
    by (simp add: serve_def prod_eq_iff)
qed

theorem users_do_not_interfere_witness:
  "view 7 (ex_signed_db\<lparr>vms := [ex_vm], operations := [ex_op]\<rparr>) = view 7 ex_signed_db"
proof -
  have "db_ok ex_signed_db"
    using reachable_ok [OF reachable.init ex_signed_initial] by (simp add: sys_ok_def ex_signed_def)
  moreover have "serve ex_settings ex_platform (ForUser CreateMyVm) [] ex_rq (Some ex_user) ex_signed_db ex_signed_db
      = (Inr (Machine (vm_read ex_vm)), ex_signed_db\<lparr>vms := [ex_vm], operations := [ex_op]\<rparr>)"
    by (rule ex_served)
  ultimately show ?thesis
    using users_do_not_interfere [where u = ex_user and v = "ex_user\<lparr>usr_id := 7\<rparr>" and seen = ex_signed_db
        and e = ex_platform and s = ex_settings and ids = "[]" and ep = CreateMyVm and rq = ex_rq] by simp
qed

end
