(* ===== verification/ClusterUser.thy ===== *)
theory ClusterUser
  imports Base64
begin

text \<open>
  scripts/create-cluster-user.py: it creates a login on the hosts of the cluster. Running a
  command is a parameter \<open>exec\<close> over the state of the hosts, which returns what the command
  printed or raises; the text of a key file and the check of the storage mount are parameters
  too. What the script prints is left out. The texts the hosts print are ASCII.
\<close>

section \<open>Python\<close>

text \<open>\<open>str.splitlines\<close>: the flag says that the last character was a carriage return.\<close>

definition is_line_end :: "char \<Rightarrow> bool" where
  "is_line_end c = (let n = of_char c :: nat in (10 \<le> n \<and> n \<le> 13) \<or> (28 \<le> n \<and> n \<le> 30))"

fun lines_from :: "bool \<Rightarrow> string \<Rightarrow> string \<Rightarrow> string list" where
  "lines_from cr line [] = (if line = [] then [] else [line])"
| "lines_from cr line (c # cs) =
     (if cr \<and> line = [] \<and> c = CHR 0x0A then lines_from False [] cs
      else if is_line_end c then line # lines_from (c = CHR 0x0D) [] cs
      else lines_from False (line @ [c]) cs)"

definition splitlines :: "string \<Rightarrow> string list" where
  "splitlines s = lines_from False [] s"

text \<open>\<open>str.split()\<close>: at runs of whitespace.\<close>

fun words_from :: "string \<Rightarrow> string \<Rightarrow> string list" where
  "words_from word [] = (if word = [] then [] else [word])"
| "words_from word (c # cs) =
     (if is_space c then (if word = [] then words_from [] cs else word # words_from [] cs)
      else words_from (word @ [c]) cs)"

definition split_words :: "string \<Rightarrow> string list" where
  "split_words s = words_from [] s"

definition is_digit :: "char \<Rightarrow> bool" where
  "is_digit c = (let n = of_char c :: nat in 48 \<le> n \<and> n \<le> 57)"

definition isdigit :: "string \<Rightarrow> bool" where
  "isdigit s \<longleftrightarrow> s \<noteq> [] \<and> list_all is_digit s"

definition is_lower :: "char \<Rightarrow> bool" where
  "is_lower c = (let n = of_char c :: nat in 97 \<le> n \<and> n \<le> 122)"

text \<open>\<open>repr\<close> of an ASCII text.\<close>

definition repr_char :: "char \<Rightarrow> char \<Rightarrow> string" where
  "repr_char q c =
     (let n = of_char c :: nat in
      if c = q \<or> n = 92 then [char_of (92 :: nat), c]
      else if n = 9 then [char_of (92 :: nat), CHR ''t'']
      else if n = 10 then [char_of (92 :: nat), CHR ''n'']
      else if n = 13 then [char_of (92 :: nat), CHR ''r'']
      else if n < 32 \<or> n = 127 then char_of (92 :: nat) # CHR ''x'' # hex_digits 2 n
      else [c])"

definition py_repr :: "string \<Rightarrow> string" where
  "py_repr s =
     (let q = (if CHR 0x27 \<in> set s \<and> CHR 0x22 \<notin> set s then CHR 0x22 else CHR 0x27)
      in [q] @ concat (map (repr_char q) s) @ [q])"

definition unlines :: "string list \<Rightarrow> string" where
  "unlines ls = concat (map (\<lambda>l. l @ [CHR 0x0A]) ls)"

section \<open>Commands\<close>

record command =
  cmd_words :: "string list"
  cmd_input :: "string option"
  cmd_cwd :: "string option"

type_synonym 'w exec = "command \<Rightarrow> ('w, string) py"

definition run_cmd :: "'w exec \<Rightarrow> bool \<Rightarrow> command \<Rightarrow> ('w, string) py" where
  "run_cmd exec dry_run c = (if dry_run then py_ret [] else exec c)"

definition PVE02 :: string where "PVE02 = ''root@10.10.20.12''"
definition BASTION_CTID :: string where "BASTION_CTID = ''102''"
definition CONDOR :: string where "CONDOR = ''npdadmin@10.10.80.20''"
definition ANSIBLE_DIR :: string where "ANSIBLE_DIR = ''ansible''"
definition EXECUTE_GROUP :: string where "EXECUTE_GROUP = ''asus_nodes''"
definition UID_MIN :: int where "UID_MIN = 20000"
definition UID_MAX :: int where "UID_MAX = 29999"

definition VALID_KEY_TYPES :: "string list" where
  "VALID_KEY_TYPES = [''ssh-ed25519'', ''ssh-rsa'', ''ecdsa-sha2-nistp256'', ''ecdsa-sha2-nistp384'',
     ''ecdsa-sha2-nistp521'', ''sk-ssh-ed25519@openssh.com'', ''sk-ecdsa-sha2-nistp256@openssh.com'']"

definition ssh_to :: "string \<Rightarrow> string list \<Rightarrow> string list" where
  "ssh_to host ws = [''ssh'', ''-o'', ''BatchMode=yes'', ''-o'', ''ConnectTimeout=5'', host] @ ws"

definition bastion_passwd :: command where
  "bastion_passwd = \<lparr>cmd_words = ssh_to PVE02 [''pct'', ''exec'', BASTION_CTID, ''--'', ''getent'', ''passwd''],
     cmd_input = None, cmd_cwd = None\<rparr>"

definition condor_passwd :: command where
  "condor_passwd = \<lparr>cmd_words = ssh_to CONDOR [''getent'', ''passwd''], cmd_input = None, cmd_cwd = None\<rparr>"

definition execute_passwd :: command where
  "execute_passwd = \<lparr>cmd_words = [''ansible'', EXECUTE_GROUP, ''-m'', ''command'', ''-a'', ''getent passwd''],
     cmd_input = None, cmd_cwd = Some ANSIBLE_DIR\<rparr>"

definition passwd_text_bastion :: "'w exec \<Rightarrow> ('w, string) py" where
  "passwd_text_bastion exec = run_cmd exec False bastion_passwd"

definition passwd_text_condor :: "'w exec \<Rightarrow> ('w, string) py" where
  "passwd_text_condor exec = run_cmd exec False condor_passwd"

definition passwd_text_execute_nodes :: "'w exec \<Rightarrow> ('w, string) py" where
  "passwd_text_execute_nodes exec = run_cmd exec False execute_passwd"

section \<open>Checks of the arguments\<close>

definition username_ok :: "string \<Rightarrow> bool" where
  "username_ok s \<longleftrightarrow>
     s \<noteq> [] \<and> length s \<le> 32 \<and> (is_lower (hd s) \<or> hd s = CHR ''_'')
     \<and> list_all (\<lambda>c. is_lower c \<or> is_digit c \<or> c = CHR ''_'' \<or> c = CHR ''-'') (tl s)"

definition validate_username :: "string \<Rightarrow> exc + unit" where
  "validate_username username =
     (if \<not> username_ok username
      then Inl (SystemExit (''Username must match: [a-z_][a-z0-9_-]{0,31}. ''
              @ ''Use lowercase login names, for example: denis''))
      else Inr ())"

definition read_public_key :: "(string \<Rightarrow> exc + string) \<Rightarrow> string \<Rightarrow> exc + string" where
  "read_public_key files path =
     (case files path of
        Inl e \<Rightarrow> Inl e
      | Inr content \<Rightarrow>
         (let key = strip content; parts = split_words key in
          if CHR 0x0A \<in> set key \<or> CHR 0x0D \<in> set key
          then Inl (SystemExit ''Public key file must contain exactly one key line.'')
          else if length parts < 2 \<or> hd parts \<notin> set VALID_KEY_TYPES
          then Inl (SystemExit ''Unsupported or invalid SSH public key. Expected an OpenSSH public key.'')
          else (case b64decode (parts ! 1) of
                  None \<Rightarrow> Inl (SystemExit ''SSH public key payload is not valid base64.'')
                | Some _ \<Rightarrow> Inr key)))"

section \<open>User identifiers\<close>

text \<open>The third field of a line of passwd, if it is a number.\<close>

definition line_uid :: "string \<Rightarrow> int option" where
  "line_uid line =
     (let parts = split_on (CHR '':'') line in
      if 2 < length parts \<and> isdigit (parts ! 2) then py_int 10 (parts ! 2) else None)"

definition used_uids :: "string list \<Rightarrow> int list" where
  "used_uids passwd_outputs = List.map_filter line_uid (concat (map splitlines passwd_outputs))"

definition next_uid :: "'w exec \<Rightarrow> bool \<Rightarrow> ('w, int) py" where
  "next_uid exec include_execute_nodes =
     py_bind (passwd_text_bastion exec) (\<lambda>bastion.
     py_bind (passwd_text_condor exec) (\<lambda>condor.
     py_bind (if include_execute_nodes then py_bind (passwd_text_execute_nodes exec) (\<lambda>t. py_ret [t]) else py_ret []) (\<lambda>nodes.
     let used = used_uids ([bastion, condor] @ nodes) in
     case find (\<lambda>uid. uid \<notin> set used) [UID_MIN..UID_MAX] of
       Some uid \<Rightarrow> py_ret uid
     | None \<Rightarrow> py_raise (SystemExit (''No free UID in range '' @ int_str UID_MIN @ ''-'' @ int_str UID_MAX @ ''.'')))))"

definition get_user_uid :: "string \<Rightarrow> string \<Rightarrow> int option" where
  "get_user_uid username passwd_output =
     (case find (\<lambda>line. hd (split_on (CHR '':'') line) = username \<and> line_uid line \<noteq> None) (splitlines passwd_output) of
        None \<Rightarrow> None
      | Some line \<Rightarrow> line_uid line)"

section \<open>The scripts\<close>

text \<open>The lines of the scripts after the assignments at their top.\<close>

definition remote_user_lines :: "string list" where
  "remote_user_lines =
     [[],
      ''if getent passwd \"$user\" >/dev/null; then'',
      ''  current_uid=\"$(id -u \"$user\")\"'',
      ''  if [ \"$current_uid\" != \"$uid\" ]; then'',
      ''    echo \"User $user already exists with UID $current_uid, expected $uid\" >&2'',
      ''    exit 1'',
      ''  fi'',
      ''else'',
      ''  useradd -m -u \"$uid\" -U -s /bin/bash \"$user\"'',
      ''fi'',
      [],
      ''passwd -l \"$user\" >/dev/null 2>&1 || true'',
      ''home=\"$(getent passwd \"$user\" | cut -d: -f6)\"'',
      ''install -d -m 700 -o \"$user\" -g \"$user\" \"$home/.ssh\"'',
      ''printf '%s' \"$key_b64\" | base64 -d > \"$home/.ssh/authorized_keys\"'',
      ''chown \"$user:$user\" \"$home/.ssh/authorized_keys\"'',
      ''chmod 600 \"$home/.ssh/authorized_keys\"'',
      ''command -v restorecon >/dev/null 2>&1 && restorecon -R \"$home/.ssh\" || true'']"

definition remote_user_script :: "string \<Rightarrow> int \<Rightarrow> string \<Rightarrow> string" where
  "remote_user_script username uid key_b64 =
     unlines ([''set -euo pipefail'', ''user='' @ py_repr username, ''uid='' @ py_repr (int_str uid),
               ''key_b64='' @ py_repr key_b64] @ remote_user_lines)"

definition execute_user_lines :: "string list" where
  "execute_user_lines =
     [[],
      ''if getent passwd \"$user\" >/dev/null; then'',
      ''  current_uid=\"$(id -u \"$user\")\"'',
      ''  if [ \"$current_uid\" != \"$uid\" ]; then'',
      ''    echo \"User $user already exists with UID $current_uid, expected $uid\" >&2'',
      ''    exit 1'',
      ''  fi'',
      ''else'',
      ''  useradd -m -u \"$uid\" -U -s /bin/bash \"$user\"'',
      ''fi'',
      [],
      ''passwd -l \"$user\" >/dev/null 2>&1 || true'',
      [],
      ''# Execute-node accounts are for HTCondor/POSIX identity only.'',
      ''# Users enter through bastion01 -> condor01, not by SSHing to execute nodes.'',
      ''home=\"$(getent passwd \"$user\" | cut -d: -f6)\"'',
      ''rm -rf \"$home/.ssh\"'']"

definition execute_user_script :: "string \<Rightarrow> int \<Rightarrow> string" where
  "execute_user_script username uid =
     unlines ([''set -euo pipefail'', ''user='' @ py_repr username, ''uid='' @ py_repr (int_str uid)]
       @ execute_user_lines)"

definition storage_lines :: "string list" where
  "storage_lines =
     [''test -d /data'',
      ''test -x /data'',
      ''install -d -m 0755 /data/projects/users /data/results/users'',
      ''install -d -m 1777 /data/scratch/users'',
      ''install -d -m 0750 \"/data/projects/users/$user\"'',
      ''install -d -m 1777 \"/data/results/users/$user\" \"/data/scratch/users/$user\"'',
      ''chown \"$uid:$uid\" \"/data/projects/users/$user\" \"/data/results/users/$user\" \"/data/scratch/users/$user\"'']"

definition storage_script :: "string \<Rightarrow> int \<Rightarrow> string" where
  "storage_script username uid =
     unlines ([''set -euo pipefail'', ''user='' @ py_repr username, ''uid='' @ py_repr (int_str uid)] @ storage_lines)"

definition create_on_bastion :: "'w exec \<Rightarrow> string \<Rightarrow> bool \<Rightarrow> ('w, string) py" where
  "create_on_bastion exec script dry_run = run_cmd exec dry_run
     \<lparr>cmd_words = ssh_to PVE02 [''pct'', ''exec'', BASTION_CTID, ''--'', ''bash'', ''-s''],
      cmd_input = Some script, cmd_cwd = None\<rparr>"

definition create_on_condor :: "'w exec \<Rightarrow> string \<Rightarrow> bool \<Rightarrow> ('w, string) py" where
  "create_on_condor exec script dry_run = run_cmd exec dry_run
     \<lparr>cmd_words = ssh_to CONDOR [''sudo'', ''-n'', ''bash'', ''-s''], cmd_input = Some script, cmd_cwd = None\<rparr>"

definition create_on_execute_nodes :: "'w exec \<Rightarrow> string \<Rightarrow> bool \<Rightarrow> ('w, string) py" where
  "create_on_execute_nodes exec script dry_run = run_cmd exec dry_run
     \<lparr>cmd_words = [''ansible'', EXECUTE_GROUP, ''-m'', ''shell'', ''-a'', script], cmd_input = None,
      cmd_cwd = Some ANSIBLE_DIR\<rparr>"

text \<open>\<open>mounted\<close>: whether /data is a mount point that can be entered.\<close>

definition create_storage_dirs :: "'w exec \<Rightarrow> bool \<Rightarrow> string \<Rightarrow> int \<Rightarrow> bool \<Rightarrow> ('w, bool) py" where
  "create_storage_dirs exec mounted username uid dry_run =
     (if \<not> (if dry_run then True else mounted) then py_ret False
      else py_bind (run_cmd exec dry_run
             \<lparr>cmd_words = [''bash'', ''-s''], cmd_input = Some (storage_script username uid), cmd_cwd = None\<rparr>)
           (\<lambda>_. py_ret True))"

section \<open>The command line\<close>

record cluster_args =
  arg_username :: string
  arg_public_key :: "string option"
  arg_uid :: "int option"
  arg_dry_run :: bool
  arg_accounts_only :: bool
  arg_storage_only :: bool
  arg_execute_nodes :: bool
  arg_execute_only :: bool

definition lift_checked :: "exc + 'a \<Rightarrow> ('w, 'a) py" where
  "lift_checked r w = (r, w)"

definition when_py :: "bool \<Rightarrow> ('w, 'a) py \<Rightarrow> ('w, unit) py" where
  "when_py c m = (if c then py_bind m (\<lambda>_. py_ret ()) else py_ret ())"

definition choose_uid :: "'w exec \<Rightarrow> cluster_args \<Rightarrow> ('w, int) py" where
  "choose_uid exec args =
     (if (arg_storage_only args \<or> arg_execute_only args) \<and> arg_uid args = None
      then py_bind (passwd_text_condor exec) (\<lambda>text.
             case get_user_uid (arg_username args) text of
               None \<Rightarrow> py_raise (SystemExit (''User '' @ py_repr (arg_username args) @ '' does not exist on condor01; ''
                         @ ''create accounts first or pass --uid explicitly.''))
             | Some condor_uid \<Rightarrow> py_ret condor_uid)
      else (case arg_uid args of Some uid \<Rightarrow> py_ret uid | None \<Rightarrow> next_uid exec (arg_execute_nodes args)))"

text \<open>What is done once the key is read and the identifier chosen.\<close>

definition create_user :: "'w exec \<Rightarrow> bool \<Rightarrow> cluster_args \<Rightarrow> string option \<Rightarrow> int \<Rightarrow> ('w, int) py" where
  "create_user exec mounted args key uid =
     (let script = (case key of
                      None \<Rightarrow> []
                    | Some k \<Rightarrow> remote_user_script (arg_username args) uid (b64encode (k @ [CHR 0x0A])));
          accounts = \<not> arg_storage_only args \<and> \<not> arg_execute_only args
      in
        py_bind (when_py accounts (create_on_bastion exec script (arg_dry_run args))) (\<lambda>_.
        py_bind (when_py accounts (create_on_condor exec script (arg_dry_run args))) (\<lambda>_.
        py_bind (when_py (arg_execute_nodes args \<or> arg_execute_only args)
                   (create_on_execute_nodes exec (execute_user_script (arg_username args) uid) (arg_dry_run args))) (\<lambda>_.
        py_bind (if \<not> arg_accounts_only args \<and> \<not> arg_execute_only args
                 then create_storage_dirs exec mounted (arg_username args) uid (arg_dry_run args)
                 else py_ret False) (\<lambda>storage_created.
        py_ret 0)))))"

definition cluster_main :: "'w exec \<Rightarrow> (string \<Rightarrow> exc + string) \<Rightarrow> bool \<Rightarrow> cluster_args \<Rightarrow> ('w, int) py" where
  "cluster_main exec files mounted args =
     (if 1 < length (filter (\<lambda>mode. mode) [arg_accounts_only args, arg_storage_only args, arg_execute_only args])
      then py_raise (SystemExit ''--accounts-only, --storage-only and --execute-only are mutually exclusive.'')
      else
        py_bind (lift_checked (validate_username (arg_username args))) (\<lambda>_.
        py_bind (if \<not> arg_storage_only args \<and> \<not> arg_execute_only args
                 then (case arg_public_key args of
                         None \<Rightarrow> py_raise (SystemExit ''public_key is required unless --storage-only or --execute-only is used.'')
                       | Some path \<Rightarrow> py_bind (lift_checked (read_public_key files path)) (\<lambda>k. py_ret (Some k)))
                 else py_ret None) (\<lambda>key.
        py_bind (choose_uid exec args) (\<lambda>uid.
        if \<not> (UID_MIN \<le> uid \<and> uid \<le> UID_MAX)
        then py_raise (SystemExit (''UID must be in range '' @ int_str UID_MIN @ ''-'' @ int_str UID_MAX @ ''.''))
        else create_user exec mounted args key uid))))"

end
