(* ===== verification/ClusterUserFacts.thy ===== *)
theory ClusterUserFacts
  imports ClusterUser
begin

text \<open>
  What the user script guarantees: identifiers are not given out twice, what reaches a shell is
  quoted, and a dry run only reads.
\<close>

section \<open>Decimal numerals read back\<close>

lemma digit_char_facts:
  assumes "d < 10"
  shows "digit_value (digit_char d) = Some d" "digit_char d \<noteq> CHR ''_''" "is_digit (digit_char d)"
    "\<not> is_space (digit_char d)"
proof -
  have n: "(of_char (digit_char d) :: nat) = 48 + d"
    using assms by (simp add: digit_char_def of_char_small)
  have "(of_char (CHR ''_'') :: nat) = 95"
    by simp
  then show "digit_value (digit_char d) = Some d" "digit_char d \<noteq> CHR ''_''" "is_digit (digit_char d)"
    "\<not> is_space (digit_char d)"
    using n assms by (auto simp: digit_value_def is_digit_def is_space_def Let_def)
qed

lemma nat_str_digits: "c \<in> set (nat_str n) \<Longrightarrow> \<exists>d<10. c = digit_char d"
proof (induction n rule: nat_str.induct)
  case (1 n)
  show ?case
  proof (cases "n < 10")
    case True
    with 1(2) show ?thesis by (subst (asm) nat_str.simps) auto
  next
    case False
    with 1(2) have "c \<in> set (nat_str (n div 10)) \<or> c = digit_char (n mod 10)"
      by (subst (asm) nat_str.simps) auto
    then show ?thesis
    proof
      assume "c = digit_char (n mod 10)"
      then show ?thesis by (intro exI [of _ "n mod 10"]) simp
    qed (rule 1(1) [OF False])
  qed
qed

lemma nat_str_not_Nil [simp]: "nat_str n \<noteq> []"
  by (subst nat_str.simps) simp

lemma digits_val_nat_str: "digits_val 10 p 0 (nat_str n @ s) = digits_val 10 True n s"
proof (induction n arbitrary: s rule: nat_str.induct)
  case (1 n)
  show ?case
  proof (cases "n < 10")
    case True
    then show ?thesis
      by (subst nat_str.simps) (simp add: digit_char_facts)
  next
    case False
    have m: "n mod 10 < 10" by simp
    have "digits_val 10 p 0 (nat_str n @ s) = digits_val 10 p 0 (nat_str (n div 10) @ digit_char (n mod 10) # s)"
      using False by (subst nat_str.simps) simp
    also have "\<dots> = digits_val 10 True (n div 10) (digit_char (n mod 10) # s)"
      by (rule 1 [OF False])
    finally show ?thesis
      by (simp add: digit_char_facts [OF m])
  qed
qed

lemma isdigit_nat_str: "isdigit (nat_str n)"
  using nat_str_digits digit_char_facts(3) by (fastforce simp: isdigit_def list_all_iff)

lemma py_int_nat_str: "py_int 10 (nat_str n) = Some (int n)"
proof -
  have strip: "strip (nat_str n) = nat_str n"
    by (rule strip_by_id) (use nat_str_digits digit_char_facts(4) in blast)
  have "nat_str n ! 0 \<in> set (nat_str n)"
    by simp
  then obtain d where d: "d < 10" "nat_str n ! 0 = digit_char d"
    using nat_str_digits by blast
  then have "(of_char (hd (nat_str n)) :: nat) = 48 + d"
    by (simp add: hd_conv_nth digit_char_def of_char_small)
  then have "hd (nat_str n) \<noteq> CHR ''-''" "hd (nat_str n) \<noteq> CHR ''+''"
    by auto
  then have "split_sign (nat_str n) = (1, nat_str n)"
    by (cases "nat_str n") (simp_all add: split_sign_def)
  then show ?thesis
    using digits_val_nat_str [of False n "[]"] by (simp add: py_int_def strip drop_radix_def)
qed

lemma int_str_nat: "0 \<le> u \<Longrightarrow> int_str u = nat_str (nat u)"
  by (simp add: int_str_def)

section \<open>Quoting\<close>

text \<open>A plain character is not a quote, a backslash or a control character, nor a colon.\<close>

definition plain :: "char \<Rightarrow> bool" where
  "plain c \<longleftrightarrow> (let n = of_char c :: nat in 32 < n \<and> n < 127 \<and> n \<noteq> 34 \<and> n \<noteq> 39 \<and> n \<noteq> 92 \<and> n \<noteq> 58)"

lemma repr_plain:
  assumes "list_all plain s"
  shows "py_repr s = CHR 0x27 # s @ [CHR 0x27]"
proof -
  have n: "plain (CHR 0x27) = False"
    by (simp add: plain_def)
  then have q: "CHR 0x27 \<notin> set s"
    using assms by (auto simp: list_all_iff)
  have "repr_char (CHR 0x27) c = [c]" if "c \<in> set s" for c
    using that assms q by (auto simp: list_all_iff plain_def repr_char_def Let_def)
  then have "concat (map (repr_char (CHR 0x27)) s) = s"
    by (induction s) auto
  with q show ?thesis
    by (simp add: py_repr_def Let_def)
qed

lemma digit_plain: "is_digit c \<Longrightarrow> plain c"
  by (auto simp: is_digit_def plain_def Let_def)

lemma lower_plain: "is_lower c \<Longrightarrow> plain c"
  by (auto simp: is_lower_def plain_def Let_def)

lemma username_plain:
  assumes "username_ok u"
  shows "list_all plain u"
proof -
  have p: "plain (CHR ''_'')" "plain (CHR ''-'')"
    by (simp_all add: plain_def)
  obtain c cs where u: "u = c # cs"
    using assms by (cases u) (simp_all add: username_ok_def)
  show ?thesis
    using assms p digit_plain lower_plain unfolding u by (auto simp: username_ok_def list_all_iff)
qed

lemma uid_plain: "0 \<le> uid \<Longrightarrow> list_all plain (int_str uid)"
  using nat_str_digits digit_char_facts(3) digit_plain by (fastforce simp: int_str_nat list_all_iff)

lemma b64_char_plain: "n < 64 \<Longrightarrow> plain (b64_char n)"
  by (auto simp: plain_def b64_char_def Let_def of_char_small)

lemma pad_plain: "plain (CHR ''='')"
  by (simp add: plain_def)

lemma b64encode_plain: "list_all plain (b64encode s)"
proof (induction s rule: b64encode.induct)
  case (4 a b c s)
  then show ?case
    by (simp add: Let_def b64_char_plain byte_groups char_groups)
qed (simp_all add: Let_def b64_char_plain pad_plain byte_groups char_groups)

text \<open>
  C37. What the script sends to a root shell on bastion and condor assigns the checked username,
  the number of the user and the key as single-quoted words that contain neither quotes, white space nor
  backslashes, followed by a fixed text; the shell's base64 reads the key back exactly, with a
  newline.
\<close>

theorem account_script_quotes:
  assumes "validate_username username = Inr ()" "UID_MIN \<le> uid"
  shows "remote_user_script username uid (b64encode (key @ [CHR 0x0A])) =
      unlines ([''set -euo pipefail'', ''user='' @ [CHR 0x27] @ username @ [CHR 0x27],
                ''uid='' @ [CHR 0x27] @ int_str uid @ [CHR 0x27],
                ''key_b64='' @ [CHR 0x27] @ b64encode (key @ [CHR 0x0A]) @ [CHR 0x27]] @ remote_user_lines)
     \<and> list_all plain (username @ int_str uid @ b64encode (key @ [CHR 0x0A]))
     \<and> b64decode (b64encode (key @ [CHR 0x0A])) = Some (key @ [CHR 0x0A])"
proof -
  have u: "list_all plain username"
    using assms(1) by (intro username_plain) (simp add: validate_username_def split: if_splits)
  have i: "list_all plain (int_str uid)"
    using assms(2) by (intro uid_plain) (simp add: UID_MIN_def)
  note b = b64encode_plain [of "key @ [CHR 0x0A]"]
  show ?thesis
    using u i b by (simp add: remote_user_script_def repr_plain b64_roundtrip_raw)
qed

theorem account_script_quotes_witness:
  "list_all plain (''denis'' @ int_str 20001 @ b64encode (''ssh-ed25519 AAAA'' @ [CHR 0x0A]))"
proof -
  have "validate_username ''denis'' = Inr ()"
    by code_simp
  moreover have "UID_MIN \<le> 20001"
    by (simp add: UID_MIN_def)
  ultimately show ?thesis
    using account_script_quotes by blast
qed

section \<open>Choosing an identifier\<close>

lemma find_upto:
  assumes "find P [a..b] = Some x"
  shows "a \<le> x" "x \<le> b" "P x" "a \<le> u \<Longrightarrow> u < x \<Longrightarrow> \<not> P u"
proof -
  from assms obtain i where i: "i < length [a..b]" "P ([a..b] ! i)" "x = [a..b] ! i" "\<forall>j<i. \<not> P ([a..b] ! j)"
    by (auto simp: find_Some_iff)
  then have x: "x = a + int i" "a + int i \<le> b"
    by (simp_all add: nth_upto)
  with i show "a \<le> x" "x \<le> b" "P x" by simp_all
  assume u: "a \<le> u" "u < x"
  then have "nat (u - a) < i" "[a..b] ! nat (u - a) = u"
    using x by (simp_all add: nth_upto)
  with i(4) show "\<not> P u" by metis
qed

lemma find_upto_rec: "find P [a..b] = (if b < a then None else if P a then Some a else find P [a + 1..b])"
  by (subst upto.simps) simp

lemma in_used_uids: "uid \<in> set (used_uids texts) \<longleftrightarrow> (\<exists>t\<in>set texts. \<exists>l\<in>set (splitlines t). line_uid l = Some uid)"
  by (force simp: used_uids_def List.map_filter_def)

lemma line_uid_entry:
  assumes "list_all plain name" "0 \<le> uid"
  shows "line_uid (name @ '':x:'' @ int_str uid @ '':'' @ rest) = Some uid"
    "hd (split_on (CHR '':'') (name @ '':x:'' @ int_str uid @ '':'' @ rest)) = name"
proof -
  have n: "CHR '':'' \<notin> set s" if "list_all plain s" for s
    using that by (auto simp: list_all_iff plain_def)
  have "split_on (CHR '':'') (name @ CHR '':'' # ''x'' @ CHR '':'' # int_str uid @ CHR '':'' # rest)
      = name # ''x'' # int_str uid # split_on (CHR '':'') rest"
    by (simp add: split_on_append [OF n [OF assms(1)]] split_on_append [OF n [OF uid_plain [OF assms(2)]]])
  then have s: "split_on (CHR '':'') (name @ '':x:'' @ int_str uid @ '':'' @ rest)
      = name # ''x'' # int_str uid # split_on (CHR '':'') rest"
    by simp
  show "line_uid (name @ '':x:'' @ int_str uid @ '':'' @ rest) = Some uid"
    "hd (split_on (CHR '':'') (name @ '':x:'' @ int_str uid @ '':'' @ rest)) = name"
    unfolding line_uid_def s using assms(2) isdigit_nat_str py_int_nat_str by (simp_all add: int_str_nat)
qed

lemma next_uid_eq:
  assumes "passwd_text_bastion exec w = (Inr b, w1)" "passwd_text_condor exec w1 = (Inr c, w2)"
    and "nodes \<Longrightarrow> passwd_text_execute_nodes exec w2 = (Inr n, w3)"
  shows "next_uid exec nodes w =
     (case find (\<lambda>uid. uid \<notin> set (used_uids ([b, c] @ (if nodes then [n] else [])))) [UID_MIN..UID_MAX] of
        Some uid \<Rightarrow> py_ret uid
      | None \<Rightarrow> py_raise (SystemExit (''No free UID in range '' @ int_str UID_MIN @ ''-'' @ int_str UID_MAX @ ''.'')))
     (if nodes then w3 else w2)"
  using assms by (simp add: next_uid_def py_bind_def Let_def)

text \<open>
  Without \<open>--uid\<close> a new user gets the smallest number from 20000 to 29999 that no line of the
  passwd tables of bastion and condor has, nor of those of the execute nodes when they are
  included. In particular it is not the number of a user that the script created before.
\<close>

lemma next_uid_is_free:
  assumes "next_uid exec nodes w = (Inr uid, w')"
    and "passwd_text_bastion exec w = (Inr b, w1)" "passwd_text_condor exec w1 = (Inr c, w2)"
    and "nodes \<Longrightarrow> passwd_text_execute_nodes exec w2 = (Inr n, w3)"
    and "T = splitlines b @ splitlines c @ (if nodes then splitlines n else [])"
  shows "UID_MIN \<le> uid \<and> uid \<le> UID_MAX \<and> (\<forall>l\<in>set T. line_uid l \<noteq> Some uid)
     \<and> (\<forall>u. UID_MIN \<le> u \<and> u < uid \<longrightarrow> (\<exists>l\<in>set T. line_uid l = Some u))
     \<and> (\<forall>name rest v. list_all plain name \<and> 0 \<le> v \<and> name @ '':x:'' @ int_str v @ '':'' @ rest \<in> set T \<longrightarrow> uid \<noteq> v)"
proof -
  let ?texts = "[b, c] @ (if nodes then [n] else [])"
  let ?free = "find (\<lambda>uid. uid \<notin> set (used_uids ?texts)) [UID_MIN..UID_MAX]"
  have "next_uid exec nodes w = (case ?free of Some uid \<Rightarrow> py_ret uid
      | None \<Rightarrow> py_raise (SystemExit (''No free UID in range '' @ int_str UID_MIN @ ''-'' @ int_str UID_MAX @ ''.'')))
      (if nodes then w3 else w2)"
    by (rule next_uid_eq [OF assms(2-4)])
  with assms(1) have f: "?free = Some uid"
    by (cases ?free) simp_all
  have T: "v \<in> set (used_uids ?texts) \<longleftrightarrow> (\<exists>l\<in>set T. line_uid l = Some v)" for v
    unfolding in_used_uids assms(5) by auto
  note free = find_upto [OF f]
  have "uid \<noteq> v" if "list_all plain name" "0 \<le> v" "name @ '':x:'' @ int_str v @ '':'' @ rest \<in> set T" for name rest v
    using free(3) T line_uid_entry(1) [OF that(1,2)] that(3) by blast
  then show ?thesis
    using free(1-3) free(4) T by blast
qed

section \<open>A dry run\<close>

definition quiet :: "('w, 'a) py \<Rightarrow> bool" where
  "quiet m \<longleftrightarrow> (\<forall>w. snd (m w) = w)"

lemma quiet_rules:
  "quiet (py_ret x)" "quiet (py_raise e)" "quiet (lift_checked r)"
  "quiet m \<Longrightarrow> (\<And>x. quiet (f x)) \<Longrightarrow> quiet (py_bind m f)"
  "quiet m \<Longrightarrow> quiet (when_py c m)"
  by (auto simp: quiet_def lift_checked_def py_bind_def when_py_def split: prod.splits sum.splits) (metis snd_conv)+

text \<open>
  With \<open>--dry-run\<close> the script sends nothing that changes a host: whatever the other options, the
  hosts are as before if \<open>getent passwd\<close> leaves them so, because that is all it runs.
\<close>

lemma dry_run_changes_nothing:
  assumes "arg_dry_run args" "\<And>c w. c \<in> {bastion_passwd, condor_passwd, execute_passwd} \<Longrightarrow> snd (exec c w) = w"
  shows "snd (cluster_main exec files mounted args w) = w"
proof -
  have q: "quiet (passwd_text_bastion exec)" "quiet (passwd_text_condor exec)" "quiet (passwd_text_execute_nodes exec)"
    using assms(2) by (simp_all add: quiet_def passwd_text_bastion_def passwd_text_condor_def
        passwd_text_execute_nodes_def run_cmd_def)
  have d: "quiet (run_cmd exec (arg_dry_run args) c)" for c
    using assms(1) by (simp add: run_cmd_def quiet_rules)
  have n: "quiet (next_uid exec b)" for b
    by (simp add: next_uid_def Let_def quiet_rules q split: option.split)
  have u: "quiet (choose_uid exec args)"
    by (simp add: choose_uid_def quiet_rules q n split: option.split)
  have c: "quiet (create_user exec mounted args key uid)" for key uid
    by (simp add: create_user_def create_on_bastion_def create_on_condor_def create_on_execute_nodes_def
        create_storage_dirs_def Let_def quiet_rules d)
  have "quiet (cluster_main exec files mounted args)"
    by (simp add: cluster_main_def quiet_rules u c split: option.split)
  then show ?thesis
    by (simp add: quiet_def)
qed

end
