(* ===== verification/WorkerConfig.thy ===== *)
theory WorkerConfig
  imports Worker Fake HttpAdapter
begin

text \<open>
  How the worker chooses its provider: portal/app/workers/config.py and adapter.py. The settings
  are read from an environment \<open>env\<close>; the readings of a text as an integer and as a number of
  seconds are pydantic's and are parameters.
\<close>

record OperationWorkerSettings =
  ws_api_url :: string
  ws_token_id :: string
  ws_token_secret :: string
  ws_ca_file :: string
  ws_timeout_seconds :: rat
  ws_http :: HttpConfig

definition WorkerModeSettings :: "(string \<Rightarrow> string option) \<Rightarrow> exc + string" where
  "WorkerModeSettings env =
     (case env ''worker_adapter'' of
        None \<Rightarrow> Inr ''fake''
      | Some mode \<Rightarrow> if mode \<in> {''fake'', ''proxmox''} then Inr mode else Inl (ValueError ''worker_adapter''))"

definition required_settings :: "string list" where
  "required_settings = [''proxmox_api_url'', ''proxmox_token_id'', ''proxmox_token_secret'', ''proxmox_ca_file'',
     ''proxmox_target_node'', ''proxmox_pool'', ''proxmox_template_node'', ''proxmox_template_vmid'',
     ''proxmox_template_image_id'', ''proxmox_storage'', ''proxmox_cloud_init_user'', ''proxmox_ipconfig0'',
     ''proxmox_nameserver'', ''proxmox_search_domain'']"

definition timeout_setting :: "(string \<Rightarrow> rat option) \<Rightarrow> string option \<Rightarrow> rat option" where
  "timeout_setting as_float v =
     (case v of
        None \<Rightarrow> Some 10
      | Some s \<Rightarrow> (case as_float s of None \<Rightarrow> None | Some t \<Rightarrow> if 0 < t \<and> t < 300 then Some t else None))"

definition worker_settings ::
  "(string \<Rightarrow> int option) \<Rightarrow> (string \<Rightarrow> rat option) \<Rightarrow> (string \<Rightarrow> string option) \<Rightarrow> exc + OperationWorkerSettings" where
  "worker_settings as_int as_float env =
     (let get = (\<lambda>name. or_empty (env name)) in
      if list_ex (\<lambda>name. env name = None) required_settings then Inl (ValueError ''Field required'')
      else
        (case (WorkerModeSettings env, as_int (get ''proxmox_template_vmid''),
               timeout_setting as_float (env ''proxmox_timeout_seconds'')) of
           (Inr _, Some template_vmid, Some timeout) \<Rightarrow>
             Inr \<lparr>ws_api_url = get ''proxmox_api_url'', ws_token_id = get ''proxmox_token_id'',
                  ws_token_secret = get ''proxmox_token_secret'', ws_ca_file = get ''proxmox_ca_file'',
                  ws_timeout_seconds = timeout,
                  ws_http = \<lparr>ad_target_node = get ''proxmox_target_node'', ad_pool = get ''proxmox_pool'',
                    ad_template_node = get ''proxmox_template_node'', ad_template_vmid = template_vmid,
                    ad_template_image_id = get ''proxmox_template_image_id'', ad_storage = get ''proxmox_storage'',
                    ad_cloud_init_user = get ''proxmox_cloud_init_user'', ad_ipconfig0 = get ''proxmox_ipconfig0'',
                    ad_nameserver = get ''proxmox_nameserver'', ad_search_domain = get ''proxmox_search_domain''\<rparr>\<rparr>
         | _ \<Rightarrow> Inl (ValueError ''invalid setting'')))"

text \<open>The adapter in use, with the connection it is given.\<close>

datatype 'n worker_adapter =
    LocalAdapter "fake ProxmoxAdapter" fake
  | RemoteAdapter HttpOptions "'n ProxmoxAdapter"

definition create_worker_adapter ::
  "(HttpOptions \<Rightarrow> 'n http) \<Rightarrow> (string \<Rightarrow> int option) \<Rightarrow> (string \<Rightarrow> rat option) \<Rightarrow> (string \<Rightarrow> string option)
     \<Rightarrow> exc + 'n worker_adapter" where
  "create_worker_adapter connect as_int as_float env =
     (case WorkerModeSettings env of
        Inl e \<Rightarrow> Inl e
      | Inr mode \<Rightarrow>
          if mode = ''fake'' then Inr (LocalAdapter (FakeProxmoxAdapter ''fake-node'') new_fake)
          else (case worker_settings as_int as_float env of
             Inl e \<Rightarrow> Inl e
           | Inr settings \<Rightarrow>
              (let client = client_options (ws_api_url settings) (ws_token_id settings) (ws_token_secret settings)
                              (ws_ca_file settings) (ws_timeout_seconds settings)
               in Inr (RemoteAdapter client (HttpProxmoxAdapter (ws_http settings) (connect client))))))"

text \<open>
  A single request to Proxmox is given up before the grace after which an unanswered
  command is held for review. A command may take up to three requests, so this does not bound
  the command.
\<close>

lemma timeout_setting_bounds: "timeout_setting as_float v = Some t \<Longrightarrow> 0 < t \<and> t < 300"
  by (auto simp: timeout_setting_def split: option.splits if_splits)

lemma request_within_grace:
  assumes "create_worker_adapter connect as_int as_float env = Inr (RemoteAdapter opts A)"
  shows "0 < opt_timeout opts \<and> opt_timeout opts * 1000000 < of_int DISPATCH_GRACE"
proof -
  from assms obtain s where s: "worker_settings as_int as_float env = Inr s"
      "opt_timeout opts = ws_timeout_seconds s"
    by (auto simp: create_worker_adapter_def client_options_def Let_def split: sum.splits if_splits)
  then have "0 < ws_timeout_seconds s \<and> ws_timeout_seconds s < 300"
    using timeout_setting_bounds
    by (auto simp: worker_settings_def Let_def split: if_splits sum.splits option.splits)
  then show ?thesis
    by (simp add: s(2) DISPATCH_GRACE_def)
qed

end
