(* ===== verification/Progress.thy ===== *)
theory Progress
  imports Replies
begin

text \<open>
  Termination of the work of a worker. A prompt provider (\<open>prompt_provider\<close>) answers every
  command and reports every task it gave out as succeeded. With such a provider each pass of the
  worker takes one unit off a measure of the work that is left (\<open>work\<close>), so that after as many
  passes no operation is active, and every one that was active has succeeded. The in-memory
  provider is prompt.
\<close>

section \<open>Prompt providers\<close>

text \<open>A command that the worker can send, to the place of the machine it is for.\<close>

definition addressed :: "(uuid \<Rightarrow> ProviderPlacement) \<Rightarrow> dispatch \<Rightarrow> bool" where
  "addressed home c \<longleftrightarrow>
     dispatch_target c = home (dispatch_vm c)
     \<and> (case c of
          CreateDispatch oid vid phase request target \<Rightarrow>
            phase \<in> {''clone'', ''configure'', ''resize'', ''start''} \<and> (request = None \<longleftrightarrow> phase = ''start'')
            \<and> (\<forall>r. request = Some r \<longrightarrow> req_vm_id r = vid)
        | StartDispatch oid vid target \<Rightarrow> True
        | LifecycleDispatch oid vid command target \<Rightarrow> command \<in> {''shutdown'', ''stop'', ''start'', ''delete''})"

locale prompt_provider = provider_contract A inv
  for A :: "'p ProxmoxAdapter" and inv :: "'p \<Rightarrow> bool" +
  fixes home :: "uuid \<Rightarrow> ProviderPlacement" and task_of :: "uuid \<Rightarrow> string \<Rightarrow> bool"
  assumes choose_home:
      "\<exists>p'. choose_clone_target A req p = (Inr (home (req_vm_id req)), p')"
    and command_answered:
      "inv p \<Longrightarrow> addressed home c \<Longrightarrow> \<exists>r p'. submit A c p = (Inr r, p') \<and> conclusive r \<and> inv p'
         \<and> (\<forall>t. reply_task r = Some t \<longrightarrow> task_of (dispatch_vm c) (task_id t))"
    and task_done:
      "inv p \<Longrightarrow> task_of u tid \<Longrightarrow> \<exists>st p'. get_task_status A
         \<lparr>task_id = tid, task_vmid = place_vmid (home u), task_node = place_node (home u)\<rparr> p = (Inr st, p')
         \<and> ts_status st = ''succeeded''"
    and task_width: "task_of u tid \<Longrightarrow> length tid \<le> 255"

section \<open>The work that is left\<close>

definition weight :: "VirtualMachine \<Rightarrow> Operation \<Rightarrow> nat" where
  "weight v op =
     (let n = length (commands (op_type op)) in
      case abs_state op of
        Some (Ready k) \<Rightarrow> 2 * (n - k) + (if unplaced v then 1 else 0)
      | Some (InFlight k) \<Rightarrow> 2 * (n - k)
      | Some (Tracked k) \<Rightarrow> 2 * (n - k) - 1
      | _ \<Rightarrow> 0)"

definition op_work :: "db \<Rightarrow> Operation \<Rightarrow> nat" where
  "op_work d op = (case get_vm (op_vm op) d of None \<Rightarrow> 0 | Some v \<Rightarrow> weight v op)"

definition work :: "db \<Rightarrow> nat" where
  "work d = sum_list (map (op_work d) (operations d))"

lemma weight_inactive: "abs_state op = Some a \<Longrightarrow> \<not> active op \<Longrightarrow> weight v op = 0"
  using active_astate [of op a] by (auto simp: weight_def)


lemma weight_touch: "weight (touch_vm now old v) (touch_op now' old' op) = weight v op"
  by (simp add: weight_def cong: option.case_cong)

lemma sum_list_row_set:
  assumes "distinct (map key xs)" "x \<in> set xs" "key y = key x"
    and "\<And>z. z \<in> set xs \<Longrightarrow> key z \<noteq> key x \<Longrightarrow> g z = (f z :: nat)"
  shows "sum_list (map g (row_set key y xs)) + f x = sum_list (map f xs) + g y"
  using assms
proof (induction xs)
  case (Cons z xs)
  have hd: "row_set key y (z # xs) = (if key z = key y then y else z) # row_set key y xs"
    by (simp add: row_set_def)
  show ?case
  proof (cases "z = x")
    case True
    have off: "key w \<noteq> key x" if "w \<in> set xs" for w
      using Cons.prems(1) True that by (metis distinct.simps(2) image_eqI list.set_map list.simps(9))
    have same: "row_set key y xs = xs"
      unfolding row_set_def by (rule map_idI) (use off Cons.prems(3) in auto)
    have others: "map g xs = map f xs"
      by (rule map_cong [OF refl]) (use off Cons.prems(4) in auto)
    show ?thesis
      using True Cons.prems(3) hd same by (simp add: others)
  next
    case False
    then have x: "x \<in> set xs" using Cons.prems(2) by simp
    then have "key z \<noteq> key x"
      using Cons.prems(1) by (metis distinct.simps(2) image_eqI list.set_map list.simps(9))
    moreover have "sum_list (map g (row_set key y xs)) + f x = sum_list (map f xs) + g y"
      by (rule Cons.IH) (use Cons.prems x in auto)
    ultimately show ?thesis
      using hd Cons.prems(3,4) by simp
  qed
qed simp

lemma stored_work:
  assumes st: "step_in d l op v op' v'"
  shows "work (stored now op v op' v' d) + weight v op = work d + weight v' op'"
proof -
  let ?d = "stored now op v op' v' d" and ?o = "touch_op now op op'"
  have ok: "db_ok d" and op: "op \<in> set (operations d)" and v: "get_vm (op_vm op) d = Some v"
    using st by (simp_all add: step_in_def)
  have others: "op_work ?d q = op_work d q" if q: "q \<in> set (operations d)" "op_id q \<noteq> op_id op" for q
  proof (cases "op_vm q = op_vm op")
    case True
    obtain w where "row_ok (ssh_keys d) q w"
      by (rule db_okD [OF ok q(1)])
    then obtain a where "abs_state q = Some a"
      by (rule row_okD)
    then have "weight x q = 0" for x
      using weight_inactive stored_other_inactive [OF st q True] by blast
    then show ?thesis by (simp add: op_work_def split: option.split)
  next
    case False
    then show ?thesis
      using stored_ids [OF st] by (simp add: op_work_def stored_get_vm [OF st])
  qed
  have "sum_list (map (op_work ?d) (row_set op_id ?o (operations d))) + op_work d op
      = sum_list (map (op_work d) (operations d)) + op_work ?d ?o"
    by (rule sum_list_row_set) (use ok op stored_ids [OF st] others in \<open>simp_all add: db_ok_def\<close>)
  moreover have "op_work d op = weight v op"
    using v by (simp add: op_work_def)
  moreover have "op_work ?d ?o = weight v' op'"
    using stored_ids [OF st] by (simp add: op_work_def stored_get_vm [OF st] weight_touch)
  ultimately show ?thesis
    by (simp add: work_def) (simp add: stored_def)
qed

section \<open>Commits that are not refused\<close>

lemma phase_widths:
  assumes "T \<in> set operation_types" "k < length (commands T)"
  shows "width_ok 32 (ready_phase T k)"
    "p \<in> set (flight_phases T k @ tracked_phases T k @ review_phases T k) \<Longrightarrow> width_ok 32 (Some p)"
proof -
  have "list_all (\<lambda>T. list_all (\<lambda>k. width_ok 32 (ready_phase T k)
      \<and> list_all (\<lambda>p. width_ok 32 (Some p)) (flight_phases T k @ tracked_phases T k @ review_phases T k))
      [0..<length (commands T)]) operation_types"
    by code_simp
  with assms show "width_ok 32 (ready_phase T k)"
    "p \<in> set (flight_phases T k @ tracked_phases T k @ review_phases T k) \<Longrightarrow> width_ok 32 (Some p)"
    unfolding list_all_iff by auto
qed

lemma abs_state_widths:
  assumes "abs_state op = Some a"
  shows "width_ok 32 (op_phase op)" "op_status op \<in> {''pending'', ''processing'', ''succeeded'', ''failed''}"
    "width_ok 32 (Some (op_status op))" "width_ok 50 (Some (op_type op))"
proof -
  note T = abs_state_type [OF assms] and h = abs_state_holds [OF assms]
  have k: "a \<in> set (astates (op_type op))"
    by (rule abs_state_in [OF assms])
  show "width_ok 32 (op_phase op)"
  proof (cases a)
    case Failed
    then obtain k where "k < length (commands (op_type op))" "op_phase op \<in> Some ` set (tracked_phases (op_type op) k)"
      using h by (auto simp: list_ex_iff)
    then show ?thesis
      using phase_widths(2) [OF T] by auto
  next
    case Done
    with h show ?thesis by (simp add: width_ok_def)
  qed (use h k phase_widths [OF T] in \<open>auto simp: in_astates\<close>)
  show st: "op_status op \<in> {''pending'', ''processing'', ''succeeded'', ''failed''}"
    using holds_shape [OF h] by (cases a) simp_all
  then show "width_ok 32 (Some (op_status op))"
    unfolding insert_iff empty_iff by (elim disjE FalseE) (simp_all add: width_ok_def)
  show "width_ok 50 (Some (op_type op))"
    using T by (rule operation_types_cases) (simp_all add: width_ok_def)
qed

lemma step_constraints:
  assumes st: "step_in d l op v op' v'" and c: "operation_constraints op"
    and w: "width_ok 100 (op_error op')" "width_ok 255 (op_task op')"
  shows "operation_constraints op'"
proof -
  have m: "moves l op v op' v'"
    using st by (simp add: step_in_def)
  then obtain a' where a': "abs_state op' = Some a'"
    by (auto simp: moves_def)
  have "op_attempts op \<le> op_attempts op'" "op_key op' = op_key op"
    using m by (simp_all add: moves_def op_frame_def)
  then show ?thesis
    using abs_state_widths [OF a'] abs_state_type [OF a'] c w by (simp add: operation_constraints_def)
qed

text \<open>Machines that are placed are at home, and no two homes have the same VMID.\<close>

definition housed :: "(uuid \<Rightarrow> ProviderPlacement) \<Rightarrow> VirtualMachine list \<Rightarrow> bool" where
  "housed home rows \<longleftrightarrow>
     distinct (map (\<lambda>v. place_vmid (home (vm_id v))) rows)
     \<and> (\<forall>v\<in>set rows. unplaced v \<or> at_place v (home (vm_id v)))"

lemma housed_unique: "housed home rows \<Longrightarrow> vmid_unique rows"
proof (induction rows)
  case (Cons v rows)
  then have "vmid_unique rows"
    by (simp add: housed_def)
  moreover have home: "w \<in> set (v # rows) \<Longrightarrow> vm_provider_vmid w = Some n \<Longrightarrow> n = place_vmid (home (vm_id w))" for w n
    using Cons.prems unfolding housed_def unplaced_def at_place_def by fastforce
  have "place_vmid (home (vm_id v)) \<noteq> place_vmid (home (vm_id w))" if "w \<in> set rows" for w
    using Cons.prems that by (auto simp: housed_def)
  then have "vm_provider_vmid v = Some n \<Longrightarrow> w \<in> set rows \<Longrightarrow> vm_provider_vmid w \<noteq> Some n" for n w
    using home [of v n] home [of w n] by fastforce
  ultimately show ?case
    by (auto simp: vmid_unique_def map_filter_simps List.map_filter_def split: option.split)
qed (simp add: vmid_unique_def map_filter_simps)

lemma stored_housed:
  assumes st: "step_in d l op v op' v'" and h: "housed home (vms d)" and v': "at_place v' (home (vm_id v'))"
  shows "housed home (vms (stored now op v op' v' d))"
proof -
  have "map (\<lambda>w. place_vmid (home (vm_id w))) (row_set vm_id (touch_vm now v v') (vms d))
      = map (\<lambda>w. place_vmid (home (vm_id w))) (vms d)"
    by (rule map_row_set_cong) simp
  moreover have "unplaced w \<or> at_place w (home (vm_id w))"
    if "w \<in> set (row_set vm_id (touch_vm now v v') (vms d))" for w
    using in_row_set [OF that]
  proof
    assume "w = touch_vm now v v'"
    with v' show ?thesis by (simp add: at_place_def)
  qed (use h in \<open>simp add: housed_def\<close>)
  ultimately show ?thesis
    using h by (simp add: housed_def stored_def)
qed

lemma first_transaction_run:
  assumes ok: "db_ok d" and sel: "select_operation now locked d = Some op"
    and Q: "outcome (process_selected now A (open_session d p op)) Q (\<lambda>_ _. False)"
  obtains disp t v l v' where "get_vm (op_vm op) d = Some v" "row_ok (ssh_keys d) op v" "Q disp t"
    "s_vm t = Some v'" "step_in d l op v (s_op t) v'" "dispatches op v' l disp"
    "operation_constraints (s_op t) \<and> vmid_unique (vms (stored now op v (s_op t) v' d)) \<longrightarrow>
       first_transaction now A locked d p = (Inr (True, disp), stored now op v (s_op t) v' d, s_prov t)"
proof -
  note sel' = selected_op [OF sel]
  obtain v where v: "get_vm (op_vm op) d = Some v" "v \<in> set (vms d)" "row_ok (ssh_keys d) op v"
    by (rule db_okD [OF ok sel'(1)])
  let ?s = "open_session d p op"
  have s: "s_op ?s = op" "s_vm ?s = Some v" "s_keys ?s = ssh_keys d"
    using v by (simp_all add: open_session_def)
  obtain x t where run: "process_selected now A ?s = (x, t)"
    by (cases "process_selected now A ?s")
  with Q obtain disp where x: "x = Inr disp" "Q disp t"
    by (cases x) (simp_all add: outcome_pair)
  have "outcome (process_selected now A ?s) (\<lambda>disp t. passes op v disp t)
      (\<lambda>e t. \<exists>req p. choose_clone_target A req (s_prov ?s) = (Inl e, p))"
    using selected_pass [of ?s v now now A] v sel' s by simp
  then obtain l v' where w: "s_vm t = Some v'" "moves l op v (s_op t) v'" "dispatches op v' l disp"
    unfolding run x(1) outcome_pair passes_def by blast
  have st: "step_in d l op v (s_op t) v'"
    using ok sel' v w by (simp add: step_in_def)
  have vid: "get_vm (vm_id v) d = Some v"
    using v row_get_SomeD [OF v(1)] by simp
  have vc: "vm_constraints v'"
    using moves_settled(1) [OF w(2) v(3)] ok v(2) by (simp add: db_ok_def)
  have "first_transaction now A locked d p = (Inr (True, disp), stored now op v (s_op t) v' d, s_prov t)"
    if "operation_constraints (s_op t)" "vmid_unique (vms (stored now op v (s_op t) v' d))"
    using commit_rows_stored [OF db_ok_get_op [OF ok sel'(1)] vid] moves_frames [OF w(2)] that vc
    by (simp add: first_transaction_def sel run x(1) w(1))
  with v x w st show thesis
    by (intro that) blast+
qed

lemma store_outcome_run:
  assumes ok: "db_ok d" and op: "get_op (dispatch_op c) d = Some op" "dispatch_for (op_type op) c"
    and Q: "outcome (finish_dispatch now c r (open_session d () op)) (\<lambda>_. Q) (\<lambda>_ _. False)"
  obtains v t v' where "get_vm (op_vm op) d = Some v" "Q t"
    "s_vm t = Some v'" "step_in d None op v (s_op t) v'"
    "operation_constraints (s_op t) \<and> vmid_unique (vms (stored now op v (s_op t) v' d)) \<longrightarrow>
       store_outcome now c (Inr r) d = stored now op v (s_op t) v' d"
proof -
  have mem: "op \<in> set (operations d)"
    using row_get_SomeD [OF op(1)] by simp
  obtain v where v: "get_vm (op_vm op) d = Some v" "v \<in> set (vms d)" "row_ok (ssh_keys d) op v"
    by (rule db_okD [OF ok mem])
  let ?s = "open_session d () op"
  have s: "s_op ?s = op" "s_vm ?s = Some v"
    using v by (simp_all add: open_session_def)
  obtain x t where run: "finish_dispatch now c r ?s = (x, t)"
    by (cases "finish_dispatch now c r ?s")
  with Q obtain u where x: "x = Inr u" "Q t"
    by (cases x) (simp_all add: outcome_pair)
  have step: "store_step now c (Inr r) ?s = (x, t)"
    by (simp add: store_step_def run)
  have "outcome (store_step now c (Inr r) ?s) (\<lambda>_ t. \<exists>v'. s_vm t = Some v' \<and> moves None op v (s_op t) v') (\<lambda>_ _. True)"
    using stored_step [of "ssh_keys d" ?s v c now "Inr r"] v s op(2) by simp
  then obtain v' where w: "s_vm t = Some v'" "moves None op v (s_op t) v'"
    unfolding step x(1) outcome_pair by blast
  have st: "step_in d None op v (s_op t) v'"
    using ok mem v w by (simp add: step_in_def)
  have vid: "get_vm (vm_id v) d = Some v"
    using v row_get_SomeD [OF v(1)] by simp
  have vc: "vm_constraints v'"
    using moves_settled(1) [OF w(2) v(3)] ok v(2) by (simp add: db_ok_def)
  have "store_outcome now c (Inr r) d = stored now op v (s_op t) v' d"
    if "operation_constraints (s_op t)" "vmid_unique (vms (stored now op v (s_op t) v' d))"
    using commit_rows_stored [OF db_ok_get_op [OF ok mem] vid] moves_frames [OF w(2)] that vc
    by (simp add: store_outcome_def op(1) step x(1) w(1))
  with v x w st show thesis
    by (intro that) blast+
qed

section \<open>The first transaction\<close>

definition quick :: "(uuid \<Rightarrow> string \<Rightarrow> bool) \<Rightarrow> Operation \<Rightarrow> bool" where
  "quick task_of op \<longleftrightarrow> op_status op = ''pending''
     \<or> (\<exists>tid. op_task op = Some tid \<and> task_of (op_vm op) tid \<and> column_not_like (op_phase op) ''poll_backoff%'')"

text \<open>What a ready operation hands over is awaiting its reply.\<close>

lemma ready_awaits:
  assumes r: "row_ok (s_keys s) (s_op s) v" and v: "s_vm s = Some v" "placed v" and op: "op_status (s_op s) = ''pending''"
  shows "outcome (process_selected now A s)
     (\<lambda>disp t. \<exists>c. disp = Some c \<and> awaiting c t \<and> op_task (s_op t) = None \<and> op_error (s_op t) = op_error (s_op s)
        \<and> s_prov t = s_prov s) (\<lambda>_ _. False)"
proof -
  obtain a where a: "abs_state (s_op s) = Some a"
      "op_type (s_op s) = ''vm.create'' \<longrightarrow> request_for (s_keys s) v \<noteq> None"
    by (rule row_okD [OF r])
  note h = abs_state_holds [OF a(1)]
  obtain k where k: "a = Ready k"
    using holds_shape [OF h] op by (cases a) simp_all
  have row: "op_task (s_op s) = None" "op_phase (s_op s) = ready_phase (op_type (s_op s)) k"
      "k < length (commands (op_type (s_op s)))"
    using h k abs_state_in [OF a(1)] by (simp_all add: in_astates)
  obtain node vmid where p: "vm_provider_node v = Some node" "vm_provider_vmid v = Some vmid"
    using v(2) by (rule placedE)
  from lifecycle_types [OF abs_state_type [OF a(1)]] show ?thesis
  proof (elim disjE)
    assume T: "op_type (s_op s) = ''vm.create''"
    then obtain req where req: "request_for (s_keys s) v = Some req"
      using a(2) by auto
    have "k = 0 \<or> k = 1 \<or> k = 2 \<or> k = 3"
      using row(3) T by (simp add: less_4_cases)
    then have "\<exists>c. (c = ''clone'' \<or> c = ''configure'' \<or> c = ''resize'' \<or> c = ''start'') \<and> op_phase (s_op s) = Some c"
      using row(2) T by (elim disjE) (simp_all add: ready_phase_def)
    then obtain c where c: "c = ''clone'' \<or> c = ''configure'' \<or> c = ''resize'' \<or> c = ''start''"
        "op_phase (s_op s) = Some c"
      by blast
    show ?thesis
      unfolding process_selected_def Let_def T
      using create_ready_eq [OF T op row(1) c(2,1) v(1) p req, of now A] T p c(1)
      by (simp add: outcome_pair awaiting_def row(1) v(1))
  next
    assume T: "op_type (s_op s) = ''vm.start''"
    then show ?thesis
      using start_ready_eq [OF T op row(1) v(1) p, of now A] v p
      by (simp add: process_selected_def Let_def outcome_pair awaiting_def row(1))
  next
    assume T: "op_type (s_op s) \<in> {''vm.shutdown'', ''vm.stop'', ''vm.reboot'', ''vm.delete''}"
    note l = lifecycle_stepI [OF T row(3)]
    have "process_selected now A s = process_lifecycle_branch now A s"
      using T unfolding insert_iff empty_iff by (elim disjE FalseE) (simp_all add: process_selected_def)
    then show ?thesis
      using l lifecycle_ready_eq [OF op row(1,2) l v(1) p, of now A] p
      unfolding lifecycle_step_def
      by (elim disjE conjE) (simp_all add: outcome_pair awaiting_def row(1) flight_phases_def)
  qed
qed

context prompt_provider
begin

lemma place_chosen:
  assumes "row_ok (s_keys s) (s_op s) v" "s_vm s = Some v" "unplaced v" "inv (s_prov s)"
  shows "outcome (process_selected now A s)
     (\<lambda>disp t. disp = None \<and> s_op t = s_op s \<and> inv (s_prov t)
        \<and> (\<exists>w. s_vm t = Some w \<and> at_place w (home (vm_id w)))) (\<lambda>_ _. False)"
proof -
  obtain a where a: "abs_state (s_op s) = Some a" "placed v \<or> (unplaced v \<and> a = Ready 0 \<and> op_type (s_op s) = ''vm.create'')"
      "op_type (s_op s) = ''vm.create'' \<longrightarrow> request_for (s_keys s) v \<noteq> None"
    by (rule row_okD [OF assms(1)])
  then have T: "op_type (s_op s) = ''vm.create''" "a = Ready 0"
    using assms(3) by (auto simp: placed_def unplaced_def)
  have op: "op_status (s_op s) = ''pending''" "op_task (s_op s) = None" "op_phase (s_op s) = Some ''clone''"
    using abs_state_holds [OF a(1)] T by (simp_all add: ready_phase_def)
  obtain req where req: "request_for (s_keys s) v = Some req"
    using a(3) T by auto
  have v: "vm_provider_node v = None" "vm_provider_vmid v = None"
    using assms(3) by (simp_all add: unplaced_def)
  obtain p' where p': "choose_clone_target A req (s_prov s) = (Inr (home (vm_id v)), p')"
    using choose_home [of req "s_prov s"] request_for_vm_id [OF req] by auto
  have "inv p'"
    using inv_kept(2) [OF assms(4), of req] p' by simp
  with create_place_outcome [OF T(1) op assms(2) v req, of now A] show ?thesis
    by (simp add: process_selected_def T(1) p') (erule outcome_mono; simp add: at_place_def)
qed

lemma task_reported:
  assumes r: "row_ok (s_keys s) (s_op s) v" and v: "s_vm s = Some v" "at_place v (home (vm_id v))"
    and op: "active (s_op s)" "op_task (s_op s) = Some tid" "task_of (op_vm (s_op s)) tid"
      "column_not_like (op_phase (s_op s)) ''poll_backoff%''" and p: "inv (s_prov s)"
  shows "outcome (process_selected now A s)
     (\<lambda>disp t. disp = None \<and> op_task (s_op t) = None \<and> op_error (s_op t) = None
        \<and> op_status (s_op t) \<in> {''pending'', ''succeeded''} \<and> inv (s_prov t)) (\<lambda>_ _. False)"
proof -
  obtain a where a: "vm_id v = op_vm (s_op s)" "abs_state (s_op s) = Some a"
    by (rule row_okD [OF r])
  note h = abs_state_holds [OF a(2)]
  obtain k where k: "a = Tracked k"
    using holds_shape [OF h] h op(1,2) by (cases a) (simp_all add: active_def)
  have row: "op_status (s_op s) = ''processing''" "op_phase (s_op s) \<in> Some ` set (tracked_phases (op_type (s_op s)) k)"
      "k < length (commands (op_type (s_op s)))"
    using h k abs_state_in [OF a(2)] by (simp_all add: in_astates)
  let ?node = "place_node (home (vm_id v))" and ?vmid = "place_vmid (home (vm_id v))"
  have place: "vm_provider_node v = Some ?node" "vm_provider_vmid v = Some ?vmid"
    using v(2) by (simp_all add: at_place_def)
  obtain st p' where st: "get_task_status A \<lparr>task_id = tid, task_vmid = ?vmid, task_node = ?node\<rparr> (s_prov s) = (Inr st, p')"
      "ts_status st = ''succeeded''"
    using task_done [OF p op(3)] a(1) by auto
  have p': "inv p'"
    using inv_kept(3) [OF p] st(1) by (metis snd_conv)
  note eval = row(1) op(2) v(1) place st p' vc Let_def get_lifecycle_vm_placed [OF v(1) place] process_selected_def
  from lifecycle_types [OF abs_state_type [OF a(2)]] show ?thesis
  proof (elim disjE)
    assume T: "op_type (s_op s) = ''vm.create''"
    have "k = 0 \<or> k = 1 \<or> k = 2 \<or> k = 3"
      using row(3) T by (simp add: less_4_cases)
    then show ?thesis
      using row(2) op(4) T
      by (elim disjE; simp add: tracked_phases_def; elim disjE; simp add: eval process_create_branch_def
          process_create_vm_operation_def refresh_create_vm_operation_def)
  next
    assume T: "op_type (s_op s) = ''vm.start''"
    show ?thesis
      using row(2) op(4) T
      by (simp add: tracked_phases_def; elim disjE; simp add: eval process_start_branch_def process_start_vm_operation_def)
  next
    assume T: "op_type (s_op s) \<in> {''vm.shutdown'', ''vm.stop'', ''vm.reboot'', ''vm.delete''}"
    show ?thesis
      using lifecycle_stepI [OF T row(3)] row(2) op(4) unfolding lifecycle_step_def
      by (elim disjE conjE; simp add: tracked_phases_def; elim disjE; simp add: eval process_lifecycle_branch_def
          process_power_off_vm_operation_def process_reboot_vm_operation_def process_delete_vm_operation_def poll_task_def)
  qed
qed

end

section \<open>Steps that take work off\<close>

definition tame ::
  "(uuid \<Rightarrow> ProviderPlacement) \<Rightarrow> (uuid \<Rightarrow> string \<Rightarrow> bool) \<Rightarrow> uuid set \<Rightarrow> db \<Rightarrow> bool" where
  "tame home task_of S d \<longleftrightarrow>
     db_ok d \<and> housed home (vms d)
     \<and> (\<forall>op\<in>set (operations d). operation_constraints op
          \<and> (active op \<longrightarrow> op_id op \<in> S \<or> quick task_of op))"

lemma quick_touch [simp]: "quick task_of (touch_op now old op) = quick task_of op"
  by (simp add: quick_def)

lemma constraints_touch [simp]: "operation_constraints (touch_op now old op) = operation_constraints op"
  by (simp add: operation_constraints_def)

lemma stored_tame:
  assumes st: "step_in d l op v op' v'" and d: "tame home task_of S d" and v': "at_place v' (home (vm_id v'))"
    and op': "operation_constraints op'" "active op' \<Longrightarrow> op_id op \<in> S' \<or> quick task_of op'"
    and S: "S \<subseteq> insert (op_id op) S'"
  shows "tame home task_of S' (stored now op v op' v' d)" "vmid_unique (vms (stored now op v op' v' d))"
proof -
  let ?d = "stored now op v op' v' d"
  have h: "housed home (vms ?d)"
    by (rule stored_housed [where home = home, OF st _ v']) (use d in \<open>simp add: tame_def\<close>)
  then show u: "vmid_unique (vms ?d)"
    by (rule housed_unique)
  have "operation_constraints q \<and> (active q \<longrightarrow> op_id q \<in> S' \<or> quick task_of q)" if "q \<in> set (operations ?d)" for q
    using stored_op_member [OF st that]
  proof
    assume "q = touch_op now op op'"
    with op' stored_ids [OF st] show ?thesis by auto
  next
    assume "q \<in> set (operations d) \<and> op_id q \<noteq> op_id op"
    with d S show ?thesis unfolding tame_def by blast
  qed
  with h stored_db_ok [OF st u] show "tame home task_of S' ?d"
    by (simp add: tame_def)
qed

lemma moves_cases:
  assumes "moves l op v op' v'"
  obtains a a' where "abs_state op = Some a" "abs_state op' = Some a'" "holds op a" "holds op' a'"
    "op_type op' = op_type op" "a \<in> set (astates (op_type op))"
    "spec_step (op_type op) (a, vm_status v) l (a', vm_status v')" "\<not> unplaced v'"
proof -
  from assms obtain a a' where a: "abs_state op = Some a" "abs_state op' = Some a'"
      "spec_step (op_type op) (a, vm_status v) l (a', vm_status v')" "op_type op' = op_type op"
    unfolding moves_def op_frame_def by blast
  have "\<not> unplaced v'"
    using moves_placed [OF assms] by (simp add: placed_def unplaced_def)
  with a show thesis
    using abs_state_holds abs_state_in by (intro that) blast+
qed

lemma submitted_work: "moves (Some k) op v op' v' \<Longrightarrow> weight v' op' \<le> weight v op"
  by (erule moves_cases, erule spec_submitE) (simp add: weight_def)

lemma placed_work: "moves None op v op v' \<Longrightarrow> op_status op = ''pending'' \<Longrightarrow> unplaced v \<Longrightarrow> weight v' op < weight v op"
  by (erule moves_cases) (use holds_shape [of op] in \<open>auto simp: weight_def Let_def split: astate.split\<close>)

lemma resolved_work:
  assumes m: "moves None op v op' v'" and op: "op_status op = ''processing''"
    and op': "op_status op' \<in> {''pending'', ''succeeded''} \<or> (op_task op = None \<and> op_task op' \<noteq> None)"
  shows "weight v' op' < weight v op" "op_status op' \<noteq> ''failed''"
proof -
  obtain a a' where a: "abs_state op = Some a" "abs_state op' = Some a'" "holds op a" "holds op' a'"
    "op_type op' = op_type op" "a \<in> set (astates (op_type op))"
    "spec_step (op_type op) (a, vm_status v) None (a', vm_status v')" "\<not> unplaced v'"
    using m by (rule moves_cases)
  note shapes = holds_shape [OF a(3)] holds_shape [OF a(4)]
  from a(7) show "op_status op' \<noteq> ''failed''"
    by (cases rule: spec_step.cases) (use op op' shapes in \<open>auto simp: after_def split: if_splits\<close>)
  from a(7) show "weight v' op' < weight v op"
    by (cases rule: spec_step.cases)
      (use a op op' shapes in \<open>auto simp: weight_def in_astates after_def split: if_splits\<close>)
qed

section \<open>Operations that come to their end\<close>

text \<open>The status of a machine once an operation of the type has succeeded.\<close>

definition goal :: "string \<Rightarrow> string" where
  "goal T = confirmed T (length (commands T) - 1)"

text \<open>The operation is under way, or it has succeeded and its machine is left as it should be.\<close>

definition finishing :: "Operation \<Rightarrow> db \<Rightarrow> bool" where
  "finishing op0 d \<longleftrightarrow>
     (\<exists>op v. op \<in> set (operations d) \<and> op_frame op0 op \<and> get_vm (op_vm op) d = Some v
        \<and> (active op \<or> (op_status op = ''succeeded'' \<and> vm_status v = goal (op_type op)
             \<and> (\<forall>q\<in>set (operations d). op_vm q = op_vm op \<longrightarrow> \<not> active q))))"

lemma spec_step_goal: "spec_step T x l y \<Longrightarrow> fst y = Done \<Longrightarrow> fst x \<in> set (astates T) \<Longrightarrow> snd y = goal T"
  by (erule spec_step.cases) (auto simp: after_def goal_def in_astates split: if_splits dest!: less_antisym
      intro!: arg_cong [of _ _ "confirmed T"])

lemma op_frame_trans: "op_frame a b \<Longrightarrow> op_frame b c \<Longrightarrow> op_frame a c"
  by (simp add: op_frame_def)

lemma stored_finishing:
  assumes st: "step_in d l op v op' v'" and ok: "op_status op' \<noteq> ''failed''" and f: "finishing op0 d"
  shows "finishing op0 (stored now op v op' v' d)"
proof -
  let ?d = "stored now op v op' v' d" and ?o = "touch_op now op op'"
  have m: "moves l op v op' v'" and dok: "db_ok d" and mem: "op \<in> set (operations d)"
    using st by (simp_all add: step_in_def)
  from f obtain q w where q: "q \<in> set (operations d)" "op_frame op0 q" "get_vm (op_vm q) d = Some w"
      "active q \<or> (op_status q = ''succeeded'' \<and> vm_status w = goal (op_type q)
             \<and> (\<forall>q'\<in>set (operations d). op_vm q' = op_vm q \<longrightarrow> \<not> active q'))"
    unfolding finishing_def by blast
  show ?thesis
  proof (cases "op_id q = op_id op")
    case True
    then have "q = op"
      using op_unique [OF dok mem q(1)] by simp
    then have frame: "op_frame op0 ?o"
      using op_frame_trans [OF q(2), of op'] moves_frames [OF m] by simp
    have vm: "get_vm (op_vm ?o) ?d = Some (touch_vm now v v')"
      using stored_ids [OF st] by (simp add: stored_get_vm [OF st])
    have "active ?o \<or> (op_status ?o = ''succeeded'' \<and> vm_status (touch_vm now v v') = goal (op_type ?o)
        \<and> (\<forall>q\<in>set (operations ?d). op_vm q = op_vm ?o \<longrightarrow> \<not> active q))"
    proof (cases "active op'")
      case False
      obtain a a' where a: "abs_state op' = Some a'" "holds op' a'" "op_type op' = op_type op"
          "a \<in> set (astates (op_type op))" "spec_step (op_type op) (a, vm_status v) l (a', vm_status v')"
        using m by (rule moves_cases)
      have "a' = Done"
        using False ok active_astate [OF a(1)] holds_shape [OF a(2)] by auto
      moreover from this have "op_status op' = ''succeeded''" "vm_status v' = goal (op_type op)"
        using a(2) spec_step_goal [OF a(5)] a(4) by simp_all
      moreover have "\<not> active q" if "q \<in> set (operations ?d)" "op_vm q = op_vm ?o" for q
        using stored_op_member [OF st that(1)] False stored_other_inactive [OF st, of q] that(2) stored_ids [OF st]
        by auto
      ultimately show ?thesis using a(3) by simp
    qed simp
    with frame vm stored_op_present(1) [OF st, of now] show ?thesis
      unfolding finishing_def by blast
  next
    case False
    note mem' = stored_op_present(2) [OF st q(1) False, of now]
    show ?thesis
    proof (cases "active q")
      case True
      have "\<exists>w. get_vm (op_vm q) ?d = Some w"
        using q(3) by (simp add: stored_get_vm [OF st])
      with True mem' q(2) show ?thesis
        unfolding finishing_def by blast
    next
      case inactive: False
      then have no: "op_vm q' = op_vm q \<Longrightarrow> q' \<in> set (operations d) \<Longrightarrow> \<not> active q'" for q'
        using q(4) by blast
      have other: "op_vm q \<noteq> op_vm op"
        using no [OF _ mem] moves_active [OF m] by auto
      then have vm: "get_vm (op_vm q) ?d = Some w"
        using q(3) stored_ids [OF st] by (simp add: stored_get_vm [OF st])
      have "\<not> active q'" if "q' \<in> set (operations ?d)" "op_vm q' = op_vm q" for q'
        using stored_op_member [OF st that(1)] no that(2) other stored_ids [OF st] by auto
      with vm mem' q(2,4) inactive show ?thesis
        unfolding finishing_def by blast
    qed
  qed
qed

section \<open>One pass\<close>

definition advances ::
  "(uuid \<Rightarrow> ProviderPlacement) \<Rightarrow> (uuid \<Rightarrow> string \<Rightarrow> bool) \<Rightarrow> db \<Rightarrow> db \<Rightarrow> bool" where
  "advances home task_of d d' \<longleftrightarrow>
     tame home task_of {} d' \<and> work d' < work d \<and> (\<forall>op0. finishing op0 d \<longrightarrow> finishing op0 d')"

lemma quiet_advance:
  assumes d: "tame home task_of {} d" and st: "step_in d None op v op' v'" and v': "at_place v' (home (vm_id v'))"
    and w: "width_ok 100 (op_error op')" "width_ok 255 (op_task op')" "active op' \<Longrightarrow> quick task_of op'"
    and less: "weight v' op' < weight v op" "op_status op' \<noteq> ''failed''"
  shows "operation_constraints op'" "vmid_unique (vms (stored now op v op' v' d))"
    "advances home task_of d (stored now op v op' v' d)"
proof -
  have "op \<in> set (operations d)"
    using st by (simp add: step_in_def)
  then have "operation_constraints op"
    using d by (simp add: tame_def)
  then show c: "operation_constraints op'"
    by (rule step_constraints [OF st _ w(1,2)])
  note t = stored_tame [where S' = "{}", OF st d v' c]
  show "vmid_unique (vms (stored now op v op' v' d))"
    by (rule t(2)) (use w(3) in auto)
  have "tame home task_of {} (stored now op v op' v' d)"
    by (rule t(1)) (use w(3) in auto)
  with stored_work [OF st, of now] less stored_finishing [OF st less(2)] show "advances home task_of d (stored now op v op' v' d)"
    by (simp add: advances_def)
qed

lemma row_widths: "operation_constraints op \<Longrightarrow> width_ok 100 (op_error op) \<and> width_ok 255 (op_task op)"
  by (simp add: operation_constraints_def)

lemma width_None [simp]: "width_ok n None"
  by (simp add: width_ok_def)

text \<open>The first transaction and the second, put together.\<close>

lemma submitted_then_stored:
  assumes d: "tame home task_of {} d" and st: "step_in d (Some k) op v op' v'" and v': "at_place v' (home (vm_id v'))"
    and c: "operation_constraints op'" and aw: "awaiting c (open_session (stored now op v op' v' d) () (touch_op now op op'))"
    and disp: "dispatch_for (op_type op') c" "dispatch_op c = op_id op"
    and r: "fitting c r" "conclusive r"
      "\<And>t. reply_task r = Some t \<Longrightarrow> task_of (op_vm op) (task_id t) \<and> length (task_id t) \<le> 255"
  shows "\<exists>d'. store_outcome now c (Inr r) (stored now op v op' v' d) = d' \<and> advances home task_of d d'"
proof -
  let ?d = "stored now op v op' v' d" and ?o = "touch_op now op op'" and ?v = "touch_vm now v v'"
  have m: "moves (Some k) op v op' v'"
    using st by (simp add: step_in_def)
  have d1: "tame home task_of {op_id op} ?d"
    by (rule stored_tame [where S = "{}", OF st d v' c]) simp_all
  then have ok: "db_ok ?d"
    by (simp add: tame_def)
  have get: "get_op (dispatch_op c) ?d = Some ?o" and vm: "get_vm (op_vm ?o) ?d = Some ?v"
    using stored_ids [OF st] disp(2) by (simp_all add: stored_get_op [OF st] stored_get_vm [OF st])
  have o: "op_status ?o = ''processing''" "op_task ?o = None"
    using aw by (simp_all add: awaiting_def open_session_def)
  have "settles r (open_session ?d () ?o) (finish_dispatch now c r (open_session ?d () ?o))"
    by (rule reply_settles [OF aw r(1)])
  then have Q: "outcome (finish_dispatch now c r (open_session ?d () ?o)) (\<lambda>_ t. resolved r (s_op t)) (\<lambda>_ _. False)"
    unfolding settles_def by (rule outcome_mono) (use r(2) in simp_all)
  have fits: "dispatch_for (op_type ?o) c"
    using disp(1) by simp
  obtain w and t :: "unit sess" and v'' where run: "get_vm (op_vm ?o) ?d = Some w" "resolved r (s_op t)"
      "s_vm t = Some v''" "step_in ?d None ?o w (s_op t) v''"
      "operation_constraints (s_op t) \<and> vmid_unique (vms (stored now ?o w (s_op t) v'' ?d)) \<longrightarrow>
       store_outcome now c (Inr r) ?d = stored now ?o w (s_op t) v'' ?d"
    by (rule store_outcome_run [OF ok get fits Q])
  have w: "w = ?v"
    using run(1) vm by simp
  let ?d' = "stored now ?o ?v (s_op t) v'' ?d"
  note st2 = run(4) [unfolded w] and m2 = run(4) [unfolded w step_in_def]
  have same: "same_place ?v v''"
    using m2 v' by (auto simp: moves_def at_place_def)
  have ids: "vm_id v'' = vm_id v'" "op_vm (s_op t) = op_vm op"
    using stored_ids [OF st2] stored_ids [OF st] by simp_all
  have v'': "at_place v'' (home (vm_id v''))"
    using same v' ids by (simp add: same_place_def at_place_def)
  have task: "op_status (s_op t) \<in> {''pending'', ''succeeded''} \<or> (op_task ?o = None \<and> op_task (s_op t) \<noteq> None)"
    using run(2) o(2) by (auto simp: resolved_def split: option.splits)
  note less = resolved_work [OF _ o(1) task, of ?v v'']
  have m2': "moves None ?o ?v (s_op t) v''"
    using m2 by simp
  have quick: "active (s_op t) \<Longrightarrow> quick task_of (s_op t)"
    using run(2) r(3) ids(2) by (auto simp: resolved_def quick_def active_def split: option.splits)
  have widths: "width_ok 100 (op_error (s_op t))" "width_ok 255 (op_task (s_op t))"
    using run(2) r(3) by (auto simp: resolved_def width_ok_def split: option.splits)
  have "operation_constraints ?o"
    using c by simp
  from step_constraints [OF st2 this widths] have c2: "operation_constraints (s_op t)" .
  have t2: "tame home task_of {} ?d'" "vmid_unique (vms ?d')"
    by (rule stored_tame [where S' = "{}", OF st2 d1 v'' c2]; use quick stored_ids [OF st] in simp)+
  have "work ?d' + weight ?v ?o = work ?d + weight v'' (s_op t)" "work ?d + weight v op = work d + weight v' op'"
    by (rule stored_work [OF st2], rule stored_work [OF st])
  moreover have "weight v' op' \<le> weight v op"
    by (rule submitted_work [OF m])
  ultimately have "work ?d' < work d"
    using less(1) [OF m2'] by simp
  moreover have "op_status op' \<noteq> ''failed''"
    using o(1) by simp
  ultimately have "advances home task_of d ?d'"
    using t2(1) stored_finishing [OF st] stored_finishing [OF st2 less(2) [OF m2']] by (simp add: advances_def)
  with run(5) [unfolded w] c2 t2(2) show ?thesis by simp
qed

lemma dispatches_addressed:
  assumes "dispatches op v (Some k) (Some c)" "at_place v (home (vm_id v))" "vm_id v = op_vm op"
    "k < length (commands (op_type op))"
  shows "addressed home c \<and> dispatch_vm c = op_vm op"
proof (cases c)
  case (CreateDispatch oid vid phase request target)
  with assms have "op_type op = ''vm.create''" "vid = op_vm op" "phase = commands ''vm.create'' ! k"
      "(request = None) = (k = 3)" "\<forall>r. request = Some r \<longrightarrow> req_vm_id r = vm_id v" "k < 4" "target = home (vm_id v)"
    by (auto simp: at_place_def intro: ProviderPlacement.equality)
  moreover from this(6) have "k = 0 \<or> k = 1 \<or> k = 2 \<or> k = 3"
    by auto
  ultimately show ?thesis
    using assms(3) by (elim disjE) (simp_all add: CreateDispatch addressed_def)
next
  case (StartDispatch oid vid target)
  with assms show ?thesis
    by (auto simp: at_place_def addressed_def intro: ProviderPlacement.equality)
next
  case (LifecycleDispatch oid vid command target)
  with assms have T: "op_type op \<in> {''vm.shutdown'', ''vm.stop'', ''vm.reboot'', ''vm.delete''}"
      and c: "vid = op_vm op" "command = commands (op_type op) ! k" "target = home (vm_id v)"
    by (auto simp: at_place_def intro: ProviderPlacement.equality)
  show ?thesis
    using lifecycle_stepI [OF T assms(4)] c assms(3) unfolding lifecycle_step_def
    by (elim disjE conjE) (simp_all add: LifecycleDispatch addressed_def)
qed

lemma awaiting_touch:
  "awaiting c t \<Longrightarrow> s_vm t = Some v \<Longrightarrow> s_op t = op \<Longrightarrow> s_vm t' = Some (touch_vm now w v) \<Longrightarrow> s_op t' = touch_op now' q op \<Longrightarrow>
   awaiting c t'"
  by (cases c) (auto simp: awaiting_def)

lemma active_eligible:
  assumes "tame home task_of {} d" "op \<in> set (operations d)" "active op"
  shows "eligible now op"
proof -
  have "operation_constraints op" "quick task_of op"
    using assms by (auto simp: tame_def)
  moreover from this have "op_type op \<in> {''vm.create'', ''vm.start'', ''vm.shutdown'', ''vm.stop'', ''vm.reboot'', ''vm.delete''}"
    by (simp add: operation_constraints_def operation_types_def)
  ultimately show ?thesis
    using assms(3) unfolding eligible_def active_def quick_def by blast
qed

context prompt_provider
begin

lemma prompt_pass:
  assumes d: "tame home task_of {} d" and p: "inv p" and sel: "select_operation now [] d = Some op"
  shows "\<exists>d' p'. run_once now A [] d p = (Inr True, d', p') \<and> inv p' \<and> advances home task_of d d'"
proof -
  have ok: "db_ok d" and op: "op \<in> set (operations d)"
    using d selected_op(1) [OF sel] by (simp_all add: tame_def)
  have act: "active op"
    using selected_op(2) [OF sel] by (simp add: eligible_def active_def)
  then have quick: "quick task_of op" and w: "operation_constraints op"
    using d op by (auto simp: tame_def)
  obtain v where v: "get_vm (op_vm op) d = Some v" "v \<in> set (vms d)" "row_ok (ssh_keys d) op v"
    by (rule db_okD [OF ok op])
  have ids: "vm_id v = op_vm op"
    using row_get_SomeD [OF v(1)] by simp
  have home: "unplaced v \<or> at_place v (home (vm_id v))"
    using d v(2) by (simp add: tame_def housed_def)
  let ?s = "open_session d p op"
  have s: "s_op ?s = op" "s_vm ?s = Some v" "s_keys ?s = ssh_keys d" "s_prov ?s = p"
    using v by (simp_all add: open_session_def)
  consider "unplaced v" | "at_place v (home (vm_id v))" "op_status op = ''pending''"
    | "at_place v (home (vm_id v))" "op_status op = ''processing''"
    using home act by (auto simp: active_def)
  then show ?thesis
  proof cases
    case 1
    have Q: "outcome (process_selected now A ?s) (\<lambda>disp t. disp = None \<and> s_op t = op \<and> inv (s_prov t)
        \<and> (\<exists>w. s_vm t = Some w \<and> at_place w (home (vm_id w)))) (\<lambda>_ _. False)"
      using place_chosen [of ?s v now] s v(3) 1 p by simp
    obtain disp and t :: "'p sess" and v1 l v' where run: "get_vm (op_vm op) d = Some v1" "row_ok (ssh_keys d) op v1"
        "disp = None \<and> s_op t = op \<and> inv (s_prov t) \<and> (\<exists>w. s_vm t = Some w \<and> at_place w (home (vm_id w)))"
        "s_vm t = Some v'" "step_in d l op v1 (s_op t) v'" "dispatches op v' l disp"
        "operation_constraints (s_op t) \<and> vmid_unique (vms (stored now op v1 (s_op t) v' d)) \<longrightarrow>
         first_transaction now A [] d p = (Inr (True, disp), stored now op v1 (s_op t) v' d, s_prov t)"
      by (rule first_transaction_run [OF ok sel Q])
    have eqs: "v1 = v" "s_op t = op" "disp = None" "l = None" "at_place v' (home (vm_id v'))"
      using run v(1) by (cases l; simp)+
    note st = run(5) [unfolded eqs]
    have m: "moves None op v op v'"
      using st by (simp add: step_in_def)
    have "abs_state op = Some (Ready 0)"
      using v(3) 1 by (auto simp: row_ok_def placed_def unplaced_def split: option.splits)
    then have pend: "op_status op = ''pending''"
      using holds_shape [OF abs_state_holds] by fastforce
    have "quick task_of op \<and> op_status op \<noteq> ''failed''"
      using quick pend by simp
    then have a: "vmid_unique (vms (stored now op v op v' d))" "advances home task_of d (stored now op v op v' d)"
      using quiet_advance [OF d st eqs(5) _ _ _ placed_work [OF m pend 1]] row_widths [OF w] by simp_all
    then show ?thesis
      using run(3,7) w by (simp add: run_once_def eqs)
  next
    case 2
    have "placed v"
      using 2(1) by (auto simp: at_place_def placed_def)
    then have Q: "outcome (process_selected now A ?s) (\<lambda>disp t. \<exists>c. disp = Some c \<and> awaiting c t \<and> op_task (s_op t) = None
        \<and> op_error (s_op t) = op_error op \<and> s_prov t = p) (\<lambda>_ _. False)"
      using ready_awaits [of ?s v now A] s v(3) 2(2) by simp
    obtain disp and t :: "'p sess" and v1 l v' where run: "get_vm (op_vm op) d = Some v1" "row_ok (ssh_keys d) op v1"
        "\<exists>c. disp = Some c \<and> awaiting c t \<and> op_task (s_op t) = None \<and> op_error (s_op t) = op_error op \<and> s_prov t = p"
        "s_vm t = Some v'" "step_in d l op v1 (s_op t) v'" "dispatches op v' l disp"
        "operation_constraints (s_op t) \<and> vmid_unique (vms (stored now op v1 (s_op t) v' d)) \<longrightarrow>
         first_transaction now A [] d p = (Inr (True, disp), stored now op v1 (s_op t) v' d, s_prov t)"
      by (rule first_transaction_run [OF ok sel Q])
    obtain c k where c: "disp = Some c" "awaiting c t" "op_task (s_op t) = None" "op_error (s_op t) = op_error op"
        "s_prov t = p" and l: "l = Some k"
      using run(3,6) by (cases l) auto
    have v1: "v1 = v"
      using run(1) v(1) by simp
    note st = run(5) [unfolded v1 l] and disp = run(6) [unfolded c(1) l]
    have m: "moves (Some k) op v (s_op t) v'"
      using st by (simp add: step_in_def)
    have k: "k < length (commands (op_type op))"
      using m by (rule moves_cases) (auto elim: spec_submitE)
    have ids': "vm_id v' = op_vm op" "op_type (s_op t) = op_type op"
      using stored_ids [OF st] moves_frames [OF m] by (simp_all add: op_frame_def)
    have v': "at_place v' (home (vm_id v'))"
      using m 2(1) ids ids' by (auto simp: moves_def same_place_def at_place_def)
    have c1: "operation_constraints (s_op t)"
      by (rule step_constraints [OF st w]) (use c row_widths [OF w] in simp_all)
    have u1: "vmid_unique (vms (stored now op v (s_op t) v' d))"
      by (rule stored_tame(2) [where S' = "{op_id op}", OF st d v' c1]) simp_all
    have first: "first_transaction now A [] d p = (Inr (True, Some c), stored now op v (s_op t) v' d, p)"
      using run(7) c1 u1 by (simp add: v1 c)
    have addr: "addressed home c" "dispatch_vm c = op_vm op"
      using dispatches_addressed [where home = home, OF disp v' ids'(1) k] by simp_all
    obtain r p' where r: "submit A c p = (Inr r, p')" "conclusive r" "inv p'"
        "\<And>t. reply_task r = Some t \<Longrightarrow> task_of (op_vm op) (task_id t)"
      using command_answered [OF p addr(1)] addr(2) by auto
    let ?d = "stored now op v (s_op t) v' d" and ?o = "touch_op now op (s_op t)"
    have aw: "awaiting c (open_session ?d () ?o)"
      by (rule awaiting_touch [OF c(2) run(4) refl])
        (use stored_ids [OF st] in \<open>simp_all add: open_session_def stored_get_vm [OF st]\<close>)
    have "\<exists>d'. store_outcome now c (Inr r) ?d = d' \<and> advances home task_of d d'"
      by (rule submitted_then_stored [OF d st v' c1 aw _ _ reply_fits [OF r(1)] r(2)])
        (use dispatches_for [OF disp] ids' r(4) task_width in auto)
    then show ?thesis
      using r by (simp add: run_once_def first)
  next
    case 3
    obtain tid where tid: "op_task op = Some tid" "task_of (op_vm op) tid" "column_not_like (op_phase op) ''poll_backoff%''"
      using quick 3(2) by (auto simp: quick_def)
    have Q: "outcome (process_selected now A ?s) (\<lambda>disp t. disp = None \<and> op_task (s_op t) = None \<and> op_error (s_op t) = None
        \<and> op_status (s_op t) \<in> {''pending'', ''succeeded''} \<and> inv (s_prov t)) (\<lambda>_ _. False)"
      using task_reported [of ?s v tid now] s v(3) 3 tid act p by simp
    obtain disp and t :: "'p sess" and v1 l v' where run: "get_vm (op_vm op) d = Some v1" "row_ok (ssh_keys d) op v1"
        "disp = None \<and> op_task (s_op t) = None \<and> op_error (s_op t) = None
          \<and> op_status (s_op t) \<in> {''pending'', ''succeeded''} \<and> inv (s_prov t)"
        "s_vm t = Some v'" "step_in d l op v1 (s_op t) v'" "dispatches op v' l disp"
        "operation_constraints (s_op t) \<and> vmid_unique (vms (stored now op v1 (s_op t) v' d)) \<longrightarrow>
         first_transaction now A [] d p = (Inr (True, disp), stored now op v1 (s_op t) v' d, s_prov t)"
      by (rule first_transaction_run [OF ok sel Q])
    have eqs: "v1 = v" "disp = None" "l = None"
      using run v(1) by (cases l; simp)+
    note st = run(5) [unfolded eqs]
    have m: "moves None op v (s_op t) v'"
      using st by (simp add: step_in_def)
    have v': "at_place v' (home (vm_id v'))"
      using m 3(1) stored_ids [OF st] by (auto simp: moves_def same_place_def at_place_def)
    have "active (s_op t) \<Longrightarrow> quick task_of (s_op t)"
      using run(3) by (auto simp: quick_def active_def)
    note a = quiet_advance [OF d st v' _ _ this resolved_work [OF m 3(2)]]
    have "operation_constraints (s_op t)" "vmid_unique (vms (stored now op v (s_op t) v' d))"
        "advances home task_of d (stored now op v (s_op t) v' d)"
      by (rule a; use run(3) in simp)+
    then show ?thesis
      using run(3,7) by (simp add: run_once_def eqs)
  qed
qed

end

section \<open>The loop\<close>

lemma db_ok_row:
  assumes "db_ok d" "op \<in> set (operations d)"
  obtains v a where "get_vm (op_vm op) d = Some v" "abs_state op = Some a"
proof -
  obtain v where v: "get_vm (op_vm op) d = Some v" "row_ok (ssh_keys d) op v"
    by (rule db_okD [OF assms])
  from v(2) obtain a where "abs_state op = Some a"
    by (rule row_okD)
  with v(1) show thesis by (rule that)
qed


lemma no_work_inactive:
  assumes ok: "db_ok d" and "tame home task_of {} d" "work d = 0" "op \<in> set (operations d)"
  shows "\<not> active op"
proof
  assume act: "active op"
  obtain v a where v: "get_vm (op_vm op) d = Some v" "abs_state op = Some a"
    by (rule db_ok_row [OF ok assms(4)])
  have "eligible 0 op"
    by (rule active_eligible [OF assms(2,4) act])
  then have "0 < weight v op"
    by (rule eligible_astate [OF _ v(2)]) (use v(2) in \<open>auto simp: weight_def\<close>)
  moreover have "op_work d op = 0"
    using assms(3,4) by (simp add: work_def)
  ultimately show False
    using v(1) by (simp add: op_work_def)
qed

lemma idle_worker:
  assumes "\<forall>op\<in>set (operations d). \<not> active op"
  shows "run_worker A nows d p = (d, p)"
proof (induction nows)
  case (Cons now nows)
  have "select_operation now [] d = None"
    using assms by (auto simp: select_operation_def filter_empty_conv eligible_def active_def)
  then show ?case
    using Cons by (simp add: run_once_def first_transaction_def)
qed simp

context prompt_provider
begin

lemma run_worker_finishes:
  "tame home task_of {} d \<Longrightarrow> inv p \<Longrightarrow> work d \<le> length nows \<Longrightarrow>
   \<exists>d' p'. run_worker A nows d p = (d', p') \<and> (\<forall>op\<in>set (operations d'). \<not> active op)
     \<and> (\<forall>op0. finishing op0 d \<longrightarrow> finishing op0 d') \<and> distinct (map op_id (operations d'))"
proof (induction nows arbitrary: d p)
  case Nil
  then have "\<not> active op" if "op \<in> set (operations d)" for op
    using no_work_inactive [OF _ Nil.prems(1) _ that] by (simp add: tame_def)
  then show ?case
    using Nil.prems(1) by (simp add: tame_def db_ok_def)
next
  case (Cons now nows)
  show ?case
  proof (cases "\<forall>op\<in>set (operations d). \<not> active op")
    case True
    then show ?thesis
      unfolding idle_worker [OF True] using Cons.prems(1) by (simp add: tame_def db_ok_def)
  next
    case False
    then obtain q where "q \<in> set (operations d)" "eligible now q"
      using active_eligible [OF Cons.prems(1)] by blast
    then have "select_operation now [] d \<noteq> None"
      by (auto simp: select_operation_def filter_empty_conv)
    then obtain op where "select_operation now [] d = Some op"
      by blast
    from prompt_pass [OF Cons.prems(1,2) this] obtain d1 p1 where
      pass: "run_once now A [] d p = (Inr True, d1, p1)" "inv p1" "advances home task_of d d1"
      by blast
    have "\<exists>d' p'. run_worker A nows d1 p1 = (d', p') \<and> (\<forall>op\<in>set (operations d'). \<not> active op)
       \<and> (\<forall>op0. finishing op0 d1 \<longrightarrow> finishing op0 d') \<and> distinct (map op_id (operations d'))"
      by (rule Cons.IH) (use pass Cons.prems(3) in \<open>auto simp: advances_def\<close>)
    then show ?thesis
      using pass by (auto simp: advances_def)
  qed
qed

end

section \<open>The in-memory provider is prompt\<close>

definition fake_home :: "string \<Rightarrow> uuid \<Rightarrow> ProviderPlacement" where
  "fake_home node u = \<lparr>place_node = node, place_vmid = vmid_for_vm_id u\<rparr>"

definition fake_task_of :: "uuid \<Rightarrow> string \<Rightarrow> bool" where
  "fake_task_of u tid \<longleftrightarrow> (\<exists>kind\<in>set fake_operation_types. tid = ''fake:'' @ kind @ '':'' @ uuid_str u)"

lemma fake_command_answered:
  assumes "fake_ok p" "addressed (fake_home node) c"
  shows "\<exists>r p'. submit (FakeProxmoxAdapter node) c p = (Inr r, p') \<and> conclusive r \<and> fake_ok p'
     \<and> (\<forall>t. reply_task r = Some t \<longrightarrow> fake_task_of (dispatch_vm c) (task_id t))"
proof (cases c)
  case (CreateDispatch oid vid phase request target)
  then have ph: "phase = ''clone'' \<or> phase = ''configure'' \<or> phase = ''resize'' \<or> phase = ''start''"
      "request = None \<longleftrightarrow> phase = ''start''" "\<forall>r. request = Some r \<longrightarrow> req_vm_id r = vid" "target = fake_home node vid"
    using assms(2) by (simp_all add: addressed_def)
  then show ?thesis
    using assms(1) by (elim disjE; cases request)
      (auto simp: CreateDispatch submit_def with_request_def py_bind_def fake_defs Let_def fake_home_def
        fake_task_of_def fake_operation_types_def fake_ok_def)
next
  case (StartDispatch oid vid target)
  then show ?thesis
    using assms by (auto simp: addressed_def submit_def py_bind_def fake_defs Let_def fake_home_def
        fake_task_of_def fake_operation_types_def fake_ok_def)
next
  case (LifecycleDispatch oid vid command target)
  then have "command = ''shutdown'' \<or> command = ''stop'' \<or> command = ''start'' \<or> command = ''delete''"
      "target = fake_home node vid"
    using assms(2) by (simp_all add: addressed_def)
  then show ?thesis
    using assms(1) by (elim disjE)
      (auto simp: LifecycleDispatch submit_def py_bind_def fake_defs Let_def fake_home_def
        fake_task_of_def fake_operation_types_def fake_ok_def)
qed

interpretation fake: prompt_provider "FakeProxmoxAdapter node" fake_ok "fake_home node" fake_task_of
proof unfold_locales
  fix p :: fake and u tid
  assume "fake_ok p" "fake_task_of u tid"
  then obtain kind where "kind \<in> set fake_operation_types" "tid = ''fake:'' @ kind @ '':'' @ uuid_str u"
    by (auto simp: fake_task_of_def)
  with fake_task_survives [of kind p node u] \<open>fake_ok p\<close>
  show "\<exists>st p'. get_task_status (FakeProxmoxAdapter node) \<lparr>task_id = tid,
      task_vmid = place_vmid (fake_home node u), task_node = place_node (fake_home node u)\<rparr> p = (Inr st, p')
      \<and> ts_status st = ''succeeded''"
    by (simp add: FakeProxmoxAdapter_def fake_task_def fake_home_def done_status_def)
next
  fix u tid
  assume "fake_task_of u tid"
  then show "length tid \<le> 255"
    by (auto simp: fake_task_of_def fake_operation_types_def )
qed (simp_all add: fake_command_answered, simp add: fake_defs fake_home_def)




end
