(* ===== verification/RowTypes.thy ===== *)
theory RowTypes
  imports Example
begin

text \<open>
  The types of the rows: what the columns of an operation and of a virtual machine can hold in a
  reachable state, read as a type of the tables.
\<close>

definition ops_typed :: "db \<Rightarrow> bool" where
  "ops_typed d \<longleftrightarrow> (\<forall>op\<in>set (operations d). operation_constraints op)"

lemma new_operation_typed:
  "T \<in> set operation_types \<Longrightarrow> phase \<in> {None, Some ''clone'', Some ''shutdown''} \<Longrightarrow>
   operation_constraints (new_operation oid now vid T phase (uuid_str key))"
  by (erule operation_types_cases)
    (auto simp: operation_constraints_def operation_types_def new_operation_def width_ok_def)

lemma stored_typed:
  assumes "step_in d l op v op' v'" "operation_constraints op'" "ops_typed d"
  shows "ops_typed (stored now op v op' v' d)"
  using stored_op_member [OF assms(1)] assms(2,3) unfolding ops_typed_def
  by (fastforce simp: operation_constraints_def)

lemma same_machines_typed: "operations d' = operations d \<Longrightarrow> ops_typed d \<Longrightarrow> ops_typed d'"
  by (simp add: ops_typed_def)

lemma create_typed:
  assumes "create_my_vm vid oid now user r key seen d = (res, d')" "ops_typed d"
  shows "ops_typed d'"
  using create_my_vm_db [OF assms(1)]
proof
  assume "\<exists>vm. create_vm vid oid now user r (uuid_str key) seen d = (Inr vm, d') \<and> res = Inr vm"
  then obtain vm where "create_vm vid oid now user r (uuid_str key) seen d = (Inr vm, d')" by blast
  then show ?thesis
    by (cases rule: create_vm_cases)
      (use assms(2) new_operation_typed [of "''vm.create''" "Some ''clone''"] in
        \<open>auto simp: ops_typed_def operation_types_def\<close>)
qed (use assms(2) in simp)

lemma allowed_types: "allowed_statuses T = Some statuses \<Longrightarrow> T \<in> set operation_types"
  by (erule allowed_statuses_cases) (simp_all add: operation_types_def)

lemma order_typed:
  assumes "post_lifecycle action oid now user vid key seen d = (res, d')" "ops_typed d"
  shows "ops_typed d'"
proof (cases "map_of lifecycle_endpoints action")
  case None
  with assms show ?thesis by (auto simp: post_lifecycle_def)
next
  case (Some T)
  with assms(1) have e: "enqueue_lifecycle_operation oid now user vid T key seen d = (res, d')"
    by (simp add: post_lifecycle_def)
  from enqueue_lifecycle_db [OF e] show ?thesis
  proof
    assume "\<exists>op. enqueue_vm_operation oid now user vid T (uuid_str key) seen d = (Inr op, d') \<and> res = Inr op"
    then obtain op where "enqueue_vm_operation oid now user vid T (uuid_str key) seen d = (Inr op, d')"
      by blast
    then show ?thesis
    proof (cases rule: enqueue_cases)
      case (queued v statuses)
      have "operation_constraints (new_operation oid now vid T (if T = ''vm.reboot'' then Some ''shutdown'' else None) (uuid_str key))"
        by (rule new_operation_typed [OF allowed_types [OF queued(3)]]) simp
      with queued(2) assms(2) show ?thesis by (auto simp: ops_typed_def)
    qed (use assms(2) in simp_all)
  qed (use assms(2) in simp)
qed

lemma sys_step_typed:
  assumes s: "sys_step A y y'" and ok: "sys_ok y" and t: "ops_typed (y_db y)"
  shows "ops_typed (y_db y')"
proof -
  have dok: "db_ok (y_db y)" "quota_ok (y_db y)" "accounts_ok (y_db y)"
    using ok by (simp_all add: sys_ok_def)
  from s show ?thesis
  proof (cases rule: sys_step.cases)
    case (pass now locked r d p)
    from dok(1) pass(2) have "ops_typed d"
      by (cases rule: first_transaction_cases) (use t stored_typed in auto)
    with pass(1) show ?thesis by simp
  next
    case (store xs c res ys now)
    have "recorded (y_db y) c"
      using ok store(2) by (auto simp: sys_ok_def)
    then have disp: "dispatch_for (op_type q) c" if "get_op (dispatch_op c) (y_db y) = Some q" for q
      using that by (auto simp: recorded_def)
    have "ops_typed (store_outcome now c res (y_db y))"
      by (rule store_outcome_cases [OF dok(1) disp, where now = now and res = res]) (use t stored_typed in auto)
    with store(1) show ?thesis by simp
  next
    case (create user seen vid oid now r key res d)
    then show ?thesis using create_typed [OF create(3) t] by simp
  next
    case (order vid seen action oid now user key res d)
    then show ?thesis using order_typed [OF order(3) t] by simp
  next
    case (import_key parse kid now user name body seen imported d)
    then show ?thesis
      using import_key_db [OF import_key(2)] flush_key_Inr(1) same_machines_typed [OF _ t] t by fastforce
  next
    case (generate_key parse pub priv kid now user name seen generated d)
    then show ?thesis
      using generate_key_db [OF generate_key(2)] flush_key_Inr(1) same_machines_typed [OF _ t] t by fastforce
  next
    case (sign_in seen sha max_age w now issuer subject email answer d)
    then show ?thesis
      using login_keeps [OF sign_in(3,2) dok(3,2)] same_machines_typed [OF _ t] by (simp add: same_machines_def)
  next
    case (sign_out sha now token)
    then show ?thesis
      using revoke_keeps [OF dok(3,2)] same_machines_typed [OF _ t] by (simp add: same_machines_def)
  next
    case (authenticate sha now token found d)
    then show ?thesis
      using current_user_keeps [OF authenticate(2) dok(3,2)] same_machines_typed [OF _ t] by (simp add: same_machines_def)
  qed (use t in simp_all)
qed

lemma reachable_typed: "reachable A y\<^sub>0 y \<Longrightarrow> initial y\<^sub>0 \<Longrightarrow> ops_typed (y_db y)"
proof (induction rule: reachable.induct)
  case init
  then show ?case by (simp add: initial_def ops_typed_def)
next
  case (step y y')
  then show ?case using sys_step_typed reachable_ok by blast
qed

text \<open>
  C23. In every reachable state the columns of each row are of their types: those of an operation
  keep the constraints and widths of the table and together encode one state of the abstract
  machine, and a virtual machine keeps its constraints and has both a node and a VMID or neither.
\<close>

theorem rows_stay_typed:
  assumes "reachable A y\<^sub>0 y" "initial y\<^sub>0"
  shows "(\<forall>op\<in>set (operations (y_db y)). operation_constraints op \<and> (\<exists>a. abs_state op = Some a))
     \<and> (\<forall>v\<in>set (vms (y_db y)). vm_constraints v \<and> (placed v \<or> unplaced v))"
proof (intro conjI ballI)
  have ok: "db_ok (y_db y)"
    using reachable_ok [OF assms] by (simp add: sys_ok_def)
  fix op
  assume op: "op \<in> set (operations (y_db y))"
  then show "operation_constraints op"
    using reachable_typed [OF assms] by (simp add: ops_typed_def)
  from db_okD [OF ok op] obtain v where "row_ok (ssh_keys (y_db y)) op v" by blast
  then show "\<exists>a. abs_state op = Some a"
    by (rule row_okD) blast
next
  have ok: "db_ok (y_db y)"
    using reachable_ok [OF assms] by (simp add: sys_ok_def)
  fix v
  assume v: "v \<in> set (vms (y_db y))"
  then show "vm_constraints v"
    using ok by (simp add: db_ok_def)
  have get: "get_vm (vm_id v) (y_db y) = Some v"
    by (rule row_get_unique [OF _ v]) (use ok in \<open>simp add: db_ok_def\<close>)
  show "placed v \<or> unplaced v"
  proof (cases "vm_status v = ''pending''")
    case True
    then have "vm_status v \<notin> set settled_statuses"
      by (simp add: settled_statuses_def)
    then obtain op where op: "op \<in> set (operations (y_db y))" "op_vm op = vm_id v"
      using ok v by (auto simp: db_ok_def vm_settled_def)
    obtain w where w: "get_vm (op_vm op) (y_db y) = Some w" "row_ok (ssh_keys (y_db y)) op w"
      by (rule db_okD [OF ok op(1)])
    have "w = v"
      using w(1) get op(2) by simp
    with w(2) show ?thesis
      by (auto elim: row_okD)
  next
    case False
    with ok v show ?thesis by (simp add: db_ok_def)
  qed
qed

theorem rows_stay_typed_witness:
  "operation_constraints ex_marked_op \<and> (\<exists>a. abs_state ex_marked_op = Some a) \<and> (placed ex_vm2 \<or> unplaced ex_vm2)"
  using rows_stay_typed [OF ex_sent_reachable ex_initial] by (simp add: ex_sent_def ex_marked_def)

end
