(* ===== verification/Schema.thy ===== *)
theory Schema
  imports Models
begin

text \<open>
  The schema of the database, as the migrations and the mapped classes describe it: columns with
  their SQL type, default and nullability, constraints, indexes, and the directives of Alembic
  that a migration calls (\<open>op.create_table\<close> and the others) with their documented effect on a
  PostgreSQL database. The rows are those of \<open>Models\<close>, read as SQL rows where a constraint is
  checked against them.
\<close>

section \<open>Columns, constraints, tables\<close>

datatype coltype = SaUuid | SaBoolean | SaInteger | SaText | SaDateTime | SaString "nat option"

text \<open>\<open>server_default\<close>: an SQL expression (\<open>sa.text\<close>, \<open>func.now()\<close>) or a literal.\<close>

datatype server_default = NoDefault | Expression string | Literal string

record Column =
  col_name :: string
  col_type :: coltype
  col_default :: server_default
  col_nullable :: bool

datatype sql_check = InList string "string list" | GreaterThan string int | AtLeast string int | AtMostColumn string string

datatype constraint =
    PrimaryKeyConstraint "string list"
  | ForeignKeyConstraint "string list" string "string list"
  | UniqueConstraint "string list"
  | CheckConstraint sql_check

record index =
  ix_name :: string
  ix_columns :: "string list"
  ix_unique :: bool

record table =
  t_name :: string
  t_columns :: "Column list"
  t_constraints :: "(string \<times> constraint) list"
  t_indexes :: "index list"

text \<open>The name PostgreSQL gives a constraint that has none.\<close>

fun check_column :: "sql_check \<Rightarrow> string" where
  "check_column (InList c xs) = c"
| "check_column (GreaterThan c n) = c"
| "check_column (AtLeast c n) = c"
| "check_column (AtMostColumn c c') = c"

definition joined :: "string \<Rightarrow> string list \<Rightarrow> string \<Rightarrow> string" where
  "joined t cs suffix = t @ concat (map (\<lambda>c. ''_'' @ c) cs) @ suffix"

fun default_name :: "string \<Rightarrow> constraint \<Rightarrow> string" where
  "default_name t (PrimaryKeyConstraint cs) = t @ ''_pkey''"
| "default_name t (ForeignKeyConstraint cs t' cs') = joined t cs ''_fkey''"
| "default_name t (UniqueConstraint cs) = joined t cs ''_key''"
| "default_name t (CheckConstraint k) = joined t [check_column k] ''_check''"

definition named :: "string \<Rightarrow> string option \<times> constraint \<Rightarrow> string \<times> constraint" where
  "named t c = (case fst c of None \<Rightarrow> default_name t (snd c) | Some n \<Rightarrow> n, snd c)"

definition same_table :: "table \<Rightarrow> table \<Rightarrow> bool" where
  "same_table a b \<longleftrightarrow>
     t_name a = t_name b \<and> set (t_columns a) = set (t_columns b)
     \<and> set (t_constraints a) = set (t_constraints b) \<and> set (t_indexes a) = set (t_indexes b)"

lemma same_table_code [code]:
  "same_table a b =
     (if a = b then True
      else t_name a = t_name b \<and> set (t_columns a) = set (t_columns b)
        \<and> set (t_constraints a) = set (t_constraints b) \<and> set (t_indexes a) = set (t_indexes b))"
  by (simp add: same_table_def)

text \<open>The same tables, up to the order of tables, columns, constraints and indexes.\<close>

definition same_schema :: "table list \<Rightarrow> table list \<Rightarrow> bool" where
  "same_schema s t \<longleftrightarrow>
     length s = length t \<and> distinct (map t_name s)
     \<and> list_all (\<lambda>a. case row_get t_name (t_name a) t of None \<Rightarrow> False | Some b \<Rightarrow> same_table a b) s"

section \<open>Rows as SQL rows\<close>

datatype cell = Null | CUuid uuid | CInt int | CStr string | CBool bool | CTime int

definition cell_opt :: "('a \<Rightarrow> cell) \<Rightarrow> 'a option \<Rightarrow> cell" where
  "cell_opt f v = (case v of None \<Rightarrow> Null | Some x \<Rightarrow> f x)"

text \<open>
  The state of a database: its tables, its rows, and the values of \<open>compute_plans.max_running_vms\<close>,
  a column that the head of the migrations no longer has.
\<close>

record pg =
  pg_tables :: "table list"
  pg_rows :: db
  pg_running :: "(uuid \<times> int) list"

definition user_row :: "User \<Rightarrow> string \<rightharpoonup> cell" where
  "user_row u = [''id'' \<mapsto> CUuid (usr_id u), ''is_active'' \<mapsto> CBool (usr_is_active u), ''created_at'' \<mapsto> CTime (usr_created u)]"

definition identity_row :: "ExternalIdentity \<Rightarrow> string \<rightharpoonup> cell" where
  "identity_row i =
     [''id'' \<mapsto> CUuid (ident_id i), ''user_id'' \<mapsto> CUuid (ident_user i), ''issuer'' \<mapsto> CStr (ident_issuer i),
      ''subject'' \<mapsto> CStr (ident_subject i), ''email'' \<mapsto> CStr (ident_email i),
      ''email_verified'' \<mapsto> CBool (ident_email_verified i), ''created_at'' \<mapsto> CTime (ident_created i)]"

definition session_row :: "ApplicationSession \<Rightarrow> string \<rightharpoonup> cell" where
  "session_row s =
     [''id'' \<mapsto> CUuid (sess_id s), ''user_id'' \<mapsto> CUuid (sess_user s), ''token_hash'' \<mapsto> CStr (sess_token_hash s),
      ''created_at'' \<mapsto> CTime (sess_created s), ''expires_at'' \<mapsto> CTime (sess_expires s),
      ''last_seen_at'' \<mapsto> CTime (sess_last_seen s), ''revoked_at'' \<mapsto> cell_opt CTime (sess_revoked s)]"

definition plan_row :: "(uuid \<times> int) list \<Rightarrow> ComputePlan \<Rightarrow> string \<rightharpoonup> cell" where
  "plan_row running p =
     [''id'' \<mapsto> CUuid (plan_id p), ''code'' \<mapsto> CStr (plan_code p), ''max_vms'' \<mapsto> CInt (max_vms p),
      ''max_total_vcpus'' \<mapsto> CInt (max_total_vcpus p), ''max_total_memory_mb'' \<mapsto> CInt (max_total_memory_mb p),
      ''max_total_storage_gb'' \<mapsto> CInt (max_total_storage_gb p),
      ''max_shared_storage_gb'' \<mapsto> CInt (max_shared_storage_gb p), ''is_active'' \<mapsto> CBool (plan_is_active p),
      ''max_running_vms'' \<mapsto> cell_opt CInt (map_of running (plan_id p))]"

definition quota_row :: "UserQuota \<Rightarrow> string \<rightharpoonup> cell" where
  "quota_row q =
     [''user_id'' \<mapsto> CUuid (quota_user q), ''compute_plan_id'' \<mapsto> CUuid (quota_plan q), ''status'' \<mapsto> CStr (quota_status q)]"

definition key_row :: "SshPublicKey \<Rightarrow> string \<rightharpoonup> cell" where
  "key_row k =
     [''id'' \<mapsto> CUuid (key_id k), ''owner_user_id'' \<mapsto> CUuid (key_owner k), ''name'' \<mapsto> CStr (key_name k),
      ''key_type'' \<mapsto> CStr (key_type k), ''public_key'' \<mapsto> CStr (key_public k),
      ''fingerprint'' \<mapsto> CStr (key_fingerprint k), ''created_at'' \<mapsto> CTime (key_created k)]"

definition vm_row :: "VirtualMachine \<Rightarrow> string \<rightharpoonup> cell" where
  "vm_row v =
     [''id'' \<mapsto> CUuid (vm_id v), ''owner_user_id'' \<mapsto> CUuid (vm_owner v), ''status'' \<mapsto> CStr (vm_status v),
      ''requested_vcpus'' \<mapsto> CInt (vm_vcpus v), ''requested_memory_mb'' \<mapsto> CInt (vm_memory_mb v),
      ''requested_storage_gb'' \<mapsto> CInt (vm_storage_gb v), ''image_id'' \<mapsto> CStr (vm_image v),
      ''provider_vmid'' \<mapsto> cell_opt CInt (vm_provider_vmid v), ''provider_node'' \<mapsto> cell_opt CStr (vm_provider_node v),
      ''ssh_public_key_id'' \<mapsto> cell_opt CUuid (vm_ssh_key v),
      ''created_at'' \<mapsto> CTime (vm_created v), ''updated_at'' \<mapsto> CTime (vm_updated v)]"

definition op_row :: "Operation \<Rightarrow> string \<rightharpoonup> cell" where
  "op_row op =
     [''id'' \<mapsto> CUuid (op_id op), ''virtual_machine_id'' \<mapsto> CUuid (op_vm op), ''operation_type'' \<mapsto> CStr (op_type op),
      ''status'' \<mapsto> CStr (op_status op), ''phase'' \<mapsto> cell_opt CStr (op_phase op),
      ''idempotency_key'' \<mapsto> CStr (op_key op), ''attempts'' \<mapsto> CInt (op_attempts op),
      ''last_error_code'' \<mapsto> cell_opt CStr (op_error op), ''provider_task_id'' \<mapsto> cell_opt CStr (op_task op),
      ''created_at'' \<mapsto> CTime (op_created op), ''updated_at'' \<mapsto> CTime (op_updated op)]"

definition table_rows :: "string \<Rightarrow> pg \<Rightarrow> (string \<rightharpoonup> cell) list" where
  "table_rows t pg =
     (let d = pg_rows pg in
      if t = ''users'' then map user_row (users d)
      else if t = ''external_identities'' then map identity_row (identities d)
      else if t = ''application_sessions'' then map session_row (app_sessions d)
      else if t = ''compute_plans'' then map (plan_row (pg_running pg)) (plans d)
      else if t = ''user_quota'' then map quota_row (quotas d)
      else if t = ''ssh_public_keys'' then map key_row (ssh_keys d)
      else if t = ''virtual_machines'' then map vm_row (vms d)
      else if t = ''operations'' then map op_row (operations d)
      else [])"

text \<open>
  What the database checks. A check constraint passes unless it is false, so it passes on a null;
  a uniqueness or foreign key constraint does not look at rows with a null in its columns.
\<close>

fun check_holds :: "(string \<rightharpoonup> cell) \<Rightarrow> sql_check \<Rightarrow> bool" where
  "check_holds row (InList c xs) = (case row c of Some (CStr s) \<Rightarrow> s \<in> set xs | _ \<Rightarrow> True)"
| "check_holds row (GreaterThan c n) = (case row c of Some (CInt i) \<Rightarrow> i > n | _ \<Rightarrow> True)"
| "check_holds row (AtLeast c n) = (case row c of Some (CInt i) \<Rightarrow> i \<ge> n | _ \<Rightarrow> True)"
| "check_holds row (AtMostColumn c c') =
     (case row c of Some (CInt i) \<Rightarrow> (case row c' of Some (CInt j) \<Rightarrow> i \<le> j | _ \<Rightarrow> True) | _ \<Rightarrow> True)"

definition key_cells :: "string list \<Rightarrow> (string \<rightharpoonup> cell) list \<Rightarrow> cell option list list" where
  "key_cells cs rows = filter (\<lambda>k. Some Null \<notin> set k) (map (\<lambda>row. map row cs) rows)"

fun constraint_holds :: "pg \<Rightarrow> string \<Rightarrow> constraint \<Rightarrow> bool" where
  "constraint_holds pg t (PrimaryKeyConstraint cs) =
     (distinct (key_cells cs (table_rows t pg)) \<and> list_all (\<lambda>row. Some Null \<notin> set (map row cs)) (table_rows t pg))"
| "constraint_holds pg t (ForeignKeyConstraint cs t' cs') =
     (set (key_cells cs (table_rows t pg)) \<subseteq> set (key_cells cs' (table_rows t' pg)))"
| "constraint_holds pg t (UniqueConstraint cs) = distinct (key_cells cs (table_rows t pg))"
| "constraint_holds pg t (CheckConstraint k) = list_all (\<lambda>row. check_holds row k) (table_rows t pg)"

text \<open>A single row against the columns of its table and the check constraints.\<close>

definition column_ok :: "(string \<rightharpoonup> cell) \<Rightarrow> Column \<Rightarrow> bool" where
  "column_ok row c =
     (case row (col_name c) of
        None \<Rightarrow> col_default c \<noteq> NoDefault \<or> col_nullable c
      | Some v \<Rightarrow>
         (case v of
            Null \<Rightarrow> col_nullable c
          | CUuid u \<Rightarrow> col_type c = SaUuid
          | CInt i \<Rightarrow> col_type c = SaInteger
          | CBool b \<Rightarrow> col_type c = SaBoolean
          | CTime i \<Rightarrow> col_type c = SaDateTime
          | CStr s \<Rightarrow>
             (case col_type c of
                SaText \<Rightarrow> True
              | SaString w \<Rightarrow> (case w of None \<Rightarrow> True | Some n \<Rightarrow> length s \<le> n)
              | _ \<Rightarrow> False)))"

definition row_fits :: "table \<Rightarrow> (string \<rightharpoonup> cell) \<Rightarrow> bool" where
  "row_fits tb row \<longleftrightarrow>
     list_all (column_ok row) (t_columns tb)
     \<and> list_all (\<lambda>(n, c). case c of CheckConstraint k \<Rightarrow> check_holds row k | _ \<Rightarrow> True) (t_constraints tb)"

section \<open>The directives\<close>

datatype statement = InsertStarterQuotas | InsertCreateOperations | SetMaxRunningVms

datatype directive =
    CreateTable string "Column list" "(string option \<times> constraint) list"
  | DropTable string
  | CreateIndex string string "string list" bool
  | DropIndex string string
  | AddColumn string Column
  | DropColumn string string
  | SetNotNull string string
  | CreateConstraint string string constraint
  | DropConstraint string string
  | InsertPlan ComputePlan int
  | Execute statement

definition with_table :: "string \<Rightarrow> pg \<Rightarrow> (table \<Rightarrow> exc + pg) \<Rightarrow> exc + pg" where
  "with_table t pg f =
     (case row_get t_name t (pg_tables pg) of
        None \<Rightarrow> Inl (LibraryError (''relation does not exist: '' @ t))
      | Some tb \<Rightarrow> f tb)"

definition put_table :: "table \<Rightarrow> pg \<Rightarrow> pg" where
  "put_table tb pg = pg\<lparr>pg_tables := row_set t_name tb (pg_tables pg)\<rparr>"

definition has_columns :: "table \<Rightarrow> string list \<Rightarrow> bool" where
  "has_columns tb cs \<longleftrightarrow> set cs \<subseteq> col_name ` set (t_columns tb)"

definition references :: "string \<Rightarrow> table \<Rightarrow> bool" where
  "references t tb \<longleftrightarrow>
     list_ex (\<lambda>(n, c). case c of ForeignKeyConstraint cs t' cs' \<Rightarrow> t' = t | _ \<Rightarrow> False) (t_constraints tb)"

text \<open>The columns a constraint names exist, those it refers to included.\<close>

fun constraint_fits :: "table list \<Rightarrow> table \<Rightarrow> constraint \<Rightarrow> bool" where
  "constraint_fits ts tb (PrimaryKeyConstraint cs) = has_columns tb cs"
| "constraint_fits ts tb (ForeignKeyConstraint cs t' cs') =
     (has_columns tb cs \<and> (case row_get t_name t' ts of None \<Rightarrow> False | Some tb' \<Rightarrow> has_columns tb' cs'))"
| "constraint_fits ts tb (UniqueConstraint cs) = has_columns tb cs"
| "constraint_fits ts tb (CheckConstraint k) =
     has_columns tb (case k of AtMostColumn c c' \<Rightarrow> [c, c'] | _ \<Rightarrow> [check_column k])"

text \<open>The rows of a table that is dropped, and a column that is added without a default or dropped.\<close>

definition clear_table :: "string \<Rightarrow> pg \<Rightarrow> pg" where
  "clear_table t pg =
     (let d = pg_rows pg in
      if t = ''users'' then pg\<lparr>pg_rows := d\<lparr>users := []\<rparr>\<rparr>
      else if t = ''external_identities'' then pg\<lparr>pg_rows := d\<lparr>identities := []\<rparr>\<rparr>
      else if t = ''application_sessions'' then pg\<lparr>pg_rows := d\<lparr>app_sessions := []\<rparr>\<rparr>
      else if t = ''compute_plans'' then pg\<lparr>pg_rows := d\<lparr>plans := []\<rparr>, pg_running := []\<rparr>
      else if t = ''user_quota'' then pg\<lparr>pg_rows := d\<lparr>quotas := []\<rparr>\<rparr>
      else if t = ''ssh_public_keys'' then pg\<lparr>pg_rows := d\<lparr>ssh_keys := []\<rparr>\<rparr>
      else if t = ''virtual_machines'' then pg\<lparr>pg_rows := d\<lparr>vms := []\<rparr>\<rparr>
      else if t = ''operations'' then pg\<lparr>pg_rows := d\<lparr>operations := []\<rparr>\<rparr>
      else pg)"

definition clear_column :: "string \<Rightarrow> string \<Rightarrow> pg \<Rightarrow> pg" where
  "clear_column t c pg =
     (let d = pg_rows pg in
      if t = ''operations'' \<and> c = ''phase''
        then pg\<lparr>pg_rows := d\<lparr>operations := map (\<lambda>op. op\<lparr>op_phase := None\<rparr>) (operations d)\<rparr>\<rparr>
      else if t = ''operations'' \<and> c = ''provider_task_id''
        then pg\<lparr>pg_rows := d\<lparr>operations := map (\<lambda>op. op\<lparr>op_task := None\<rparr>) (operations d)\<rparr>\<rparr>
      else if t = ''virtual_machines'' \<and> c = ''ssh_public_key_id''
        then pg\<lparr>pg_rows := d\<lparr>vms := map (\<lambda>v. v\<lparr>vm_ssh_key := None\<rparr>) (vms d)\<rparr>\<rparr>
      else if t = ''compute_plans'' \<and> c = ''max_running_vms'' then pg\<lparr>pg_running := []\<rparr>
      else pg)"

text \<open>
  The effect of a directive, or the error of the database; \<open>now\<close> is the time of the transaction
  and \<open>sql\<close> the effect of the data statements, which the migrations define.
\<close>

fun effect :: "(statement \<Rightarrow> int \<Rightarrow> pg \<Rightarrow> pg) \<Rightarrow> int \<Rightarrow> directive \<Rightarrow> pg \<Rightarrow> exc + pg" where
  "effect sql now (CreateTable t cols cons) pg =
     (let tb = \<lparr>t_name = t, t_columns = cols, t_constraints = map (named t) cons, t_indexes = []\<rparr> in
      if row_get t_name t (pg_tables pg) \<noteq> None
        then Inl (LibraryError (''relation already exists: '' @ t))
      else if \<not> list_all (\<lambda>(n, c). constraint_fits (pg_tables pg @ [tb]) tb c) (t_constraints tb)
        then Inl (LibraryError ''column or relation does not exist'')
      else Inr (pg\<lparr>pg_tables := pg_tables pg @ [tb]\<rparr>))"
| "effect sql now (DropTable t) pg =
     with_table t pg (\<lambda>_.
       if list_ex (\<lambda>tb. t_name tb \<noteq> t \<and> references t tb) (pg_tables pg)
       then Inl (LibraryError (''other objects depend on '' @ t))
       else Inr (clear_table t (pg\<lparr>pg_tables := filter (\<lambda>tb. t_name tb \<noteq> t) (pg_tables pg)\<rparr>)))"
| "effect sql now (CreateIndex n t cs unique) pg =
     with_table t pg (\<lambda>tb.
       if list_ex (\<lambda>tb'. list_ex (\<lambda>i. ix_name i = n) (t_indexes tb')) (pg_tables pg)
         then Inl (LibraryError (''relation already exists: '' @ n))
       else if \<not> has_columns tb cs then Inl (LibraryError ''column does not exist'')
       else Inr (put_table (tb\<lparr>t_indexes := t_indexes tb @ [\<lparr>ix_name = n, ix_columns = cs, ix_unique = unique\<rparr>]\<rparr>) pg))"
| "effect sql now (DropIndex n t) pg =
     with_table t pg (\<lambda>tb.
       if \<not> list_ex (\<lambda>i. ix_name i = n) (t_indexes tb) then Inl (LibraryError (''index does not exist: '' @ n))
       else Inr (put_table (tb\<lparr>t_indexes := filter (\<lambda>i. ix_name i \<noteq> n) (t_indexes tb)\<rparr>) pg))"
| "effect sql now (AddColumn t c) pg =
     with_table t pg (\<lambda>tb.
       if has_columns tb [col_name c] then Inl (LibraryError (''column already exists: '' @ col_name c))
       else if table_rows t pg \<noteq> [] \<and> \<not> col_nullable c \<and> col_default c = NoDefault
         then Inl (LibraryError (''column contains null values: '' @ col_name c))
       else Inr (clear_column t (col_name c) (put_table (tb\<lparr>t_columns := t_columns tb @ [c]\<rparr>) pg)))"
| "effect sql now (DropColumn t c) pg =
     with_table t pg (\<lambda>tb.
       if \<not> has_columns tb [c] then Inl (LibraryError (''column does not exist: '' @ c))
       else Inr (clear_column t c (put_table (tb\<lparr>t_columns := filter (\<lambda>x. col_name x \<noteq> c) (t_columns tb)\<rparr>) pg)))"
| "effect sql now (SetNotNull t c) pg =
     with_table t pg (\<lambda>tb.
       if \<not> has_columns tb [c] then Inl (LibraryError (''column does not exist: '' @ c))
       else if list_ex (\<lambda>row. row c = Some Null) (table_rows t pg)
         then Inl (LibraryError (''column contains null values: '' @ c))
       else Inr (put_table (tb\<lparr>t_columns := map (\<lambda>x. if col_name x = c then x\<lparr>col_nullable := False\<rparr> else x) (t_columns tb)\<rparr>) pg))"
| "effect sql now (CreateConstraint n t c) pg =
     with_table t pg (\<lambda>tb.
       if n \<in> fst ` set (t_constraints tb) then Inl (LibraryError (''constraint already exists: '' @ n))
       else if \<not> constraint_fits (pg_tables pg) tb c then Inl (LibraryError ''column or relation does not exist'')
       else if \<not> constraint_holds pg t c then Inl (IntegrityError (''constraint is violated by some row: '' @ n))
       else Inr (put_table (tb\<lparr>t_constraints := t_constraints tb @ [(n, c)]\<rparr>) pg))"
| "effect sql now (DropConstraint n t) pg =
     with_table t pg (\<lambda>tb.
       if n \<notin> fst ` set (t_constraints tb) then Inl (LibraryError (''constraint does not exist: '' @ n))
       else Inr (put_table (tb\<lparr>t_constraints := filter (\<lambda>x. fst x \<noteq> n) (t_constraints tb)\<rparr>) pg))"
| "effect sql now (InsertPlan p running) pg =
     Inr (pg\<lparr>pg_rows := (pg_rows pg)\<lparr>plans := plans (pg_rows pg) @ [p]\<rparr>, pg_running := (plan_id p, running) # pg_running pg\<rparr>)"
| "effect sql now (Execute s) pg = Inr (sql s now pg)"

fun effects :: "(statement \<Rightarrow> int \<Rightarrow> pg \<Rightarrow> pg) \<Rightarrow> int \<Rightarrow> directive list \<Rightarrow> pg \<Rightarrow> exc + pg" where
  "effects sql now [] pg = Inr pg"
| "effects sql now (x # xs) pg = (case effect sql now x pg of Inl e \<Rightarrow> Inl e | Inr pg' \<Rightarrow> effects sql now xs pg')"

end
