(* ===== verification/Migrations.thy ===== *)
theory Migrations
  imports Schema
begin

text \<open>
  The migrations (portal/alembic/versions), in the order of their chain: for each revision its
  identifiers and the directives of \<open>upgrade\<close> and \<open>downgrade\<close>, the data statements of three of them,
  how Alembic follows the chain, and the transaction of portal/alembic/env.py around a run. The
  schema that the mapped classes declare (\<open>Base.metadata\<close>) is at the end.
\<close>

abbreviation (input) column :: "string \<Rightarrow> coltype \<Rightarrow> server_default \<Rightarrow> bool \<Rightarrow> Column" where
  "column n t d nullable \<equiv> \<lparr>col_name = n, col_type = t, col_default = d, col_nullable = nullable\<rparr>"

section \<open>Revisions\<close>

record revision =
  rev_id :: string
  rev_down :: "string option"
  rev_upgrade :: "directive list"
  rev_downgrade :: "directive list"

text \<open>create users table\<close>

definition upgrade_ccfd98ad60f6 :: "directive list" where
  "upgrade_ccfd98ad60f6 =
     [CreateTable ''users''
        [column ''id'' SaUuid NoDefault False, column ''is_active'' SaBoolean (Expression ''true'') False,
         column ''created_at'' SaDateTime (Expression ''now()'') False]
        [(None, PrimaryKeyConstraint [''id''])]]"

definition downgrade_ccfd98ad60f6 :: "directive list" where
  "downgrade_ccfd98ad60f6 =
     [DropTable ''users'']"

definition rev_ccfd98ad60f6 :: revision where
  "rev_ccfd98ad60f6 = \<lparr>rev_id = ''ccfd98ad60f6'', rev_down = None,
     rev_upgrade = upgrade_ccfd98ad60f6, rev_downgrade = downgrade_ccfd98ad60f6\<rparr>"

text \<open>create external identities table\<close>

definition upgrade_2658cc4597bf :: "directive list" where
  "upgrade_2658cc4597bf =
     [CreateTable ''external_identities''
        [column ''id'' SaUuid NoDefault False, column ''user_id'' SaUuid NoDefault False,
         column ''issuer'' (SaString (Some 255)) NoDefault False,
         column ''subject'' (SaString (Some 255)) NoDefault False,
         column ''email'' (SaString (Some 320)) NoDefault False,
         column ''email_verified'' SaBoolean (Expression ''false'') False,
         column ''created_at'' SaDateTime (Expression ''now()'') False]
        [(None, ForeignKeyConstraint [''user_id''] ''users'' [''id'']), (None, PrimaryKeyConstraint [''id'']),
         (Some ''uq_external_identities_issuer_subject'', UniqueConstraint [''issuer'', ''subject''])],
      CreateIndex ''ix_external_identities_user_id'' ''external_identities'' [''user_id''] False]"

definition downgrade_2658cc4597bf :: "directive list" where
  "downgrade_2658cc4597bf =
     [DropIndex ''ix_external_identities_user_id'' ''external_identities'',
      DropTable ''external_identities'']"

definition rev_2658cc4597bf :: revision where
  "rev_2658cc4597bf = \<lparr>rev_id = ''2658cc4597bf'', rev_down = Some ''ccfd98ad60f6'',
     rev_upgrade = upgrade_2658cc4597bf, rev_downgrade = downgrade_2658cc4597bf\<rparr>"

text \<open>create application sessions table\<close>

definition upgrade_789d1f469a23 :: "directive list" where
  "upgrade_789d1f469a23 =
     [CreateTable ''application_sessions''
        [column ''id'' SaUuid NoDefault False, column ''user_id'' SaUuid NoDefault False,
         column ''token_hash'' (SaString (Some 64)) NoDefault False,
         column ''created_at'' SaDateTime (Expression ''now()'') False,
         column ''expires_at'' SaDateTime NoDefault False,
         column ''last_seen_at'' SaDateTime (Expression ''now()'') False,
         column ''revoked_at'' SaDateTime NoDefault True]
        [(None, ForeignKeyConstraint [''user_id''] ''users'' [''id'']), (None, PrimaryKeyConstraint [''id'']),
         (None, UniqueConstraint [''token_hash''])],
      CreateIndex ''ix_application_sessions_user_id'' ''application_sessions'' [''user_id''] False]"

definition downgrade_789d1f469a23 :: "directive list" where
  "downgrade_789d1f469a23 =
     [DropIndex ''ix_application_sessions_user_id'' ''application_sessions'',
      DropTable ''application_sessions'']"

definition rev_789d1f469a23 :: revision where
  "rev_789d1f469a23 = \<lparr>rev_id = ''789d1f469a23'', rev_down = Some ''2658cc4597bf'',
     rev_upgrade = upgrade_789d1f469a23, rev_downgrade = downgrade_789d1f469a23\<rparr>"

text \<open>create compute plans table\<close>

definition starter_plan :: ComputePlan where
  "starter_plan = \<lparr>plan_id = 0xbc62178c15264070bd8e697754db8dbd, plan_code = ''starter'', max_vms = 1, max_total_vcpus = 4,
     max_total_memory_mb = 16384, max_total_storage_gb = 100, max_shared_storage_gb = 0, plan_is_active = True\<rparr>"

definition upgrade_903299d0b202 :: "directive list" where
  "upgrade_903299d0b202 =
     [CreateTable ''compute_plans''
        [column ''id'' SaUuid NoDefault False, column ''code'' (SaString (Some 50)) NoDefault False,
         column ''max_vms'' SaInteger NoDefault False, column ''max_running_vms'' SaInteger NoDefault False,
         column ''max_total_vcpus'' SaInteger NoDefault False,
         column ''max_total_memory_mb'' SaInteger NoDefault False,
         column ''max_total_storage_gb'' SaInteger NoDefault False,
         column ''max_shared_storage_gb'' SaInteger NoDefault False,
         column ''is_active'' SaBoolean (Expression ''true'') False,
         column ''created_at'' SaDateTime (Expression ''now()'') False]
        [(Some ''ck_compute_plans_running_vms_limit'', CheckConstraint (AtMostColumn ''max_running_vms'' ''max_vms'')),
         (Some ''ck_compute_plans_max_running_vms_non_negative'', CheckConstraint (AtLeast ''max_running_vms'' 0)),
         (Some ''ck_compute_plans_memory_non_negative'', CheckConstraint (AtLeast ''max_total_memory_mb'' 0)),
         (Some ''ck_compute_plans_storage_non_negative'', CheckConstraint (AtLeast ''max_total_storage_gb'' 0)),
         (Some ''ck_compute_plans_shared_storage_non_negative'', CheckConstraint (AtLeast ''max_shared_storage_gb'' 0)),
         (Some ''ck_compute_plans_vcpus_non_negative'', CheckConstraint (AtLeast ''max_total_vcpus'' 0)),
         (Some ''ck_compute_plans_max_vms_non_negative'', CheckConstraint (AtLeast ''max_vms'' 0)),
         (None, PrimaryKeyConstraint [''id'']), (Some ''uq_compute_plans_code'', UniqueConstraint [''code''])],
      InsertPlan starter_plan 1]"

definition downgrade_903299d0b202 :: "directive list" where
  "downgrade_903299d0b202 =
     [DropTable ''compute_plans'']"

definition rev_903299d0b202 :: revision where
  "rev_903299d0b202 = \<lparr>rev_id = ''903299d0b202'', rev_down = Some ''789d1f469a23'',
     rev_upgrade = upgrade_903299d0b202, rev_downgrade = downgrade_903299d0b202\<rparr>"

text \<open>create user quotas table\<close>

definition upgrade_d3c70f1c2755 :: "directive list" where
  "upgrade_d3c70f1c2755 =
     [CreateTable ''user_quota''
        [column ''user_id'' SaUuid NoDefault False, column ''compute_plan_id'' SaUuid NoDefault False,
         column ''status'' (SaString None) (Literal ''active'') False,
         column ''created_at'' SaDateTime (Expression ''now()'') False]
        [(Some ''ck_user_status'', CheckConstraint (InList ''status'' [''active'', ''suspended''])),
         (None, ForeignKeyConstraint [''compute_plan_id''] ''compute_plans'' [''id'']),
         (None, ForeignKeyConstraint [''user_id''] ''users'' [''id'']), (None, PrimaryKeyConstraint [''user_id''])],
      CreateIndex ''ix_user_quota_compute_plan_id'' ''user_quota'' [''compute_plan_id''] False]"

definition downgrade_d3c70f1c2755 :: "directive list" where
  "downgrade_d3c70f1c2755 =
     [DropIndex ''ix_user_quota_compute_plan_id'' ''user_quota'',
      DropTable ''user_quota'']"

definition rev_d3c70f1c2755 :: revision where
  "rev_d3c70f1c2755 = \<lparr>rev_id = ''d3c70f1c2755'', rev_down = Some ''903299d0b202'',
     rev_upgrade = upgrade_d3c70f1c2755, rev_downgrade = downgrade_d3c70f1c2755\<rparr>"

text \<open>backfill starter user quotas\<close>

definition upgrade_1b47a1f1aaff :: "directive list" where
  "upgrade_1b47a1f1aaff =
     [Execute InsertStarterQuotas]"

definition downgrade_1b47a1f1aaff :: "directive list" where
  "downgrade_1b47a1f1aaff =
     []"

definition rev_1b47a1f1aaff :: revision where
  "rev_1b47a1f1aaff = \<lparr>rev_id = ''1b47a1f1aaff'', rev_down = Some ''d3c70f1c2755'',
     rev_upgrade = upgrade_1b47a1f1aaff, rev_downgrade = downgrade_1b47a1f1aaff\<rparr>"

text \<open>create virtual machines table\<close>

definition upgrade_960f9479ecad :: "directive list" where
  "upgrade_960f9479ecad =
     [CreateTable ''virtual_machines''
        [column ''id'' SaUuid NoDefault False, column ''owner_user_id'' SaUuid NoDefault False,
         column ''status'' (SaString None) (Literal ''pending'') False,
         column ''requested_vcpus'' SaInteger NoDefault False,
         column ''requested_memory_mb'' SaInteger NoDefault False,
         column ''requested_storage_gb'' SaInteger NoDefault False,
         column ''image_id'' (SaString None) NoDefault False, column ''provider_vmid'' SaInteger NoDefault True,
         column ''provider_node'' (SaString None) NoDefault True,
         column ''created_at'' SaDateTime (Expression ''now()'') False,
         column ''updated_at'' SaDateTime (Expression ''now()'') False]
        [(Some ''vm_user_status'', CheckConstraint (InList ''status'' [''pending'', ''pending_capacity'', ''provisioning'', ''running'', ''stopped'', ''failed'', ''deleting'', ''deleted''])),
         (Some ''vm_requested_memory_mb_positive'', CheckConstraint (GreaterThan ''requested_memory_mb'' 0)),
         (Some ''vm_requested_storage_gb_positive'', CheckConstraint (GreaterThan ''requested_storage_gb'' 0)),
         (Some ''vm_requested_vcpus_positive'', CheckConstraint (GreaterThan ''requested_vcpus'' 0)),
         (None, ForeignKeyConstraint [''owner_user_id''] ''users'' [''id'']), (None, PrimaryKeyConstraint [''id'']),
         (Some ''vm_provider_vmid_unique'', UniqueConstraint [''provider_vmid''])],
      CreateIndex ''ix_virtual_machines_owner_user_id'' ''virtual_machines'' [''owner_user_id''] False]"

definition downgrade_960f9479ecad :: "directive list" where
  "downgrade_960f9479ecad =
     [DropIndex ''ix_virtual_machines_owner_user_id'' ''virtual_machines'',
      DropTable ''virtual_machines'']"

definition rev_960f9479ecad :: revision where
  "rev_960f9479ecad = \<lparr>rev_id = ''960f9479ecad'', rev_down = Some ''1b47a1f1aaff'',
     rev_upgrade = upgrade_960f9479ecad, rev_downgrade = downgrade_960f9479ecad\<rparr>"

text \<open>remove max running vms from compute plans\<close>

definition upgrade_a2f3d8c68eb2 :: "directive list" where
  "upgrade_a2f3d8c68eb2 =
     [DropConstraint ''ck_compute_plans_running_vms_limit'' ''compute_plans'',
      DropConstraint ''ck_compute_plans_max_running_vms_non_negative'' ''compute_plans'',
      DropColumn ''compute_plans'' ''max_running_vms'']"

definition downgrade_a2f3d8c68eb2 :: "directive list" where
  "downgrade_a2f3d8c68eb2 =
     [AddColumn ''compute_plans'' (column ''max_running_vms'' SaInteger NoDefault True),
      Execute SetMaxRunningVms,
      SetNotNull ''compute_plans'' ''max_running_vms'',
      CreateConstraint ''ck_compute_plans_max_running_vms_non_negative'' ''compute_plans'' (CheckConstraint (AtLeast ''max_running_vms'' 0)),
      CreateConstraint ''ck_compute_plans_running_vms_limit'' ''compute_plans'' (CheckConstraint (AtMostColumn ''max_running_vms'' ''max_vms''))]"

definition rev_a2f3d8c68eb2 :: revision where
  "rev_a2f3d8c68eb2 = \<lparr>rev_id = ''a2f3d8c68eb2'', rev_down = Some ''960f9479ecad'',
     rev_upgrade = upgrade_a2f3d8c68eb2, rev_downgrade = downgrade_a2f3d8c68eb2\<rparr>"

text \<open>create operations table\<close>

definition upgrade_bff9f843fb90 :: "directive list" where
  "upgrade_bff9f843fb90 =
     [CreateTable ''operations''
        [column ''id'' SaUuid NoDefault False, column ''virtual_machine_id'' SaUuid NoDefault False,
         column ''operation_type'' (SaString (Some 50)) NoDefault False,
         column ''status'' (SaString (Some 32)) (Literal ''pending'') False,
         column ''idempotency_key'' (SaString (Some 128)) NoDefault False,
         column ''attempts'' SaInteger (Literal ''0'') False,
         column ''last_error_code'' (SaString (Some 100)) NoDefault True,
         column ''created_at'' SaDateTime (Expression ''now()'') False,
         column ''updated_at'' SaDateTime (Expression ''now()'') False]
        [(Some ''operation_type_list'', CheckConstraint (InList ''operation_type'' [''vm.create'', ''vm.start'', ''vm.stop'', ''vm.delete''])),
         (Some ''operations_status_list'', CheckConstraint (InList ''status'' [''pending'', ''processing'', ''succeeded'', ''failed''])),
         (Some ''operations_attempts_not_negative'', CheckConstraint (AtLeast ''attempts'' 0)),
         (None, ForeignKeyConstraint [''virtual_machine_id''] ''virtual_machines'' [''id'']),
         (None, PrimaryKeyConstraint [''id'']),
         (Some ''uq_operations_idempotency_key'', UniqueConstraint [''idempotency_key''])],
      CreateIndex ''ix_operations_status'' ''operations'' [''status''] False,
      CreateIndex ''ix_operations_virtual_machine_id'' ''operations'' [''virtual_machine_id''] False,
      Execute InsertCreateOperations]"

definition downgrade_bff9f843fb90 :: "directive list" where
  "downgrade_bff9f843fb90 =
     [DropIndex ''ix_operations_virtual_machine_id'' ''operations'',
      DropIndex ''ix_operations_status'' ''operations'',
      DropTable ''operations'']"

definition rev_bff9f843fb90 :: revision where
  "rev_bff9f843fb90 = \<lparr>rev_id = ''bff9f843fb90'', rev_down = Some ''a2f3d8c68eb2'',
     rev_upgrade = upgrade_bff9f843fb90, rev_downgrade = downgrade_bff9f843fb90\<rparr>"

text \<open>add provider task id into table operations\<close>

definition upgrade_d9fa31f08e64 :: "directive list" where
  "upgrade_d9fa31f08e64 =
     [AddColumn ''operations'' (column ''provider_task_id'' (SaString (Some 255)) NoDefault True)]"

definition downgrade_d9fa31f08e64 :: "directive list" where
  "downgrade_d9fa31f08e64 =
     [DropColumn ''operations'' ''provider_task_id'']"

definition rev_d9fa31f08e64 :: revision where
  "rev_d9fa31f08e64 = \<lparr>rev_id = ''d9fa31f08e64'', rev_down = Some ''bff9f843fb90'',
     rev_upgrade = upgrade_d9fa31f08e64, rev_downgrade = downgrade_d9fa31f08e64\<rparr>"

text \<open>create ssh public keys table\<close>

definition upgrade_7cd984e1f600 :: "directive list" where
  "upgrade_7cd984e1f600 =
     [CreateTable ''ssh_public_keys''
        [column ''id'' SaUuid NoDefault False, column ''owner_user_id'' SaUuid NoDefault False,
         column ''name'' (SaString (Some 100)) NoDefault False,
         column ''key_type'' (SaString (Some 50)) NoDefault False, column ''public_key'' SaText NoDefault False,
         column ''fingerprint'' (SaString (Some 100)) NoDefault False,
         column ''created_at'' SaDateTime (Expression ''now()'') False]
        [(None, ForeignKeyConstraint [''owner_user_id''] ''users'' [''id'']), (None, PrimaryKeyConstraint [''id'']),
         (Some ''uq_ssh_public_keys_owner_fingerprint'', UniqueConstraint [''owner_user_id'', ''fingerprint'']),
         (Some ''uq_ssh_public_keys_owner_name'', UniqueConstraint [''owner_user_id'', ''name''])],
      CreateIndex ''ix_ssh_public_keys_owner_user_id'' ''ssh_public_keys'' [''owner_user_id''] False]"

definition downgrade_7cd984e1f600 :: "directive list" where
  "downgrade_7cd984e1f600 =
     [DropIndex ''ix_ssh_public_keys_owner_user_id'' ''ssh_public_keys'',
      DropTable ''ssh_public_keys'']"

definition rev_7cd984e1f600 :: revision where
  "rev_7cd984e1f600 = \<lparr>rev_id = ''7cd984e1f600'', rev_down = Some ''d9fa31f08e64'',
     rev_upgrade = upgrade_7cd984e1f600, rev_downgrade = downgrade_7cd984e1f600\<rparr>"

text \<open>link virtual machines to ssh public keys\<close>

definition upgrade_2941d636dcb4 :: "directive list" where
  "upgrade_2941d636dcb4 =
     [AddColumn ''virtual_machines'' (column ''ssh_public_key_id'' SaUuid NoDefault True),
      CreateIndex ''ix_virtual_machines_ssh_public_key_id'' ''virtual_machines'' [''ssh_public_key_id''] False,
      CreateConstraint ''virtual_machines_ssh_public_key_id_fkey'' ''virtual_machines''
         (ForeignKeyConstraint [''ssh_public_key_id''] ''ssh_public_keys'' [''id''])]"

definition downgrade_2941d636dcb4 :: "directive list" where
  "downgrade_2941d636dcb4 =
     [DropConstraint ''virtual_machines_ssh_public_key_id_fkey'' ''virtual_machines'',
      DropIndex ''ix_virtual_machines_ssh_public_key_id'' ''virtual_machines'',
      DropColumn ''virtual_machines'' ''ssh_public_key_id'']"

definition rev_2941d636dcb4 :: revision where
  "rev_2941d636dcb4 = \<lparr>rev_id = ''2941d636dcb4'', rev_down = Some ''7cd984e1f600'',
     rev_upgrade = upgrade_2941d636dcb4, rev_downgrade = downgrade_2941d636dcb4\<rparr>"

text \<open>make ssh key fingerprint globally unique\<close>

definition upgrade_4f942b4ebb00 :: "directive list" where
  "upgrade_4f942b4ebb00 =
     [DropConstraint ''uq_ssh_public_keys_owner_fingerprint'' ''ssh_public_keys'',
      CreateConstraint ''uq_ssh_public_keys_fingerprint'' ''ssh_public_keys'' (UniqueConstraint [''fingerprint''])]"

definition downgrade_4f942b4ebb00 :: "directive list" where
  "downgrade_4f942b4ebb00 =
     [DropConstraint ''uq_ssh_public_keys_fingerprint'' ''ssh_public_keys'',
      CreateConstraint ''uq_ssh_public_keys_owner_fingerprint'' ''ssh_public_keys''
         (UniqueConstraint [''owner_user_id'', ''fingerprint''])]"

definition rev_4f942b4ebb00 :: revision where
  "rev_4f942b4ebb00 = \<lparr>rev_id = ''4f942b4ebb00'', rev_down = Some ''2941d636dcb4'',
     rev_upgrade = upgrade_4f942b4ebb00, rev_downgrade = downgrade_4f942b4ebb00\<rparr>"

text \<open>add phase to operations\<close>

definition upgrade_4fa6b2ff7397 :: "directive list" where
  "upgrade_4fa6b2ff7397 =
     [AddColumn ''operations'' (column ''phase'' (SaString (Some 32)) NoDefault True)]"

definition downgrade_4fa6b2ff7397 :: "directive list" where
  "downgrade_4fa6b2ff7397 =
     [DropColumn ''operations'' ''phase'']"

definition rev_4fa6b2ff7397 :: revision where
  "rev_4fa6b2ff7397 = \<lparr>rev_id = ''4fa6b2ff7397'', rev_down = Some ''4f942b4ebb00'',
     rev_upgrade = upgrade_4fa6b2ff7397, rev_downgrade = downgrade_4fa6b2ff7397\<rparr>"

text \<open>add vm lifecycle operation types\<close>

definition upgrade_a7c43a5f40c2 :: "directive list" where
  "upgrade_a7c43a5f40c2 =
     [DropConstraint ''operation_type_list'' ''operations'',
      CreateConstraint ''operation_type_list'' ''operations''
         (CheckConstraint (InList ''operation_type'' [''vm.create'', ''vm.start'', ''vm.shutdown'', ''vm.stop'', ''vm.reboot'', ''vm.delete'']))]"

definition downgrade_a7c43a5f40c2 :: "directive list" where
  "downgrade_a7c43a5f40c2 =
     [DropConstraint ''operation_type_list'' ''operations'',
      CreateConstraint ''operation_type_list'' ''operations''
         (CheckConstraint (InList ''operation_type'' [''vm.create'', ''vm.start'', ''vm.stop'', ''vm.delete'']))]"

definition rev_a7c43a5f40c2 :: revision where
  "rev_a7c43a5f40c2 = \<lparr>rev_id = ''a7c43a5f40c2'', rev_down = Some ''4fa6b2ff7397'',
     rev_upgrade = upgrade_a7c43a5f40c2, rev_downgrade = downgrade_a7c43a5f40c2\<rparr>"

section \<open>Data statements\<close>

text \<open>
  The three statements the migrations execute: a starter quota for every user without one, a create
  operation for every pending virtual machine, and \<open>max_running_vms\<close> of every plan. A new
  operation has the id of its machine; the columns that do not exist yet are unset.
\<close>

definition insert_starter_quotas :: "db \<Rightarrow> db" where
  "insert_starter_quotas d =
     d\<lparr>quotas := quotas d @
         [\<lparr>quota_user = usr_id u, quota_plan = plan_id p, quota_status = ''active''\<rparr>.
            u \<leftarrow> users d, p \<leftarrow> plans d,
            plan_code p = ''starter'' \<and> \<not> list_ex (\<lambda>q. quota_user q = usr_id u) (quotas d)]\<rparr>"

definition backfilled_operation :: "int \<Rightarrow> VirtualMachine \<Rightarrow> Operation" where
  "backfilled_operation now v =
     \<lparr>op_id = vm_id v, op_vm = vm_id v, op_type = ''vm.create'', op_status = ''pending'', op_phase = None,
      op_key = ''backfill-vm-create:'' @ uuid_str (vm_id v), op_attempts = 0, op_error = None, op_task = None,
      op_created = now, op_updated = now\<rparr>"

definition insert_create_operations :: "int \<Rightarrow> db \<Rightarrow> db" where
  "insert_create_operations now d =
     d\<lparr>operations := operations d @
         map (backfilled_operation now) (filter (\<lambda>v. vm_status v = ''pending'') (vms d))\<rparr>"

fun run_statement :: "statement \<Rightarrow> int \<Rightarrow> pg \<Rightarrow> pg" where
  "run_statement InsertStarterQuotas now pg = pg\<lparr>pg_rows := insert_starter_quotas (pg_rows pg)\<rparr>"
| "run_statement InsertCreateOperations now pg = pg\<lparr>pg_rows := insert_create_operations now (pg_rows pg)\<rparr>"
| "run_statement SetMaxRunningVms now pg = pg\<lparr>pg_running := map (\<lambda>p. (plan_id p, max_vms p)) (plans (pg_rows pg))\<rparr>"

section \<open>Following the chain\<close>

text \<open>The files of portal/alembic/versions, by name.\<close>

definition versions :: "revision list" where
  "versions =
     [rev_1b47a1f1aaff, rev_2658cc4597bf, rev_2941d636dcb4, rev_4f942b4ebb00,
      rev_4fa6b2ff7397, rev_789d1f469a23, rev_7cd984e1f600, rev_903299d0b202, rev_960f9479ecad,
      rev_a2f3d8c68eb2, rev_a7c43a5f40c2, rev_bff9f843fb90, rev_ccfd98ad60f6, rev_d3c70f1c2755, rev_d9fa31f08e64]"

text \<open>
  \<open>alembic upgrade head\<close> runs, again and again, the revision that follows the current one;
  \<open>alembic downgrade -1\<close> undoes the current one. The scripts of one run are one transaction
  (\<open>context.begin_transaction()\<close> around \<open>context.run_migrations()\<close>): after an error nothing has changed.
\<close>

function upgrade_path :: "revision list \<Rightarrow> string option \<Rightarrow> revision list" where
  "upgrade_path revs current =
     (case find (\<lambda>r. rev_down r = current) revs of
        None \<Rightarrow> []
      | Some r \<Rightarrow> r # upgrade_path (filter (\<lambda>q. rev_down q \<noteq> current) revs) (Some (rev_id r)))"
  by pat_completeness auto
termination
proof (relation "measure (\<lambda>(revs, current). length revs)")
  show "wf (measure (\<lambda>(revs :: revision list, current :: string option). length revs))"
    by simp
next
  fix revs :: "revision list" and current r
  assume "find (\<lambda>r. rev_down r = current) revs = Some r"
  then have "r \<in> set revs \<and> rev_down r = current"
    by (rule find_SomeD)
  then have "length (filter (\<lambda>q. rev_down q \<noteq> current) revs) < length revs"
    by (intro length_filter_less [of r]) auto
  then show "((filter (\<lambda>q. rev_down q \<noteq> current) revs, Some (rev_id r)), (revs, current))
      \<in> measure (\<lambda>(revs, current). length revs)"
    by simp
qed

declare upgrade_path.simps [simp del]

definition run_migrations :: "int \<Rightarrow> directive list \<Rightarrow> pg \<Rightarrow> (exc + unit) \<times> pg" where
  "run_migrations now ds pg =
     (case effects run_statement now ds pg of Inl e \<Rightarrow> (Inl e, pg) | Inr pg' \<Rightarrow> (Inr (), pg'))"

definition upgrade_head :: "int \<Rightarrow> string option \<Rightarrow> pg \<Rightarrow> (exc + unit) \<times> pg" where
  "upgrade_head now current = run_migrations now (concat (map rev_upgrade (upgrade_path versions current)))"

section \<open>The mapped classes\<close>

text \<open>
  The tables of \<open>Base.metadata\<close>, in the order of the classes' attributes and arguments; an attribute
  with \<open>index=True\<close> has an index with the default name.
\<close>

definition model_index :: "string \<Rightarrow> string \<Rightarrow> index" where
  "model_index t c = \<lparr>ix_name = ''ix_'' @ t @ ''_'' @ c, ix_columns = [c], ix_unique = False\<rparr>"

definition users_table :: table where
  "users_table = \<lparr>t_name = ''users'',
     t_columns =
       [column ''id'' SaUuid NoDefault False, column ''is_active'' SaBoolean (Expression ''true'') False,
        column ''created_at'' SaDateTime (Expression ''now()'') False],
     t_constraints = map (named ''users'')
       [(None, PrimaryKeyConstraint [''id''])],
     t_indexes = []\<rparr>"

definition external_identities_table :: table where
  "external_identities_table = \<lparr>t_name = ''external_identities'',
     t_columns =
       [column ''id'' SaUuid NoDefault False, column ''user_id'' SaUuid NoDefault False,
        column ''issuer'' (SaString (Some 255)) NoDefault False,
        column ''subject'' (SaString (Some 255)) NoDefault False,
        column ''email'' (SaString (Some 320)) NoDefault False,
        column ''email_verified'' SaBoolean (Expression ''false'') False,
        column ''created_at'' SaDateTime (Expression ''now()'') False],
     t_constraints = map (named ''external_identities'')
       [(None, PrimaryKeyConstraint [''id'']), (None, ForeignKeyConstraint [''user_id''] ''users'' [''id'']),
        (Some ''uq_external_identities_issuer_subject'', UniqueConstraint [''issuer'', ''subject''])],
     t_indexes = [model_index ''external_identities'' ''user_id'']\<rparr>"

definition application_sessions_table :: table where
  "application_sessions_table = \<lparr>t_name = ''application_sessions'',
     t_columns =
       [column ''id'' SaUuid NoDefault False, column ''user_id'' SaUuid NoDefault False,
        column ''token_hash'' (SaString (Some 64)) NoDefault False,
        column ''created_at'' SaDateTime (Expression ''now()'') False,
        column ''expires_at'' SaDateTime NoDefault False,
        column ''last_seen_at'' SaDateTime (Expression ''now()'') False,
        column ''revoked_at'' SaDateTime NoDefault True],
     t_constraints = map (named ''application_sessions'')
       [(None, PrimaryKeyConstraint [''id'']), (None, ForeignKeyConstraint [''user_id''] ''users'' [''id'']),
        (None, UniqueConstraint [''token_hash''])],
     t_indexes = [model_index ''application_sessions'' ''user_id'']\<rparr>"

definition compute_plans_table :: table where
  "compute_plans_table = \<lparr>t_name = ''compute_plans'',
     t_columns =
       [column ''id'' SaUuid NoDefault False, column ''code'' (SaString (Some 50)) NoDefault False,
        column ''max_vms'' SaInteger NoDefault False, column ''max_total_vcpus'' SaInteger NoDefault False,
        column ''max_total_memory_mb'' SaInteger NoDefault False,
        column ''max_total_storage_gb'' SaInteger NoDefault False,
        column ''max_shared_storage_gb'' SaInteger NoDefault False,
        column ''is_active'' SaBoolean (Expression ''true'') False,
        column ''created_at'' SaDateTime (Expression ''now()'') False],
     t_constraints = map (named ''compute_plans'')
       [(None, PrimaryKeyConstraint [''id'']), (Some ''uq_compute_plans_code'', UniqueConstraint [''code'']),
        (Some ''ck_compute_plans_max_vms_non_negative'', CheckConstraint (AtLeast ''max_vms'' 0)),
        (Some ''ck_compute_plans_vcpus_non_negative'', CheckConstraint (AtLeast ''max_total_vcpus'' 0)),
        (Some ''ck_compute_plans_memory_non_negative'', CheckConstraint (AtLeast ''max_total_memory_mb'' 0)),
        (Some ''ck_compute_plans_storage_non_negative'', CheckConstraint (AtLeast ''max_total_storage_gb'' 0)),
        (Some ''ck_compute_plans_shared_storage_non_negative'', CheckConstraint (AtLeast ''max_shared_storage_gb'' 0))],
     t_indexes = []\<rparr>"

definition user_quota_table :: table where
  "user_quota_table = \<lparr>t_name = ''user_quota'',
     t_columns =
       [column ''user_id'' SaUuid NoDefault False, column ''compute_plan_id'' SaUuid NoDefault False,
        column ''status'' (SaString None) (Literal ''active'') False,
        column ''created_at'' SaDateTime (Expression ''now()'') False],
     t_constraints = map (named ''user_quota'')
       [(None, PrimaryKeyConstraint [''user_id'']), (None, ForeignKeyConstraint [''user_id''] ''users'' [''id'']),
        (None, ForeignKeyConstraint [''compute_plan_id''] ''compute_plans'' [''id'']),
        (Some ''ck_user_status'', CheckConstraint (InList ''status'' [''active'', ''suspended'']))],
     t_indexes = [model_index ''user_quota'' ''compute_plan_id'']\<rparr>"

definition ssh_public_keys_table :: table where
  "ssh_public_keys_table = \<lparr>t_name = ''ssh_public_keys'',
     t_columns =
       [column ''id'' SaUuid NoDefault False, column ''owner_user_id'' SaUuid NoDefault False,
        column ''name'' (SaString (Some 100)) NoDefault False,
        column ''key_type'' (SaString (Some 50)) NoDefault False, column ''public_key'' SaText NoDefault False,
        column ''fingerprint'' (SaString (Some 100)) NoDefault False,
        column ''created_at'' SaDateTime (Expression ''now()'') False],
     t_constraints = map (named ''ssh_public_keys'')
       [(None, PrimaryKeyConstraint [''id'']), (None, ForeignKeyConstraint [''owner_user_id''] ''users'' [''id'']),
        (Some ''uq_ssh_public_keys_owner_name'', UniqueConstraint [''owner_user_id'', ''name'']),
        (Some ''uq_ssh_public_keys_fingerprint'', UniqueConstraint [''fingerprint''])],
     t_indexes = [model_index ''ssh_public_keys'' ''owner_user_id'']\<rparr>"

definition virtual_machines_table :: table where
  "virtual_machines_table = \<lparr>t_name = ''virtual_machines'',
     t_columns =
       [column ''id'' SaUuid NoDefault False, column ''owner_user_id'' SaUuid NoDefault False,
        column ''status'' (SaString None) (Literal ''pending'') False,
        column ''requested_vcpus'' SaInteger NoDefault False,
        column ''requested_memory_mb'' SaInteger NoDefault False,
        column ''requested_storage_gb'' SaInteger NoDefault False,
        column ''image_id'' (SaString None) NoDefault False, column ''provider_vmid'' SaInteger NoDefault True,
        column ''provider_node'' (SaString None) NoDefault True, column ''ssh_public_key_id'' SaUuid NoDefault True,
        column ''created_at'' SaDateTime (Expression ''now()'') False,
        column ''updated_at'' SaDateTime (Expression ''now()'') False],
     t_constraints = map (named ''virtual_machines'')
       [(None, PrimaryKeyConstraint [''id'']), (None, ForeignKeyConstraint [''owner_user_id''] ''users'' [''id'']),
        (None, ForeignKeyConstraint [''ssh_public_key_id''] ''ssh_public_keys'' [''id'']),
        (Some ''vm_user_status'', CheckConstraint (InList ''status'' [''pending'', ''pending_capacity'', ''provisioning'', ''running'', ''stopped'', ''failed'', ''deleting'', ''deleted''])),
        (Some ''vm_requested_vcpus_positive'', CheckConstraint (GreaterThan ''requested_vcpus'' 0)),
        (Some ''vm_requested_memory_mb_positive'', CheckConstraint (GreaterThan ''requested_memory_mb'' 0)),
        (Some ''vm_requested_storage_gb_positive'', CheckConstraint (GreaterThan ''requested_storage_gb'' 0)),
        (Some ''vm_provider_vmid_unique'', UniqueConstraint [''provider_vmid''])],
     t_indexes = [model_index ''virtual_machines'' ''owner_user_id'', model_index ''virtual_machines'' ''ssh_public_key_id'']\<rparr>"

definition operations_table :: table where
  "operations_table = \<lparr>t_name = ''operations'',
     t_columns =
       [column ''id'' SaUuid NoDefault False, column ''virtual_machine_id'' SaUuid NoDefault False,
        column ''operation_type'' (SaString (Some 50)) NoDefault False,
        column ''status'' (SaString (Some 32)) (Literal ''pending'') False,
        column ''phase'' (SaString (Some 32)) NoDefault True,
        column ''idempotency_key'' (SaString (Some 128)) NoDefault False,
        column ''attempts'' SaInteger (Literal ''0'') False,
        column ''last_error_code'' (SaString (Some 100)) NoDefault True,
        column ''provider_task_id'' (SaString (Some 255)) NoDefault True,
        column ''created_at'' SaDateTime (Expression ''now()'') False,
        column ''updated_at'' SaDateTime (Expression ''now()'') False],
     t_constraints = map (named ''operations'')
       [(None, PrimaryKeyConstraint [''id'']),
        (None, ForeignKeyConstraint [''virtual_machine_id''] ''virtual_machines'' [''id'']),
        (Some ''operation_type_list'', CheckConstraint (InList ''operation_type'' [''vm.create'', ''vm.start'', ''vm.shutdown'', ''vm.stop'', ''vm.reboot'', ''vm.delete''])),
        (Some ''operations_status_list'', CheckConstraint (InList ''status'' [''pending'', ''processing'', ''succeeded'', ''failed''])),
        (Some ''operations_attempts_not_negative'', CheckConstraint (AtLeast ''attempts'' 0)),
        (Some ''uq_operations_idempotency_key'', UniqueConstraint [''idempotency_key''])],
     t_indexes = [model_index ''operations'' ''virtual_machine_id'', model_index ''operations'' ''status'']\<rparr>"

definition metadata :: "table list" where
  "metadata = [users_table, external_identities_table, application_sessions_table, compute_plans_table,
     user_quota_table, ssh_public_keys_table, virtual_machines_table,
     operations_table]"

end
