(* ===== verification/Hazards.thy ===== *)
theory Hazards
  imports Replies Migrations
begin

text \<open>
  Situations in which the code, as it is written, does not do what it is for. Each is stated
  for the definitions of the library, with a concrete run.
\<close>

section \<open>A VMID that Proxmox gives out again\<close>

text \<open>
  The rows of deleted machines keep their VMID, and the column is unique. Proxmox offers the
  smallest free number, which may be that of a deleted machine. The placement is then refused by
  the database, the operation stays the oldest one, and as long as the offer is the same every
  pass selects it again and fails in the same way: no operation that was updated later is
  reached.
\<close>

lemma placement_pass:
  assumes ok: "db_ok d" and sel: "select_operation now locked d = Some op"
    and op: "op_type op = ''vm.create''" "op_status op = ''pending''" "op_phase op = Some ''clone''"
    and v: "get_vm (op_vm op) d = Some v" "vm_provider_node v = None" "vm_provider_vmid v = None"
    and t: "\<And>r. fst (choose_clone_target A r p) = Inr t"
  shows "\<exists>p'. process_selected now A (open_session d p op) =
     (Inr None, (open_session d p' op)\<lparr>s_vm := Some (v\<lparr>vm_provider_node := Some (place_node t),
                                                     vm_provider_vmid := Some (place_vmid t)\<rparr>)\<rparr>)"
proof -
  have in_db: "op \<in> set (operations d)"
    by (rule selected_op(1) [OF sel])
  then obtain v' where v': "get_vm (op_vm op) d = Some v'" "row_ok (ssh_keys d) op v'"
    by (rule db_okD [OF ok])
  then have r: "row_ok (ssh_keys d) op v"
    using v(1) by simp
  obtain a where a: "abs_state op = Some a"
    by (rule row_okD [OF r])
  have task: "op_task op = None"
    using abs_state_holds [OF a] op(2) by (cases a) simp_all
  obtain req where req: "request_for (ssh_keys d) v = Some req"
    using r op(1) by (auto simp: row_ok_def)
  obtain p' where p': "choose_clone_target A req p = (Inr t, p')"
    using t [of req] by (cases "choose_clone_target A req p") simp
  let ?s = "open_session d p op"
  have "build_create_vm_request v ?s = (Inr req, ?s)"
    by (rule build_create_vm_request_eq) (simp add: open_session_def req)
  then show ?thesis
    using op v task p'
    by (simp add: process_selected_def process_create_branch_def process_create_vm_operation_def
        start_create_vm_operation_def open_session_def py_then_def py_bind_def provider_def update_vm_def Let_def)
qed

lemma vmid_uniqueD:
  assumes "vmid_unique rows" "a \<in> set rows" "b \<in> set rows" "vm_provider_vmid a = Some n" "vm_provider_vmid b = Some n"
  shows "a = b"
proof -
  have "inj_on (the \<circ> vm_provider_vmid) (set (filter (\<lambda>v. vm_provider_vmid v \<noteq> None) rows))"
    using assms(1) by (simp add: vmid_unique_def List.map_filter_def distinct_map)
  then show ?thesis
    by (rule inj_onD) (use assms(2-5) in simp_all)
qed

lemma taken_vmid_refused:
  assumes dist: "distinct (map vm_id (vms d))"
    and v: "get_vm u d = Some v" "vm_provider_vmid v = None" "vm_id v' = vm_id v" "vm_provider_vmid v' = Some n"
    and w: "w \<in> set (vms d)" "vm_provider_vmid w = Some n"
  shows "commit_rows now op (Some v') d = Inl (IntegrityError ''constraint violated'')"
proof -
  let ?d = "store_op now op d" and ?new = "touch_vm now v v'"
  have rows: "vms ?d = vms d"
    by (simp add: store_op_def split: option.split)
  have v_in: "v \<in> set (vms d)" "vm_id v = u"
    using row_get_SomeD [OF v(1)] by simp_all
  have d': "vms (store_vm now (Some v') ?d) = row_set vm_id ?new (vms d)"
    using v(1,3) v_in(2) by (simp add: store_vm_def rows)
  have "\<not> vmid_unique (row_set vm_id ?new (vms d))"
  proof
    assume unique: "vmid_unique (row_set vm_id ?new (vms d))"
    have new: "?new \<in> set (row_set vm_id ?new (vms d))" "vm_provider_vmid ?new = Some n" "vm_id ?new = vm_id v"
      using v_in v(3,4) by (auto simp: row_set_def intro!: rev_image_eqI [of v])
    have other: "vm_id w \<noteq> vm_id v"
    proof
      assume "vm_id w = vm_id v"
      then have "get_vm u d = Some w"
        using row_get_unique [OF dist w(1)] v_in(2) by simp
      then show False using v(1,2) w(2) by simp
    qed
    then have "w \<in> set (row_set vm_id ?new (vms d))"
      using w(1) new(3) by (auto simp: row_set_def intro!: rev_image_eqI [of w])
    then have "w = ?new"
      by (rule vmid_uniqueD [OF unique _ new(1) w(2) new(2)])
    with other new(3) show False by simp
  qed
  then show ?thesis
    using d' by (simp add: commit_rows_def Let_def)
qed

theorem reused_vmid_blocks:
  assumes ok: "db_ok d" and sel: "select_operation now locked d = Some op"
    and op: "op_type op = ''vm.create''" "op_status op = ''pending''" "op_phase op = Some ''clone''"
    and v: "get_vm (op_vm op) d = Some v" "vm_provider_node v = None" "vm_provider_vmid v = None"
    and t: "\<And>r. fst (choose_clone_target A r p) = Inr t"
    and w: "w \<in> set (vms d)" "vm_provider_vmid w = Some (place_vmid t)"
  shows "(\<exists>m p'. first_transaction now A locked d p = (Inl (IntegrityError m), d, p'))
     \<and> (\<forall>now' q. select_operation now' locked d = Some q \<longrightarrow> op_updated q \<le> op_updated op)"
proof (intro conjI allI impI)
  obtain p' where run: "process_selected now A (open_session d p op) =
      (Inr None, (open_session d p' op)\<lparr>s_vm := Some (v\<lparr>vm_provider_node := Some (place_node t),
                                                     vm_provider_vmid := Some (place_vmid t)\<rparr>)\<rparr>)"
    using placement_pass [OF ok sel op v t] by blast
  have "distinct (map vm_id (vms d))"
    using ok by (simp add: db_ok_def)
  from taken_vmid_refused [OF this v(1,3) _ _ w, of "v\<lparr>vm_provider_node := Some (place_node t), vm_provider_vmid := Some (place_vmid t)\<rparr>"]
  show "\<exists>m p'. first_transaction now A locked d p = (Inl (IntegrityError m), d, p')"
    using sel run by (simp add: first_transaction_def open_session_def)
next
  fix now' q
  assume q: "select_operation now' locked d = Some q"
  have "op \<in> set (filter (\<lambda>op. eligible now' op \<and> op_id op \<notin> set locked) (operations d))"
    using selected_op [OF sel] op by (simp add: eligible_def)
  with q show "op_updated q \<le> op_updated op"
    unfolding select_operation_def by (rule first_min_least)
qed

section \<open>A reply that comes after its command was given up\<close>

text \<open>
  The outcome of a power command is stored without a check of which command it answers. A
  reboot shuts the machine down and starts it. When the reply to the shutdown comes after the
  grace, another worker may have found the machine stopped and sent the start: the task of the
  shutdown is then stored as the task of the start.
\<close>

theorem late_shutdown_taken_for_start:
  assumes "op_type (s_op s) = ''vm.reboot''" "op_status (s_op s) = ''processing''"
    and "op_phase (s_op s) = Some ''dispatch_reboot_start''" "op_task (s_op s) = None"
    and "s_vm s = Some v" "vm_provider_node v = Some (task_node t)" "vm_provider_vmid v = Some (task_vmid t)"
  shows "\<exists>s'. finish_dispatch now (LifecycleDispatch oid vid ''shutdown'' target) (TaskReply (Some t)) s = (Inr (), s')
     \<and> op_task (s_op s') = Some (task_id t) \<and> op_phase (s_op s') = Some ''start''"
  using assms
  by (simp add: finish_dispatch_def finish_lifecycle_dispatch_def finish_lifecycle_task_def get_lifecycle_vm_def
      py_then_def py_bind_def update_op_def Let_def)

section \<open>The operations of the backfill\<close>

text \<open>
  The migration that creates the table of operations adds a create operation for every pending
  machine. The column \<open>phase\<close> comes five revisions later and is null in these rows, and a create
  without a phase is one the worker raises on. They are the oldest rows of the table: every pass
  selects one of them, raises and changes nothing, and no other operation is ever served.
\<close>

theorem backfilled_create_blocks:
  assumes v: "backfilled_operation t v \<in> set (operations d)" "vm_id v \<notin> set locked"
    and old: "\<forall>q\<in>set (operations d). op_updated q \<le> t \<longrightarrow> (\<exists>w. q = backfilled_operation t w)"
  shows "first_transaction now A locked d p = (Inl (RuntimeError ''unsupported create phase: None''), d, p)"
proof -
  let ?ops = "filter (\<lambda>op. eligible now op \<and> op_id op \<notin> set locked) (operations d)"
  have mem: "backfilled_operation t v \<in> set ?ops"
    using v by (simp add: eligible_def backfilled_operation_def)
  have "first_min op_updated ?ops \<noteq> None"
  proof
    assume "first_min op_updated ?ops = None"
    then have "?ops = []"
      by (simp only: first_min_None)
    with mem show False
      by (simp only: list.set empty_iff)
  qed
  then obtain op where sel: "first_min op_updated ?ops = Some op"
    by blast
  have "op_updated op \<le> t"
    using first_min_least [OF sel mem] by (simp add: backfilled_operation_def)
  moreover have "op \<in> set (operations d)"
    using first_min_in [OF sel] by simp
  ultimately obtain w where w: "op = backfilled_operation t w"
    using old by blast
  have "process_selected now A (open_session d p op)
      = (Inl (RuntimeError ''unsupported create phase: None''), open_session d p op)"
    by (simp add: w backfilled_operation_def process_selected_def process_create_branch_def open_session_def Let_def)
  then show ?thesis
    using sel by (simp add: first_transaction_def select_operation_def open_session_def)
qed

end
