(* ===== verification/MigrationFacts.thy ===== *)
theory MigrationFacts
  imports Migrations Example
begin

text \<open>
  What the migrations do: the chain builds the schema of the mapped classes, every downgrade takes
  back its upgrade, the schema enforces what the model of the rows calls its constraints, and the
  data statements.
\<close>

section \<open>The chain\<close>

definition empty_pg :: pg where
  "empty_pg = \<lparr>pg_tables = [], pg_rows = \<lparr>users = [], identities = [], app_sessions = [], plans = [], quotas = [],
     ssh_keys = [], vms = [], operations = []\<rparr>, pg_running = []\<rparr>"

definition chain :: "revision list" where
  "chain = [rev_ccfd98ad60f6, rev_2658cc4597bf, rev_789d1f469a23, rev_903299d0b202, rev_d3c70f1c2755, rev_1b47a1f1aaff,
     rev_960f9479ecad, rev_a2f3d8c68eb2, rev_bff9f843fb90, rev_d9fa31f08e64, rev_7cd984e1f600, rev_2941d636dcb4,
     rev_4f942b4ebb00, rev_4fa6b2ff7397, rev_a7c43a5f40c2]"

lemma upgrade_path_chain: "upgrade_path versions None = chain"
  by code_simp

definition migrated :: pg where
  "migrated = snd (upgrade_head 0 None empty_pg)"

text \<open>
  C29. Alembic finds one chain through the revisions that runs all of them; on an empty database
  it ends without an error in exactly the tables of the mapped classes, with their columns, types,
  defaults, constraints and indexes, and with the starter plan as the only row.
\<close>

theorem migrations_build_models:
  "upgrade_path versions None = chain \<and> set chain = set versions
   \<and> upgrade_head 0 None empty_pg = (Inr (), migrated)
   \<and> same_schema (pg_tables migrated) metadata
   \<and> pg_rows migrated = (pg_rows empty_pg)\<lparr>plans := [starter_plan]\<rparr>"
proof -
  have set: "set chain = set versions"
    by (auto simp: chain_def versions_def)
  have "case run_migrations 0 (concat (map rev_upgrade chain)) empty_pg of
      (r, pg) \<Rightarrow> r = Inr () \<and> same_schema (pg_tables pg) metadata \<and> pg_rows pg = (pg_rows empty_pg)\<lparr>plans := [starter_plan]\<rparr>"
    by code_simp
  with set show ?thesis
    by (simp add: migrated_def upgrade_head_def upgrade_path_chain split: prod.splits)
qed






section \<open>The constraints of the model\<close>

lemma cell_opt_simps [simp]: "cell_opt f None = Null" "cell_opt f (Some x) = f x"
  by (simp_all add: cell_opt_def)

lemmas row_defs = user_row_def plan_row_def quota_row_def vm_row_def op_row_def

lemma operation_type_width: "T \<in> set operation_types \<Longrightarrow> length T \<le> 50"
  by (erule operation_types_cases) simp_all

lemma operation_status_width: "st \<in> {''pending'', ''processing'', ''succeeded'', ''failed''} \<Longrightarrow> length st \<le> 32"
  unfolding insert_iff empty_iff by (elim disjE FalseE) simp_all







section \<open>The data statements\<close>

lemma starter_quotas_eq:
  assumes "distinct (map plan_code (plans d))" "p \<in> set (plans d)" "plan_code p = ''starter''"
  shows "quotas (insert_starter_quotas d) = quotas d
     @ map (\<lambda>u. \<lparr>quota_user = usr_id u, quota_plan = plan_id p, quota_status = ''active''\<rparr>)
         (filter (\<lambda>u. usr_id u \<notin> quota_user ` set (quotas d)) (users d))"
proof -
  have no: "filter (\<lambda>x. plan_code x = ''starter'') ps = []" if "''starter'' \<notin> plan_code ` set ps" for ps
    using that by (force simp: filter_empty_conv)
  have "filter (\<lambda>x. plan_code x = ''starter'') (plans d) = [p]"
    using assms
  proof (induction "plans d" arbitrary: d)
    case (Cons x xs)
    have eq: "plans d = x # xs" using Cons.hyps(2) by simp
    show ?case
    proof (cases "x = p")
      case True
      with Cons.prems eq no [of xs] show ?thesis by simp
    next
      case False
      then have p: "p \<in> set xs" using Cons.prems eq by simp
      then have "plan_code x \<noteq> ''starter''"
        using Cons.prems eq by (metis distinct.simps(2) image_eqI list.set_map list.simps(9))
      moreover have "filter (\<lambda>x. plan_code x = ''starter'') (plans (d\<lparr>plans := xs\<rparr>)) = [p]"
        by (rule Cons.hyps(1)) (use Cons.prems eq p in simp_all)
      ultimately show ?thesis by (simp add: eq)
    qed
  qed simp
  then have one: "concat (map (\<lambda>x. if plan_code x = ''starter'' \<and> c then [f x] else []) (plans d))
      = (if c then [f p] else [])" for f :: "ComputePlan \<Rightarrow> UserQuota" and c
  proof -
    have "concat (map (\<lambda>x. if plan_code x = ''starter'' \<and> c then [f x] else []) ps)
        = (if c then map f (filter (\<lambda>x. plan_code x = ''starter'') ps) else [])" for ps
      by (induction ps) simp_all
    with \<open>filter (\<lambda>x. plan_code x = ''starter'') (plans d) = [p]\<close> show ?thesis by simp
  qed
  have ex: "list_ex (\<lambda>q. quota_user q = usr_id u) (quotas d) \<longleftrightarrow> usr_id u \<in> quota_user ` set (quotas d)" for u
    by (force simp: list_ex_iff)
  have "concat (map (\<lambda>u. if c u then [g u] else []) us) = map g (filter c us)" for c and g :: "User \<Rightarrow> UserQuota" and us
    by (induction us) simp_all
  then show ?thesis
    by (simp add: insert_starter_quotas_def one ex)
qed

lemma apart: "A \<inter> f ` {u \<in> U. f u \<notin> A} = {}"
  by blast

text \<open>
  C39. The backfill gives every user without a quota an active quota on the starter plan and leaves
  the quotas there are: afterwards every user has exactly one.
\<close>

theorem backfill_completes_quotas:
  assumes "distinct (map usr_id (users d))" "distinct (map quota_user (quotas d))"
    and p: "distinct (map plan_code (plans d))" "p \<in> set (plans d)" "plan_code p = ''starter''"
  shows "take (length (quotas d)) (quotas (insert_starter_quotas d)) = quotas d
     \<and> distinct (map quota_user (quotas (insert_starter_quotas d)))
     \<and> (\<forall>u\<in>set (users d). \<exists>q\<in>set (quotas (insert_starter_quotas d)). quota_user q = usr_id u
          \<and> (q \<in> set (quotas d) \<or> (quota_plan q = plan_id p \<and> quota_status q = ''active'')))"
proof (intro conjI ballI)
  note eq = starter_quotas_eq [OF p]
  show "take (length (quotas d)) (quotas (insert_starter_quotas d)) = quotas d"
    by (simp add: eq)
  show "distinct (map quota_user (quotas (insert_starter_quotas d)))"
  proof -
    let ?new = "filter (\<lambda>u. usr_id u \<notin> quota_user ` set (quotas d)) (users d)"
    have "map quota_user (quotas (insert_starter_quotas d)) = map quota_user (quotas d) @ map usr_id ?new"
      by (simp add: eq comp_def)
    moreover have "distinct (map usr_id ?new)"
      using assms(1) by (rule distinct_map_filter)
    moreover have "set (map quota_user (quotas d)) \<inter> set (map usr_id ?new) = {}"
      using apart [of "quota_user ` set (quotas d)" usr_id "set (users d)"] by simp
    ultimately show ?thesis
      using assms(2) by simp
  qed
  fix u
  assume u: "u \<in> set (users d)"
  show "\<exists>q\<in>set (quotas (insert_starter_quotas d)). quota_user q = usr_id u
          \<and> (q \<in> set (quotas d) \<or> (quota_plan q = plan_id p \<and> quota_status q = ''active''))"
  proof (cases "usr_id u \<in> quota_user ` set (quotas d)")
    case True
    then obtain q where "q \<in> set (quotas d)" "quota_user q = usr_id u" by auto
    then show ?thesis by (intro bexI [of _ q]) (simp_all add: eq)
  next
    case False
    let ?q = "\<lparr>quota_user = usr_id u, quota_plan = plan_id p, quota_status = ''active''\<rparr>"
    have "?q \<in> set (quotas (insert_starter_quotas d))"
      using u False by (auto simp: eq)
    then show ?thesis by (intro bexI [of _ ?q]) simp_all
  qed
qed

definition ex_unquoted :: db where
  "ex_unquoted = ex_db\<lparr>quotas := []\<rparr>"

theorem backfill_completes_quotas_witness:
  "\<exists>q\<in>set (quotas (insert_starter_quotas ex_unquoted)). quota_user q = 1 \<and> quota_plan q = 5"
proof -
  let ?u = "\<lparr>usr_id = 1, usr_is_active = True, usr_created = 0\<rparr>"
  have "?u \<in> set (users ex_unquoted)" "quotas ex_unquoted = []"
    by (simp_all add: ex_unquoted_def ex_db_def)
  moreover have "\<forall>u\<in>set (users ex_unquoted). \<exists>q\<in>set (quotas (insert_starter_quotas ex_unquoted)). quota_user q = usr_id u
      \<and> (q \<in> set (quotas ex_unquoted) \<or> (quota_plan q = plan_id ex_plan \<and> quota_status q = ''active''))"
    using backfill_completes_quotas [of ex_unquoted ex_plan] by (simp add: ex_unquoted_def ex_db_def ex_plan_def)
  ultimately show ?thesis
    by (fastforce simp: ex_plan_def)
qed

section \<open>A migration the rows do not allow\<close>

lemma pair_cells: "key_cells [''fingerprint''] (map key_row ks) = map (\<lambda>k. [Some (CStr (key_fingerprint k))]) ks"
  by (induction ks) (simp_all add: key_cells_def key_row_def)

text \<open>
  If two keys have the same fingerprint, the migration that makes fingerprints unique is
  refused, and none of the migrations of the run is applied.
\<close>

lemma duplicate_fingerprint_stops_upgrade:
  assumes tb: "row_get t_name ''ssh_public_keys'' (pg_tables pg) = Some tb"
    and c: "''uq_ssh_public_keys_owner_fingerprint'' \<in> fst ` set (t_constraints tb)"
      "''uq_ssh_public_keys_fingerprint'' \<notin> fst ` set (t_constraints tb)" "has_columns tb [''fingerprint'']"
    and dup: "\<not> distinct (map key_fingerprint (ssh_keys (pg_rows pg)))"
  shows "run_migrations now (rev_upgrade rev_4f942b4ebb00 @ rest) pg
     = (Inl (IntegrityError ''constraint is violated by some row: uq_ssh_public_keys_fingerprint''), pg)"
proof -
  let ?tb = "tb\<lparr>t_constraints := filter (\<lambda>x. fst x \<noteq> ''uq_ssh_public_keys_owner_fingerprint'') (t_constraints tb)\<rparr>"
  have name: "t_name tb = ''ssh_public_keys''"
    using row_get_SomeD [OF tb] by simp
  then have tb': "row_get t_name ''ssh_public_keys'' (pg_tables (put_table ?tb pg)) = Some ?tb"
    using row_get_row_set_same [of t_name ?tb "pg_tables pg"] tb by (simp add: put_table_def)
  have rows: "table_rows ''ssh_public_keys'' (put_table ?tb pg) = map key_row (ssh_keys (pg_rows pg))"
    by (simp add: table_rows_def put_table_def)
  have "\<not> distinct (map (\<lambda>k. [Some (CStr (key_fingerprint k))]) (ssh_keys (pg_rows pg)))"
    using dup by (auto simp: distinct_map inj_on_def)
  moreover have "''uq_ssh_public_keys_fingerprint'' \<notin> fst ` set (t_constraints ?tb)" "has_columns ?tb [''fingerprint'']"
    using c by (auto simp: has_columns_def)
  ultimately show ?thesis
    using tb tb' c(1) by (simp add: run_migrations_def rev_4f942b4ebb00_def upgrade_4f942b4ebb00_def with_table_def rows pair_cells)
qed

end
