(* ===== verification/DocsCheck.thy ===== *)
theory DocsCheck
  imports ClusterUser
begin








section \<open>Links\<close>








section \<open>Metadata\<close>










section \<open>The history\<close>














section \<open>The root, and the script\<close>



section \<open>What the script checks\<close>




lemma drop_takeWhile_stop: "c \<in> set s \<Longrightarrow> drop (length (takeWhile (\<lambda>x. x \<noteq> c) s)) s = c # drop (Suc (length (takeWhile (\<lambda>x. x \<noteq> c) s))) s"
  by (induction s) auto


























end
