(* ===== verification/Spec2Isabelle.thy ===== *)
theory Spec2Isabelle
  imports SystemFacts Orders Replies KeyFacts WebFacts PortalFacts ClusterUserFacts WorkerConfig Progress RowTypes
    Hazards MigrationFacts DocsCheck
begin

text \<open>
  The portal of server-npd lets users order virtual machines from a Proxmox cluster. This
  library models its Python code (src/portal/app, src/portal/alembic,
  scripts/create-cluster-user.py and scripts/check-docs.py) as functions over explicit states and proves what the code
  relies on.

  The parts of the program and how they interact. A request handler checks the request against
  the database and inserts rows: a virtual machine and an operation (create), or an operation on
  an existing machine (start, shutdown, stop, reboot, delete). Workers take operations from the
  table one at a time. A worker's first transaction selects an operation, polls or reconciles
  what is in flight, or marks the next command as being dispatched; it then sends that command
  to the provider with no transaction open, and a second transaction stores what came back. A
  worker may crash between any two of these. The provider is Proxmox behind an HTTP adapter, or
  an in-memory fake. Users sign in through an identity provider, hold sessions, store SSH keys
  and use either the programming interface or the forms of the dashboard; the routes decide
  which of this needs a session and a CSRF token. The migrations build the tables. The script is
  a program of its own, which creates logins on the hosts of the cluster.

  Conventions. A table is a list of records, a transaction is a function from the database to an
  exception or a value and the database it leaves. An \<open>async def\<close> that mutates ORM objects
  is a function over a session record that holds those objects. Exceptions are the datatype
  \<open>exc\<close>; the texts of exceptions are kept except for the repr of values that are not integers
  or strings. A \<open>string\<close> is the list of the bytes of a text, a UUID a 128-bit word, times are
  microseconds. A clock reading is an argument; the several readings of one transaction are
  taken to be equal. Logging is left out.

  Theories.
  \<^item> \<open>Prelude\<close>: exceptions, the state and exception monad with its rules, strings, \<open>LIKE\<close>,
    decimal numerals, rows of a table. \<open>PyStd\<close>: \<open>int(text, base)\<close>, UUID texts,
    \<open>str.split\<close>.
  \<^item> \<open>Contracts\<close> (proxmox/contracts.py): the provider as a record of methods. The locale
    \<open>provider_commands\<close> says what the worker relies on in the reply of a command, the locale
    \<open>provider_contract\<close> adds the vocabulary of the status queries.
  \<^item> \<open>Models\<close> (the models.py files): tables, constraints, commit.
  \<^item> \<open>OperationCore\<close>, \<open>CreateFlow\<close>, \<open>StartFlow\<close>, \<open>LifecycleFlow\<close>
    (operations/services.py): every step of an operation. \<open>Worker\<close>
    (workers/operation_worker.py): selection, the two transactions, the command, the loop.
  \<^item> \<open>Compute\<close> (compute/services.py, compute/router.py): usage, quotas. \<open>VmServices\<close>
    (virtual_machines/services.py, router.py, schemas.py): orders.
  \<^item> \<open>Fake\<close> (proxmox/fake.py): the in-memory provider; it interprets the provider contract.
    \<open>Transport\<close>: JSON, URL quoting, requests and responses over an HTTP library that is a
    parameter. \<open>Client\<close> (proxmox/client.py), \<open>HttpAdapter\<close> (proxmox/http_adapter.py): every
    request and every method; the adapter interprets the provider contract.
    \<open>WorkerConfig\<close> (workers/config.py, adapter.py): which provider a worker uses.
  \<^item> \<open>Base64\<close>, \<open>SshKeys\<close> (ssh_keys/): reading, storing, importing and generating keys, over the
    cryptography package as a parameter. \<open>Identity\<close> (identity/): CSRF tokens, sessions, users
    and sign-in, over the digests as parameters. \<open>Web\<close> (web/router.py): the dashboard and its
    forms. \<open>Accounts\<close>: the invariant \<open>accounts_ok\<close> of these tables, kept by every service.
  \<^item> \<open>Portal\<close> (main.py, core/config.py, identity/oidc.py, system/router.py and the decorators of
    the routers): settings, routes with their dependencies, and the way of a request through
    route, dependencies and endpoint.
  \<^item> \<open>Schema\<close>: tables as Alembic and SQLAlchemy declare them, the rows of the model read as
    columns, and the documented effect of Alembic's directives on PostgreSQL. \<open>Migrations\<close>
    (alembic/versions, alembic/env.py, the models.py files): each revision up and down, the
    chain, the transaction of a run and the declared tables. The chain never drops a column that a
    constraint or an index still mentions, so that such a drop has no case of its own.
  \<^item> \<open>ClusterUser\<close> (scripts/create-cluster-user.py): the script, over the execution of commands
    as a parameter.
  \<^item> \<open>DocsCheck\<close> (scripts/check-docs.py): the check of the documents, over the files of the
    repository, with what its success means.
  \<^item> \<open>Lifecycle\<close>: the abstract machine of an operation. A command is ready, in flight,
    tracked by a task or held for review; \<open>abs_state\<close> reads the state off a row and
    \<open>spec_step\<close> says which moves are allowed and what they do to the machine's status.
    \<open>StepRules\<close>, \<open>CreateSteps\<close>, \<open>LifecycleSteps\<close>, \<open>WorkerSteps\<close>: every function of
    the operation code makes such a step. \<open>DbInvariant\<close>, \<open>DbSteps\<close>, \<open>VmInvariant\<close>: the
    invariant \<open>db_ok\<close> of the tables and the quota invariant, kept by both transactions of
    the worker and by orders.
  \<^item> \<open>System\<close>: workers and requests (orders, keys, sign-in, sign-out, authentication) interleaved at
    their transactions, with crashes and a provider that may change arbitrarily; \<open>SystemFacts\<close>:
    what follows for every reachable state. \<open>Example\<close>: concrete runs that the witnesses use.
  \<^item> Properties, each after a text that begins with its number: here those of the running
    system; \<open>Orders\<close>: what an order does; \<open>Progress\<close>: that workers finish what was ordered;
    \<open>HttpSafety\<close> and \<open>Replies\<close>: which requests a command makes and that its reply can be
    stored; \<open>RowTypes\<close>: that rows stay well formed; \<open>KeyFacts\<close>, \<open>SignIn\<close>, \<open>WebFacts\<close>,
    \<open>PortalFacts\<close>: keys, sessions, pages and requests; \<open>MigrationFacts\<close>: the schema;
    \<open>ClusterUserFacts\<close>: the script. \<open>Hazards\<close>: three situations in which the code does not do
    what it is for, each with a run that leads there.

  What the groups of lemmas show. Refinement: each transaction of a worker is one step of the
  abstract machine, a command leaves the worker only with the step that submits it, and every
  request is a sequence of steps of \<open>System\<close>. Safety: no command is sent twice and every command
  goes to the machine of its operation; nothing changes without a session and its CSRF token,
  and users do not see or touch what belongs to others. Invariants: one active operation per
  machine, statuses of operation and machine fit together, quotas hold, placements are
  permanent, accounts stay consistent, ended sessions stay ended, rows keep their constraints.
  Termination: with a provider that answers at once (the locale \<open>prompt_provider\<close>, which extends
  the provider contract and is interpreted by the in-memory provider) a worker finishes every
  operation. Errors: what a failing pass leaves behind, how lost races are answered. Round trips:
  fingerprints, deployed keys, revisions up and down. Equivalence: the migrations and the mapped
  classes describe one schema, whose constraints are those the model of the rows uses.
  Everything holds for any provider; only theorems about replies and about termination assume
  its contract.

  Bounds. \<open>System\<close> has no bound on steps, workers or rows. \<open>run_worker\<close> takes the list of the
  clock readings of its passes, since the loop itself never ends; nine passes for every active
  operation are enough to finish them, because a create needs at most nine (its placement, the
  three commands and the start, each sent in one pass and confirmed in the next) and the measure
  \<open>work\<close> falls with every pass. \<open>upgrade_path\<close> ends because each revision is taken once. The
  row locks of the two order services appear as the hypotheses \<open>quota_locked\<close> and \<open>vm_locked\<close>
  of their steps (\<open>reads_hold\<close> for a request): what was read under the lock is still so at the
  flush. Likewise \<open>accounts_grow\<close>, for a sign-in: users and identities that were read are still
  there. The script tries the numbers from 20000 to 29999.

  Not modelled. The rendering of the templates, the database engine and its isolation levels
  other than the row locks above (db/session.py and db/base.py are objects of SQLAlchemy), the
  OIDC library, the routes that FastAPI adds for its own documentation, the offline mode of the
  migrations, what a shell does with the script it is sent, and everything that is not Python (Ansible, Nix, documents, measurements).
\<close>

section \<open>Properties of the running system\<close>

lemma reachable_db_ok:
  "initial y\<^sub>0 \<Longrightarrow> reachable A y\<^sub>0 y \<Longrightarrow> db_ok (y_db y) \<and> quota_ok (y_db y)"
  using reachable_ok by (auto simp: sys_ok_def)

text \<open>
  C1. However workers and requests interleave, whichever worker crashes and whatever the
  provider answers, no command of an operation is sent to the provider twice.
\<close>

theorem commands_sent_at_most_once:
  assumes "initial y\<^sub>0" "reachable A y\<^sub>0 y"
  shows "distinct (map dispatch_command (y_sent y))"
  using reachable_ok [OF assms(2,1)] by (simp add: sys_ok_def)

theorem commands_sent_at_most_once_witness:
  "distinct (map dispatch_command (y_sent ex_sent)) \<and> y_sent ex_sent = [ex_clone]"
  using commands_sent_at_most_once [OF ex_initial ex_sent_reachable] by (simp add: ex_sent_def)

text \<open>
  C13. Every command that was sent belongs to an operation that exists, names that operation's
  virtual machine, goes to the node and the VMID at which the machine was placed, and is one of
  the commands the operation has counted in \<open>attempts\<close>.
\<close>

theorem commands_go_to_their_machine:
  assumes "initial y\<^sub>0" "reachable A y\<^sub>0 y" "c \<in> set (y_sent y)"
  shows "\<exists>op v. get_op (dispatch_op c) (y_db y) = Some op \<and> get_vm (op_vm op) (y_db y) = Some v
     \<and> dispatch_vm c = vm_id v \<and> vm_provider_node v = Some (place_node (dispatch_target c))
     \<and> vm_provider_vmid v = Some (place_vmid (dispatch_target c))
     \<and> snd (dispatch_command c) \<in> set (take (nat (op_attempts op)) (commands (op_type op)))"
  using reachable_ok [OF assms(2,1)] assms(3) unfolding sys_ok_def recorded_def at_place_def by blast

theorem commands_go_to_their_machine_witness:
  "\<exists>op v. get_op 3 (y_db ex_sent) = Some op \<and> get_vm (op_vm op) (y_db ex_sent) = Some v
     \<and> vm_provider_node v = Some ''fake-node'' \<and> vm_provider_vmid v = Some 100002"
  using commands_go_to_their_machine [OF ex_initial ex_sent_reachable, of ex_clone]
  by (auto simp: ex_sent_def ex_clone_def)

text \<open>
  C14. \<open>attempts\<close> counts command submissions: no more commands of an operation are prepared or
  sent than its \<open>attempts\<close>, and that never exceeds the number of commands the operation has.
\<close>

theorem attempts_count_commands:
  assumes "initial y\<^sub>0" "reachable A y\<^sub>0 y" "get_op oid (y_db y) = Some op"
  shows "int (length (filter (\<lambda>c. dispatch_op c = oid) (y_prepared y @ y_sent y))) \<le> op_attempts op
     \<and> op_attempts op \<le> int (length (commands (op_type op)))"
proof -
  have ok: "sys_ok y"
    by (rule reachable_ok [OF assms(2,1)])
  have "length (filter (\<lambda>c. dispatch_op c = oid) (y_prepared y @ y_sent y)) \<le> nat (op_attempts op)"
    by (rule commands_counted [OF _ _ assms(3)]) (use ok in \<open>auto simp: sys_ok_def\<close>)
  moreover have "0 \<le> op_attempts op \<and> op_attempts op \<le> int (length (commands (op_type op)))"
    by (rule attempts_bounded [OF _ assms(3)]) (use ok in \<open>simp add: sys_ok_def\<close>)
  ultimately show ?thesis by linarith
qed

lemma ex_sent_op: "get_op 3 (y_db ex_sent) = Some ex_marked_op"
  by (simp add: ex_sent_def ex_marked_def new_operation_def row_get_Cons)

lemma ex_sent_vm: "get_vm 2 (y_db ex_sent) = Some ex_vm2"
  by (simp add: ex_sent_def ex_marked_def new_vm_def row_get_Cons)

theorem attempts_count_commands_witness:
  "int (length (filter (\<lambda>c. dispatch_op c = 3) (y_prepared ex_sent @ y_sent ex_sent))) \<le> op_attempts ex_marked_op
     \<and> op_attempts ex_marked_op \<le> int (length (commands (op_type ex_marked_op)))"
  by (rule attempts_count_commands [OF ex_initial ex_sent_reachable ex_sent_op])

lemma length_le_1: "(\<And>x z. x \<in> set xs \<Longrightarrow> z \<in> set xs \<Longrightarrow> x = z) \<Longrightarrow> distinct xs \<Longrightarrow> length xs \<le> 1"
  using card_le_Suc0_iff_eq [of "set xs"] distinct_card [of xs] by auto

text \<open>
  C4. A virtual machine never has more than one active operation.
\<close>

theorem one_active_operation:
  assumes "initial y\<^sub>0" "reachable A y\<^sub>0 y"
  shows "length (filter (\<lambda>op. active op \<and> op_vm op = vid) (operations (y_db y))) \<le> 1"
proof -
  let ?ops = "filter (\<lambda>op. active op \<and> op_vm op = vid) (operations (y_db y))"
  have ok: "one_active (operations (y_db y))" "distinct (map op_id (operations (y_db y)))"
    using reachable_db_ok [OF assms] by (simp_all add: db_ok_def)
  then have "x = z" if "x \<in> set ?ops" "z \<in> set ?ops" for x z
    using that by (simp add: one_active_def)
  moreover have "distinct ?ops"
    using ok(2) by (simp add: distinct_map)
  ultimately show ?thesis
    by (rule length_le_1)
qed

theorem one_active_operation_witness:
  "length (filter (\<lambda>op. active op \<and> op_vm op = 2) (operations (y_db ex_sent))) \<le> 1"
  by (rule one_active_operation [OF ex_initial ex_sent_reachable])

lemma ex_marked_active: "ex_marked_op \<in> set (operations (y_db ex_sent)) \<and> active ex_marked_op"
  by (simp add: ex_sent_def ex_marked_def active_def)

text \<open>
  C7. An active operation is in one of the states of its abstract machine, its virtual machine
  exists, and the status of the virtual machine is one that goes with that state: a machine
  being created is pending or provisioning, one being started is stopped until the start is
  confirmed, and so on.
\<close>

theorem active_operation_matches_vm:
  assumes "initial y\<^sub>0" "reachable A y\<^sub>0 y" "op \<in> set (operations (y_db y))" "active op"
  shows "\<exists>a v. abs_state op = Some a \<and> a \<noteq> Done \<and> a \<noteq> Failed \<and> get_vm (op_vm op) (y_db y) = Some v
     \<and> coherent (op_type op) a (vm_status v) \<and> submitted_ok (op_type op) a (op_attempts op)"
proof -
  have ok: "db_ok (y_db y)"
    using reachable_db_ok [OF assms(1,2)] by simp
  obtain v where v: "get_vm (op_vm op) (y_db y) = Some v" "row_ok (ssh_keys (y_db y)) op v"
    by (rule db_okD [OF ok assms(3)])
  from v(2) obtain a where "abs_state op = Some a" "coherent (op_type op) a (vm_status v)"
      "submitted_ok (op_type op) a (op_attempts op)"
    by (rule row_okD)
  with v active_astate assms(4) show ?thesis by blast
qed

theorem active_operation_matches_vm_witness:
  "\<exists>a v. abs_state ex_marked_op = Some a \<and> a \<noteq> Done \<and> a \<noteq> Failed \<and> get_vm 2 (y_db ex_sent) = Some v
     \<and> coherent ''vm.create'' a (vm_status v)"
  using active_operation_matches_vm [OF ex_initial ex_sent_reachable conjunct1 [OF ex_marked_active]
      conjunct2 [OF ex_marked_active]] by (auto simp: new_operation_def)

text \<open>
  C3. The virtual machines that consume a user's quota stay within the limits of the user's plan,
  in number, vCPUs, memory and storage.
\<close>

theorem quota_never_exceeded:
  assumes "initial y\<^sub>0" "reachable A y\<^sub>0 y" "row_get quota_user u (quotas (y_db y)) = Some q"
    and "row_get plan_id (quota_plan q) (plans (y_db y)) = Some p"
  shows "used_vms (get_user_compute_usage u (y_db y)) \<le> max_vms p
     \<and> used_vcpus (get_user_compute_usage u (y_db y)) \<le> max_total_vcpus p
     \<and> used_memory_mb (get_user_compute_usage u (y_db y)) \<le> max_total_memory_mb p
     \<and> used_storage_gb (get_user_compute_usage u (y_db y)) \<le> max_total_storage_gb p"
proof -
  have "q \<in> set (quotas (y_db y))" "quota_user q = u"
    using row_get_SomeD [OF assms(3)] by simp_all
  then have "fits_plan (get_user_compute_usage u (y_db y)) p"
    using reachable_db_ok [OF assms(1,2)] assms(3,4) by (auto simp: quota_ok_def)
  then show ?thesis
    by (simp add: fits_plan_def)
qed

lemma ex_sent_quota: "row_get quota_user 1 (quotas (y_db ex_sent)) = Some \<lparr>quota_user = 1, quota_plan = 5, quota_status = ''active''\<rparr>"
    "row_get plan_id 5 (plans (y_db ex_sent)) = Some ex_plan"
  by (simp_all add: ex_sent_def ex_marked_def ex_db_def row_get_Cons ex_plan_def)

theorem quota_never_exceeded_witness:
  "used_vms (get_user_compute_usage 1 (y_db ex_sent)) \<le> 2 \<and> used_vcpus (get_user_compute_usage 1 (y_db ex_sent)) \<le> 4"
  using quota_never_exceeded [OF ex_initial ex_sent_reachable ex_sent_quota(1)] ex_sent_quota(2)
  by (simp add: ex_plan_def)

text \<open>
  C8. The first transaction of a worker refines the abstract machine: when it finds an operation,
  the operation is eligible and makes a step of \<open>spec_step\<close>, the status of its virtual machine
  changes as the step says, and the command handed over for dispatch is the command of the step
  (none, unless the step submits one).
\<close>

theorem worker_pass_refines:
  assumes "db_ok d" "first_transaction now A locked d p = (Inr (True, disp), d', p')"
  shows "\<exists>op v op' v' l a a'. select_operation now locked d = Some op \<and> eligible now op
     \<and> get_vm (op_vm op) d = Some v \<and> d' = stored now op v op' v' d
     \<and> abs_state op = Some a \<and> abs_state op' = Some a'
     \<and> spec_step (op_type op) (a, vm_status v) l (a', vm_status v') \<and> dispatches op v' l disp"
  using assms
proof (cases rule: first_transaction_cases)
  case (step op v op' v' l disp')
  then have "moves l op v op' v'" "get_vm (op_vm op) d = Some v" "eligible now op"
    using selected_op by (auto simp: step_in_def)
  with step show ?thesis
    unfolding moves_def by (metis Inr_inject prod.inject)
qed simp_all

lemma ex_placed_ok: "db_ok (ex_db\<lparr>vms := [ex_vm2], operations := [ex_op]\<rparr>)"
proof -
  have "reachable ex_adapter ex_start ex_y2"
    by (rule reachable.step [OF reachable.step [OF reachable.init ex_step1] ex_step2])
  from reachable_db_ok [OF ex_initial this] show ?thesis
    by (simp add: ex_y2_def)
qed

theorem worker_pass_refines_witness:
  "\<exists>op v op' v' l a a'. select_operation 3000 [] (ex_db\<lparr>vms := [ex_vm2], operations := [ex_op]\<rparr>) = Some op
     \<and> spec_step (op_type op) (a, vm_status v) l (a', vm_status v') \<and> dispatches op v' l (Some ex_clone)
     \<and> ex_marked = stored 3000 op v op' v' (ex_db\<lparr>vms := [ex_vm2], operations := [ex_op]\<rparr>)"
  using worker_pass_refines [OF ex_placed_ok ex_pass2] by blast

text \<open>
  C9. The second transaction refines it too: whatever the command returned or raised, storing it
  either leaves the database alone or makes one step that submits nothing.
\<close>

theorem stored_outcome_refines:
  assumes "db_ok d" "get_op (dispatch_op c) d = Some op" "dispatch_for (op_type op) c"
  shows "store_outcome now c res d = d
     \<or> (\<exists>v op' v' a a'. get_vm (op_vm op) d = Some v \<and> store_outcome now c res d = stored now op v op' v' d
          \<and> abs_state op = Some a \<and> abs_state op' = Some a'
          \<and> spec_step (op_type op) (a, vm_status v) None (a', vm_status v')
          \<and> op_attempts op' = op_attempts op)"
proof -
  have disp: "dispatch_for (op_type q) c" if "get_op (dispatch_op c) d = Some q" for q
    using assms that by simp
  consider "store_outcome now c res d = d"
    | q v q' v' where "get_op (dispatch_op c) d = Some q" "step_in d None q v q' v'"
        "store_outcome now c res d = stored now q v q' v' d"
    using store_outcome_cases [OF assms(1) disp] by metis
  then show ?thesis
  proof cases
    case (2 q v q' v')
    with assms(2) have "q = op" by simp
    with 2 have "moves None op v q' v'" "get_vm (op_vm op) d = Some v"
      by (simp_all add: step_in_def)
    with 2(3) \<open>q = op\<close> show ?thesis
      unfolding moves_def by auto
  qed simp
qed

lemma ex_marked_ok: "db_ok ex_marked"
  using reachable_db_ok [OF ex_initial ex_sent_reachable] by (simp add: ex_sent_def)

lemma ex_marked_get: "get_op (dispatch_op ex_clone) ex_marked = Some ex_marked_op"
  using ex_sent_op by (simp add: ex_sent_def ex_clone_def)

theorem stored_outcome_refines_witness:
  "store_outcome 4000 ex_clone ex_reply ex_marked = ex_marked
     \<or> (\<exists>v op' v' a a'. store_outcome 4000 ex_clone ex_reply ex_marked = stored 4000 ex_marked_op v op' v' ex_marked
          \<and> spec_step ''vm.create'' (a, vm_status v) None (a', vm_status v'))"
  using stored_outcome_refines [OF ex_marked_ok ex_marked_get, of 4000 ex_reply]
  by (auto simp: ex_clone_def new_operation_def)

text \<open>
  C15. A finished operation is never touched again: once an operation has succeeded or failed, no
  step of any worker or request changes its row.
\<close>

theorem finished_operations_stay:
  assumes "initial y\<^sub>0" "reachable A y\<^sub>0 y" "sys_step A y y'" "get_op oid (y_db y) = Some op"
    and "op_status op \<in> {''succeeded'', ''failed''}"
  shows "get_op oid (y_db y') = Some op"
proof (rule change_keeps_op [OF sys_step_change [OF assms(3) reachable_ok [OF assms(2,1)]] assms(4)])
  show "\<not> moves l op v op' v'" for l v op' v'
  proof
    assume "moves l op v op' v'"
    then have "active op"
      by (rule moves_active)
    then show False
      using assms(5) by (auto simp: active_def)
  qed
qed

lemma ex_failed_get: "get_op 3 (y_db ex_failed_sys) = Some ex_failed_op"
  by (simp add: ex_failed_sys_def ex_failed_def new_operation_def row_get_Cons)

theorem finished_operations_stay_witness:
  "get_op 3 (y_db (ex_failed_sys\<lparr>y_prov := new_fake\<rparr>)) = Some ex_failed_op"
  by (rule finished_operations_stay [OF ex_initial ex_failed_reachable provider_moves ex_failed_get]) simp

text \<open>
  C16. An operation held for review is left to an operator: no worker selects it, and no step
  changes its row, so the command whose outcome is unknown is never repeated.
\<close>

theorem review_is_left_alone:
  assumes "initial y\<^sub>0" "reachable A y\<^sub>0 y" "sys_step A y y'" "get_op oid (y_db y) = Some op"
    and "abs_state op = Some (Review k)"
  shows "get_op oid (y_db y') = Some op \<and> (\<forall>now locked. select_operation now locked (y_db y) \<noteq> Some op)"
proof
  show "get_op oid (y_db y') = Some op"
    by (rule change_keeps_op [OF sys_step_change [OF assms(3) reachable_ok [OF assms(2,1)]] assms(4)])
      (use moves_not_final assms(5) in blast)
  have "\<not> eligible now op" for now
    using create_review_ineligible abs_state_holds [OF assms(5)]
    by (cases "op_type op = ''vm.create''") (auto simp: review_phases_def)
  then show "\<forall>now locked. select_operation now locked (y_db y) \<noteq> Some op"
    using selected_op by blast
qed

lemma ex_review_get: "get_op 3 (y_db ex_review_sys) = Some ex_review_op"
  by (simp add: ex_review_sys_def ex_with_def new_operation_def row_get_Cons)

lemma ex_review_state: "abs_state ex_review_op = Some (Review 1)"
  by (rule abs_stateI) (simp_all add: new_operation_def review_phases_def in_astates operation_types_def)

theorem review_is_left_alone_witness:
  "get_op 3 (y_db (ex_review_sys\<lparr>y_prov := new_fake\<rparr>)) = Some ex_review_op
     \<and> (\<forall>now locked. select_operation now locked (y_db ex_review_sys) \<noteq> Some ex_review_op)"
  by (rule review_is_left_alone [OF ex_initial ex_review_reachable provider_moves ex_review_get ex_review_state])

text \<open>
  C17. A placement is permanent: once a virtual machine has a node and a VMID, every later state
  has it at the same node and VMID, with the same owner and amounts.
\<close>

theorem placement_is_permanent:
  assumes "initial y\<^sub>0" "reachable A y\<^sub>0 y" "sys_step A y y'" "get_vm vid (y_db y) = Some v" "placed v"
  shows "\<exists>v'. get_vm vid (y_db y') = Some v' \<and> vm_provider_node v' = vm_provider_node v
     \<and> vm_provider_vmid v' = vm_provider_vmid v \<and> vm_owner v' = vm_owner v \<and> vm_vcpus v' = vm_vcpus v
     \<and> vm_memory_mb v' = vm_memory_mb v \<and> vm_storage_gb v' = vm_storage_gb v"
  using sys_step_ok [OF assms(3) reachable_ok [OF assms(2,1)]] assms(4,5)
  unfolding db_grows_def same_place_def vm_frame_def by metis

lemma ex_placed_vm: "placed ex_vm2"
  by (simp add: placed_def)

lemma ex_next_step: "sys_step ex_adapter ex_sent (ex_sent\<lparr>y_answered := []\<rparr>)"
  using crash_unstored [of ex_sent "[]" "(ex_clone, ex_reply)" "[]" ex_adapter] by (simp add: ex_sent_def)

theorem placement_is_permanent_witness:
  "\<exists>v'. get_vm 2 (y_db (ex_sent\<lparr>y_answered := []\<rparr>)) = Some v' \<and> vm_provider_vmid v' = Some 100002"
  using placement_is_permanent [OF ex_initial ex_sent_reachable ex_next_step ex_sent_vm ex_placed_vm] by auto

section \<open>Properties of the selection\<close>

text \<open>
  C26. The worker takes the eligible operation that was updated longest ago among those no other
  transaction holds, and finds none only if there is none.
\<close>

theorem selection_is_oldest:
  "(\<forall>op. select_operation now locked d = Some op \<longrightarrow>
      op \<in> set (operations d) \<and> eligible now op \<and> op_id op \<notin> set locked
      \<and> (\<forall>q\<in>set (operations d). eligible now q \<longrightarrow> op_id q \<notin> set locked \<longrightarrow> op_updated op \<le> op_updated q))
   \<and> (select_operation now locked d = None \<longleftrightarrow>
      (\<forall>q\<in>set (operations d). eligible now q \<longrightarrow> op_id q \<in> set locked))"
proof (intro conjI allI impI)
  fix op
  assume s: "select_operation now locked d = Some op"
  from selected_op [OF s] show "op \<in> set (operations d)" "eligible now op" "op_id op \<notin> set locked"
    by simp_all
  show "\<forall>q\<in>set (operations d). eligible now q \<longrightarrow> op_id q \<notin> set locked \<longrightarrow> op_updated op \<le> op_updated q"
    using first_min_least [OF s [unfolded select_operation_def]] by simp
next
  show "select_operation now locked d = None \<longleftrightarrow>
      (\<forall>q\<in>set (operations d). eligible now q \<longrightarrow> op_id q \<in> set locked)"
    by (auto simp: select_operation_def filter_empty_conv)
qed

theorem selection_is_oldest_witness:
  "select_operation 3000 [] (ex_db\<lparr>operations := [ex_op]\<rparr>) = None \<longleftrightarrow> \<not> eligible 3000 ex_op"
  using selection_is_oldest [of 3000 "[]" "ex_db\<lparr>operations := [ex_op]\<rparr>"] by simp

text \<open>
  C25. No operation is forgotten: an active operation that is not held for review is eligible at
  the latest when the dispatch grace has passed since its last update.
\<close>

theorem every_operation_gets_its_turn:
  assumes "abs_state op = Some a" "active op" "\<forall>k. a \<noteq> Review k" "op_updated op + DISPATCH_GRACE \<le> now"
  shows "eligible now op"
  using assms abs_state_type abs_state_holds abs_state_in active_astate
  by (intro holds_eligible [where a = a]) blast+

lemma ex_marked_state: "abs_state ex_marked_op = Some (InFlight 0)"
  by (rule abs_stateI) (simp_all add: new_operation_def flight_phases_def in_astates operation_types_def)

theorem every_operation_gets_its_turn_witness: "eligible 300003000 ex_marked_op"
  by (rule every_operation_gets_its_turn [OF ex_marked_state conjunct2 [OF ex_marked_active]])
    (simp_all add: DISPATCH_GRACE_def)

text \<open>
  C27. The first transaction fails only for two reasons, the provider could not choose a place or
  the database refused the commit, and then the database is as it was.
\<close>

theorem pass_fails_cleanly:
  assumes "db_ok d" "first_transaction now A locked d p = (Inl e, d', p')"
  shows "d' = d \<and> ((\<exists>req q q'. choose_clone_target A req q = (Inl e, q')) \<or> (\<exists>m. e = IntegrityError m))"
  using first_transaction_raised [OF assms] .

definition ex_down :: "fake ProxmoxAdapter" where
  "ex_down = (FakeProxmoxAdapter ''fake-node'')\<lparr>choose_clone_target := (\<lambda>_. py_raise (LibraryError ''down''))\<rparr>"

lemma ex_down_pass:
  "first_transaction 2000 ex_down [] ex_ordered new_fake = (Inl (LibraryError ''down''), ex_ordered, new_fake)"
  by (simp add: ex_down_def ex_ordered_eq worker_defs store_defs py_defs py_raise_def Let_def ex_defs new_vm_def
      new_operation_def)

lemma ex_ordered_ok: "db_ok ex_ordered"
  using reachable_db_ok [OF ex_initial reachable.step [OF reachable.init ex_step1]] by (simp add: ex_y1_def)

theorem pass_fails_cleanly_witness:
  "(\<exists>req q q'. choose_clone_target ex_down req q = (Inl (LibraryError ''down''), q'))
     \<or> (\<exists>m. LibraryError ''down'' = IntegrityError m)"
  using pass_fails_cleanly [OF ex_ordered_ok ex_down_pass] by simp

text \<open>
  C28. A virtual machine without an active operation is settled: running, stopped, failed,
  deleting (its deletion failed) or deleted; and it has a place unless it is still pending.
\<close>

theorem idle_vm_is_settled:
  assumes "initial y\<^sub>0" "reachable A y\<^sub>0 y" "v \<in> set (vms (y_db y))"
    and "\<forall>op\<in>set (operations (y_db y)). op_vm op = vm_id v \<longrightarrow> \<not> active op"
  shows "vm_status v \<in> {''running'', ''stopped'', ''failed'', ''deleting'', ''deleted''} \<and> placed v"
proof -
  have "vm_settled (operations (y_db y)) v" "vm_status v \<noteq> ''pending'' \<longrightarrow> placed v"
    using reachable_db_ok [OF assms(1,2)] assms(3) by (auto simp: db_ok_def)
  then have "vm_status v \<in> set settled_statuses" "vm_status v \<noteq> ''pending'' \<longrightarrow> placed v"
    using assms(4) by (auto simp: vm_settled_def)
  then show ?thesis
    by (auto simp: settled_statuses_def)
qed

theorem idle_vm_is_settled_witness: "vm_status ex_failed_vm \<in> {''running'', ''stopped'', ''failed'', ''deleting'', ''deleted''}"
proof -
  have "ex_failed_vm \<in> set (vms (y_db ex_failed_sys))" "operations (y_db ex_failed_sys) = [ex_failed_op]"
    by (simp_all add: ex_failed_sys_def ex_failed_def)
  then show ?thesis
    using idle_vm_is_settled [OF ex_initial ex_failed_reachable] by (simp add: active_def)
qed

end
